(* ===== verification/Prelude.thy ===== *)
theory Prelude
  imports Main "HOL-Library.Word" "HOL-Library.Sublist"
begin

text \<open>
  What the component theories share: Rust's \<open>Result\<close> as a sum with its combinators, the
  state-and-error computations that model handlers over a database, machine bytes, and the
  generic lemmas and lemma collections on them.
\<close>

unbundle bit_operations_syntax

named_theorems result_simps \<open>unfolding of the result combinators\<close>
named_theorems state_simps \<open>unfolding of the state-and-error combinators\<close>

section \<open>Results\<close>

text \<open>
  A Rust \<open>Result<T, E>\<close> is \<open>('e, 't) result\<close>: \<open>Inl\<close> carries the error and
  \<open>Inr\<close> the value. The operator \<open>?\<close> is \<open>rbind\<close>.
\<close>

type_synonym ('e, 'a) result = "'e + 'a"

definition rbind :: "('e, 'a) result \<Rightarrow> ('a \<Rightarrow> ('e, 'b) result) \<Rightarrow> ('e, 'b) result" where
  "rbind r f = (case r of Inl e \<Rightarrow> Inl e | Inr x \<Rightarrow> f x)"

definition map_err :: "('e \<Rightarrow> 'f) \<Rightarrow> ('e, 'a) result \<Rightarrow> ('f, 'a) result" where
  "map_err f r = (case r of Inl e \<Rightarrow> Inl (f e) | Inr x \<Rightarrow> Inr x)"

definition ok_or :: "'a option \<Rightarrow> 'e \<Rightarrow> ('e, 'a) result" where
  "ok_or m e = (case m of None \<Rightarrow> Inl e | Some x \<Rightarrow> Inr x)"

definition ensure :: "bool \<Rightarrow> 'e \<Rightarrow> ('e, unit) result" where
  "ensure b e = (if b then Inr () else Inl e)"

definition is_ok :: "('e, 'a) result \<Rightarrow> bool" where
  "is_ok r = (case r of Inl _ \<Rightarrow> False | Inr _ \<Rightarrow> True)"

text \<open>\<open>iter().map(f).collect::<Result<Vec<_>, _>>()\<close> stops at the first error.\<close>

fun try_map :: "('a \<Rightarrow> ('e, 'b) result) \<Rightarrow> 'a list \<Rightarrow> ('e, 'b list) result" where
  "try_map f [] = Inr []"
| "try_map f (x # xs) = rbind (f x) (\<lambda>y. rbind (try_map f xs) (\<lambda>ys. Inr (y # ys)))"

text \<open>\<open>iter().try_for_each(f)\<close>, and a \<open>for\<close> loop whose body only checks.\<close>

fun try_for_each :: "('a \<Rightarrow> ('e, unit) result) \<Rightarrow> 'a list \<Rightarrow> ('e, unit) result" where
  "try_for_each f [] = Inr ()"
| "try_for_each f (x # xs) = rbind (f x) (\<lambda>_. try_for_each f xs)"

text \<open>\<open>iter().try_fold(acc, f)\<close>.\<close>

fun try_fold :: "('a \<Rightarrow> 's \<Rightarrow> ('e, 's) result) \<Rightarrow> 'a list \<Rightarrow> 's \<Rightarrow> ('e, 's) result" where
  "try_fold f [] s = Inr s"
| "try_fold f (x # xs) s = rbind (f x s) (\<lambda>s'. try_fold f xs s')"

lemma rbind_Inl [simp]: "rbind (Inl e) f = Inl e"
  and rbind_Inr [simp]: "rbind (Inr x) f = f x"
  by (simp_all add: rbind_def)

lemma rbind_eq_Inr [simp]: "rbind r f = Inr y \<longleftrightarrow> (\<exists>x. r = Inr x \<and> f x = Inr y)"
  by (cases r) auto

lemma rbind_eq_Inl [simp]:
  "rbind r f = Inl e \<longleftrightarrow> r = Inl e \<or> (\<exists>x. r = Inr x \<and> f x = Inl e)"
  by (cases r) auto

lemma rbind_assoc: "rbind (rbind r f) g = rbind r (\<lambda>x. rbind (f x) g)"
  by (cases r) auto

lemma rbind_cong [fundef_cong]:
  "r = r' \<Longrightarrow> (\<And>x. r' = Inr x \<Longrightarrow> f x = g x) \<Longrightarrow> rbind r f = rbind r' g"
  by (cases r') auto

lemma map_err_Inl [simp]: "map_err f (Inl e) = Inl (f e)"
  and map_err_Inr [simp]: "map_err f (Inr x) = Inr x"
  by (simp_all add: map_err_def)

lemma map_err_eq_Inr [simp]: "map_err f r = Inr x \<longleftrightarrow> r = Inr x"
  by (cases r) auto

lemma map_err_eq_Inl [simp]: "map_err f r = Inl e \<longleftrightarrow> (\<exists>d. r = Inl d \<and> e = f d)"
  by (cases r) auto

lemma ok_or_None [simp]: "ok_or None e = Inl e"
  and ok_or_Some [simp]: "ok_or (Some x) e = Inr x"
  by (simp_all add: ok_or_def)

lemma ok_or_eq_Inr [simp]: "ok_or m e = Inr x \<longleftrightarrow> m = Some x"
  by (cases m) auto

lemma ok_or_eq_Inl [simp]: "ok_or m e = Inl d \<longleftrightarrow> m = None \<and> d = e"
  by (cases m) auto

lemma ensure_True [simp]: "ensure True e = Inr ()"
  and ensure_False [simp]: "ensure False e = Inl e"
  by (simp_all add: ensure_def)

lemma ensure_eq_Inr [simp]: "ensure b e = Inr u \<longleftrightarrow> b"
  by (simp add: ensure_def)

lemma ensure_eq_Inl [simp]: "ensure b e = Inl d \<longleftrightarrow> \<not> b \<and> d = e"
  by (auto simp: ensure_def)

lemma is_ok_Inl [simp]: "\<not> is_ok (Inl e)"
  and is_ok_Inr [simp]: "is_ok (Inr x)"
  by (simp_all add: is_ok_def)

lemma is_ok_iff: "is_ok r \<longleftrightarrow> (\<exists>x. r = Inr x)"
  by (cases r) auto

lemma try_map_eq_Inr:
  "try_map f xs = Inr ys \<longleftrightarrow> list_all2 (\<lambda>x y. f x = Inr y) xs ys"
  by (induction xs arbitrary: ys) (auto simp: list_all2_Cons1)

lemma try_map_Inr_map: "(\<And>x. x \<in> set xs \<Longrightarrow> f x = Inr (g x)) \<Longrightarrow> try_map f xs = Inr (map g xs)"
  by (induction xs) auto

lemma try_map_length: "try_map f xs = Inr ys \<Longrightarrow> length ys = length xs"
  by (auto simp: try_map_eq_Inr dest: list_all2_lengthD)

lemma try_map_eq_Inl: "try_map f xs = Inl e \<Longrightarrow> \<exists>x \<in> set xs. f x = Inl e"
  by (induction xs) auto

lemma is_ok_try_map: "is_ok (try_map f xs) \<longleftrightarrow> (\<forall>x \<in> set xs. is_ok (f x))"
  by (induction xs) (auto simp: is_ok_iff)

lemma try_map_eq_map:
  "try_map f xs = Inr ys \<Longrightarrow> (\<And>x y. f x = Inr y \<Longrightarrow> y = g x) \<Longrightarrow> ys = map g xs"
  by (induction xs arbitrary: ys) auto

lemma is_ok_rbind_Inr [simp]: "is_ok (rbind r (\<lambda>x. Inr (f x))) = is_ok r"
  by (cases r) auto

lemma try_fold_append: "try_fold f (xs @ ys) s = rbind (try_fold f xs s) (try_fold f ys)"
  by (induction xs arbitrary: s) (auto simp: rbind_assoc intro!: rbind_cong)

lemma try_for_each_eq_Inr:
  "try_for_each f xs = Inr u \<longleftrightarrow> (\<forall>x \<in> set xs. f x = Inr ())"
  by (induction xs) auto

lemma list_all2_member1: "list_all2 P xs ys \<Longrightarrow> x \<in> set xs \<Longrightarrow> \<exists>y \<in> set ys. P x y"
  and list_all2_member2: "list_all2 P xs ys \<Longrightarrow> y \<in> set ys \<Longrightarrow> \<exists>x \<in> set xs. P x y"
  by (induction rule: list_all2_induct) auto

lemma find_in_set: "find P xs = Some x \<Longrightarrow> x \<in> set xs \<and> P x"
  by (induction xs) (auto split: if_splits)

lemma map_of_map_find:
  "map_of (map (\<lambda>x. (k x, v x)) xs) i = map_option v (find (\<lambda>x. k x = i) xs)"
  by (induction xs) auto

section \<open>Computations over a database state\<close>

text \<open>
  An asynchronous method over the repositories is a function of the database state that
  returns a result and the new state. An error does not undo what was written before it;
  only \<open>tx\<close>, the transaction manager, rolls back
  (\<open>lib/sql-data-provider/src/transaction_context.rs\<close>).
\<close>

type_synonym ('s, 'e, 'a) comp = "'s \<Rightarrow> ('e, 'a) result \<times> 's"

definition sret :: "'a \<Rightarrow> ('s, 'e, 'a) comp" where
  "sret x s = (Inr x, s)"

definition sfail :: "'e \<Rightarrow> ('s, 'e, 'a) comp" where
  "sfail e s = (Inl e, s)"

definition sbind :: "('s, 'e, 'a) comp \<Rightarrow> ('a \<Rightarrow> ('s, 'e, 'b) comp) \<Rightarrow> ('s, 'e, 'b) comp" where
  "sbind m f s = (case m s of (Inl e, s') \<Rightarrow> (Inl e, s') | (Inr x, s') \<Rightarrow> f x s')"

definition slift :: "('e, 'a) result \<Rightarrow> ('s, 'e, 'a) comp" where
  "slift r s = (r, s)"

definition sread :: "('s \<Rightarrow> 'a) \<Rightarrow> ('s, 'e, 'a) comp" where
  "sread f s = (Inr (f s), s)"

definition smap_err :: "('e \<Rightarrow> 'f) \<Rightarrow> ('s, 'e, 'a) comp \<Rightarrow> ('s, 'f, 'a) comp" where
  "smap_err f m s = (case m s of (r, s') \<Rightarrow> (map_err f r, s'))"

fun sfor_each :: "('a \<Rightarrow> ('s, 'e, unit) comp) \<Rightarrow> 'a list \<Rightarrow> ('s, 'e, unit) comp" where
  "sfor_each f [] = sret ()"
| "sfor_each f (x # xs) = sbind (f x) (\<lambda>_. sfor_each f xs)"

lemma sret_app [simp, state_simps]: "sret x s = (Inr x, s)"
  by (simp add: sret_def)

lemma sfail_app [simp, state_simps]: "sfail e s = (Inl e, s)"
  by (simp add: sfail_def)

lemma slift_app [simp, state_simps]: "slift r s = (r, s)"
  by (simp add: slift_def)

lemma sread_app [simp, state_simps]: "sread f s = (Inr (f s), s)"
  by (simp add: sread_def)

lemma sbind_Inr_step [simp]: "m s = (Inr x, s') \<Longrightarrow> sbind m f s = f x s'"
  and sbind_Inl_step [simp]: "m s = (Inl e, s') \<Longrightarrow> sbind m f s = (Inl e, s')"
  by (simp_all add: sbind_def)

lemma sbind_eq_Inr:
  "sbind m f s = (Inr y, t) \<longleftrightarrow> (\<exists>x s'. m s = (Inr x, s') \<and> f x s' = (Inr y, t))"
  by (auto simp: sbind_def split: prod.splits sum.splits)

lemma sbind_eq_Inl:
  "sbind m f s = (Inl e, t) \<longleftrightarrow>
     m s = (Inl e, t) \<or> (\<exists>x s'. m s = (Inr x, s') \<and> f x s' = (Inl e, t))"
  by (auto simp: sbind_def split: prod.splits sum.splits)

lemma sbind_sret [simp]: "sbind (sret x) f = f x"
  and sbind_sfail [simp]: "sbind (sfail e) f = sfail e"
  and sbind_slift_Inl [simp]: "sbind (slift (Inl e)) f = sfail e"
  and sbind_slift_Inr [simp]: "sbind (slift (Inr x)) f = f x"
  by (auto simp: fun_eq_iff sbind_def)

lemma smap_err_eq_Inr [simp]: "smap_err f m s = (Inr x, t) \<longleftrightarrow> m s = (Inr x, t)"
  by (auto simp: smap_err_def split: prod.splits)

lemma smap_err_eq_Inl:
  "smap_err f m s = (Inl e, t) \<longleftrightarrow> (\<exists>d. m s = (Inl d, t) \<and> e = f d)"
  by (auto simp: smap_err_def split: prod.splits)

lemma slift_eq [simp]: "slift r s = (q, t) \<longleftrightarrow> r = q \<and> s = t"
  by (auto simp: slift_def)

text \<open>A computation keeps a property of the state when every run of it does.\<close>

definition preserves :: "('s \<Rightarrow> bool) \<Rightarrow> ('s, 'e, 'a) comp \<Rightarrow> bool" where
  "preserves P m \<longleftrightarrow> (\<forall>s. P s \<longrightarrow> P (snd (m s)))"

named_theorems preserves_intros \<open>rules that a computation preserves a property\<close>

lemma preservesI: "(\<And>s. P s \<Longrightarrow> P (snd (m s))) \<Longrightarrow> preserves P m"
  by (simp add: preserves_def)

lemma preservesD: "preserves P m \<Longrightarrow> P s \<Longrightarrow> m s = (r, t) \<Longrightarrow> P t"
  by (metis preserves_def snd_conv)

lemma preserves_sret [preserves_intros]: "preserves P (sret x)"
  and preserves_sfail [preserves_intros]: "preserves P (sfail e)"
  and preserves_slift [preserves_intros]: "preserves P (slift r)"
  and preserves_sread [preserves_intros]: "preserves P (sread f)"
  by (simp_all add: preserves_def)

lemma preserves_sbind [preserves_intros]:
  "preserves P m \<Longrightarrow> (\<And>x. preserves P (f x)) \<Longrightarrow> preserves P (sbind m f)"
  unfolding preserves_def sbind_def by (auto split: prod.splits sum.splits)

lemma preserves_smap_err [preserves_intros]: "preserves P m \<Longrightarrow> preserves P (smap_err f m)"
  unfolding preserves_def smap_err_def by (auto split: prod.splits)

lemma preserves_sfor_each [preserves_intros]:
  "(\<And>x. x \<in> set xs \<Longrightarrow> preserves P (f x)) \<Longrightarrow> preserves P (sfor_each f xs)"
  by (induction xs) (auto intro!: preserves_intros)

lemma sfor_each_success:
  assumes "sfor_each f xs s = (Inr (), t)" and "P s"
    and "\<And>x s t. x \<in> set xs \<Longrightarrow> P s \<Longrightarrow> f x s = (Inr (), t) \<Longrightarrow> P t \<and> R s t"
    and "\<And>s. R s s" and "\<And>s t u. R s t \<Longrightarrow> R t u \<Longrightarrow> R s u"
  shows "P t \<and> R s t"
  using assms(1-3)
proof (induction xs arbitrary: s)
  case (Cons x xs)
  from Cons.prems(1) obtain s1 where "f x s = (Inr (), s1)" "sfor_each f xs s1 = (Inr (), t)"
    by (auto simp: sbind_eq_Inr)
  with Cons.IH [of s1] Cons.prems(2,3) assms(5) show ?case by (metis list.set_intros)
qed (simp add: assms(4))

lemma preserves_if [preserves_intros]:
  "(b \<Longrightarrow> preserves P m) \<Longrightarrow> (\<not> b \<Longrightarrow> preserves P n) \<Longrightarrow> preserves P (if b then m else n)"
  by simp

lemma preserves_case_option [preserves_intros]:
  "(x = None \<Longrightarrow> preserves P m) \<Longrightarrow> (\<And>y. x = Some y \<Longrightarrow> preserves P (f y)) \<Longrightarrow>
     preserves P (case x of None \<Rightarrow> m | Some y \<Rightarrow> f y)"
  by (cases x) auto

lemma preserves_case_prod [preserves_intros]:
  "(\<And>a b. x = (a, b) \<Longrightarrow> preserves P (f a b)) \<Longrightarrow> preserves P (case x of (a, b) \<Rightarrow> f a b)"
  by (cases x) auto

text \<open>
  The transaction manager commits what the computation wrote when it succeeds and rolls it back
  when it fails or panics. \<open>others\<close> is what other sessions commit while the transaction
  runs: the computation is given it, to place it where it becomes visible, and a rollback
  undoes the computation's own writes only.
\<close>

definition tx :: "('s \<Rightarrow> 's) \<Rightarrow> (('s \<Rightarrow> 's) \<Rightarrow> ('s, 'e, 'a) comp) \<Rightarrow> ('s, 'e, 'a) comp" where
  "tx others m s =
     (case m others s of (Inl e, _) \<Rightarrow> (Inl e, others s) | (Inr x, s') \<Rightarrow> (Inr x, s'))"

text \<open>The point of a transaction at which the commits of other sessions become visible.\<close>

definition scommitted :: "('s \<Rightarrow> 's) \<Rightarrow> ('s, 'e, unit) comp" where
  "scommitted others s = (Inr (), others s)"

lemma scommitted_app [simp, state_simps]: "scommitted others s = (Inr (), others s)"
  by (simp add: scommitted_def)

lemma tx_eq_Inr [simp]: "tx others m s = (Inr x, t) \<longleftrightarrow> m others s = (Inr x, t)"
  by (auto simp: tx_def split: prod.splits sum.splits)

lemma tx_eq_Inl: "tx others m s = (Inl e, t) \<longleftrightarrow> fst (m others s) = Inl e \<and> t = others s"
  by (auto simp: tx_def split: prod.splits sum.splits)

lemma preserves_scommitted [preserves_intros]:
  "(\<And>s. P s \<Longrightarrow> P (others s)) \<Longrightarrow> preserves P (scommitted others)"
  by (simp add: preserves_def)

lemma preserves_tx [preserves_intros]:
  "(\<And>s. P s \<Longrightarrow> P (others s)) \<Longrightarrow> preserves P (m others) \<Longrightarrow> preserves P (tx others m)"
  unfolding preserves_def tx_def by (auto split: prod.splits sum.splits)

section \<open>Panics\<close>

text \<open>
  Where code can panic, an outcome other than a value is a panic or an error of the code's own
  type.
\<close>

datatype 'e fault = Panic | Failure 'e

fun map_failure :: "('e \<Rightarrow> 'f) \<Rightarrow> 'e fault \<Rightarrow> 'f fault" where
  "map_failure f Panic = Panic"
| "map_failure f (Failure e) = Failure (f e)"

lemma map_failure_eq_Panic [simp]: "map_failure f x = Panic \<longleftrightarrow> x = Panic"
  by (cases x) auto

section \<open>Slices\<close>

text \<open>\<open>slice::get\<close> with an index and with a half-open range; neither panics.\<close>

definition slice_get :: "'a list \<Rightarrow> nat \<Rightarrow> 'a option" where
  "slice_get xs i = (if i < length xs then Some (xs ! i) else None)"

definition slice_range :: "'a list \<Rightarrow> nat \<Rightarrow> nat \<Rightarrow> 'a list option" where
  "slice_range xs i j = (if i \<le> j \<and> j \<le> length xs then Some (take (j - i) (drop i xs)) else None)"

lemma slice_get_Some [simp]: "i < length xs \<Longrightarrow> slice_get xs i = Some (xs ! i)"
  by (simp add: slice_get_def)

lemma slice_get_None [simp]: "length xs \<le> i \<Longrightarrow> slice_get xs i = None"
  by (simp add: slice_get_def)

lemma slice_range_append [simp]:
  "length us = i \<Longrightarrow> length vs = n \<Longrightarrow> slice_range (us @ vs @ ws) i (i + n) = Some vs"
  by (simp add: slice_range_def)

section \<open>Strings\<close>

text \<open>
  \<open>str::split\<close>, \<open>split_once\<close> and \<open>rsplit_once\<close> at a separator, \<open>join\<close>, and the decimal
  form of a number (\<open>to_string\<close>). \<open>starts_with\<close> is the library's \<open>prefix\<close>.
\<close>

fun split_on :: "'a \<Rightarrow> 'a list \<Rightarrow> 'a list list" where
  "split_on c [] = [[]]"
| "split_on c (x # xs) =
     (if x = c then [] # split_on c xs
      else case split_on c xs of [] \<Rightarrow> [[x]] | y # ys \<Rightarrow> (x # y) # ys)"

fun split_once :: "'a \<Rightarrow> 'a list \<Rightarrow> ('a list \<times> 'a list) option" where
  "split_once c [] = None"
| "split_once c (x # xs) =
     (if x = c then Some ([], xs) else map_option (\<lambda>(a, b). (x # a, b)) (split_once c xs))"

definition rsplit_once :: "'a \<Rightarrow> 'a list \<Rightarrow> ('a list \<times> 'a list) option" where
  "rsplit_once c s = map_option (\<lambda>(a, b). (rev b, rev a)) (split_once c (rev s))"

fun join :: "'a list \<Rightarrow> 'a list list \<Rightarrow> 'a list" where
  "join sep [] = []"
| "join sep [x] = x"
| "join sep (x # y # zs) = x @ sep @ join sep (y # zs)"

definition digit :: "nat \<Rightarrow> char" where
  "digit d = char_of (48 + d)"

fun decimal :: "nat \<Rightarrow> string" where
  "decimal n = (if n < 10 then [digit n] else decimal (n div 10) @ [digit (n mod 10)])"

declare decimal.simps [simp del]

definition decimal_int :: "int \<Rightarrow> string" where
  "decimal_int i = (if i < 0 then ''-'' @ decimal (nat (- i)) else decimal (nat i))"

lemma split_on_neq_Nil [simp]: "split_on c s \<noteq> []"
  by (induction s) (auto split: list.split)

lemma join_Cons: "xs \<noteq> [] \<Longrightarrow> join sep (x # xs) = x @ sep @ join sep xs"
  by (cases xs) auto

lemma join_split_on [simp]: "join [c] (split_on c s) = s"
proof (induction s)
  case (Cons x s)
  obtain y ys where y: "split_on c s = y # ys" by (cases "split_on c s") auto
  with Cons show ?case by (cases ys) (auto simp: join_Cons)
qed simp

lemma split_on_notin: "y \<in> set (split_on c s) \<Longrightarrow> c \<notin> set y"
  by (induction s arbitrary: y) (auto split: if_splits list.splits)

lemma split_on_append: "c \<notin> set x \<Longrightarrow> split_on c (x @ c # s) = x # split_on c s"
  by (induction x) auto

lemma split_on_no_sep: "c \<notin> set x \<Longrightarrow> split_on c x = [x]"
  by (induction x) auto

lemma split_on_join:
  "xs \<noteq> [] \<Longrightarrow> (\<And>x. x \<in> set xs \<Longrightarrow> c \<notin> set x) \<Longrightarrow> split_on c (join [c] xs) = xs"
  by (induction xs rule: induct_list012) (auto simp: split_on_append split_on_no_sep)

lemma split_once_eq_Some:
  "split_once c s = Some (a, b) \<longleftrightarrow> s = a @ c # b \<and> c \<notin> set a"
proof (induction s arbitrary: a)
  case (Cons x s)
  show ?case by (cases a) (use Cons in auto)
qed simp

lemma split_once_eq_None: "split_once c s = None \<longleftrightarrow> c \<notin> set s"
  by (induction s) auto

lemma rsplit_once_eq_Some:
  "rsplit_once c s = Some (a, b) \<longleftrightarrow> s = a @ c # b \<and> c \<notin> set b"
proof -
  have "rsplit_once c s = Some (a, b) \<longleftrightarrow> split_once c (rev s) = Some (rev b, rev a)"
    by (auto simp: rsplit_once_def)
  also have "\<dots> \<longleftrightarrow> rev s = rev (a @ c # b) \<and> c \<notin> set b"
    by (simp add: split_once_eq_Some)
  finally show ?thesis by (simp only: rev_is_rev_conv)
qed

lemma rsplit_once_eq_None: "rsplit_once c s = None \<longleftrightarrow> c \<notin> set s"
  by (simp add: rsplit_once_def split_once_eq_None)

lemma rsplit_once_length: "rsplit_once c s = Some (a, b) \<Longrightarrow> length a < length s"
  by (auto simp: rsplit_once_eq_Some)

lemma of_char_digit: "d < 10 \<Longrightarrow> of_char (digit d) = (48 + d :: nat)"
  by (simp add: digit_def)

lemma digit_inject:
  assumes "d < 10" and "e < 10"
  shows "digit d = digit e \<longleftrightarrow> d = e"
proof
  assume "digit d = digit e"
  then have "of_char (digit d) = (of_char (digit e) :: nat)" by (rule arg_cong)
  then show "d = e" unfolding of_char_digit [OF assms(1)] of_char_digit [OF assms(2)] by simp
qed (rule arg_cong)

lemma decimal_neq_Nil [simp]: "decimal n \<noteq> []"
  by (subst decimal.simps) simp

lemma decimal_inject [simp]: "decimal m = decimal n \<longleftrightarrow> m = n"
proof (induction m arbitrary: n rule: decimal.induct)
  case (1 m)
  show ?case
  proof (cases "m < 10 \<and> n < 10")
    case True
    then show ?thesis by (simp add: decimal.simps [of m] decimal.simps [of n] digit_inject)
  next
    case False
    have "decimal m = decimal n \<longleftrightarrow> 10 \<le> m \<and> 10 \<le> n \<and> m div 10 = n div 10 \<and> m mod 10 = n mod 10"
      using False 1 [of "n div 10"] decimal_neq_Nil [of "n div 10", symmetric]
      by (simp add: decimal.simps [of m] decimal.simps [of n] digit_inject)
    also have "\<dots> \<longleftrightarrow> m = n"
    proof
      assume "10 \<le> m \<and> 10 \<le> n \<and> m div 10 = n div 10 \<and> m mod 10 = n mod 10"
      then show "m = n" by (metis div_mult_mod_eq)
    next
      assume "m = n"
      with False show "10 \<le> m \<and> 10 \<le> n \<and> m div 10 = n div 10 \<and> m mod 10 = n mod 10"
        by simp
    qed
    finally show ?thesis .
  qed
qed

text \<open>Reading digits, and \<open>parse::<usize>\<close>: an optional plus sign, a digit, and the range.\<close>

definition digit_value :: "char \<Rightarrow> nat option" where
  "digit_value c = (let n = of_char c in if 48 \<le> n \<and> n \<le> 57 then Some (n - 48) else None)"

fun parse_digits :: "string \<Rightarrow> nat \<Rightarrow> nat option" where
  "parse_digits [] acc = Some acc"
| "parse_digits (c # cs) acc =
     (case digit_value c of None \<Rightarrow> None | Some d \<Rightarrow> parse_digits cs (10 * acc + d))"

definition parse_usize :: "string \<Rightarrow> nat option" where
  "parse_usize s =
     (let ds = (case s of c # cs \<Rightarrow> if c = CHR ''+'' then cs else s | [] \<Rightarrow> s)
      in if ds = [] then None
         else case parse_digits ds 0 of
                None \<Rightarrow> None
              | Some n \<Rightarrow> if n < 2 ^ 64 then Some n else None)"

lemma digit_value_digit: "d < 10 \<Longrightarrow> digit_value (digit d) = Some d"
  by (simp add: digit_value_def of_char_digit)

lemma parse_digits_append:
  "parse_digits (xs @ ys) acc = Option.bind (parse_digits xs acc) (parse_digits ys)"
  by (induction xs arbitrary: acc) (auto split: option.splits)

lemma parse_digits_decimal: "parse_digits (decimal n) 0 = Some n"
proof (induction n rule: decimal.induct)
  case (1 n)
  show ?case
  proof (cases "n < 10")
    case True
    then show ?thesis by (simp add: decimal.simps [of n] digit_value_digit)
  next
    case False
    with 1 show ?thesis
      by (simp add: decimal.simps [of n] parse_digits_append digit_value_digit)
  qed
qed

lemma digit_no_plus: "d < 10 \<Longrightarrow> digit d \<noteq> CHR ''+''"
proof
  assume "d < 10" and "digit d = CHR ''+''"
  then have "of_char (digit d) = (of_char (CHR ''+'') :: nat)" by simp
  with of_char_digit [OF \<open>d < 10\<close>] show False by simp
qed

lemma decimal_hd: "hd (decimal n) \<noteq> CHR ''+''"
proof (induction n rule: decimal.induct)
  case (1 n)
  then show ?case
    by (cases "n < 10") (simp_all add: decimal.simps [of n] digit_no_plus)
qed

lemma parse_usize_decimal: "n < 2 ^ 64 \<Longrightarrow> parse_usize (decimal n) = Some n"
  using decimal_hd [of n] parse_digits_decimal [of n]
  by (cases "decimal n") (auto simp: parse_usize_def Let_def)

section \<open>Wire formats\<close>

text \<open>
  The interface of a pair of conversions (\<open>TryFrom\<close> both ways): on the valid values the
  encoder succeeds and the decoder reads its output back. A format can be layered on another
  when it encodes valid values to valid values of the lower one.
\<close>

locale wire_format =
  fixes encode :: "'a \<Rightarrow> ('e, 'w) result"
    and decode :: "'w \<Rightarrow> ('e, 'a) result"
    and valid :: "'a \<Rightarrow> bool"
  assumes encode_total: "valid x \<Longrightarrow> \<exists>w. encode x = Inr w"
    and decode_encode: "valid x \<Longrightarrow> encode x = Inr w \<Longrightarrow> decode w = Inr x"
begin

lemma round_trip: "valid x \<Longrightarrow> rbind (encode x) decode = Inr x"
  using encode_total [of x] decode_encode [of x] by (cases "encode x") auto

lemma encode_injective:
  assumes "valid x" and "valid y" and "encode x = encode y"
  shows "x = y"
  using assms round_trip by (metis Inr_inject)

end

locale layered_format =
  hi: wire_format enc_hi dec_hi valid_hi + lo: wire_format enc_lo dec_lo valid_lo
  for enc_hi :: "'a \<Rightarrow> ('e, 'b) result" and dec_hi valid_hi
    and enc_lo :: "'b \<Rightarrow> ('e, 'w) result" and dec_lo valid_lo +
  assumes hi_valid: "valid_hi x \<Longrightarrow> enc_hi x = Inr y \<Longrightarrow> valid_lo y"
begin

lemma layered: "wire_format (\<lambda>x. rbind (enc_hi x) enc_lo) (\<lambda>w. rbind (dec_lo w) dec_hi) valid_hi"
proof (unfold_locales)
  fix x
  assume x: "valid_hi x"
  then obtain y where y: "enc_hi x = Inr y" using hi.encode_total by blast
  with x have vy: "valid_lo y" by (rule hi_valid)
  then obtain w where w: "enc_lo y = Inr w" using lo.encode_total by blast
  from y w show "\<exists>w. rbind (enc_hi x) enc_lo = Inr w" by simp
  fix w'
  assume "rbind (enc_hi x) enc_lo = Inr w'"
  with y have "enc_lo y = Inr w'" by simp
  with vy have "dec_lo w' = Inr y" by (rule lo.decode_encode)
  moreover from x y have "dec_hi y = Inr x" by (rule hi.decode_encode)
  ultimately show "rbind (dec_lo w') dec_hi = Inr x" by simp
qed

end

sublocale layered_format \<subseteq> both: wire_format "\<lambda>x. rbind (enc_hi x) enc_lo"
  "\<lambda>w. rbind (dec_lo w) dec_hi" valid_hi
  by (rule layered)

section \<open>Bytes\<close>

type_synonym u8 = "8 word"
type_synonym u16 = "16 word"
type_synonym bytes = "u8 list"

text \<open>\<open>u16::from_be_bytes\<close> and the two halves of \<open>u16::to_be_bytes\<close>.\<close>

definition u16_from_be_bytes :: "u8 \<Rightarrow> u8 \<Rightarrow> u16" where
  "u16_from_be_bytes a b = push_bit 8 (ucast a) OR ucast b"

definition u16_hi :: "u16 \<Rightarrow> u8" where
  "u16_hi w = ucast (drop_bit 8 w)"

definition u16_lo :: "u16 \<Rightarrow> u8" where
  "u16_lo w = ucast w"

lemma u8_less: "unat (a :: u8) < 256"
  using unsigned_less [of a, where ?'a = nat] by simp

lemma u16_less: "unat (a :: u16) < 65536"
  using unsigned_less [of a, where ?'a = nat] by simp

lemma u16_hi_lo [simp]: "u16_from_be_bytes (u16_hi w) (u16_lo w) = w"
  by (rule bit_word_eqI)
    (auto simp: u16_from_be_bytes_def u16_hi_def u16_lo_def bit_simps)

lemma u16_hi_from [simp]: "u16_hi (u16_from_be_bytes a b) = a"
  by (rule bit_word_eqI)
    (auto simp: u16_from_be_bytes_def u16_hi_def bit_simps dest: bit_imp_le_length)

lemma u16_lo_from [simp]: "u16_lo (u16_from_be_bytes a b) = b"
  by (rule bit_word_eqI)
    (auto simp: u16_from_be_bytes_def u16_lo_def bit_simps)

lemma unat_u16_from_be: "unat (u16_from_be_bytes a b) = 256 * unat a + unat b"
proof -
  have "u16_from_be_bytes a b = push_bit 8 (ucast a) + ucast b"
    unfolding u16_from_be_bytes_def
    by (rule disjunctive_add [symmetric]) (auto simp: bit_simps dest: bit_imp_le_length)
  also have "\<dots> = 256 * ucast a + ucast b"
    by (simp add: push_bit_eq_mult)
  also have "unat \<dots> = 256 * unat a + unat b"
  proof -
    have "take_bit 16 (unat a) = unat a" and "take_bit 16 (unat b) = unat b"
      using u8_less [of a] u8_less [of b] by (simp_all add: take_bit_nat_eq_self)
    with u8_less [of a] u8_less [of b] show ?thesis
      by (simp add: unat_word_ariths unsigned_ucast_eq)
  qed
  finally show ?thesis .
qed

lemma unat_u16_hi: "unat (u16_hi w) = unat w div 256"
  and unat_u16_lo: "unat (u16_lo w) = unat w mod 256"
proof -
  have "unat w = 256 * unat (u16_hi w) + unat (u16_lo w)"
    by (simp flip: unat_u16_from_be)
  with u8_less [of "u16_lo w"] show "unat (u16_hi w) = unat w div 256"
    and "unat (u16_lo w) = unat w mod 256"
    by simp_all
qed

end
