(* ===== verification/Nfc_Apdu.thy ===== *)
theory Nfc_Apdu
  imports Prelude
begin

text \<open>
  The APDU messages of the NFC engagement (\<open>proto/nfc/apdu.rs\<close>, \<open>proto/nfc/command.rs\<close>):
  ISO 7816-4 commands and responses as bytes, and the commands the wallet knows. Every
  \<open>TryFrom\<close> and \<open>From\<close> of the two files is one definition. A \<open>usize\<close> that holds a
  length is a \<open>nat\<close>; \<open>u8\<close> and \<open>u16\<close> are words.
\<close>

datatype apdu_error =
    InvalidApduCommand
  | IndexOutOfBoundsApdu
  | InvalidLeLength nat
  | PayloadTooLong
  | TooLargeExpectedLength nat
  | InvalidResponse bytes
  | OffsetOutOfBounds u16
  | MissingApplicationId
  | InvalidFileId
  | UnsupportedEfIdentifier u8
  | MissingLength

record Command =
  cla :: u8
  ins :: u8
  p1 :: u8
  p2 :: u8
  payload :: bytes
  le :: nat

record Response =
  resp_payload :: bytes
  sw1 :: u8
  sw2 :: u8

section \<open>Commands\<close>

definition to_u16 :: "bytes \<Rightarrow> nat \<Rightarrow> (apdu_error, u16) result" where
  "to_u16 encoded index =
     (if length encoded < index + 2 then Inl IndexOutOfBoundsApdu
      else case slice_range encoded index (index + 2) of
             Some [a, b] \<Rightarrow> Inr (u16_from_be_bytes a b)
           | _ \<Rightarrow> Inl InvalidApduCommand)"

text \<open>The length field \<open>Lc\<close> and where it ends.\<close>

definition decode_lc :: "bytes \<Rightarrow> (apdu_error, nat \<times> nat) result" where
  "decode_lc encoded =
     rbind (ok_or (slice_get encoded 4) InvalidApduCommand) (\<lambda>b.
       if unat b = 0 then rbind (to_u16 encoded 5) (\<lambda>lc. Inr (unat lc, 7))
       else Inr (unat b, 5))"

definition decode_payload :: "bytes \<Rightarrow> nat \<times> nat \<Rightarrow> (apdu_error, bytes \<times> nat \<times> nat) result" where
  "decode_payload encoded = (\<lambda>(lc, lc_ends_at).
     if lc > 0 \<and> lc_ends_at + lc \<le> length encoded
     then rbind (ok_or (slice_range encoded lc_ends_at (lc_ends_at + lc)) InvalidApduCommand)
            (\<lambda>p. Inr (p, lc, lc_ends_at))
     else Inr ([], 0, 4))"

definition decode_le :: "bytes \<Rightarrow> nat \<Rightarrow> (apdu_error, nat) result" where
  "decode_le encoded le_len =
     (if le_len = 0 then Inr 0
      else if le_len = 1 then
        rbind (ok_or (slice_get encoded (length encoded - 1)) InvalidApduCommand) (\<lambda>b.
          Inr (if unat b = 0 then 0x100 else unat b))
      else if le_len = 2 \<or> le_len = 3 then
        rbind (to_u16 encoded (length encoded - 2)) (\<lambda>w.
          Inr (if unat w = 0 then 0x10000 else unat w))
      else Inl (InvalidLeLength le_len))"

definition decode_body :: "bytes \<Rightarrow> (apdu_error, bytes \<times> nat) result" where
  "decode_body encoded =
     (if length encoded = 5 then
        rbind (ok_or (slice_get encoded 4) InvalidApduCommand) (\<lambda>b.
          Inr ([], if unat b = 0 then 0x100 else unat b))
      else if length encoded > 5 then
        rbind (decode_lc encoded) (\<lambda>lc.
        rbind (decode_payload encoded lc) (\<lambda>(p, lc, lc_ends_at).
        rbind (decode_le encoded (length encoded - lc_ends_at - lc)) (\<lambda>l.
          Inr (p, l))))
      else Inr ([], 0))"

definition command_decode :: "bytes \<Rightarrow> (apdu_error, Command) result" where
  "command_decode encoded =
     (if length encoded < 4 then Inl InvalidApduCommand
      else
        rbind (ok_or (slice_get encoded 0) InvalidApduCommand) (\<lambda>a.
        rbind (ok_or (slice_get encoded 1) InvalidApduCommand) (\<lambda>b.
        rbind (ok_or (slice_get encoded 2) InvalidApduCommand) (\<lambda>c.
        rbind (ok_or (slice_get encoded 3) InvalidApduCommand) (\<lambda>d.
        rbind (decode_body encoded) (\<lambda>(p, l).
          Inr \<lparr>cla = a, ins = b, p1 = c, p2 = d, payload = p, le = l\<rparr>))))))"

definition command_encode :: "Command \<Rightarrow> (apdu_error, bytes) result" where
  "command_encode c =
     (let header = [cla c, ins c, p1 c, p2 c];
          extended_length = length (payload c) > 0xFF \<or> le c > 0x100;
          has_payload = payload c \<noteq> []
      in rbind
           (if has_payload then
              if length (payload c) \<le> 0xFFFF then
                let lc = (of_nat (length (payload c)) :: u16) in
                Inr (header @ (if extended_length then [0, u16_hi lc, u16_lo lc] else [u16_lo lc])
                     @ payload c)
              else Inl PayloadTooLong
            else Inr header)
           (\<lambda>result.
              if le c > 0 then
                if le c > 0x10000 then Inl (TooLargeExpectedLength (le c))
                else Inr (result @
                  (if extended_length
                   then (if has_payload then [] else [0]) @ [of_nat (le c div 256), of_nat (le c)]
                   else [of_nat (le c)]))
              else Inr result))"

definition command_valid :: "Command \<Rightarrow> bool" where
  "command_valid c \<longleftrightarrow> length (payload c) \<le> 0xFFFF \<and> le c \<le> 0x10000"

section \<open>Responses\<close>

definition is_success :: "Response \<Rightarrow> bool" where
  "is_success r \<longleftrightarrow> sw1 r = 0x90 \<and> sw2 r = 0x00 \<or> sw1 r = 0x61"

definition response_encode :: "Response \<Rightarrow> bytes" where
  "response_encode r = resp_payload r @ [sw1 r, sw2 r]"

definition response_decode :: "bytes \<Rightarrow> (apdu_error, Response) result" where
  "response_decode encoded =
     (let n = length encoded in
      if n < 2 then Inl (InvalidResponse encoded)
      else let tail = drop (n - 2) encoded in
        rbind (ok_or (slice_get tail 0) InvalidApduCommand) (\<lambda>a.
        rbind (ok_or (slice_get tail 1) InvalidApduCommand) (\<lambda>b.
          Inr \<lparr>resp_payload = take (n - 2) encoded, sw1 = a, sw2 = b\<rparr>)))"

definition response_of_status :: "u8 \<times> u8 \<Rightarrow> Response" where
  "response_of_status = (\<lambda>(a, b). \<lparr>resp_payload = [], sw1 = a, sw2 = b\<rparr>)"

section \<open>Known commands\<close>

datatype KnownCommand =
    SelectApplication (application_id: bytes)
  | SelectFile (file_id: "u8 \<times> u8")
  | ReadBinary (offset: u16) (read_length: nat)
  | Other Command

definition CLA_DEFAULT :: u8 where "CLA_DEFAULT = 0x00"
definition INS_SELECT :: u8 where "INS_SELECT = 0xa4"
definition INS_READ_BINARY :: u8 where "INS_READ_BINARY = 0xb0"
definition PARAMS_SELECT_APPLICATION :: "u8 \<times> u8" where "PARAMS_SELECT_APPLICATION = (0x04, 0x00)"
definition PARAMS_SELECT_FILE :: "u8 \<times> u8" where "PARAMS_SELECT_FILE = (0x00, 0x0c)"

lemmas apdu_consts =
  CLA_DEFAULT_def INS_SELECT_def INS_READ_BINARY_def
  PARAMS_SELECT_APPLICATION_def PARAMS_SELECT_FILE_def

fun command_of_known :: "KnownCommand \<Rightarrow> (apdu_error, Command) result" where
  "command_of_known (SelectApplication app) =
     Inr \<lparr>cla = CLA_DEFAULT, ins = INS_SELECT, p1 = fst PARAMS_SELECT_APPLICATION,
          p2 = snd PARAMS_SELECT_APPLICATION, payload = app, le = 0\<rparr>"
| "command_of_known (SelectFile (a, b)) =
     Inr \<lparr>cla = CLA_DEFAULT, ins = INS_SELECT, p1 = fst PARAMS_SELECT_FILE,
          p2 = snd PARAMS_SELECT_FILE, payload = [a, b], le = 0\<rparr>"
| "command_of_known (ReadBinary off len) =
     (if off > 0x7FFF then Inl (OffsetOutOfBounds off)
      else Inr \<lparr>cla = CLA_DEFAULT, ins = INS_READ_BINARY, p1 = u16_hi off, p2 = u16_lo off,
                payload = [], le = len\<rparr>)"
| "command_of_known (Other c) = Inr c"

definition known_of_command :: "Command \<Rightarrow> (apdu_error, KnownCommand) result" where
  "known_of_command c =
     (if cla c = CLA_DEFAULT \<and> ins c = INS_SELECT \<and> (p1 c, p2 c) = PARAMS_SELECT_APPLICATION then
        if payload c = [] then Inl MissingApplicationId
        else Inr (SelectApplication (payload c))
      else if cla c = CLA_DEFAULT \<and> ins c = INS_SELECT \<and> (p1 c, p2 c) = PARAMS_SELECT_FILE then
        case payload c of [a, b] \<Rightarrow> Inr (SelectFile (a, b)) | _ \<Rightarrow> Inl InvalidFileId
      else if cla c = CLA_DEFAULT \<and> ins c = INS_READ_BINARY then
        let off = u16_from_be_bytes (p1 c) (p2 c) in
        if off > 0x7FFF then Inl (UnsupportedEfIdentifier (p1 c))
        else if le c = 0 then Inl MissingLength
        else Inr (ReadBinary off (le c))
      else Inr (Other c))"

definition known_encode :: "KnownCommand \<Rightarrow> (apdu_error, bytes) result" where
  "known_encode k = rbind (command_of_known k) command_encode"

definition known_decode :: "bytes \<Rightarrow> (apdu_error, KnownCommand) result" where
  "known_decode encoded = rbind (command_decode encoded) known_of_command"

text \<open>The known commands that the wire can carry: what \<open>known_of_command\<close> can return.\<close>

fun known_valid :: "KnownCommand \<Rightarrow> bool" where
  "known_valid (SelectApplication app) \<longleftrightarrow> app \<noteq> [] \<and> length app \<le> 0xFFFF"
| "known_valid (SelectFile f) \<longleftrightarrow> True"
| "known_valid (ReadBinary off len) \<longleftrightarrow> off \<le> 0x7FFF \<and> 0 < len \<and> len \<le> 0x10000"
| "known_valid (Other c) \<longleftrightarrow> command_valid c \<and> known_of_command c = Inr (Other c)"

section \<open>The command format reads back what it writes\<close>

lemma to_u16_append: "length us = i \<Longrightarrow> to_u16 (us @ a # b # ws) i = Inr (u16_from_be_bytes a b)"
  by (simp add: to_u16_def slice_range_def)

lemma to_u16_at_end: "to_u16 (us @ [a, b]) (length us) = Inr (u16_from_be_bytes a b)"
  using to_u16_append [of us "length us" a b "[]"] by simp

lemma unat_of_nat_u8: "unat (of_nat n :: u8) = n mod 256"
  by (simp add: unat_of_nat)

lemma unat_of_nat_u16: "unat (of_nat n :: u16) = n mod 65536"
  by (simp add: unat_of_nat)

text \<open>The expected length, in its one-byte and its two-byte form; the maximum is written as zero.\<close>

lemma decode_le_short:
  assumes "0 < l" and "l \<le> 0x100"
  shows "decode_le (us @ [of_nat l]) 1 = Inr l"
  using assms by (cases "l = 256") (auto simp: decode_le_def unat_of_nat_u8)

lemma unat_u16_of_nat_bytes:
  "unat (u16_from_be_bytes (of_nat (n div 256)) (of_nat n)) = n mod 65536"
proof -
  have "n mod 65536 = 256 * (n div 256 mod 256) + n mod 256"
    using mod_mult2_eq [of n 256 256] by simp
  then show ?thesis by (simp add: unat_u16_from_be unat_of_nat_u8)
qed

lemma decode_le_extended:
  assumes "0 < l" and "l \<le> 0x10000" and "k = 2 \<or> k = 3"
  shows "decode_le (us @ [of_nat (l div 256), of_nat l]) k = Inr l"
proof -
  have "(if l mod 65536 = 0 then 0x10000 else l mod 65536) = l"
    using assms(1,2) by (cases "l = 65536") auto
  with assms(3) to_u16_at_end [of us "of_nat (l div 256)" "of_nat l"] show ?thesis
    by (auto simp: decode_le_def unat_u16_of_nat_bytes)
qed

lemma decode_payload_at:
  assumes "length us = e" and "p \<noteq> []"
  shows "decode_payload (us @ p @ ws) (length p, e) = Inr (p, length p, e)"
  using assms by (simp add: decode_payload_def)

lemma decode_body_payload:
  assumes lc: "decode_lc (us @ p @ ws) = Inr (length p, length us)"
    and p: "p \<noteq> []" and us: "5 \<le> length us"
    and le: "decode_le (us @ p @ ws) (length ws) = Inr l"
  shows "decode_body (us @ p @ ws) = Inr (p, l)"
proof -
  have "length (us @ p @ ws) - length us - length p = length ws" by simp
  moreover have "length (us @ p @ ws) > 5" using p us by (cases p) auto
  ultimately show ?thesis
    using lc le decode_payload_at [of us "length us" p ws] p by (simp add: decode_body_def)
qed

lemma decode_lc_short:
  assumes "p \<noteq> []" and "length p \<le> 0xFF"
  shows "decode_lc ([a, b, c, d, u16_lo (of_nat (length p))] @ p @ ws) = Inr (length p, 5)"
  using assms by (auto simp: decode_lc_def unat_u16_lo unat_of_nat_u16 mod_simps)

lemma decode_lc_extended:
  assumes "length p \<le> 0xFFFF"
  shows "decode_lc ([a, b, c, d, 0, u16_hi (of_nat (length p)), u16_lo (of_nat (length p))] @ p @ ws)
           = Inr (length p, 7)"
  using assms to_u16_append [of "[a, b, c, d, 0]" 5 "u16_hi (of_nat (length p))"
      "u16_lo (of_nat (length p))" "p @ ws"]
  by (simp add: decode_lc_def unat_of_nat_u16)

lemma decode_body_no_payload_extended:
  assumes "0x100 < l" and "l \<le> 0x10000"
  shows "decode_body [a, b, c, d, 0, of_nat (l div 256), of_nat l] = Inr ([], l)"
proof -
  let ?bs = "[a, b, c, d, 0, of_nat (l div 256), of_nat l] :: bytes"
  have lc: "decode_lc ?bs = Inr (l mod 65536, 7)"
    using to_u16_append [of "[a, b, c, d, 0]" 5 "of_nat (l div 256)" "of_nat l" "[]"]
    by (auto simp: decode_lc_def unat_u16_of_nat_bytes)
  have "decode_payload ?bs (l mod 65536, 7) = Inr ([], 0, 4)"
    by (auto simp: decode_payload_def)
  moreover have "decode_le ?bs 3 = Inr l"
    using decode_le_extended [of l 3 "[a, b, c, d, 0]"] assms by simp
  ultimately show ?thesis using lc by (simp add: decode_body_def numeral_3_eq_3)
qed

lemma command_decode_body:
  assumes "decode_body ([a, b, c, d] @ bs) = Inr (p, l)"
  shows "command_decode ([a, b, c, d] @ bs) =
           Inr \<lparr>cla = a, ins = b, p1 = c, p2 = d, payload = p, le = l\<rparr>"
  using assms by (simp add: command_decode_def)

lemma command_encode_total: "command_valid c \<Longrightarrow> \<exists>bs. command_encode c = Inr bs"
  by (auto simp: command_encode_def command_valid_def Let_def)

lemma command_decode_encode_no_payload:
  assumes "payload c = []" and "le c \<le> 0x10000" and "command_encode c = Inr bs"
  shows "command_decode bs = Inr c"
proof -
  let ?h = "[cla c, ins c, p1 c, p2 c]"
  consider "le c = 0" | "0 < le c" "le c \<le> 0x100" | "0x100 < le c" by linarith
  then show ?thesis
  proof cases
    case 1
    with assms(1,3) have "bs = ?h @ []" by (simp add: command_encode_def)
    with command_decode_body [of "cla c" "ins c" "p1 c" "p2 c" "[]" "[]" 0] 1 assms(1)
    show ?thesis by (simp add: decode_body_def)
  next
    case 2
    with assms have bs: "bs = ?h @ [of_nat (le c)]" by (auto simp: command_encode_def)
    have "decode_body bs = Inr ([], le c)"
      using 2 unfolding bs by (cases "le c = 256") (auto simp: decode_body_def unat_of_nat_u8)
    with command_decode_body [of "cla c" "ins c" "p1 c" "p2 c" "[of_nat (le c)]" "[]" "le c"] assms(1)
    show ?thesis by (simp add: bs)
  next
    case 3
    with assms have bs: "bs = ?h @ [0, of_nat (le c div 256), of_nat (le c)]"
      by (auto simp: command_encode_def)
    have "decode_body bs = Inr ([], le c)"
      using decode_body_no_payload_extended [of "le c"] 3 assms(2) by (simp add: bs)
    with command_decode_body [of "cla c" "ins c" "p1 c" "p2 c"
        "[0, of_nat (le c div 256), of_nat (le c)]" "[]" "le c"] assms(1)
    show ?thesis by (simp add: bs)
  qed
qed

lemma command_decode_encode_payload:
  assumes "payload c \<noteq> []" and "command_valid c" and "command_encode c = Inr bs"
  shows "command_decode bs = Inr c"
proof -
  let ?n = "length (payload c)"
  define ext where "ext = (?n > 0xFF \<or> le c > 0x100)"
  define lc where "lc = (if ext then [0, u16_hi (of_nat ?n), u16_lo (of_nat ?n)]
                         else [u16_lo (of_nat ?n)] :: bytes)"
  define us where "us = [cla c, ins c, p1 c, p2 c] @ lc"
  define ws where "ws = (if le c = 0 then [] else if ext then [of_nat (le c div 256), of_nat (le c)]
                         else [of_nat (le c)] :: bytes)"
  have bs: "bs = us @ payload c @ ws"
    using assms by (auto simp: command_encode_def command_valid_def Let_def us_def lc_def ws_def
        ext_def split: if_splits)
  have "decode_lc (us @ payload c @ ws) = Inr (?n, length us)"
    using assms(1,2) decode_lc_short [of "payload c"] decode_lc_extended [of "payload c"]
    by (auto simp: us_def lc_def ext_def command_valid_def)
  moreover have "decode_le (us @ payload c @ ws) (length ws) = Inr (le c)"
    using assms(2) decode_le_short [of "le c" "us @ payload c"]
      decode_le_extended [of "le c" 2 "us @ payload c"]
    by (auto simp: ws_def ext_def command_valid_def decode_le_def [of _ 0] numeral_2_eq_2)
  moreover have "5 \<le> length us" by (simp add: us_def lc_def)
  ultimately have "decode_body bs = Inr (payload c, le c)"
    using assms(1) unfolding bs by (intro decode_body_payload)
  with command_decode_body [of "cla c" "ins c" "p1 c" "p2 c" "lc @ payload c @ ws" "payload c" "le c"]
  show ?thesis by (simp add: bs us_def)
qed

interpretation apdu: wire_format command_encode command_decode command_valid
proof
  show "command_valid x \<Longrightarrow> \<exists>w. command_encode x = Inr w" for x
    by (rule command_encode_total)
  show "command_valid x \<Longrightarrow> command_encode x = Inr w \<Longrightarrow> command_decode w = Inr x" for x w
    by (cases "payload x = []")
      (auto intro: command_decode_encode_no_payload command_decode_encode_payload
        simp: command_valid_def)
qed

interpretation response: wire_format "\<lambda>r. Inr (response_encode r)" response_decode "\<lambda>_. True"
  by unfold_locales
    (auto simp: response_encode_def response_decode_def Let_def nth_append)

lemma known_of_command_of_known:
  assumes "known_valid k" and "command_of_known k = Inr c"
  shows "known_of_command c = Inr k"
  using assms by (cases k rule: command_of_known.cases)
    (auto simp: known_of_command_def apdu_consts split: if_splits)

interpretation known: wire_format command_of_known known_of_command known_valid
proof
  show "known_valid k \<Longrightarrow> \<exists>c. command_of_known k = Inr c" for k
    by (cases k rule: command_of_known.cases) auto
qed (rule known_of_command_of_known)

interpretation known_wire: layered_format command_of_known known_of_command known_valid
  command_encode command_decode command_valid
proof
  show "known_valid k \<Longrightarrow> command_of_known k = Inr c \<Longrightarrow> command_valid c" for k c
    by (cases k rule: command_of_known.cases) (auto simp: command_valid_def split: if_splits)
qed

lemma to_u16_bound: "to_u16 bs i = Inr w \<Longrightarrow> unat w \<le> 0xFFFF"
  using u16_less [of w] by simp

lemma decode_lc_bound: "decode_lc bs = Inr (lc, k) \<Longrightarrow> lc \<le> 0xFFFF"
  using u8_less [of "bs ! 4"]
  by (auto simp: decode_lc_def slice_get_def dest: to_u16_bound split: if_splits)

lemma decode_payload_bound:
  "decode_payload bs (lc, k) = Inr (p, lc', k') \<Longrightarrow> lc \<le> 0xFFFF \<Longrightarrow> length p \<le> 0xFFFF"
  by (auto simp: decode_payload_def slice_range_def split: if_splits)

lemma decode_le_bound: "decode_le bs k = Inr l \<Longrightarrow> l \<le> 0x10000"
  using u8_less [of "bs ! (length bs - 1)"]
  by (auto simp: decode_le_def slice_get_def dest: to_u16_bound split: if_splits)

lemma decode_body_bound:
  assumes "decode_body bs = Inr (p, l)"
  shows "length p \<le> 0xFFFF \<and> l \<le> 0x10000"
  using assms u8_less [of "bs ! 4"]
  by (auto simp: decode_body_def slice_get_def split: if_splits
      dest: decode_lc_bound decode_payload_bound decode_le_bound)

text \<open>
  C31. Every APDU command whose payload and expected length fit the format (at most 0xFFFF and
  0x10000) is encoded, and decoding the bytes gives the command back, in the short form and in
  the extended form alike. A command that does not fit is refused by the encoder.
\<close>

theorem command_round_trip:
  "rbind (command_encode c) command_decode =
     (if length (payload c) > 0xFFFF then Inl PayloadTooLong
      else if le c > 0x10000 then Inl (TooLargeExpectedLength (le c))
      else Inr c)"
proof (cases "command_valid c")
  case True
  then show ?thesis using apdu.round_trip [of c] by (simp add: command_valid_def)
next
  case False
  then show ?thesis by (auto simp: command_valid_def command_encode_def Let_def)
qed

text \<open>
  C39. Whatever bytes arrive, a command that the decoder accepts fits the format, so that it can
  be encoded again, and decoding that encoding gives the same command.
\<close>

theorem command_decode_canonical:
  assumes "command_decode bs = Inr c"
  shows "command_valid c \<and> rbind (command_encode c) command_decode = Inr c"
proof -
  have "command_valid c"
    using assms by (auto simp: command_decode_def command_valid_def split: if_splits
        dest!: decode_body_bound)
  with apdu.round_trip [of c] show ?thesis by simp
qed

theorem command_decode_canonical_witness:
  "command_decode [0, 0xB0, 0, 2, 0] =
     Inr \<lparr>cla = 0, ins = 0xB0, p1 = 0, p2 = 2, payload = [], le = 0x100\<rparr> \<and>
   command_valid \<lparr>cla = 0, ins = 0xB0, p1 = 0, p2 = 2, payload = [], le = 0x100\<rparr>"
proof -
  have "command_decode [0, 0xB0, 0, 2, 0] =
     Inr \<lparr>cla = 0, ins = 0xB0, p1 = 0, p2 = 2, payload = [], le = 0x100\<rparr>"
    by (simp add: command_decode_def decode_body_def)
  with command_decode_canonical [OF this] show ?thesis by simp
qed



text \<open>
  C40. A response of any length is read back from its bytes with its status words, bytes
  shorter than the two status words are refused, and every other sequence of bytes is the
  encoding of the response it decodes to.
\<close>

theorem response_round_trip:
  "response_decode (response_encode r) = Inr r \<and>
   (case response_decode bs of
      Inl e \<Rightarrow> length bs < 2 \<and> e = InvalidResponse bs
    | Inr r' \<Rightarrow> response_encode r' = bs)"
proof -
  have "response_encode r' = bs" if "response_decode bs = Inr r'" for r'
  proof -
    let ?n = "length bs"
    from that have n: "2 \<le> ?n" by (auto simp: response_decode_def Let_def split: if_splits)
    then have "length (drop (?n - 2) bs) = 2" by simp
    then obtain a b where ab: "drop (?n - 2) bs = [a, b]"
      unfolding numeral_2_eq_2 length_Suc_conv by blast
    with that n have "response_encode r' = take (?n - 2) bs @ drop (?n - 2) bs"
      by (auto simp: response_decode_def response_encode_def Let_def)
    then show ?thesis by simp
  qed
  moreover have "length bs < 2 \<and> e = InvalidResponse bs" if "response_decode bs = Inl e" for e
    using that by (auto simp: response_decode_def Let_def slice_get_def split: if_splits)
  ultimately show ?thesis
    using response.decode_encode [of r] by (auto split: sum.split)
qed

end
