(* ===== verification/Dcql.thy ===== *)
theory Dcql
  imports Prelude
begin

text \<open>
  The query language crate (\<open>lib/dcql/src\<close>): the structure of a DCQL query, how its parts
  are displayed, the builders of credential queries, and \<open>credential_filters\<close>, which turns a
  query into the filters a wallet looks for. A \<open>HashMap\<close> that is built by inserting is a map
  updated in the same order, so that a later query with the same identifier wins.
\<close>

section \<open>Query structure\<close>

datatype PathSegment = PropertyName string | ArrayIndex nat | ArrayAll

type_synonym ClaimPath = "PathSegment list"

datatype ClaimValue = String string | Integer int | Boolean bool

datatype CredentialFormat = JwtVc | LdpVc | MsoMdoc | SdJwt | W3cSdJwt

datatype CredentialMeta =
    MsoMdoc (doctype_value: string)
  | SdJwtVc (vct_values: "string list")
  | W3cVc (type_values: "string list list")

datatype TrustedAuthority =
    EtsiTl "string list"
  | OpenidFederation "string list"
  | AuthorityKeyId "string list"
  | Custom string "string list"

record ClaimQuery =
  cq_id :: "string option"
  cq_path :: ClaimPath
  cq_values :: "ClaimValue list option"
  cq_required :: "bool option"
  cq_intent_to_retain :: "bool option"

record CredentialQuery =
  query_id :: string
  query_format :: CredentialFormat
  query_meta :: CredentialMeta
  query_claims :: "ClaimQuery list option"
  query_claim_sets :: "string list list option"
  query_trusted_authorities :: "TrustedAuthority list option"
  query_multiple :: bool
  query_require_cryptographic_holder_binding :: bool

record CredentialSet =
  set_required :: bool
  set_options :: "string list list"

record DcqlQuery =
  dcql_credentials :: "CredentialQuery list"
  dcql_credential_sets :: "CredentialSet list option"

datatype DcqlError = MissingClaimQueryId ClaimPath | UnknownClaimQueryId string

section \<open>Display\<close>

fun path_segment_display :: "PathSegment \<Rightarrow> string" where
  "path_segment_display (PropertyName name) = [CHR 0x22] @ name @ [CHR 0x22]"
| "path_segment_display (ArrayIndex idx) = decimal idx"
| "path_segment_display ArrayAll = ''null''"

definition claim_path_display :: "ClaimPath \<Rightarrow> string" where
  "claim_path_display p = ''['' @ join '', '' (map path_segment_display p) @ '']''"

fun credential_format_display :: "CredentialFormat \<Rightarrow> string" where
  "credential_format_display CredentialFormat.MsoMdoc = ''mso_mdoc''"
| "credential_format_display LdpVc = ''ldp_vc''"
| "credential_format_display JwtVc = ''jwt_vc_json''"
| "credential_format_display SdJwt = ''dc+sd-jwt''"
| "credential_format_display W3cSdJwt = ''vc+sd-jwt''"

text \<open>The names under which serde reads a format (the \<open>rename\<close> attributes of the enum).\<close>

definition credential_format_deserialize :: "string \<Rightarrow> CredentialFormat option" where
  "credential_format_deserialize s =
     (if s = ''jwt_vc_json'' then Some JwtVc
      else if s = ''ldp_vc'' then Some LdpVc
      else if s = ''mso_mdoc'' then Some CredentialFormat.MsoMdoc
      else if s = ''dc+sd-jwt'' then Some SdJwt
      else if s = ''vc+sd-jwt'' then Some W3cSdJwt
      else None)"

fun claim_value_display :: "ClaimValue \<Rightarrow> string" where
  "claim_value_display (String name) = [CHR 0x22] @ name @ [CHR 0x22]"
| "claim_value_display (Integer v) = decimal_int v"
| "claim_value_display (Boolean v) = (if v then ''true'' else ''false'')"

lemma credential_format_round_trip:
  "credential_format_deserialize (credential_format_display f) = Some f"
  by (cases f) (simp_all add: credential_format_deserialize_def)

section \<open>Builders\<close>

definition query_builder :: "CredentialFormat \<Rightarrow> CredentialMeta \<Rightarrow> string \<Rightarrow> CredentialQuery" where
  "query_builder fmt meta i =
     \<lparr>query_id = i, query_format = fmt, query_meta = meta, query_claims = None,
      query_claim_sets = None, query_trusted_authorities = None, query_multiple = False,
      query_require_cryptographic_holder_binding = True\<rparr>"

definition mso_mdoc :: "string \<Rightarrow> string \<Rightarrow> CredentialQuery" where
  "mso_mdoc doctype = query_builder CredentialFormat.MsoMdoc (CredentialMeta.MsoMdoc doctype)"

definition sd_jwt_vc :: "string list \<Rightarrow> string \<Rightarrow> CredentialQuery" where
  "sd_jwt_vc vcts = query_builder SdJwt (SdJwtVc vcts)"

definition jwt_vc :: "string list list \<Rightarrow> string \<Rightarrow> CredentialQuery" where
  "jwt_vc types = query_builder JwtVc (W3cVc types)"

definition ldp_vc :: "string list list \<Rightarrow> string \<Rightarrow> CredentialQuery" where
  "ldp_vc types = query_builder LdpVc (W3cVc types)"

definition w3c_sd_jwt :: "string list list \<Rightarrow> string \<Rightarrow> CredentialQuery" where
  "w3c_sd_jwt types = query_builder W3cSdJwt (W3cVc types)"

definition multiple :: "CredentialQuery \<Rightarrow> CredentialQuery" where
  "multiple q = q\<lparr>query_multiple := True\<rparr>"

definition single :: "CredentialQuery \<Rightarrow> CredentialQuery" where
  "single q = q\<lparr>query_multiple := False\<rparr>"

definition without_holder_binding :: "CredentialQuery \<Rightarrow> CredentialQuery" where
  "without_holder_binding q = q\<lparr>query_require_cryptographic_holder_binding := False\<rparr>"

section \<open>Filters\<close>

record ClaimFilter =
  filter_path :: ClaimPath
  filter_values :: "ClaimValue list"
  filter_required :: bool

record CredentialFilter =
  filter_format :: CredentialFormat
  filter_schema_ids :: "string list"
  filter_claims :: "ClaimFilter list"

definition claim_filter_of :: "ClaimQuery \<Rightarrow> ClaimFilter" where
  "claim_filter_of q =
     \<lparr>filter_path = cq_path q,
      filter_values = (case cq_values q of None \<Rightarrow> [] | Some vs \<Rightarrow> vs),
      filter_required = (case cq_required q of None \<Rightarrow> True | Some b \<Rightarrow> b)\<rparr>"

definition claim_filters_to_map ::
  "ClaimQuery list \<Rightarrow> (DcqlError, string \<rightharpoonup> ClaimFilter) result" where
  "claim_filters_to_map claim_queries =
     try_fold (\<lambda>q m. case cq_id q of
         None \<Rightarrow> Inl (MissingClaimQueryId (cq_path q))
       | Some i \<Rightarrow> Inr (m(i \<mapsto>
           \<lparr>filter_path = cq_path q,
            filter_values = (case cq_values q of None \<Rightarrow> [] | Some vs \<Rightarrow> vs),
            filter_required = (case cq_required q of None \<Rightarrow> True | Some b \<Rightarrow> b)\<rparr>)))
       claim_queries Map.empty"

definition process_claims ::
  "CredentialFilter \<Rightarrow> ClaimQuery list \<Rightarrow> string list list option \<Rightarrow>
     (DcqlError, CredentialFilter list) result" where
  "process_claims base_filter claims claim_sets =
     (case claim_sets of
        Some sets \<Rightarrow>
          rbind (claim_filters_to_map claims) (\<lambda>claims_by_id.
            try_map (\<lambda>claim_set.
              rbind (try_map (\<lambda>i. ok_or (claims_by_id i) (UnknownClaimQueryId i)) claim_set)
                (\<lambda>cs. Inr (base_filter\<lparr>filter_claims := cs\<rparr>))) sets)
      | None \<Rightarrow> Inr [base_filter\<lparr>filter_claims := map claim_filter_of claims\<rparr>])"

fun meta_schema_ids :: "CredentialMeta \<Rightarrow> string list" where
  "meta_schema_ids (CredentialMeta.MsoMdoc doctype) = [doctype]"
| "meta_schema_ids (SdJwtVc vcts) = vcts"
| "meta_schema_ids (W3cVc types) = map last (filter (\<lambda>ts. ts \<noteq> []) types)"

definition query_filters :: "CredentialQuery \<Rightarrow> (DcqlError, CredentialFilter list) result" where
  "query_filters q =
     (let base_filter = \<lparr>filter_format = query_format q,
            filter_schema_ids = meta_schema_ids (query_meta q), filter_claims = []\<rparr>
      in case query_claims q of
           Some claims \<Rightarrow> if claims \<noteq> [] then process_claims base_filter claims (query_claim_sets q)
                          else Inr [base_filter]
         | None \<Rightarrow> Inr [base_filter])"

definition credential_filters ::
  "DcqlQuery \<Rightarrow> (DcqlError, string \<rightharpoonup> CredentialFilter list) result" where
  "credential_filters dcql_query =
     try_fold (\<lambda>q m. rbind (query_filters q) (\<lambda>filters. Inr (m(query_id q \<mapsto> filters))))
       (dcql_credentials dcql_query) Map.empty"

section \<open>What the filters are\<close>

text \<open>The claim query that an identifier names: the last one that carries it.\<close>

definition claim_query_by_id :: "ClaimQuery list \<Rightarrow> string \<Rightarrow> ClaimQuery option" where
  "claim_query_by_id qs i = find (\<lambda>q. cq_id q = Some i) (rev qs)"

text \<open>
  What a credential query must satisfy to be understood: when it has claims and claim sets,
  every claim has an identifier and every claim set names claims of the query.
\<close>

definition well_formed_query :: "CredentialQuery \<Rightarrow> bool" where
  "well_formed_query q \<longleftrightarrow>
     (case (query_claims q, query_claim_sets q) of
        (Some claims, Some sets) \<Rightarrow>
          claims = [] \<or>
          (\<forall>c \<in> set claims. cq_id c \<noteq> None) \<and>
          (\<forall>s \<in> set sets. \<forall>i \<in> set s. Some i \<in> cq_id ` set claims)
      | _ \<Rightarrow> True)"

text \<open>The alternatives a query offers, as lists of claim queries in the verifier's order.\<close>

definition query_alternatives :: "CredentialQuery \<Rightarrow> ClaimQuery list list" where
  "query_alternatives q =
     (case query_claims q of
        None \<Rightarrow> [[]]
      | Some claims \<Rightarrow>
          if claims = [] then [[]]
          else case query_claim_sets q of
                 None \<Rightarrow> [claims]
               | Some sets \<Rightarrow> map (map (\<lambda>i. the (claim_query_by_id claims i))) sets)"

lemma claim_filters_to_map_snoc:
  "claim_filters_to_map (qs @ [q]) =
     rbind (claim_filters_to_map qs) (\<lambda>m.
       case cq_id q of None \<Rightarrow> Inl (MissingClaimQueryId (cq_path q))
                     | Some i \<Rightarrow> Inr (m(i \<mapsto> claim_filter_of q)))"
  by (auto simp: claim_filters_to_map_def try_fold_append claim_filter_of_def
      split: option.split intro!: rbind_cong)

lemma claim_filters_to_map_spec:
  "claim_filters_to_map qs = Inr m \<Longrightarrow>
     (\<forall>q \<in> set qs. cq_id q \<noteq> None) \<and> m i = map_option claim_filter_of (claim_query_by_id qs i)"
proof (induction qs arbitrary: m rule: rev_induct)
  case Nil
  then show ?case by (auto simp: claim_filters_to_map_def claim_query_by_id_def)
next
  case (snoc q qs)
  then obtain m' j where "claim_filters_to_map qs = Inr m'" and "cq_id q = Some j"
    and "m = m'(j \<mapsto> claim_filter_of q)"
    by (auto simp: claim_filters_to_map_snoc split: option.splits)
  with snoc.IH [of m'] show ?case by (auto simp: claim_query_by_id_def)
qed

lemma claim_filters_to_map_total:
  "\<forall>q \<in> set qs. cq_id q \<noteq> None \<Longrightarrow> \<exists>m. claim_filters_to_map qs = Inr m"
  by (induction qs rule: rev_induct)
    (auto simp: claim_filters_to_map_snoc claim_filters_to_map_def [of "[]"])

lemma claim_query_by_id_known: "claim_query_by_id qs i \<noteq> None \<longleftrightarrow> Some i \<in> cq_id ` set qs"
  by (force simp: claim_query_by_id_def find_None_iff)

lemma process_claims_None:
  "process_claims b cs None = Inr [b\<lparr>filter_claims := map claim_filter_of cs\<rparr>]"
  by (simp add: process_claims_def)

lemma query_filters_ok: "is_ok (query_filters q) \<longleftrightarrow> well_formed_query q"
proof -
  have "is_ok (process_claims b cs (Some sets)) \<longleftrightarrow>
      (\<forall>c \<in> set cs. cq_id c \<noteq> None) \<and> (\<forall>s \<in> set sets. \<forall>i \<in> set s. Some i \<in> cq_id ` set cs)"
    for b cs sets
  proof (cases "claim_filters_to_map cs")
    case (Inl e)
    then have "\<not> (\<forall>c \<in> set cs. cq_id c \<noteq> None)" using claim_filters_to_map_total by force
    with Inl show ?thesis by (auto simp: process_claims_def)
  next
    case (Inr m)
    have "is_ok (ok_or (m i) e) \<longleftrightarrow> Some i \<in> cq_id ` set cs" for i and e :: DcqlError
      using claim_filters_to_map_spec [OF Inr, of i] claim_query_by_id_known [of cs i]
      by (cases "m i") auto
    moreover have "\<forall>c \<in> set cs. cq_id c \<noteq> None" using claim_filters_to_map_spec [OF Inr] by blast
    ultimately show ?thesis using Inr by (simp add: process_claims_def is_ok_try_map)
  qed
  then show ?thesis
    by (auto simp: query_filters_def well_formed_query_def process_claims_None Let_def
        split: option.split)
qed

lemma query_filters_alternatives:
  assumes "query_filters q = Inr fs"
  shows "fs = map (\<lambda>cs. \<lparr>filter_format = query_format q,
                        filter_schema_ids = meta_schema_ids (query_meta q),
                        filter_claims = map claim_filter_of cs\<rparr>) (query_alternatives q)"
proof (cases "\<exists>claims sets. query_claims q = Some claims \<and> claims \<noteq> [] \<and> query_claim_sets q = Some sets")
  case True
  then obtain claims sets where q: "query_claims q = Some claims" "claims \<noteq> []"
    "query_claim_sets q = Some sets" by blast
  with assms obtain m where m: "claim_filters_to_map claims = Inr m"
    by (auto simp: query_filters_def process_claims_def Let_def)
  have "m i = Some f \<longleftrightarrow> (\<exists>c. claim_query_by_id claims i = Some c \<and> f = claim_filter_of c)" for i f
    using claim_filters_to_map_spec [OF m, of i] by auto
  then have claims_of: "cs = map (\<lambda>i. claim_filter_of (the (claim_query_by_id claims i))) is"
    if "try_map (\<lambda>i. ok_or (m i) (UnknownClaimQueryId i)) is = Inr cs" for "is" cs
    using that by (induction "is" arbitrary: cs) auto
  have each: "y = (let cs = map (\<lambda>i. the (claim_query_by_id claims i)) s in
        \<lparr>filter_format = query_format q, filter_schema_ids = meta_schema_ids (query_meta q),
         filter_claims = map claim_filter_of cs\<rparr>)"
    if "rbind (try_map (\<lambda>i. ok_or (m i) (UnknownClaimQueryId i)) s)
          (\<lambda>cs. Inr \<lparr>filter_format = query_format q,
            filter_schema_ids = meta_schema_ids (query_meta q), filter_claims = cs\<rparr>) = Inr y" for s y
    using that by (auto simp: comp_def dest!: claims_of)
  have "try_map (\<lambda>s. rbind (try_map (\<lambda>i. ok_or (m i) (UnknownClaimQueryId i)) s)
          (\<lambda>cs. Inr \<lparr>filter_format = query_format q,
            filter_schema_ids = meta_schema_ids (query_meta q), filter_claims = cs\<rparr>)) sets = Inr fs"
    using assms q m by (simp add: query_filters_def process_claims_def)
  from try_map_eq_map [OF this each] q show ?thesis
    by (simp add: query_alternatives_def Let_def comp_def)
next
  case False
  with assms show ?thesis
    by (auto simp: query_filters_def process_claims_def query_alternatives_def Let_def
        split: option.splits if_splits)
qed

lemma credential_filters_fold:
  "try_fold (\<lambda>q m. rbind (query_filters q) (\<lambda>filters. Inr (m(query_id q \<mapsto> filters)))) qs m0 = Inr m
   \<longleftrightarrow> (\<forall>q \<in> set qs. is_ok (query_filters q)) \<and>
       m = m0 ++ map_of (map (\<lambda>q. (query_id q, projr (query_filters q))) (rev qs))"
proof (induction qs arbitrary: m0)
  case (Cons q qs)
  show ?case
    by (cases "query_filters q") (simp_all add: Cons.IH del: fun_upd_apply)
qed auto

lemma credential_filters_Inr:
  "credential_filters d = Inr m \<longleftrightarrow>
     (\<forall>q \<in> set (dcql_credentials d). well_formed_query q) \<and>
     m = map_of (map (\<lambda>q. (query_id q, projr (query_filters q))) (rev (dcql_credentials d)))"
  by (simp add: credential_filters_def credential_filters_fold query_filters_ok)

text \<open>The filter that one alternative of a query stands for.\<close>

definition alternative_filter :: "CredentialQuery \<Rightarrow> ClaimQuery list \<Rightarrow> CredentialFilter" where
  "alternative_filter q claims =
     \<lparr>filter_format = query_format q, filter_schema_ids = meta_schema_ids (query_meta q),
      filter_claims = map claim_filter_of claims\<rparr>"

lemma query_filters_eq:
  "well_formed_query q \<Longrightarrow> query_filters q = Inr (map (alternative_filter q) (query_alternatives q))"
  using query_filters_alternatives [of q] query_filters_ok [of q]
  by (auto simp: is_ok_iff alternative_filter_def [abs_def])

text \<open>
  C28. The filters of a query are refused exactly when one of its credential queries has claim
  sets but a claim without identifier, or a claim set that names no claim of the query.
  Otherwise the identifier of every credential query (the last one, if it occurs twice) gives
  one filter per alternative, in the verifier's order of preference: each asks for the
  query's format, for the schema identifiers of its metadata, and for the claims of that
  alternative, in order, required unless the query says otherwise.
\<close>

theorem credential_filters_correct:
  "case credential_filters d of
     Inl e \<Rightarrow> \<not> list_all well_formed_query (dcql_credentials d)
   | Inr m \<Rightarrow> list_all well_formed_query (dcql_credentials d) \<and>
       m i = map_option (\<lambda>q. map (alternative_filter q) (query_alternatives q))
               (find (\<lambda>q. query_id q = i) (rev (dcql_credentials d)))"
proof (cases "credential_filters d")
  case (Inl e)
  then show ?thesis
    using credential_filters_Inr [of d] by (auto simp: list_all_iff)
next
  case (Inr m)
  then have wf: "\<forall>q \<in> set (dcql_credentials d). well_formed_query q"
    and m: "m = map_of (map (\<lambda>q. (query_id q, projr (query_filters q))) (rev (dcql_credentials d)))"
    by (simp_all add: credential_filters_Inr)
  have "map_option (\<lambda>q. projr (query_filters q)) (find P (rev (dcql_credentials d))) =
        map_option (\<lambda>q. map (alternative_filter q) (query_alternatives q))
          (find P (rev (dcql_credentials d)))" for P
    using wf by (cases "find P (rev (dcql_credentials d))")
      (auto simp: query_filters_eq dest!: find_in_set)
  with Inr wf m show ?thesis by (simp add: map_of_map_find list_all_iff)
qed

end
