(* ===== verification/Entities.thy ===== *)
theory Entities
  imports Prelude
begin

text \<open>
  The entities of the data model (\<open>one-core/src/model/\<close> and
  \<open>one-core-portable/src/model/\<close>) that several components share. Every record has the
  fields of the source's struct; since a field name is global in Isabelle it carries the
  entity's name as a prefix. Identifiers (UUIDs) are \<open>nat\<close>, an \<open>OffsetDateTime\<close> is the
  number of seconds since the epoch (sub-second parts are not represented), and a URL is its
  text. \<open>LayoutProperties\<close> is kept as its serialised text: no modelled operation looks
  inside it.
\<close>

type_synonym uuid = nat
type_synonym date_time = int
type_synonym duration = int

record Organisation =
  org_id :: uuid
  org_name :: string
  org_created_date :: date_time
  org_last_modified :: date_time
  org_deactivated_at :: "date_time option"
  org_wallet_provider :: "string option"
  org_wallet_provider_issuer :: "uuid option"

section \<open>Keys, DIDs, certificates and identifiers\<close>

datatype KeyAlgorithmType = Eddsa | Ecdsa | BbsPlus | MlDsa

text \<open>The \<open>strum\<close> names of the algorithms, read back by \<open>from_str\<close>.\<close>

definition key_algorithm_from_str :: "string \<Rightarrow> KeyAlgorithmType option" where
  "key_algorithm_from_str s =
     (if s = ''EDDSA'' then Some Eddsa
      else if s = ''ECDSA'' then Some Ecdsa
      else if s = ''BBS_PLUS'' then Some BbsPlus
      else if s = ''ML_DSA'' then Some MlDsa
      else None)"

record Key =
  key_id :: uuid
  key_created_date :: date_time
  key_last_modified :: date_time
  key_public_key :: bytes
  key_name :: string
  key_reference :: "bytes option"
  key_storage_type :: string
  key_type :: string
  key_organisation :: "Organisation option"

definition key_algorithm_type :: "Key \<Rightarrow> KeyAlgorithmType option" where
  "key_algorithm_type k = key_algorithm_from_str (key_type k)"

definition key_is_remote :: "Key \<Rightarrow> bool" where
  "key_is_remote k \<longleftrightarrow> key_reference k = None"

datatype DidType = Remote | Local

datatype KeyRole =
    Authentication
  | AssertionMethod
  | KeyAgreement
  | CapabilityInvocation
  | CapabilityDelegation
  | UpdateKey

record RelatedKey =
  rel_role :: KeyRole
  rel_key :: Key
  rel_reference :: string

record Did =
  did_id :: uuid
  did_created_date :: date_time
  did_last_modified :: date_time
  did_name :: string
  did_did :: string
  did_type :: DidType
  did_method :: string
  did_deactivated :: bool
  did_log :: "string option"
  did_keys :: "RelatedKey list option"
  did_organisation :: "Organisation option"

definition did_is_remote :: "Did \<Rightarrow> bool" where
  "did_is_remote d \<longleftrightarrow> did_type d = Remote"

definition verification_method_id :: "Did \<Rightarrow> RelatedKey \<Rightarrow> string" where
  "verification_method_id d k = did_did d @ ''#'' @ rel_reference k"

datatype CertificateState = NotYetActive | Active | Revoked | Expired

record Certificate =
  cert_id :: uuid
  cert_identifier_id :: uuid
  cert_organisation_id :: "uuid option"
  cert_created_date :: date_time
  cert_last_modified :: date_time
  cert_expiry_date :: date_time
  cert_name :: string
  cert_chain :: string
  cert_fingerprint :: string
  cert_state :: CertificateState
  cert_key :: "Key option"

datatype IdentifierType = IdKey | IdDid | IdCertificate | IdCertificateAuthority

datatype IdentifierState = IdActive | IdDeactivated

record Identifier =
  idf_id :: uuid
  idf_created_date :: date_time
  idf_last_modified :: date_time
  idf_name :: string
  idf_type :: IdentifierType
  idf_is_remote :: bool
  idf_state :: IdentifierState
  idf_deleted_at :: "date_time option"
  idf_organisation :: "Organisation option"
  idf_did :: "Did option"
  idf_key :: "Key option"
  idf_certificates :: "Certificate list option"

definition active_certs :: "Identifier \<Rightarrow> Certificate list option" where
  "active_certs i =
     (if idf_type i \<noteq> IdCertificate \<and> idf_type i \<noteq> IdCertificateAuthority then Some []
      else map_option (filter (\<lambda>c. cert_state c = CertificateState.Active)) (idf_certificates i))"

section \<open>Credential schemas and claims\<close>

record ClaimSchema =
  csch_id :: uuid
  csch_key :: string
  csch_data_type :: string
  csch_created_date :: date_time
  csch_last_modified :: date_time
  csch_array :: bool
  csch_metadata :: bool
  csch_required :: bool

record Claim =
  claim_id :: uuid
  claim_credential_id :: uuid
  claim_created_date :: date_time
  claim_last_modified :: date_time
  claim_value :: "string option"
  claim_path :: string
  claim_selectively_disclosable :: bool
  claim_schema :: "ClaimSchema option"

datatype LayoutType = Card | Document | SingleAttribute

datatype TransactionCodeType = Numeric | Alphanumeric

record TransactionCode =
  tc_type :: TransactionCodeType
  tc_length :: nat
  tc_description :: "string option"

datatype KeyStorageSecurity = High | Moderate | EnhancedBasic | Basic

record CredentialSchema =
  schema_uuid :: uuid
  schema_deleted_at :: "date_time option"
  schema_created_date :: date_time
  schema_last_modified :: date_time
  schema_name :: string
  schema_format :: string
  schema_revocation_method :: "string option"
  schema_key_storage_security :: "KeyStorageSecurity option"
  schema_layout_type :: LayoutType
  schema_layout_properties :: "string option"
  schema_schema_id :: string
  schema_imported_source_url :: string
  schema_allow_suspension :: bool
  schema_requires_wallet_instance_attestation :: bool
  schema_transaction_code :: "TransactionCode option"
  schema_claim_schemas :: "ClaimSchema list option"
  schema_organisation :: "Organisation option"

section \<open>Credentials\<close>

datatype InteractionType = Issuance | Verification

record Interaction =
  inter_id :: uuid
  inter_created_date :: date_time
  inter_last_modified :: date_time
  inter_data :: "bytes option"
  inter_organisation :: "Organisation option"
  inter_nonce_id :: "uuid option"
  inter_type :: InteractionType
  inter_expires_at :: "date_time option"

datatype CredentialStateEnum =
    Created
  | Pending
  | Offered
  | Accepted
  | Rejected
  | Revoked
  | Suspended
  | Error
  | InteractionExpired

datatype CredentialRole = Holder | Issuer | Verifier

record Credential =
  cred_id :: uuid
  cred_created_date :: date_time
  cred_issuance_date :: "date_time option"
  cred_last_modified :: date_time
  cred_deleted_at :: "date_time option"
  cred_protocol :: string
  cred_redirect_uri :: "string option"
  cred_role :: CredentialRole
  cred_state :: CredentialStateEnum
  cred_suspend_end_date :: "date_time option"
  cred_profile :: "string option"
  cred_blob_id :: "uuid option"
  cred_wallet_unit_attestation_blob_id :: "uuid option"
  cred_wallet_instance_attestation_blob_id :: "uuid option"
  cred_webhook_url :: "string option"
  cred_claims :: "Claim list option"
  cred_issuer_identifier :: "Identifier option"
  cred_issuer_certificate :: "Certificate option"
  cred_holder_identifier :: "Identifier option"
  cred_schema :: "CredentialSchema option"
  cred_interaction :: "Interaction option"
  cred_key :: "Key option"

datatype 'a Clearable = ForceSet 'a | DontTouch

record UpdateCredentialRequest =
  upd_issuer_identifier_id :: "uuid option"
  upd_issuer_certificate_id :: "uuid option"
  upd_issuance_date :: "date_time option"
  upd_holder_identifier_id :: "uuid option"
  upd_interaction :: "uuid option"
  upd_key :: "uuid option"
  upd_redirect_uri :: "string option option"
  upd_state :: "CredentialStateEnum option"
  upd_suspend_end_date :: "date_time option Clearable"
  upd_wallet_unit_attestation_blob_id :: "uuid option"
  upd_wallet_instance_attestation_blob_id :: "uuid option"
  upd_claims :: "Claim list option"
  upd_credential_blob_id :: "uuid option"

text \<open>\<open>UpdateCredentialRequest::default()\<close>.\<close>

definition update_credential_default :: UpdateCredentialRequest where
  "update_credential_default =
     \<lparr>upd_issuer_identifier_id = None, upd_issuer_certificate_id = None,
      upd_issuance_date = None, upd_holder_identifier_id = None, upd_interaction = None,
      upd_key = None, upd_redirect_uri = None, upd_state = None,
      upd_suspend_end_date = DontTouch, upd_wallet_unit_attestation_blob_id = None,
      upd_wallet_instance_attestation_blob_id = None, upd_claims = None,
      upd_credential_blob_id = None\<rparr>"

section \<open>Blobs and validity credentials\<close>

datatype BlobType = CredentialBlob | ProofBlob | WalletInstanceAttestation | WalletUnitAttestation

record Blob =
  blob_id :: uuid
  blob_created_date :: date_time
  blob_last_modified :: date_time
  blob_value :: bytes
  blob_type :: BlobType

datatype ValidityCredentialType = MdocValidity

record ValidityCredential =
  vc_id :: uuid
  vc_created_date :: date_time
  vc_credential :: bytes
  vc_linked_credential_id :: uuid
  vc_type :: ValidityCredentialType

section \<open>Configuration of the formats\<close>

datatype FormatType = Jwt | SdJwt | SdJwtVc | JsonLdClassic | JsonLdBbsPlus | Mdoc

text \<open>A configuration block is a sorted dictionary: an association list in the order of its keys.\<close>

type_synonym format_config = "(string \<times> FormatType) list"

end
