(* ===== verification/Claims.thy ===== *)
theory Claims
  imports Entities "HOL-Library.AList" "HOL-Library.Multiset"
begin

text \<open>
  The claims of a credential (\<open>one-core/src/service/credential/mapper.rs\<close>): how the flat list
  of claims is built from a creation request, with the container claims (objects and arrays)
  that the request leaves out, and how the flat list is nested into the tree that the service
  returns. A \<open>HashMap\<close> is an association list in insertion order; the order in which
  \<open>into_values\<close> enumerates it is unspecified in the source, and the theorems do not depend
  on it. The random identifiers of new claims are read from a supply \<open>uuids\<close>. A parsed
  \<open>f64\<close> is a value of the type parameter \<open>'f\<close>.
\<close>

datatype claims_error =
    MissingClaimSchema uuid
  | MappingError string
  | DatatypeConfigError string

record CredentialRequestClaimDTO =
  req_claim_schema_id :: uuid
  req_value :: string
  req_path :: string

abbreviation slash :: char where
  "slash \<equiv> CHR ''/''"

section \<open>Claims of a creation request\<close>

type_synonym claims_map = "(string \<times> Claim) list"

text \<open>The map under construction, and how many identifiers were drawn.\<close>

type_synonym claims_state = "claims_map \<times> nat"

definition new_claim ::
  "(nat \<Rightarrow> uuid) \<Rightarrow> nat \<Rightarrow> uuid \<Rightarrow> date_time \<Rightarrow> string option \<Rightarrow> string \<Rightarrow> ClaimSchema \<Rightarrow> Claim" where
  "new_claim uuids n credential_id now v p schema =
     \<lparr>claim_id = uuids n, claim_credential_id = credential_id, claim_created_date = now,
      claim_last_modified = now, claim_value = v, claim_path = p,
      claim_selectively_disclosable = False, claim_schema = Some schema\<rparr>"

definition put_claim ::
  "(nat \<Rightarrow> uuid) \<Rightarrow> uuid \<Rightarrow> date_time \<Rightarrow> string option \<Rightarrow> string \<Rightarrow> ClaimSchema \<Rightarrow> claims_state \<Rightarrow> claims_state" where
  "put_claim uuids credential_id now v p schema = (\<lambda>(m, n).
     (AList.update p (new_claim uuids n credential_id now v p schema) m, Suc n))"

definition insert_array_parent ::
  "(nat \<Rightarrow> uuid) \<Rightarrow> uuid \<Rightarrow> date_time \<Rightarrow> ClaimSchema \<Rightarrow> claims_state \<Rightarrow> string \<Rightarrow>
     (claims_error, string \<times> claims_state) result" where
  "insert_array_parent uuids credential_id now schema st current_path =
     (if csch_array schema then
        case rsplit_once slash current_path of
          None \<Rightarrow> Inl (MappingError (''Expected '' @ current_path @ '' to contain array element index''))
        | Some (array_path, _) \<Rightarrow>
            Inr (array_path,
                 if map_of (fst st) array_path = None
                 then put_claim uuids credential_id now None array_path schema st else st)
      else Inr (current_path, st))"

lemma insert_array_parent_length:
  "insert_array_parent uuids cid now schema st p = Inr (q, st') \<Longrightarrow> length q \<le> length p"
  by (auto simp: insert_array_parent_def dest: rsplit_once_length
      split: if_splits option.splits)

text \<open>The loop from the leaf towards the root that creates the containers.\<close>

function insert_containers ::
  "(nat \<Rightarrow> uuid) \<Rightarrow> uuid \<Rightarrow> date_time \<Rightarrow> ClaimSchema list \<Rightarrow> string \<Rightarrow> string \<Rightarrow> claims_state \<Rightarrow>
     (claims_error, claims_state) result" where
  "insert_containers uuids credential_id now claim_schemas current_path current_schema_path st =
     (case rsplit_once slash current_path of
        None \<Rightarrow> Inr st
      | Some (parent_path, _) \<Rightarrow>
          if map_of (fst st) parent_path \<noteq> None then Inr st
          else case rsplit_once slash current_schema_path of
                 None \<Rightarrow> Inl (MappingError (''Expected schema path '' @ current_schema_path @
                               '' to contain nested property''))
               | Some (parent_schema_path, _) \<Rightarrow>
                   rbind (ok_or (find (\<lambda>s. csch_key s = parent_schema_path) claim_schemas)
                            (MappingError (''Schema not found for array or object claim with path '' @
                               parent_path))) (\<lambda>schema.
                   rbind (insert_array_parent uuids credential_id now schema
                            (put_claim uuids credential_id now None parent_path schema st)
                            parent_path) (\<lambda>(next_path, st').
                     insert_containers uuids credential_id now claim_schemas next_path
                       parent_schema_path st')))"
  by pat_completeness auto

termination
  by (relation "measure (\<lambda>(_, _, _, _, p, _, _). length p)")
    (auto dest!: insert_array_parent_length rsplit_once_length)

declare insert_containers.simps [simp del]

definition insert_request_claim ::
  "(nat \<Rightarrow> uuid) \<Rightarrow> uuid \<Rightarrow> date_time \<Rightarrow> ClaimSchema list \<Rightarrow> CredentialRequestClaimDTO \<Rightarrow> claims_state \<Rightarrow>
     (claims_error, claims_state) result" where
  "insert_request_claim uuids credential_id now claim_schemas dto st =
     rbind (ok_or (find (\<lambda>s. csch_id s = req_claim_schema_id dto) claim_schemas)
              (MissingClaimSchema (req_claim_schema_id dto))) (\<lambda>schema.
     rbind (insert_array_parent uuids credential_id now schema
              (put_claim uuids credential_id now (Some (req_value dto)) (req_path dto) schema st)
              (req_path dto)) (\<lambda>(current_path, st').
       insert_containers uuids credential_id now claim_schemas current_path (csch_key schema) st'))"

definition claims_from_create_request ::
  "(nat \<Rightarrow> uuid) \<Rightarrow> date_time \<Rightarrow> uuid \<Rightarrow> CredentialRequestClaimDTO list \<Rightarrow> ClaimSchema list \<Rightarrow>
     (claims_error, Claim list) result" where
  "claims_from_create_request uuids now credential_id claims claim_schemas =
     rbind (try_fold (insert_request_claim uuids credential_id now claim_schemas) claims ([], 0))
       (\<lambda>(m, _). Inr (map snd m))"

subsection \<open>Every container is there\<close>

text \<open>
  A list of claims is closed when the parent path of each of its claims is the path of a
  claim. The map under construction has one claim per path, under its own path, and is closed
  except for the path the loop is at.
\<close>

definition closed_claims :: "Claim list \<Rightarrow> bool" where
  "closed_claims cs \<longleftrightarrow>
     (\<forall>c \<in> set cs. \<forall>p s. rsplit_once slash (claim_path c) = Some (p, s) \<longrightarrow>
        p \<in> claim_path ` set cs)"

definition claims_map_ok :: "string set \<Rightarrow> claims_map \<Rightarrow> bool" where
  "claims_map_ok open_paths m \<longleftrightarrow>
     distinct (map fst m) \<and> (\<forall>(p, c) \<in> set m. claim_path c = p) \<and>
     (\<forall>q \<in> fst ` set m. \<forall>p s. rsplit_once slash q = Some (p, s) \<longrightarrow>
        p \<in> fst ` set m \<or> q \<in> open_paths)"

lemma set_update_alist: "distinct (map fst m) \<Longrightarrow>
    set (AList.update k v m) = insert (k, v) {x \<in> set m. fst x \<noteq> k}"
  by (induction m) (auto simp: image_iff)

lemma dom_alist: "map_of m k \<noteq> None \<longleftrightarrow> k \<in> fst ` set m"
  by (metis map_of_eq_None_iff)

lemma put_claim_ok:
  assumes "claims_map_ok ps (fst st)"
  shows "claims_map_ok (insert p ps) (fst (put_claim u cid now v p schema st))"
proof -
  obtain m n where st: "st = (m, n)" by force
  have d: "distinct (map fst (AList.update p c m))" for c
    using assms by (simp add: claims_map_ok_def st distinct_update)
  have "fst ` set (AList.update p c m) = insert p (fst ` set m)" for c
    by (simp add: dom_update)
  moreover have "\<forall>(q, c') \<in> set (AList.update p (new_claim u n cid now v p schema) m). claim_path c' = q"
    using assms by (auto simp: claims_map_ok_def st set_update_alist new_claim_def)
  ultimately show ?thesis
    using assms d by (simp add: claims_map_ok_def st put_claim_def) blast
qed

lemma put_claim_dom:
  "fst ` set (fst (put_claim u cid now v p schema st)) = insert p (fst ` set (fst st))"
  by (cases st) (simp add: put_claim_def dom_update)

lemma claims_map_ok_mono: "claims_map_ok ps m \<Longrightarrow> ps \<subseteq> qs \<Longrightarrow> claims_map_ok qs m"
  by (fastforce simp: claims_map_ok_def)

text \<open>A path stops being open once its parent is in the map.\<close>

lemma claims_map_ok_close:
  assumes "claims_map_ok (insert p ps) m"
    and "\<And>q s. rsplit_once slash p = Some (q, s) \<Longrightarrow> q \<in> fst ` set m"
  shows "claims_map_ok ps m"
  using assms by (fastforce simp: claims_map_ok_def)

lemma insert_array_parent_ok:
  assumes "claims_map_ok {p} (fst st)" and "insert_array_parent u cid now schema st p = Inr (q, st')"
  shows "claims_map_ok {q} (fst st')"
proof (cases "csch_array schema")
  case False
  with assms show ?thesis by (simp add: insert_array_parent_def)
next
  case True
  with assms(2) obtain s where q: "rsplit_once slash p = Some (q, s)"
    and st': "st' = (if map_of (fst st) q = None then put_claim u cid now None q schema st else st)"
    by (auto simp: insert_array_parent_def split: option.splits)
  show ?thesis
  proof (cases "map_of (fst st) q = None")
    case True
    have "claims_map_ok (insert p {q}) (fst st')"
      using put_claim_ok [OF assms(1), of q u cid now None schema] st' True
      by (simp add: insert_commute)
    then show ?thesis
      by (rule claims_map_ok_close) (use q st' True in \<open>auto simp: put_claim_dom\<close>)
  next
    case False
    have "claims_map_ok (insert p {}) (fst st')" using assms(1) st' False by simp
    then have "claims_map_ok {} (fst st')"
      by (rule claims_map_ok_close) (use q st' False dom_alist [of "fst st" q] in auto)
    then show ?thesis by (rule claims_map_ok_mono) simp
  qed
qed

lemma insert_containers_ok:
  "insert_containers u cid now schemas p sp st = Inr st' \<Longrightarrow> claims_map_ok {p} (fst st) \<Longrightarrow>
     claims_map_ok {} (fst st')"
proof (induction u cid now schemas p sp st rule: insert_containers.induct)
  case (1 u cid now schemas p sp st)
  show ?case
  proof (cases "\<exists>pp s. rsplit_once slash p = Some (pp, s) \<and> map_of (fst st) pp = None")
    case False
    with 1(2) have "st' = st"
      by (subst (asm) insert_containers.simps) (auto split: option.splits)
    moreover have "q \<in> fst ` set (fst st)" if "rsplit_once slash p = Some (q, s)" for q s
      using that False dom_alist [of "fst st" q] by auto
    ultimately show ?thesis using claims_map_ok_close [OF 1(3)] by blast
  next
    case True
    then obtain pp s where pp: "rsplit_once slash p = Some (pp, s)" "map_of (fst st) pp = None"
      by blast
    with 1(2) obtain psp s2 schema q st1 where step:
        "rsplit_once slash sp = Some (psp, s2)"
        "find (\<lambda>s. csch_key s = psp) schemas = Some schema"
        "insert_array_parent u cid now schema (put_claim u cid now None pp schema st) pp = Inr (q, st1)"
      and rest: "insert_containers u cid now schemas q psp st1 = Inr st'"
      by (subst (asm) insert_containers.simps) (auto split: option.splits)
    have "claims_map_ok (insert p {pp}) (fst (put_claim u cid now None pp schema st))"
      using put_claim_ok [OF 1(3), of pp u cid now None schema] by (simp add: insert_commute)
    then have "claims_map_ok {pp} (fst (put_claim u cid now None pp schema st))"
      by (rule claims_map_ok_close) (use pp in \<open>auto simp: put_claim_dom\<close>)
    then have "claims_map_ok {q} (fst st1)" using step(3) by (rule insert_array_parent_ok)
    with 1(1) [OF pp(1) refl _ step(1) refl _ step(3) refl] pp(2) step(2) rest show ?thesis by simp
  qed
qed

lemma insert_request_claim_ok:
  assumes "insert_request_claim u cid now schemas dto st = Inr st'" and "claims_map_ok {} (fst st)"
  shows "claims_map_ok {} (fst st')"
proof -
  from assms(1) obtain schema p st1 where
    1: "insert_array_parent u cid now schema
          (put_claim u cid now (Some (req_value dto)) (req_path dto) schema st) (req_path dto) = Inr (p, st1)"
    and 2: "insert_containers u cid now schemas p (csch_key schema) st1 = Inr st'"
    by (auto simp: insert_request_claim_def)
  from put_claim_ok [OF assms(2)] 1 have "claims_map_ok {p} (fst st1)"
    by (rule insert_array_parent_ok)
  with 2 show ?thesis by (rule insert_containers_ok)
qed

lemma try_fold_invariant:
  assumes "try_fold f xs s = Inr t" and "P s"
    and "\<And>x a b. x \<in> set xs \<Longrightarrow> f x a = Inr b \<Longrightarrow> P a \<Longrightarrow> P b"
  shows "P t"
  using assms by (induction xs arbitrary: s) auto

lemma closed_claims_of_map: "claims_map_ok {} m \<Longrightarrow> closed_claims (map snd m) \<and> distinct (map claim_path (map snd m))"
proof -
  assume ok: "claims_map_ok {} m"
  then have "map claim_path (map snd m) = map fst m"
    by (auto simp: claims_map_ok_def)
  then have "claim_path ` set (map snd m) = fst ` set m" by (metis list.set_map)
  with ok show ?thesis
    by (auto simp: claims_map_ok_def closed_claims_def \<open>map claim_path (map snd m) = map fst m\<close>
        simp del: map_map)
qed

subsection \<open>Requested values are kept\<close>

text \<open>Container claims have no value and never replace a claim that is there.\<close>

definition extends :: "claims_map \<Rightarrow> claims_map \<Rightarrow> bool" where
  "extends m m' \<longleftrightarrow>
     (\<forall>p c. map_of m p = Some c \<longrightarrow> map_of m' p = Some c) \<and>
     (\<forall>p c. map_of m p = None \<longrightarrow> map_of m' p = Some c \<longrightarrow> claim_value c = None)"

lemma extends_refl [simp]: "extends m m"
  by (simp add: extends_def)

lemma extends_dom: "extends m m' \<Longrightarrow> dom (map_of m) \<subseteq> dom (map_of m')"
  by (auto simp: extends_def)

lemma extends_trans [trans]:
  assumes "extends m m'" and "extends m' m''"
  shows "extends m m''"
proof -
  have "claim_value c = None" if "map_of m p = None" "map_of m'' p = Some c" for p c
    using that assms by (cases "map_of m' p") (auto simp: extends_def)
  with assms show ?thesis by (auto simp: extends_def)
qed

lemma map_of_put_claim:
  "map_of (fst (put_claim u cid now v p schema st)) =
     (map_of (fst st))(p \<mapsto> new_claim u (snd st) cid now v p schema)"
  by (cases st) (simp add: put_claim_def update_conv')

lemma put_container_extends:
  "map_of (fst st) p = None \<Longrightarrow> extends (fst st) (fst (put_claim u cid now None p schema st))"
  by (auto simp: extends_def map_of_put_claim new_claim_def)

lemma insert_array_parent_extends:
  "insert_array_parent u cid now schema st p = Inr (q, st') \<Longrightarrow> extends (fst st) (fst st')"
  by (auto simp: insert_array_parent_def intro: put_container_extends split: if_splits option.splits)

lemma insert_containers_extends:
  "insert_containers u cid now schemas p sp st = Inr st' \<Longrightarrow> extends (fst st) (fst st')"
proof (induction u cid now schemas p sp st rule: insert_containers.induct)
  case (1 u cid now schemas p sp st)
  show ?case
  proof (cases "\<exists>pp s. rsplit_once slash p = Some (pp, s) \<and> map_of (fst st) pp = None")
    case False
    with 1(2) have "st' = st"
      by (subst (asm) insert_containers.simps) (auto split: option.splits)
    then show ?thesis by simp
  next
    case True
    then obtain pp s where pp: "rsplit_once slash p = Some (pp, s)" "map_of (fst st) pp = None"
      by blast
    with 1(2) obtain psp s2 schema q st1 where step:
        "rsplit_once slash sp = Some (psp, s2)"
        "find (\<lambda>s. csch_key s = psp) schemas = Some schema"
        "insert_array_parent u cid now schema (put_claim u cid now None pp schema st) pp = Inr (q, st1)"
      and rest: "insert_containers u cid now schemas q psp st1 = Inr st'"
      by (subst (asm) insert_containers.simps) (auto split: option.splits)
    from put_container_extends [OF pp(2)] insert_array_parent_extends [OF step(3)]
    have "extends (fst st) (fst st1)" by (rule extends_trans)
    moreover have "extends (fst st1) (fst st')"
      using 1(1) [OF pp(1) refl _ step(1) refl _ step(3) refl] pp(2) step(2) rest by simp
    ultimately show ?thesis by (rule extends_trans)
  qed
qed

definition requested_value :: "CredentialRequestClaimDTO list \<Rightarrow> string \<Rightarrow> string option" where
  "requested_value reqs p = map_option req_value (find (\<lambda>r. req_path r = p) (rev reqs))"

lemma requested_value_snoc:
  "requested_value (reqs @ [r]) p = (if req_path r = p then Some (req_value r) else requested_value reqs p)"
  by (simp add: requested_value_def)

lemma requested_value_None: "p \<notin> req_path ` set reqs \<Longrightarrow> requested_value reqs p = None"
  by (force simp: requested_value_def find_None_iff)

lemma insert_request_claims_values:
  assumes "try_fold (insert_request_claim u cid now schemas) reqs ([], 0) = Inr st"
  shows "(\<forall>p c. map_of (fst st) p = Some c \<longrightarrow> claim_value c = requested_value reqs p) \<and>
         req_path ` set reqs \<subseteq> dom (map_of (fst st))"
  using assms
proof (induction reqs arbitrary: st rule: rev_induct)
  case (snoc r reqs)
  then obtain st0 where st0: "try_fold (insert_request_claim u cid now schemas) reqs ([], 0) = Inr st0"
    and "insert_request_claim u cid now schemas r st0 = Inr st"
    by (auto simp: try_fold_append)
  then obtain schema where ext:
    "extends (fst (put_claim u cid now (Some (req_value r)) (req_path r) schema st0)) (fst st)"
    by (auto simp: insert_request_claim_def
        dest!: insert_array_parent_extends insert_containers_extends intro: extends_trans)
  note IH = snoc.IH [OF st0]
  have "claim_value c = requested_value (reqs @ [r]) p" if c: "map_of (fst st) p = Some c" for p c
  proof (cases "map_of (fst (put_claim u cid now (Some (req_value r)) (req_path r) schema st0)) p")
    case None
    then have "p \<noteq> req_path r" and "map_of (fst st0) p = None"
      by (auto simp: map_of_put_claim split: if_splits)
    with IH requested_value_None [of p reqs] have "requested_value (reqs @ [r]) p = None"
      by (auto simp: requested_value_snoc)
    moreover have "claim_value c = None" using ext None c by (auto simp: extends_def)
    ultimately show ?thesis by simp
  next
    case (Some c')
    with ext c have "c' = c" by (auto simp: extends_def)
    with Some IH show ?thesis
      by (auto simp: map_of_put_claim requested_value_snoc new_claim_def split: if_splits)
  qed
  moreover have "req_path ` set (reqs @ [r]) \<subseteq> dom (map_of (fst st))"
    using IH extends_dom [OF ext] by (simp add: map_of_put_claim) blast
  ultimately show ?case by blast
qed auto

text \<open>
  C9. When the claims of a creation request are accepted, the stored claims contain one claim
  per path: every requested path with the value requested for it (the last one, if the path is
  given twice), and, without value, every object and array above it, up to the root. No other
  claim has a value.
\<close>

theorem claims_from_create_request_complete:
  assumes "claims_from_create_request uuids now credential_id reqs schemas = Inr cs"
  shows "closed_claims cs \<and> distinct (map claim_path cs) \<and>
         req_path ` set reqs \<subseteq> claim_path ` set cs \<and>
         (\<forall>c \<in> set cs. claim_value c = requested_value reqs (claim_path c))"
proof -
  from assms obtain st where fold:
      "try_fold (insert_request_claim uuids credential_id now schemas) reqs ([], 0) = Inr st"
    and cs: "cs = map snd (fst st)"
    by (auto simp: claims_from_create_request_def split: prod.splits)
  have ok: "claims_map_ok {} (fst st)"
    by (rule try_fold_invariant [where P = "\<lambda>st. claims_map_ok {} (fst st)", OF fold])
      (auto simp: claims_map_ok_def [of "{}" "[]"] intro: insert_request_claim_ok)
  then have m: "map_of (fst st) (claim_path c) = Some c" if "c \<in> set cs" for c
    using that by (auto simp: cs claims_map_ok_def)
  moreover from ok have "claim_path ` set cs = dom (map_of (fst st))"
    by (force simp: cs claims_map_ok_def dom_map_of_conv_image_fst)
  ultimately show ?thesis
    using insert_request_claims_values [OF fold] closed_claims_of_map [OF ok] by (auto simp: cs)
qed

definition example_schema :: "nat \<Rightarrow> string \<Rightarrow> string \<Rightarrow> bool \<Rightarrow> ClaimSchema" where
  "example_schema i k t arr =
     \<lparr>csch_id = i, csch_key = k, csch_data_type = t, csch_created_date = 0, csch_last_modified = 0,
      csch_array = arr, csch_metadata = False, csch_required = True\<rparr>"

definition example_schemas :: "ClaimSchema list" where
  "example_schemas = [example_schema 1 ''a'' ''OBJECT'' False, example_schema 2 ''a/n'' ''NUMBER'' True]"

definition example_claims :: "Claim list" where
  "example_claims =
     [new_claim (\<lambda>n. n) 0 9 5 (Some ''7'') ''a/n/0'' (example_schema 2 ''a/n'' ''NUMBER'' True),
      new_claim (\<lambda>n. n) 1 9 5 None ''a/n'' (example_schema 2 ''a/n'' ''NUMBER'' True),
      new_claim (\<lambda>n. n) 2 9 5 None ''a'' (example_schema 1 ''a'' ''OBJECT'' False)]"

theorem claims_from_create_request_complete_witness:
  "claims_from_create_request (\<lambda>n. n) 5 9
     [\<lparr>req_claim_schema_id = 2, req_value = ''7'', req_path = ''a/n/0''\<rparr>] example_schemas =
     Inr example_claims \<and> closed_claims example_claims"
proof -
  have "claims_from_create_request (\<lambda>n. n) 5 9
     [\<lparr>req_claim_schema_id = 2, req_value = ''7'', req_path = ''a/n/0''\<rparr>] example_schemas =
     Inr example_claims"
    by code_simp
  with claims_from_create_request_complete [OF this] show ?thesis by simp
qed

end
