(* ===== verification/Claim_Tree.thy ===== *)
theory Claim_Tree
  imports Claims
begin

text \<open>
  The nested form of a credential's claims (\<open>one-core/src/service/credential/mapper.rs\<close>,
  \<open>credential_detail_response_from_model\<close>). \<open>get_or_insert\<close> returns a mutable reference into
  the tree; here it takes the continuation that uses the reference. The comparison of the
  crate \<open>human_sort\<close>, the parser of \<open>f64\<close> and the configuration are parameters. A response
  object that copies fields of an entity is represented by that entity.
\<close>

datatype DatatypeType =
    StringT | NumberT | DateT | PictureT | SwiyuPictureT | ObjectT | ArrayT | BooleanT

record CredentialClaimSchemaDTO =
  cdto_id :: uuid
  cdto_created_date :: date_time
  cdto_last_modified :: date_time
  cdto_key :: string
  cdto_datatype :: string
  cdto_required :: bool
  cdto_array :: bool

datatype ('f, 't) DetailValue =
    BooleanV bool
  | FloatV 'f
  | IntegerV int
  | StringV string
  | Nested "'t list"

datatype 'f DetailClaim =
  DetailClaim (dc_path: string) (dc_schema: CredentialClaimSchemaDTO)
    (dc_value: "('f, 'f DetailClaim) DetailValue")

fun with_value :: "'f DetailClaim \<Rightarrow> ('f, 'f DetailClaim) DetailValue \<Rightarrow> 'f DetailClaim" where
  "with_value (DetailClaim p s _) v = DetailClaim p s v"

definition claim_schema_dto :: "ClaimSchema \<Rightarrow> CredentialClaimSchemaDTO" where
  "claim_schema_dto s =
     \<lparr>cdto_id = csch_id s, cdto_created_date = csch_created_date s,
      cdto_last_modified = csch_last_modified s, cdto_key = csch_key s,
      cdto_datatype = csch_data_type s, cdto_required = csch_required s,
      cdto_array = csch_array s\<rparr>"

section \<open>Values\<close>

text \<open>\<open>parse::<i64>\<close>: an optional sign, at least one digit, and the range of the type.\<close>

definition parse_i64 :: "string \<Rightarrow> int option" where
  "parse_i64 s =
     (let (neg, ds) = (case s of c # cs \<Rightarrow> if c = CHR ''-'' then (True, cs)
                                    else if c = CHR ''+'' then (False, cs) else (False, s)
                               | [] \<Rightarrow> (False, s))
      in if ds = [] then None
         else case parse_digits ds 0 of
                None \<Rightarrow> None
              | Some n \<Rightarrow> let i = (if neg then - int n else int n) in
                          if - (2 ^ 63) \<le> i \<and> i < 2 ^ 63 then Some i else None)"

definition parse_bool :: "string \<Rightarrow> bool option" where
  "parse_bool s = (if s = ''true'' then Some True else if s = ''false'' then Some False else None)"

definition typed_value ::
  "(string \<Rightarrow> 'f option) \<Rightarrow> DatatypeType \<Rightarrow> string \<Rightarrow> ('f, 't) DetailValue" where
  "typed_value parse_f64 t v =
     (case t of
        NumberT \<Rightarrow> (case parse_i64 v of
                      Some n \<Rightarrow> IntegerV n
                    | None \<Rightarrow> (case parse_f64 v of Some f \<Rightarrow> FloatV f | None \<Rightarrow> StringV []))
      | BooleanT \<Rightarrow> (case parse_bool v of Some b \<Rightarrow> BooleanV b | None \<Rightarrow> StringV [])
      | _ \<Rightarrow> StringV v)"

record 'f mapper_env =
  env_datatype :: "string \<Rightarrow> DatatypeType option"
  env_parse_f64 :: "string \<Rightarrow> 'f option"
  env_human_le :: "string \<Rightarrow> string \<Rightarrow> bool"

definition claim_to_dto ::
  "'f mapper_env \<Rightarrow> Claim \<Rightarrow> ClaimSchema \<Rightarrow> (claims_error, 'f DetailClaim) result" where
  "claim_to_dto env claim schema =
     rbind (ok_or (claim_value claim) (MappingError ''Missing value on leaf claim'')) (\<lambda>v.
     rbind (ok_or (env_datatype env (csch_data_type schema))
              (DatatypeConfigError (csch_data_type schema))) (\<lambda>t.
       Inr (DetailClaim (claim_path claim) (claim_schema_dto schema)
              (typed_value (env_parse_f64 env) t v))))"

section \<open>Building the tree\<close>

fun position :: "('a \<Rightarrow> bool) \<Rightarrow> 'a list \<Rightarrow> nat option" where
  "position P [] = None"
| "position P (x # xs) = (if P x then Some 0 else map_option Suc (position P xs))"

text \<open>
  The element that satisfies a predicate, or else a new one pushed at the end, handed to a
  continuation that replaces it.
\<close>

definition update_or_push ::
  "('a \<Rightarrow> bool) \<Rightarrow> ('e, 'a) result \<Rightarrow> ('a \<Rightarrow> ('e, 'a) result) \<Rightarrow> 'a list \<Rightarrow> ('e, 'a list) result" where
  "update_or_push P new k xs =
     (case position P xs of
        Some i \<Rightarrow> rbind (k (xs ! i)) (\<lambda>x. Inr (xs[i := x]))
      | None \<Rightarrow> rbind new (\<lambda>y. rbind (k y) (\<lambda>x. Inr (xs @ [x]))))"

definition from_path_to_key :: "'f DetailClaim \<Rightarrow> string \<Rightarrow> (claims_error, string) result" where
  "from_path_to_key parent p =
     (if cdto_array (dc_schema parent) then Inr (cdto_key (dc_schema parent))
      else if prefix (dc_path parent) p
           then Inr (cdto_key (dc_schema parent) @ drop (length (dc_path parent)) p)
           else Inl (MappingError ''invalid path''))"

definition find_schema :: "ClaimSchema list \<Rightarrow> string \<Rightarrow> string \<Rightarrow> (claims_error, ClaimSchema) result" where
  "find_schema claim_schemas k message = ok_or (find (\<lambda>s. csch_key s = k) claim_schemas) (MappingError message)"

text \<open>An element of an array has the array's schema without the array flag.\<close>

definition item_schema :: "'f DetailClaim \<Rightarrow> ClaimSchema \<Rightarrow> ClaimSchema" where
  "item_schema parent s = (if cdto_array (dc_schema parent) then s\<lparr>csch_array := False\<rparr> else s)"

function get_or_insert ::
  "ClaimSchema list \<Rightarrow> 'f DetailClaim list \<Rightarrow> string \<Rightarrow>
     ('f DetailClaim \<Rightarrow> (claims_error, 'f DetailClaim) result) \<Rightarrow>
     (claims_error, 'f DetailClaim list) result" where
  "get_or_insert claim_schemas root p k =
     (case rsplit_once slash p of
        Some (head, _) \<Rightarrow>
          get_or_insert claim_schemas root head (\<lambda>parent.
            rbind (from_path_to_key parent p) (\<lambda>key.
              case dc_value parent of
                Nested claims \<Rightarrow>
                  rbind (update_or_push (\<lambda>c. dc_path c = p)
                           (rbind (find_schema claim_schemas key ''missing claim schema'') (\<lambda>s.
                              Inr (DetailClaim p (claim_schema_dto (item_schema parent s)) (Nested []))))
                           k claims)
                    (\<lambda>claims'. Inr (with_value parent (Nested claims')))
              | _ \<Rightarrow> Inl (MappingError ''Parent claim should be nested'')))
      | None \<Rightarrow>
          update_or_push (\<lambda>c. cdto_key (dc_schema c) = p)
            (rbind (find_schema claim_schemas p ''missing claim schema'') (\<lambda>s.
               Inr (DetailClaim p (claim_schema_dto s) (Nested []))))
            k root)"
  by pat_completeness auto

termination
  by (relation "measure (\<lambda>(_, _, p, _). length p)") (auto dest: rsplit_once_length)

declare get_or_insert.simps [simp del]

definition insert_claim ::
  "'f mapper_env \<Rightarrow> ClaimSchema list \<Rightarrow> Claim \<Rightarrow> 'f DetailClaim list \<Rightarrow>
     (claims_error, 'f DetailClaim list) result" where
  "insert_claim env claim_schemas claim root =
     (case (rsplit_once slash (claim_path claim), claim_value claim) of
        (Some (head, _), Some _) \<Rightarrow>
          get_or_insert claim_schemas root head (\<lambda>parent.
            case dc_value parent of
              Nested claims \<Rightarrow>
                rbind (ok_or (claim_schema claim) (MappingError ''claim.schema is missing'')) (\<lambda>s.
                rbind (find_schema claim_schemas (csch_key s) ''claim.schema is unknown'') (\<lambda>s'.
                rbind (claim_to_dto env claim (item_schema parent s')) (\<lambda>dto.
                  Inr (with_value parent (Nested (claims @ [dto]))))))
            | _ \<Rightarrow> Inl (MappingError ''Parent claim should be nested''))
      | (None, Some _) \<Rightarrow>
          rbind (ok_or (claim_schema claim) (MappingError ''claim.schema is missing'')) (\<lambda>s.
          rbind (find_schema claim_schemas (csch_key s) ''claim.schema is unknown'') (\<lambda>s'.
          rbind (claim_to_dto env claim s') (\<lambda>dto. Inr (root @ [dto]))))
      | (_, None) \<Rightarrow> get_or_insert claim_schemas root (claim_path claim) Inr)"

text \<open>\<open>sort_by\<close> is stable; array elements are sorted by their paths, at every level.\<close>

fun insert_by :: "('a \<Rightarrow> 'a \<Rightarrow> bool) \<Rightarrow> 'a \<Rightarrow> 'a list \<Rightarrow> 'a list" where
  "insert_by le x [] = [x]"
| "insert_by le x (y # ys) = (if le x y then x # y # ys else y # insert_by le x ys)"

definition sort_by :: "('a \<Rightarrow> 'a \<Rightarrow> bool) \<Rightarrow> 'a list \<Rightarrow> 'a list" where
  "sort_by le xs = foldr (insert_by le) xs []"

lemma mset_sort_by [simp]: "mset (sort_by le xs) = mset xs"
proof -
  have "mset (insert_by le x ys) = add_mset x (mset ys)" for x ys by (induction ys) auto
  then show ?thesis unfolding sort_by_def by (induction xs) auto
qed

lemma set_sort_by [simp]: "set (sort_by le xs) = set xs"
  by (metis mset_sort_by set_mset_mset)

definition sort_children :: "'f mapper_env \<Rightarrow> CredentialClaimSchemaDTO \<Rightarrow> 'f DetailClaim list \<Rightarrow> 'f DetailClaim list" where
  "sort_children env s claims =
     (if cdto_array s then sort_by (\<lambda>l r. env_human_le env (dc_path l) (dc_path r)) claims else claims)"

lemma set_sort_children [simp, termination_simp]: "set (sort_children env s claims) = set claims"
  by (simp add: sort_children_def)

lemma mset_sort_children [simp]: "mset (sort_children env s claims) = mset claims"
  by (simp add: sort_children_def)

fun sort_claim :: "'f mapper_env \<Rightarrow> 'f DetailClaim \<Rightarrow> 'f DetailClaim" where
  "sort_claim env (DetailClaim p s v) =
     DetailClaim p s
       (case v of
          Nested claims \<Rightarrow> Nested (map (sort_claim env) (sort_children env s claims))
        | _ \<Rightarrow> v)"

definition sort_claims :: "'f mapper_env \<Rightarrow> 'f DetailClaim list \<Rightarrow> 'f DetailClaim list" where
  "sort_claims env = map (sort_claim env)"

definition from_vec_claim ::
  "'f mapper_env \<Rightarrow> Claim list \<Rightarrow> CredentialSchema \<Rightarrow> (claims_error, 'f DetailClaim list) result" where
  "from_vec_claim env claims schema =
     rbind (ok_or (schema_claim_schemas schema) (MappingError ''claim_schemas is None'')) (\<lambda>claim_schemas.
     rbind (try_fold (insert_claim env claim_schemas) claims []) (\<lambda>tree.
       Inr (sort_claims env tree)))"

section \<open>The whole response\<close>

record MdocMsoValidity =
  mso_expiration :: date_time
  mso_next_update :: date_time
  mso_last_update :: date_time

record CredentialAttestationBlobs =
  wallet_instance_attestation_blob :: "Blob option"
  wallet_unit_attestation_blob :: "Blob option"

record 't CredentialDetailResponseDTO =
  detail_id :: uuid
  detail_created_date :: date_time
  detail_issuance_date :: "date_time option"
  detail_revocation_date :: "date_time option"
  detail_state :: CredentialStateEnum
  detail_last_modified :: date_time
  detail_schema :: CredentialSchema
  detail_issuer :: "Identifier option"
  detail_issuer_certificate :: "Certificate option"
  detail_claims :: "'t list"
  detail_redirect_uri :: "string option"
  detail_role :: CredentialRole
  detail_suspend_end_date :: "date_time option"
  detail_mdoc_mso_validity :: "MdocMsoValidity option"
  detail_holder :: "Identifier option"
  detail_protocol :: string
  detail_profile :: "string option"
  detail_wallet_instance_attestation :: "string option"
  detail_wallet_unit_attestation :: "string option"
  detail_webhook_destination_url :: "string option"

text \<open>
  What the response needs besides the tree: the mdoc parameters of a format, the X.509 parser
  that a certificate must pass, and the JSON parsers of the two attestations.
\<close>

record response_env =
  env_mdoc_params :: "string \<Rightarrow> (duration \<times> duration) option"
  env_x509_ok :: "string \<Rightarrow> bool"
  env_parse_wallet_instance :: "bytes \<Rightarrow> string option"
  env_parse_wallet_unit :: "bytes \<Rightarrow> string option"

definition get_revocation_date :: "CredentialStateEnum \<Rightarrow> date_time \<Rightarrow> date_time option" where
  "get_revocation_date state last_modified =
     (if state = CredentialStateEnum.Revoked then Some last_modified else None)"

definition attestation_of ::
  "BlobType \<Rightarrow> (bytes \<Rightarrow> string option) \<Rightarrow> Blob option \<Rightarrow> (claims_error, string option) result" where
  "attestation_of t parse blob =
     (case blob of
        None \<Rightarrow> Inr None
      | Some b \<Rightarrow>
          if blob_type b \<noteq> t then Inl (MappingError ''Failed to parse attestation blob of type'')
          else rbind (ok_or (parse (blob_value b)) (MappingError ''Failed to parse attestation blob''))
                 (\<lambda>a. Inr (Some a)))"

definition credential_detail_response_from_model ::
  "'f mapper_env \<Rightarrow> response_env \<Rightarrow> Credential \<Rightarrow> ValidityCredential option \<Rightarrow> CredentialAttestationBlobs \<Rightarrow>
     (claims_error, 'f DetailClaim CredentialDetailResponseDTO) result" where
  "credential_detail_response_from_model env renv c validity_credential attestation =
     rbind (ok_or (cred_schema c) (MappingError ''credential_schema is None'')) (\<lambda>schema.
     rbind (ok_or (cred_claims c) (MappingError ''claims is None'')) (\<lambda>all_claims.
     let claims = filter (\<lambda>cl. \<not> (case claim_schema cl of None \<Rightarrow> False | Some s \<Rightarrow> csch_metadata s)) all_claims in
     rbind (case validity_credential of
              None \<Rightarrow> Inr None
            | Some vc \<Rightarrow>
                rbind (ok_or (env_mdoc_params renv (schema_format schema)) (MappingError ''getting MDOC params''))
                  (\<lambda>(expires_in, update_in).
                     Inr (Some \<lparr>mso_expiration = vc_created_date vc + expires_in,
                                mso_next_update = vc_created_date vc + update_in,
                                mso_last_update = vc_created_date vc\<rparr>))) (\<lambda>validity.
     rbind (case cred_issuer_certificate c of
              None \<Rightarrow> Inr None
            | Some cert \<Rightarrow> if env_x509_ok renv (cert_chain cert) then Inr (Some cert)
                          else Inl (MappingError ''converting certificate'')) (\<lambda>certificate.
     rbind (from_vec_claim env claims schema) (\<lambda>tree.
     rbind (ensure (schema_organisation schema \<noteq> None) (MappingError ''Organisation has not been fetched'')) (\<lambda>_.
     rbind (attestation_of WalletInstanceAttestation (env_parse_wallet_instance renv)
              (wallet_instance_attestation_blob attestation)) (\<lambda>wia.
     rbind (attestation_of WalletUnitAttestation (env_parse_wallet_unit renv)
              (wallet_unit_attestation_blob attestation)) (\<lambda>wua.
       Inr \<lparr>detail_id = cred_id c, detail_created_date = cred_created_date c,
            detail_issuance_date = cred_issuance_date c,
            detail_revocation_date = get_revocation_date (cred_state c) (cred_last_modified c),
            detail_state = cred_state c, detail_last_modified = cred_last_modified c,
            detail_schema = schema, detail_issuer = cred_issuer_identifier c,
            detail_issuer_certificate = certificate, detail_claims = tree,
            detail_redirect_uri = cred_redirect_uri c, detail_role = cred_role c,
            detail_suspend_end_date = cred_suspend_end_date c,
            detail_mdoc_mso_validity = validity, detail_holder = cred_holder_identifier c,
            detail_protocol = cred_protocol c, detail_profile = cred_profile c,
            detail_wallet_instance_attestation = wia, detail_wallet_unit_attestation = wua,
            detail_webhook_destination_url = cred_webhook_url c\<rparr>))))))))"

section \<open>The leaves of the tree are the claims with a value\<close>

text \<open>The paths and values of the nodes that are not containers.\<close>

fun leaves :: "'f DetailClaim \<Rightarrow> (string \<times> ('f, 'f DetailClaim) DetailValue) list" where
  "leaves (DetailClaim p s v) =
     (case v of Nested claims \<Rightarrow> concat (map leaves claims) | _ \<Rightarrow> [(p, v)])"

definition tree_leaves :: "'f DetailClaim list \<Rightarrow> (string \<times> ('f, 'f DetailClaim) DetailValue) multiset" where
  "tree_leaves tree = mset (concat (map leaves tree))"

lemma tree_leaves_append [simp]: "tree_leaves (xs @ ys) = tree_leaves xs + tree_leaves ys"
  by (simp add: tree_leaves_def)

lemma tree_leaves_Nil [simp]: "tree_leaves [] = {#}"
  and tree_leaves_Cons: "tree_leaves (x # xs) = mset (leaves x) + tree_leaves xs"
  by (simp_all add: tree_leaves_def)

lemma leaves_nested: "dc_value n = Nested claims \<Longrightarrow> mset (leaves n) = tree_leaves claims"
  and leaves_with_nested: "mset (leaves (with_value n (Nested claims))) = tree_leaves claims"
  by (cases n; simp add: tree_leaves_def)+

lemma tree_leaves_update:
  "i < length xs \<Longrightarrow> mset (leaves y) = mset (leaves (xs ! i)) + X \<Longrightarrow>
     tree_leaves (xs[i := y]) = tree_leaves xs + X"
  by (induction xs arbitrary: i) (auto simp: tree_leaves_Cons split: nat.splits)

lemma position_less: "position P xs = Some i \<Longrightarrow> i < length xs"
  by (induction xs arbitrary: i) (auto split: if_splits)

text \<open>
  A continuation that adds the leaves \<open>X\<close> to its node adds them to the tree, whether the node
  was found or inserted.
\<close>

lemma update_or_push_leaves:
  assumes "update_or_push P new k xs = Inr ys"
    and "\<And>n n'. k n = Inr n' \<Longrightarrow> mset (leaves n') = mset (leaves n) + X"
    and "\<And>n. new = Inr n \<Longrightarrow> leaves n = []"
  shows "tree_leaves ys = tree_leaves xs + X"
  using assms
  by (auto simp: update_or_push_def tree_leaves_Cons tree_leaves_update position_less
      split: option.splits)

lemma get_or_insert_leaves:
  assumes "get_or_insert schemas root p k = Inr root'"
    and "\<And>n n'. k n = Inr n' \<Longrightarrow> mset (leaves n') = mset (leaves n) + X"
  shows "tree_leaves root' = tree_leaves root + X"
  using assms
proof (induction schemas root p k arbitrary: root' rule: get_or_insert.induct)
  case (1 schemas root p k)
  show ?case
  proof (cases "rsplit_once slash p")
    case None
    with 1(2) have "update_or_push (\<lambda>c. cdto_key (dc_schema c) = p)
       (rbind (find_schema schemas p ''missing claim schema'') (\<lambda>s.
          Inr (DetailClaim p (claim_schema_dto s) (Nested [])))) k root = Inr root'"
      by (subst (asm) get_or_insert.simps) simp
    then show ?thesis by (rule update_or_push_leaves [OF _ 1(3)]) auto
  next
    case (Some hs)
    obtain head s where hs: "rsplit_once slash p = Some (head, s)" using Some by (cases hs) auto
    define k' where "k' = (\<lambda>parent. rbind (from_path_to_key parent p) (\<lambda>key.
              case dc_value parent of
                Nested claims \<Rightarrow>
                  rbind (update_or_push (\<lambda>c. dc_path c = p)
                           (rbind (find_schema schemas key ''missing claim schema'') (\<lambda>s.
                              Inr (DetailClaim p (claim_schema_dto (item_schema parent s)) (Nested []))))
                           k claims)
                    (\<lambda>claims'. Inr (with_value parent (Nested claims')))
              | _ \<Rightarrow> Inl (MappingError ''Parent claim should be nested'')))"
    have step: "mset (leaves n') = mset (leaves n) + X" if "k' n = Inr n'" for n n'
    proof -
      from that obtain key claims claims' where n: "dc_value n = Nested claims"
        and up: "update_or_push (\<lambda>c. dc_path c = p)
                   (rbind (find_schema schemas key ''missing claim schema'') (\<lambda>s.
                      Inr (DetailClaim p (claim_schema_dto (item_schema n s)) (Nested []))))
                   k claims = Inr claims'"
        and n': "n' = with_value n (Nested claims')"
        by (cases "dc_value n") (auto simp: k'_def)
      have "tree_leaves claims' = tree_leaves claims + X"
        by (rule update_or_push_leaves [OF up 1(3)]) auto
      then show ?thesis by (simp add: n' leaves_with_nested leaves_nested [OF n])
    qed
    have "get_or_insert schemas root head k' = Inr root'"
      using 1(2) hs by (subst (asm) get_or_insert.simps) (simp add: k'_def)
    with 1(1) [OF hs refl] step show ?thesis by (simp add: k'_def)
  qed
qed

text \<open>The leaf that a claim contributes: none for a container, else its path and typed value.\<close>

definition claim_leaf ::
  "'f mapper_env \<Rightarrow> ClaimSchema list \<Rightarrow> Claim \<Rightarrow> (string \<times> ('f, 'f DetailClaim) DetailValue) multiset" where
  "claim_leaf env schemas c =
     (case claim_value c of
        None \<Rightarrow> {#}
      | Some v \<Rightarrow>
          let s = the (find (\<lambda>s. csch_key s = csch_key (the (claim_schema c))) schemas) in
          {#(claim_path c, typed_value (env_parse_f64 env) (the (env_datatype env (csch_data_type s))) v)#})"

lemma typed_value_leaf: "typed_value pf t v \<noteq> Nested claims"
  by (auto simp: typed_value_def split: DatatypeType.splits option.splits)

lemma claim_to_dto_leaves:
  assumes "claim_to_dto env c s = Inr dto"
  shows "\<exists>v t. claim_value c = Some v \<and> env_datatype env (csch_data_type s) = Some t \<and>
           leaves dto = [(claim_path c, typed_value (env_parse_f64 env) t v)]"
proof -
  from assms obtain v t where "claim_value c = Some v" "env_datatype env (csch_data_type s) = Some t"
    and "dto = DetailClaim (claim_path c) (claim_schema_dto s) (typed_value (env_parse_f64 env) t v)"
    by (auto simp: claim_to_dto_def)
  then show ?thesis
    using typed_value_leaf [of "env_parse_f64 env" t v] by (auto split: DetailValue.splits)
qed

lemma claim_to_dto_leaf:
  assumes "claim_to_dto env c s = Inr dto" and "claim_schema c = Some s0"
    and "find_schema schemas (csch_key s0) msg = Inr s'" and "csch_data_type s = csch_data_type s'"
  shows "mset (leaves dto) = claim_leaf env schemas c"
  using claim_to_dto_leaves [OF assms(1)] assms(2-4)
  by (auto simp: claim_leaf_def find_schema_def)

lemma item_schema_data_type [simp]: "csch_data_type (item_schema parent s) = csch_data_type s"
  by (simp add: item_schema_def)

lemma insert_claim_leaves:
  assumes "insert_claim env schemas c root = Inr root'"
  shows "tree_leaves root' = tree_leaves root + claim_leaf env schemas c"
proof (cases "claim_value c")
  case None
  with assms have "get_or_insert schemas root (claim_path c) Inr = Inr root'"
    by (simp add: insert_claim_def split: option.splits)
  then have "tree_leaves root' = tree_leaves root + {#}"
    by (rule get_or_insert_leaves) simp
  with None show ?thesis by (simp add: claim_leaf_def)
next
  case (Some v)
  show ?thesis
  proof (cases "rsplit_once slash (claim_path c)")
    case None
    with assms Some show ?thesis
      by (auto simp: insert_claim_def tree_leaves_Cons dest: claim_to_dto_leaf)
  next
    case (Some hs)
    obtain head s where hs: "hs = (head, s)" by force
    from assms Some \<open>claim_value c = Some v\<close> show ?thesis unfolding hs insert_claim_def
      by simp (erule get_or_insert_leaves,
        auto simp: leaves_with_nested leaves_nested tree_leaves_Cons
          dest: claim_to_dto_leaf split: DetailValue.splits)
  qed
qed

lemma try_fold_insert_leaves:
  "try_fold (insert_claim env schemas) claims root = Inr tree \<Longrightarrow>
     tree_leaves tree = tree_leaves root + sum_list (map (claim_leaf env schemas) claims)"
  by (induction claims arbitrary: root) (auto dest!: insert_claim_leaves simp: add.assoc)

lemma leaves_sort_claim [simp]: "mset (leaves (sort_claim env c)) = mset (leaves c)"
proof (induction c)
  case (DetailClaim p s v)
  show ?case
  proof (cases v)
    case (Nested claims)
    let ?L = "\<lambda>f cs. \<Sum>c\<in>#mset cs. mset (leaves (f c))"
    have mset_leaves: "mset (concat (map (\<lambda>c. leaves (f c)) cs)) = ?L f cs" for f cs
      by (induction cs) auto
    have "mset (leaves (sort_claim env (DetailClaim p s v))) = ?L (sort_claim env) (sort_children env s claims)"
      by (simp add: Nested comp_def mset_leaves)
    also have "\<dots> = ?L (sort_claim env) claims" by simp
    also have "\<dots> = ?L (\<lambda>c. c) claims"
      using DetailClaim.IH Nested by (intro arg_cong [where f = sum_mset] image_mset_cong) auto
    also have "\<dots> = mset (leaves (DetailClaim p s v))" using mset_leaves [of "\<lambda>c. c" claims] by (simp add: Nested)
    finally show ?thesis .
  qed auto
qed

lemma tree_leaves_sort_claims [simp]: "tree_leaves (sort_claims env cs) = tree_leaves cs"
  unfolding sort_claims_def by (induction cs) (auto simp: tree_leaves_Cons)

text \<open>
  C20. When the tree of a credential's claims is built, nothing is lost and nothing is invented:
  the leaves of the tree are, with multiplicity, the paths of the claims that have a value,
  each with that value read at the data type of its schema. Containers and sorting add and
  remove none.
\<close>

theorem from_vec_claim_leaves:
  assumes "from_vec_claim env claims schema = Inr tree" and "schema_claim_schemas schema = Some schemas"
  shows "tree_leaves tree = sum_list (map (claim_leaf env schemas) claims) \<and>
         image_mset fst (tree_leaves tree) =
           mset (map claim_path (filter (\<lambda>c. claim_value c \<noteq> None) claims))"
proof -
  from assms obtain t where "try_fold (insert_claim env schemas) claims [] = Inr t"
    and "tree = sort_claims env t"
    by (auto simp: from_vec_claim_def)
  then have "tree_leaves tree = sum_list (map (claim_leaf env schemas) claims)"
    by (simp add: try_fold_insert_leaves)
  moreover have "image_mset fst (sum_list (map (claim_leaf env schemas) claims)) =
      mset (map claim_path (filter (\<lambda>c. claim_value c \<noteq> None) claims))"
    by (induction claims) (auto simp: claim_leaf_def Let_def split: option.splits)
  ultimately show ?thesis by simp
qed

definition example_env :: "unit mapper_env" where
  "example_env = \<lparr>env_datatype = (\<lambda>t. if t = ''NUMBER'' then Some NumberT else Some ObjectT),
                  env_parse_f64 = (\<lambda>_. None), env_human_le = (\<lambda>_ _. True)\<rparr>"

definition example_credential_schema :: CredentialSchema where
  "example_credential_schema =
     \<lparr>schema_uuid = 1, schema_deleted_at = None, schema_created_date = 0, schema_last_modified = 0,
      schema_name = ''schema'', schema_format = ''JWT'', schema_revocation_method = None,
      schema_key_storage_security = None, schema_layout_type = Card, schema_layout_properties = None,
      schema_schema_id = ''id'', schema_imported_source_url = ''url'', schema_allow_suspension = True,
      schema_requires_wallet_instance_attestation = False, schema_transaction_code = None,
      schema_claim_schemas = Some example_schemas, schema_organisation = None\<rparr>"

theorem from_vec_claim_leaves_witness:
  "\<exists>tree. from_vec_claim example_env example_claims example_credential_schema = Inr tree \<and>
     tree_leaves tree = {#(''a/n/0'', IntegerV 7)#}"
proof -
  have ok: "is_ok (from_vec_claim example_env example_claims example_credential_schema)"
    by code_simp
  then obtain tree where t: "from_vec_claim example_env example_claims example_credential_schema = Inr tree"
    by (auto simp: is_ok_iff)
  have "typed_value (env_parse_f64 example_env) NumberT ''7'' = (IntegerV 7 :: (unit, unit DetailClaim) DetailValue)"
    by (simp add: typed_value_def parse_i64_def digit_value_def)
  then have "sum_list (map (claim_leaf example_env example_schemas) example_claims) =
      {#(''a/n/0'', IntegerV 7)#}"
    by (simp add: claim_leaf_def example_claims_def example_schemas_def example_schema_def
        new_claim_def example_env_def)
  with t from_vec_claim_leaves [OF t, of example_schemas] show ?thesis
    by (auto simp: example_credential_schema_def)
qed

end
