(* ===== verification/Dcql_Matching.thy ===== *)
theory Dcql_Matching
  imports Dcql Claim_Tree
begin

text \<open>
  The wallet's answer to a DCQL query
  (\<open>one-core/src/provider/verification_protocol/openid4vp/dcql.rs\<close>): which credentials a
  query applies to and which of their claims would be revealed. The storage, the formatters,
  the X.509 reader of authority key identifiers and the DTO mapper's environment are
  parameters, gathered in \<open>wallet_env\<close>. A \<open>HashMap\<close> is an association list and a
  \<open>HashSet\<close> a list without duplicates, both in insertion order: the source's iteration order
  is unspecified and no theorem depends on it.
\<close>

datatype vp_error =
    ProofOrganisationMissing
  | DcqlFailure DcqlError
  | MissingCredentialFilters string
  | EmptyCredentialFilters
  | StorageAccessError
  | MissingSchema uuid
  | MissingClaims uuid
  | MissingCredentialClaimSchemas uuid
  | MissingFormatter string
  | NoFormatterForDcqlFormat CredentialFormat
  | ClaimWithoutSchema uuid
  | MissingSchemaAtPath string
  | MissingParentClaim string uuid
  | PartialUserClaimPath ClaimPath
  | UnspecificUserClaimPath ClaimPath
  | DetailMappingError claims_error

record MetadataClaimSchema =
  meta_key :: string
  meta_data_type :: string
  meta_array :: bool
  meta_required :: bool

record CredentialFormatter =
  user_claims_path :: "string list"
  metadata_claims :: "MetadataClaimSchema list"

type_synonym formatter_provider = "string \<Rightarrow> CredentialFormatter option"

section \<open>Paths\<close>

fun stringify_value :: "ClaimValue \<Rightarrow> string" where
  "stringify_value (String s) = s"
| "stringify_value (Integer i) = decimal_int i"
| "stringify_value (Boolean b) = (if b then ''true'' else ''false'')"

fun strip_user_path ::
  "ClaimPath \<Rightarrow> string list \<Rightarrow> ClaimPath \<Rightarrow> (vp_error, ClaimPath) result" where
  "strip_user_path original [] rest =
     (if rest = [] then Inl (UnspecificUserClaimPath original) else Inr rest)"
| "strip_user_path original (u # us) rest =
     (case rest of
        PropertyName name # rest' \<Rightarrow>
          if name = u then strip_user_path original us rest' else Inr original
      | _ \<Rightarrow> Inl (PartialUserClaimPath original))"

definition adjust_dcql_path_for_user_claims ::
  "ClaimPath \<Rightarrow> string list \<Rightarrow> (vp_error, ClaimPath) result" where
  "adjust_dcql_path_for_user_claims p user_claim_path = strip_user_path p user_claim_path p"

fun absent_segment :: "PathSegment \<Rightarrow> string" where
  "absent_segment (PropertyName name) = name"
| "absent_segment (ArrayIndex index) = decimal index"
| "absent_segment ArrayAll = ''0''"

definition dcql_path_to_absent_claim_key ::
  "ClaimPath \<Rightarrow> string list \<Rightarrow> (vp_error, string) result" where
  "dcql_path_to_absent_claim_key p user_claim_path =
     rbind (adjust_dcql_path_for_user_claims p user_claim_path) (\<lambda>segs.
       Inr (join [slash] (map absent_segment segs)))"

fun is_property :: "PathSegment \<Rightarrow> bool" where
  "is_property (PropertyName _) = True"
| "is_property _ = False"

definition dcql_path_matches_metadata ::
  "ClaimPath \<Rightarrow> ClaimSchema list \<Rightarrow> string list \<Rightarrow> bool" where
  "dcql_path_matches_metadata p claim_schemas user_claim_path =
     (let array_selector_count = length (filter (\<lambda>s. \<not> is_property s) p) in
      if array_selector_count > 1 then False
      else if array_selector_count = 1 \<and> (p = [] \<or> is_property (last p)) then False
      else
        let segs = (if array_selector_count = 1 then butlast p else p) in
        if length user_claim_path \<ge> length segs \<and>
           list_all (\<lambda>(seg, u). seg = PropertyName u) (zip segs user_claim_path)
        then False
        else
          let dcql_key = join [slash] (map (\<lambda>s. case s of PropertyName n \<Rightarrow> n | _ \<Rightarrow> []) (filter is_property segs)) in
          list_ex (\<lambda>cs. csch_key cs = dcql_key \<or> prefix (dcql_key @ [slash]) (csch_key cs))
            (filter csch_metadata claim_schemas))"

text \<open>The walk along a claim's path, with the schema of every claim it passes.\<close>

fun path_walk ::
  "Claim list \<Rightarrow> string \<Rightarrow> (PathSegment \<times> string) list \<Rightarrow> (vp_error, bool) result" where
  "path_walk all_claims current_path [] = Inr True"
| "path_walk all_claims current_path ((seg, claim_seg) # rest) =
     (let current = (if current_path = [] then claim_seg else current_path @ [slash] @ claim_seg) in
      rbind (ok_or (Option.bind (find (\<lambda>c. claim_path c = current) all_claims) claim_schema)
               (MissingSchemaAtPath current)) (\<lambda>schema.
        case seg of
          PropertyName name \<Rightarrow>
            if name \<noteq> claim_seg then Inr False else path_walk all_claims current rest
        | ArrayIndex index \<Rightarrow>
            if \<not> csch_array schema then Inr False
            else if decimal index \<noteq> claim_seg then Inr False
            else path_walk all_claims current rest
        | ArrayAll \<Rightarrow>
            if \<not> csch_array schema then Inr False else path_walk all_claims current rest))"

definition dcql_path_exactly_matches_claim ::
  "ClaimPath \<Rightarrow> Claim \<Rightarrow> Claim list \<Rightarrow> string list \<Rightarrow> (vp_error, bool) result" where
  "dcql_path_exactly_matches_claim dcql_path claim all_claims user_claim_path =
     rbind (ok_or (claim_schema claim) (ClaimWithoutSchema (claim_id claim))) (\<lambda>schema.
     rbind (if \<not> csch_metadata schema then adjust_dcql_path_for_user_claims dcql_path user_claim_path
            else Inr dcql_path) (\<lambda>dcql_segments.
       let claim_path_segments = split_on slash (claim_path claim) in
       if length dcql_segments \<noteq> length claim_path_segments then Inr False
       else path_walk all_claims [] (zip dcql_segments claim_path_segments)))"

section \<open>Claims that come along\<close>

text \<open>
  The queue of \<open>get_nonselectively_disclosable_children\<close>: the children of a path that cannot
  be withheld are taken and queued in turn.
\<close>

definition nsd_child :: "string \<Rightarrow> Claim \<Rightarrow> bool" where
  "nsd_child parent_path c \<longleftrightarrow>
     \<not> claim_selectively_disclosable c \<and>
     (case rsplit_once slash (claim_path c) of None \<Rightarrow> False | Some (pre, _) \<Rightarrow> pre = parent_path)"

lemma nsd_child_length: "nsd_child p c \<Longrightarrow> length p < length (claim_path c)"
  by (auto simp: nsd_child_def dest: rsplit_once_length split: option.splits)

definition path_bound :: "Claim list \<Rightarrow> nat" where
  "path_bound cs = sum_list (map (\<lambda>c. length (claim_path c)) cs)"

function get_nonselectively_disclosable_children :: "Claim list \<Rightarrow> string list \<Rightarrow> Claim list" where
  "get_nonselectively_disclosable_children all_claims [] = []"
| "get_nonselectively_disclosable_children all_claims (parent_path # parent_paths) =
     (let children = filter (nsd_child parent_path) all_claims in
      children @ get_nonselectively_disclosable_children all_claims
                   (parent_paths @ map claim_path children))"
  by pat_completeness auto

termination
proof (relation "inv_image (mult less_than)
    (\<lambda>(cs, q). mset (map (\<lambda>p. path_bound cs - length p) q))")
  show "wf (inv_image (mult less_than)
      (\<lambda>(cs :: Claim list, q :: string list). mset (map (\<lambda>p. path_bound cs - length p) q)))"
    by (intro wf_inv_image wf_mult wf_less_than)
next
  fix cs :: "Claim list" and p :: string and ps :: "string list" and children
  assume children: "children = filter (nsd_child p) cs"
  have "path_bound cs - length q < path_bound cs - length p" if "q \<in> claim_path ` set children" for q
  proof -
    from that children obtain c where c: "c \<in> set cs" "q = claim_path c" "nsd_child p c" by auto
    then have "length q \<le> path_bound cs"
      using member_le_sum_list [of "length q" "map (\<lambda>c. length (claim_path c)) cs"]
      by (auto simp: path_bound_def)
    with nsd_child_length [OF c(3)] c(2) show ?thesis by simp
  qed
  then have "(mset (map (\<lambda>p. path_bound cs - length p) ps) +
       mset (map (\<lambda>p. path_bound cs - length p) (map claim_path children)),
     mset (map (\<lambda>p. path_bound cs - length p) ps) + {#path_bound cs - length p#}) \<in> mult less_than"
    by (intro one_step_implies_mult) auto
  then show "((cs, ps @ map claim_path children), cs, p # ps)
      \<in> inv_image (mult less_than) (\<lambda>(cs, q). mset (map (\<lambda>p. path_bound cs - length p) q))"
    by (simp add: image_mset.compositionality comp_def)
qed

record ClaimMatch =
  match_claim :: Claim
  match_exact :: bool

function claims_towards_root ::
  "Claim list \<Rightarrow> uuid \<Rightarrow> string \<Rightarrow> (vp_error, Claim list) result" where
  "claims_towards_root all_claims i current_path =
     (case rsplit_once slash current_path of
        None \<Rightarrow> Inr []
      | Some (parent_path, _) \<Rightarrow>
          rbind (ok_or (find (\<lambda>c. claim_path c = parent_path) all_claims)
                   (MissingParentClaim parent_path i)) (\<lambda>parent_claim.
          rbind (claims_towards_root all_claims i parent_path) (\<lambda>rest.
            Inr (parent_claim # rest))))"
  by pat_completeness auto

termination
  by (relation "measure (\<lambda>(_, _, p). length p)") (auto dest: rsplit_once_length)

declare claims_towards_root.simps [simp del]

definition exactly_matching_claims ::
  "Claim list \<Rightarrow> ClaimFilter \<Rightarrow> string list \<Rightarrow> (vp_error, Claim list) result" where
  "exactly_matching_claims claims claim_filter user_claim_path =
     (let values_filter = map stringify_value (filter_values claim_filter) in
      rbind (try_map (\<lambda>claim.
               rbind (dcql_path_exactly_matches_claim (filter_path claim_filter) claim claims user_claim_path)
                 (\<lambda>matches.
                    Inr (if matches \<and> (values_filter = [] \<or>
                             (case claim_value claim of None \<Rightarrow> False | Some v \<Rightarrow> v \<in> set values_filter))
                         then [claim] else []))) claims)
        (\<lambda>css. Inr (concat css)))"

definition get_matching_claims ::
  "Claim list \<Rightarrow> ClaimFilter \<Rightarrow> string list \<Rightarrow> bool \<Rightarrow> (vp_error, ClaimMatch list) result" where
  "get_matching_claims claims claim_filter user_claim_path select_children =
     rbind (exactly_matching_claims claims claim_filter user_claim_path) (\<lambda>exact.
       if exact = [] then Inr []
       else
         let child_claims =
               (if select_children
                then remdups (concat (map (\<lambda>claim.
                       filter (\<lambda>c. prefix (claim_path claim @ [slash]) (claim_path c)) claims) exact))
                else []) in
         rbind (try_map (\<lambda>claim. claims_towards_root claims (claim_id claim) (claim_path claim)) exact)
           (\<lambda>trunks.
              let towards_root = remdups (concat trunks);
                  nsd = get_nonselectively_disclosable_children claims (map claim_path towards_root)
              in Inr (remdups
                   (map (\<lambda>c. \<lparr>match_claim = c, match_exact = True\<rparr>) exact @
                    map (\<lambda>c. \<lparr>match_claim = c, match_exact = False\<rparr>) child_claims @
                    map (\<lambda>c. \<lparr>match_claim = c, match_exact = False\<rparr>) towards_root @
                    map (\<lambda>c. \<lparr>match_claim = c, match_exact = False\<rparr>) nsd))))"

section \<open>Selecting claims of a credential\<close>

record SelectedClaim =
  sel_path :: string
  sel_selective_disclosure_supported :: bool
  sel_required_by_verifier :: bool
  sel_user_selection :: bool
  sel_metadata :: bool

datatype MatchedClaim =
    Selected SelectedClaim
  | Missing ClaimPath CredentialFormat bool

type_synonym selection = "(string \<times> SelectedClaim) list"

definition selected_of :: "Claim \<Rightarrow> bool \<Rightarrow> bool \<Rightarrow> (vp_error, SelectedClaim) result" where
  "selected_of claim required user_selection =
     rbind (ok_or (claim_schema claim) (ClaimWithoutSchema (claim_id claim))) (\<lambda>schema.
       Inr \<lparr>sel_path = claim_path claim,
            sel_selective_disclosure_supported = claim_selectively_disclosable claim,
            sel_required_by_verifier = required, sel_user_selection = user_selection,
            sel_metadata = csch_metadata schema\<rparr>)"

text \<open>The claims that no selection can withhold, from the root.\<close>

definition root_nonselectively_disclosable :: "Claim list \<Rightarrow> Claim list" where
  "root_nonselectively_disclosable claims =
     filter (\<lambda>c. \<not> claim_selectively_disclosable c \<and> slash \<notin> set (claim_path c)) claims"

definition nonselectively_disclosable :: "Claim list \<Rightarrow> Claim list" where
  "nonselectively_disclosable claims =
     (let roots = root_nonselectively_disclosable claims in
      roots @ get_nonselectively_disclosable_children claims (map claim_path roots))"

definition initial_selection :: "Claim list \<Rightarrow> (vp_error, selection) result" where
  "initial_selection claims =
     rbind (try_map (\<lambda>c. rbind (selected_of c False False) (\<lambda>s. Inr (claim_path c, s)))
              (nonselectively_disclosable claims))
       (\<lambda>kvs. Inr (fold (\<lambda>(k, v) m. AList.update k v m) kvs []))"

definition select_match :: "ClaimFilter \<Rightarrow> ClaimMatch \<Rightarrow> selection \<Rightarrow> (vp_error, selection) result" where
  "select_match claim_filter m selected =
     (let claim = match_claim m;
          user_selection = (match_exact m \<and> \<not> filter_required claim_filter)
      in case map_of selected (claim_path claim) of
           Some s \<Rightarrow>
             Inr (AList.update (claim_path claim)
               (s\<lparr>sel_required_by_verifier := sel_required_by_verifier s \<or> filter_required claim_filter,
                  sel_user_selection := sel_user_selection s \<or> user_selection\<rparr>) selected)
         | None \<Rightarrow>
             rbind (selected_of claim (filter_required claim_filter) user_selection) (\<lambda>s.
               Inr (AList.update (claim_path claim) s selected)))"

definition select_filter ::
  "Claim list \<Rightarrow> ClaimSchema list \<Rightarrow> CredentialFormat \<Rightarrow> string list \<Rightarrow> bool \<Rightarrow> ClaimFilter \<Rightarrow>
     selection \<times> MatchedClaim list \<Rightarrow> (vp_error, selection \<times> MatchedClaim list) result" where
  "select_filter claims claim_schemas fmt user_claim_path select_children claim_filter = (\<lambda>(selected, missing).
     rbind (get_matching_claims claims claim_filter user_claim_path select_children) (\<lambda>matching.
       if matching \<noteq> [] then
         rbind (try_fold (select_match claim_filter) matching selected) (\<lambda>selected'.
           Inr (selected', missing))
       else if filter_required claim_filter then
         Inr (selected, missing @
                [Missing (filter_path claim_filter) fmt
                   (dcql_path_matches_metadata (filter_path claim_filter) claim_schemas user_claim_path)])
       else Inr (selected, missing)))"

definition select_claims ::
  "Credential \<Rightarrow> CredentialFilter \<Rightarrow> CredentialFormatter \<Rightarrow> bool \<Rightarrow> (vp_error, MatchedClaim list) result" where
  "select_claims credential filt formatter select_children =
     rbind (ok_or (cred_claims credential) (MissingClaims (cred_id credential))) (\<lambda>claims.
     rbind (initial_selection claims) (\<lambda>selected.
     rbind (ok_or (cred_schema credential) (MissingSchema (cred_id credential))) (\<lambda>schema.
     rbind (ok_or (schema_claim_schemas schema)
              (MissingCredentialClaimSchemas (cred_id credential))) (\<lambda>claim_schemas.
     rbind (try_fold (select_filter claims claim_schemas (filter_format filt)
                        (user_claims_path formatter) select_children)
              (filter_claims filt) (selected, [])) (\<lambda>(selected', missing).
       Inr (map (\<lambda>(_, s). Selected s) selected' @ missing))))))"

fun all_selected :: "MatchedClaim list \<Rightarrow> SelectedClaim list option" where
  "all_selected [] = Some []"
| "all_selected (Missing _ _ _ # _) = None"
| "all_selected (Selected s # ms) = map_option ((#) s) (all_selected ms)"

definition select_matching_claims ::
  "Credential \<Rightarrow> CredentialFilter \<Rightarrow> CredentialFormatter \<Rightarrow> (vp_error, SelectedClaim list option) result" where
  "select_matching_claims credential filt formatter =
     rbind (select_claims credential filt formatter True) (\<lambda>claims. Inr (all_selected claims))"

fun first_matching_claims ::
  "Credential \<Rightarrow> CredentialFilter list \<Rightarrow> CredentialFormatter \<Rightarrow> (vp_error, SelectedClaim list option) result" where
  "first_matching_claims credential [] formatter = Inr None"
| "first_matching_claims credential (f # fs) formatter =
     rbind (select_matching_claims credential f formatter) (\<lambda>claims.
       case claims of
         None \<Rightarrow> first_matching_claims credential fs formatter
       | Some cs \<Rightarrow> Inr (Some cs))"

section \<open>The response with the selected claims only\<close>

datatype 'f ExtClaim =
  ExtClaim (ext_path: string) (ext_schema: CredentialClaimSchemaDTO)
    (ext_value: "('f, 'f ExtClaim) DetailValue") (ext_user_selection: bool) (ext_required: bool)

fun to_claim_detail_ext_filtered :: "(string \<times> SelectedClaim) list \<Rightarrow> 'f DetailClaim \<Rightarrow> 'f ExtClaim option" where
  "to_claim_detail_ext_filtered selected (DetailClaim p s v) =
     Option.bind (map_of selected p) (\<lambda>sel.
     Option.bind
       (case v of
          BooleanV b \<Rightarrow> Some (BooleanV b)
        | FloatV f \<Rightarrow> Some (FloatV f)
        | IntegerV i \<Rightarrow> Some (IntegerV i)
        | StringV t \<Rightarrow> Some (StringV t)
        | Nested children \<Rightarrow>
            let mapped = List.map_filter (\<lambda>x. x) (map (to_claim_detail_ext_filtered selected) children) in
            if mapped = [] then None else Some (Nested mapped)) (\<lambda>v'.
       Some (ExtClaim p s v' (sel_user_selection sel)
               (\<not> sel_selective_disclosure_supported sel \<or> sel_required_by_verifier sel))))"

definition map_to_filtered_dto ::
  "'f DetailClaim CredentialDetailResponseDTO \<Rightarrow> SelectedClaim list \<Rightarrow>
     'f ExtClaim CredentialDetailResponseDTO" where
  "map_to_filtered_dto d selected_claims =
     (let by_path = rev (map (\<lambda>s. (sel_path s, s)) selected_claims) in
      \<lparr>detail_id = detail_id d, detail_created_date = detail_created_date d,
       detail_issuance_date = detail_issuance_date d,
       detail_revocation_date = detail_revocation_date d, detail_state = detail_state d,
       detail_last_modified = detail_last_modified d, detail_schema = detail_schema d,
       detail_issuer = detail_issuer d, detail_issuer_certificate = detail_issuer_certificate d,
       detail_claims = List.map_filter (to_claim_detail_ext_filtered by_path) (detail_claims d),
       detail_redirect_uri = detail_redirect_uri d, detail_role = detail_role d,
       detail_suspend_end_date = detail_suspend_end_date d,
       detail_mdoc_mso_validity = detail_mdoc_mso_validity d, detail_holder = detail_holder d,
       detail_protocol = detail_protocol d, detail_profile = detail_profile d,
       detail_wallet_instance_attestation = None, detail_wallet_unit_attestation = None,
       detail_webhook_destination_url = detail_webhook_destination_url d\<rparr>)"

section \<open>Formats and candidates\<close>

fun dcql_format_types :: "CredentialFormat \<Rightarrow> FormatType list" where
  "dcql_format_types JwtVc = [FormatType.Jwt]"
| "dcql_format_types LdpVc = [JsonLdClassic, JsonLdBbsPlus]"
| "dcql_format_types CredentialFormat.MsoMdoc = [Mdoc]"
| "dcql_format_types CredentialFormat.SdJwt = [FormatType.SdJwtVc]"
| "dcql_format_types W3cSdJwt = [FormatType.SdJwt]"

definition format_matches :: "CredentialFormat \<Rightarrow> string \<Rightarrow> format_config \<Rightarrow> bool" where
  "format_matches dcql_format fmt config =
     (case map_of config fmt of
        None \<Rightarrow> False
      | Some credential_format \<Rightarrow>
          (case dcql_format of
             JwtVc \<Rightarrow> credential_format = FormatType.Jwt
           | LdpVc \<Rightarrow> credential_format = JsonLdBbsPlus \<or> credential_format = JsonLdClassic
           | CredentialFormat.MsoMdoc \<Rightarrow> credential_format = Mdoc
           | CredentialFormat.SdJwt \<Rightarrow> credential_format = FormatType.SdJwtVc
           | W3cSdJwt \<Rightarrow> credential_format = FormatType.SdJwt))"

definition formatter_for_dcql_format ::
  "CredentialFormat \<Rightarrow> format_config \<Rightarrow> formatter_provider \<Rightarrow> (vp_error, CredentialFormatter) result" where
  "formatter_for_dcql_format fmt config provider =
     (let names = List.map_filter (\<lambda>t. map_option fst (find (\<lambda>(_, t'). t' = t) config)) (dcql_format_types fmt) in
      case names of
        [] \<Rightarrow> Inl (NoFormatterForDcqlFormat fmt)
      | name # _ \<Rightarrow> ok_or (provider name) (MissingFormatter name))"

definition map_schema_id :: "CredentialFilter \<Rightarrow> string \<Rightarrow> string" where
  "map_schema_id filt schema_id =
     (case filter_format filt of
        JwtVc \<Rightarrow> (case split_once (CHR ''#'') schema_id of Some (a, _) \<Rightarrow> a | None \<Rightarrow> schema_id)
      | LdpVc \<Rightarrow> (case split_once (CHR ''#'') schema_id of Some (a, _) \<Rightarrow> a | None \<Rightarrow> schema_id)
      | W3cSdJwt \<Rightarrow> (case split_once (CHR ''#'') schema_id of Some (a, _) \<Rightarrow> a | None \<Rightarrow> schema_id)
      | CredentialFormat.MsoMdoc \<Rightarrow> schema_id
      | CredentialFormat.SdJwt \<Rightarrow> schema_id)"

text \<open>The wallet: what the storage returns, and the environment of the mappers.\<close>

record 'f wallet_env =
  stored_credentials :: "string \<Rightarrow> uuid \<Rightarrow> Credential list option"
  stored_schema :: "string list \<Rightarrow> uuid \<Rightarrow> CredentialSchema option option"
  wallet_formatters :: formatter_provider
  wallet_config :: format_config
  wallet_akis :: "string \<Rightarrow> string list option"
  wallet_mapper :: "'f mapper_env"
  wallet_response :: response_env
  wallet_schema_detail :: "CredentialSchema \<Rightarrow> (claims_error, CredentialSchema) result"
  wallet_new_uuid :: uuid
  wallet_now :: date_time

definition fetch_credentials_for_schema_ids ::
  "'f wallet_env \<Rightarrow> uuid \<Rightarrow> CredentialFilter list \<Rightarrow> (vp_error, Credential list) result" where
  "fetch_credentials_for_schema_ids w organisation_id filters =
     (case filters of
        [] \<Rightarrow> Inl EmptyCredentialFilters
      | filt # _ \<Rightarrow>
          rbind (try_map (\<lambda>schema_id.
                   ok_or (stored_credentials w (map_schema_id filt schema_id) organisation_id)
                     StorageAccessError) (filter_schema_ids filt))
            (\<lambda>css. Inr (concat css)))"

definition get_trusted_akis :: "TrustedAuthority list \<Rightarrow> string list" where
  "get_trusted_akis authorities =
     concat (map (\<lambda>a. case a of AuthorityKeyId vs \<Rightarrow> vs | _ \<Rightarrow> []) authorities)"

definition credential_issuer_in_aki_list :: "'f wallet_env \<Rightarrow> Credential \<Rightarrow> string list \<Rightarrow> bool" where
  "credential_issuer_in_aki_list w credential akis =
     (case cred_issuer_certificate credential of
        None \<Rightarrow> False
      | Some issuer_cert \<Rightarrow>
          (case wallet_akis w (cert_chain issuer_cert) of
             None \<Rightarrow> False
           | Some issuer_akis \<Rightarrow> list_ex (\<lambda>issuer_aki. list_ex (\<lambda>aki. issuer_aki = aki) akis) issuer_akis))"

definition filter_credentials_by_trusted_authorities ::
  "'f wallet_env \<Rightarrow> Credential list \<Rightarrow> TrustedAuthority list \<Rightarrow> Credential list" where
  "filter_credentials_by_trusted_authorities w credentials authorities =
     (if credentials = [] then credentials
      else let trusted_akis = get_trusted_akis authorities in
           filter (\<lambda>c. credential_issuer_in_aki_list w c trusted_akis) credentials)"

section \<open>Presentation definition, second version\<close>

datatype CredentialQueryFailureReason = NoCredential | Validity | Constraint

datatype 'f ApplicableCredentialOrFailureHint =
    ApplicableCredentials "'f ExtClaim CredentialDetailResponseDTO list"
  | FailureHint CredentialQueryFailureReason "CredentialSchema option"

record 'f CredentialQueryResponseDTO =
  resp_multiple :: bool
  resp_credential_or_failure_hint :: "'f ApplicableCredentialOrFailureHint"

record 'f PresentationDefinitionV2ResponseDTO =
  pd2_credential_queries :: "(string \<times> 'f CredentialQueryResponseDTO) list"
  pd2_credential_sets :: "CredentialSet list"

definition convert_schema ::
  "'f wallet_env \<Rightarrow> CredentialSchema option \<Rightarrow> (vp_error, CredentialSchema option) result" where
  "convert_schema w schema =
     (case schema of
        None \<Rightarrow> Inr None
      | Some s \<Rightarrow> rbind (map_err DetailMappingError (wallet_schema_detail w s)) (\<lambda>d. Inr (Some d)))"

definition failure_hint ::
  "CredentialQuery \<Rightarrow> CredentialQueryFailureReason \<Rightarrow> CredentialSchema option \<Rightarrow>
     (vp_error, 'f CredentialQueryResponseDTO) result" where
  "failure_hint query reason schema =
     Inr \<lparr>resp_multiple = query_multiple query, resp_credential_or_failure_hint = FailureHint reason schema\<rparr>"

text \<open>The credentials the query asks for, of the holder and in the format of the query.\<close>

definition v2_candidates :: "'f wallet_env \<Rightarrow> CredentialQuery \<Rightarrow> Credential list \<Rightarrow> Credential list" where
  "v2_candidates w query = filter (\<lambda>c.
     case cred_schema c of
       None \<Rightarrow> False
     | Some schema \<Rightarrow> format_matches (query_format query) (schema_format schema) (wallet_config w) \<and>
                      cred_role c = Holder)"

definition formatter_of ::
  "'f wallet_env \<Rightarrow> Credential \<Rightarrow> (vp_error, CredentialFormatter) result" where
  "formatter_of w c =
     rbind (ok_or (cred_schema c) (MissingSchema (cred_id c))) (\<lambda>schema.
       ok_or (wallet_formatters w (schema_format schema)) (MissingFormatter (schema_format schema)))"

definition applicable_credential ::
  "'f wallet_env \<Rightarrow> CredentialFilter list \<Rightarrow> Credential \<Rightarrow>
     (vp_error, 'f ExtClaim CredentialDetailResponseDTO list) result" where
  "applicable_credential w filters candidate =
     rbind (formatter_of w candidate) (\<lambda>formatter.
     rbind (first_matching_claims candidate filters formatter) (\<lambda>claims.
       case claims of
         None \<Rightarrow> Inr []
       | Some selected \<Rightarrow>
           rbind (map_err DetailMappingError
                    (credential_detail_response_from_model (wallet_mapper w) (wallet_response w) candidate None
                       \<lparr>wallet_instance_attestation_blob = None, wallet_unit_attestation_blob = None\<rparr>))
             (\<lambda>dto. Inr [map_to_filtered_dto dto selected])))"

definition answer_query ::
  "'f wallet_env \<Rightarrow> uuid \<Rightarrow> CredentialQuery \<Rightarrow> CredentialFilter list \<Rightarrow>
     (vp_error, 'f CredentialQueryResponseDTO) result" where
  "answer_query w organisation_id query filters =
     rbind (fetch_credentials_for_schema_ids w organisation_id filters) (\<lambda>fetched.
       let candidates = v2_candidates w query fetched in
       if candidates = [] then
         let schema_ids = concat (map (\<lambda>f. map (map_schema_id f) (filter_schema_ids f)) filters) in
         rbind (ok_or (stored_schema w schema_ids organisation_id) StorageAccessError) (\<lambda>schema.
         rbind (convert_schema w schema) (failure_hint query NoCredential))
       else
         let accepted = filter (\<lambda>c. cred_state c = Accepted) candidates;
             invalid = filter (\<lambda>c. cred_state c \<noteq> Accepted) candidates
         in if accepted = [] then
              rbind (convert_schema w (case invalid of [] \<Rightarrow> None | c # _ \<Rightarrow> cred_schema c))
                (failure_hint query Validity)
            else
              rbind (try_map (applicable_credential w filters) accepted) (\<lambda>applicable.
                if concat applicable = [] then
                  rbind (convert_schema w (cred_schema (hd accepted))) (failure_hint query Constraint)
                else
                  Inr \<lparr>resp_multiple = query_multiple query,
                       resp_credential_or_failure_hint = ApplicableCredentials (concat applicable)\<rparr>))"

definition get_presentation_definition_v2 ::
  "'f wallet_env \<Rightarrow> DcqlQuery \<Rightarrow> Organisation option \<Rightarrow>
     (vp_error, 'f PresentationDefinitionV2ResponseDTO) result" where
  "get_presentation_definition_v2 w dcql_query proof_organisation =
     rbind (ok_or proof_organisation ProofOrganisationMissing) (\<lambda>organisation.
     rbind (map_err DcqlFailure (credential_filters dcql_query)) (\<lambda>query_to_filters.
     let sets = (case dcql_credential_sets dcql_query of
                   Some css \<Rightarrow> css
                 | None \<Rightarrow> map (\<lambda>q. \<lparr>set_required = True, set_options = [[query_id q]]\<rparr>)
                             (dcql_credentials dcql_query)) in
     rbind (try_fold (\<lambda>query queries.
              rbind (ok_or (query_to_filters (query_id query)) (MissingCredentialFilters (query_id query)))
                (\<lambda>filters.
              rbind (answer_query w (org_id organisation) query filters) (\<lambda>response.
                Inr (AList.update (query_id query) response queries))))
              (dcql_credentials dcql_query) [])
       (\<lambda>queries. Inr \<lparr>pd2_credential_queries = queries, pd2_credential_sets = sets\<rparr>)))"

section \<open>Presentation definition, first version\<close>

record ClaimToCredentials =
  ctc_credentials :: "uuid list"
  ctc_selective_disclosure_supported :: bool
  ctc_required_by_verifier :: bool

record ClaimSetMatchResult =
  claims_to_credentials :: "(string \<times> ClaimToCredentials) list"
  applicable_credentials :: "uuid list"
  inapplicable_credentials :: "uuid list"

definition claim_schema_from_metadata_claim_schema :: "uuid \<Rightarrow> MetadataClaimSchema \<Rightarrow> date_time \<Rightarrow> ClaimSchema" where
  "claim_schema_from_metadata_claim_schema i m now =
     \<lparr>csch_id = i, csch_key = meta_key m, csch_data_type = meta_data_type m, csch_created_date = now,
      csch_last_modified = now, csch_array = meta_array m, csch_metadata = True,
      csch_required = meta_required m\<rparr>"

definition absent_claim :: ClaimToCredentials where
  "absent_claim = \<lparr>ctc_credentials = [], ctc_selective_disclosure_supported = True,
                   ctc_required_by_verifier = True\<rparr>"

text \<open>No candidate: the required claims of the least preferred alternative are reported.\<close>

definition absent_claim_set ::
  "'f wallet_env \<Rightarrow> CredentialFilter list \<Rightarrow> (vp_error, ClaimSetMatchResult) result" where
  "absent_claim_set w filters =
     (let wanted = (if filters = [] then [] else
            let f = last filters in map (\<lambda>c. (c, filter_format f)) (filter filter_required (filter_claims f))) in
      rbind (try_map (\<lambda>(claim, fmt).
               rbind (formatter_for_dcql_format fmt (wallet_config w) (wallet_formatters w)) (\<lambda>formatter.
                 if dcql_path_matches_metadata (filter_path claim)
                      (map (\<lambda>m. claim_schema_from_metadata_claim_schema (wallet_new_uuid w) m (wallet_now w))
                        (metadata_claims formatter)) (user_claims_path formatter)
                 then Inr []
                 else rbind (dcql_path_to_absent_claim_key (filter_path claim) (user_claims_path formatter))
                        (\<lambda>claim_key. Inr [(claim_key, absent_claim)]))) wanted)
        (\<lambda>entries. Inr \<lparr>claims_to_credentials = fold (\<lambda>(k, v) m. AList.update k v m) (concat entries) [],
                        applicable_credentials = [], inapplicable_credentials = []\<rparr>))"

fun is_missing :: "MatchedClaim \<Rightarrow> bool" where
  "is_missing (Missing _ _ _) = True"
| "is_missing (Selected _) = False"

fun is_metadata_match :: "MatchedClaim \<Rightarrow> bool" where
  "is_metadata_match (Missing _ _ m) = m"
| "is_metadata_match (Selected s) = sel_metadata s"

text \<open>The first filter that applies, or else the result of the first filter that had one.\<close>

fun match_filters ::
  "Credential \<Rightarrow> CredentialFormatter \<Rightarrow> CredentialFilter list \<Rightarrow> MatchedClaim list \<Rightarrow>
     (vp_error, MatchedClaim list \<times> bool) result" where
  "match_filters credential formatter [] matched = Inr (matched, False)"
| "match_filters credential formatter (f # fs) matched =
     rbind (select_claims credential f formatter False) (\<lambda>claims.
       if \<not> list_ex is_missing claims then Inr (claims, True)
       else match_filters credential formatter fs (if matched = [] then claims else matched))"

definition record_match ::
  "uuid \<Rightarrow> string list \<Rightarrow> MatchedClaim \<Rightarrow> (string \<times> ClaimToCredentials) list \<Rightarrow>
     (vp_error, (string \<times> ClaimToCredentials) list) result" where
  "record_match i user_path matched m =
     (case matched of
        Selected s \<Rightarrow>
          Inr (AList.update (sel_path s)
            (case map_of m (sel_path s) of
               Some c \<Rightarrow> c\<lparr>ctc_credentials := ctc_credentials c @ [i],
                          ctc_selective_disclosure_supported :=
                            ctc_selective_disclosure_supported c \<and> sel_selective_disclosure_supported s\<rparr>
             | None \<Rightarrow> \<lparr>ctc_credentials = [i],
                        ctc_selective_disclosure_supported = sel_selective_disclosure_supported s,
                        ctc_required_by_verifier = sel_required_by_verifier s\<rparr>) m)
      | Missing p _ _ \<Rightarrow>
          rbind (dcql_path_to_absent_claim_key p user_path) (\<lambda>k.
            Inr (if map_of m k = None then AList.update k absent_claim m else m)))"

definition match_credential ::
  "'f wallet_env \<Rightarrow> CredentialFilter list \<Rightarrow> Credential \<Rightarrow> ClaimSetMatchResult \<Rightarrow>
     (vp_error, ClaimSetMatchResult) result" where
  "match_credential w filters credential r =
     rbind (formatter_of w credential) (\<lambda>formatter.
     rbind (match_filters credential formatter filters []) (\<lambda>(matched, filter_applies).
       let applicable = (filter_applies \<and> cred_state credential = Accepted);
           r' = (if applicable
                 then r\<lparr>applicable_credentials := applicable_credentials r @ [cred_id credential]\<rparr>
                 else r\<lparr>inapplicable_credentials := inapplicable_credentials r @ [cred_id credential]\<rparr>) in
       rbind (try_fold (record_match (cred_id credential) (user_claims_path formatter))
                (filter (\<lambda>m. \<not> is_metadata_match m) matched) (claims_to_credentials r'))
         (\<lambda>m. Inr (r'\<lparr>claims_to_credentials := m\<rparr>))))"

definition first_applicable_claim_set ::
  "'f wallet_env \<Rightarrow> Credential list \<Rightarrow> CredentialFilter list \<Rightarrow> (vp_error, ClaimSetMatchResult) result" where
  "first_applicable_claim_set w credentials filters =
     (if credentials = [] then absent_claim_set w filters
      else try_fold (match_credential w filters) credentials
             \<lparr>claims_to_credentials = [], applicable_credentials = [], inapplicable_credentials = []\<rparr>)"

record PresentationDefinitionFieldDTO =
  field_id :: string
  field_name :: "string option"
  field_purpose :: "string option"
  field_required :: "bool option"
  field_key_map :: "(uuid \<times> string) list"

record PresentationDefinitionRequestedCredentialResponseDTO =
  rc_id :: string
  rc_name :: "string option"
  rc_purpose :: "string option"
  rc_fields :: "PresentationDefinitionFieldDTO list"
  rc_multiple :: "bool option"
  rc_applicable_credentials :: "uuid list"
  rc_inapplicable_credentials :: "uuid list"

definition to_requested_credential ::
  "CredentialQuery \<Rightarrow> ClaimSetMatchResult \<Rightarrow> PresentationDefinitionRequestedCredentialResponseDTO" where
  "to_requested_credential query r =
     \<lparr>rc_id = query_id query, rc_name = None, rc_purpose = None,
      rc_fields = map (\<lambda>(p, c).
        \<lparr>field_id = query_id query @ '':'' @ p, field_name = Some p, field_purpose = None,
         field_required = Some (if ctc_selective_disclosure_supported c
                                then ctc_required_by_verifier c else True),
         field_key_map = map (\<lambda>i. (i, p)) (remdups (ctc_credentials c))\<rparr>) (claims_to_credentials r),
      rc_multiple = (if query_multiple query then Some True else None),
      rc_applicable_credentials = applicable_credentials r,
      rc_inapplicable_credentials = inapplicable_credentials r\<rparr>"

datatype PresentationDefinitionRuleType = All | Pick

record PresentationDefinitionRuleDTO =
  rule_type :: PresentationDefinitionRuleType
  rule_min :: "nat option"
  rule_max :: "nat option"
  rule_count :: "nat option"

record PresentationDefinitionRequestGroupResponseDTO =
  rg_id :: string
  rg_name :: "string option"
  rg_purpose :: "string option"
  rg_rule :: PresentationDefinitionRuleDTO
  rg_requested_credentials :: "PresentationDefinitionRequestedCredentialResponseDTO list"

record 'f PresentationDefinitionResponseDTO =
  pd_request_groups :: "PresentationDefinitionRequestGroupResponseDTO list"
  pd_credentials :: "'f DetailClaim CredentialDetailResponseDTO list"

text \<open>The candidates of the first version: valid or not, but held, issued and in the query's format.\<close>

definition v1_candidates :: "'f wallet_env \<Rightarrow> CredentialQuery \<Rightarrow> Credential list \<Rightarrow> Credential list" where
  "v1_candidates w query fetched =
     (let matching = filter (\<lambda>c. case cred_schema c of None \<Rightarrow> False
             | Some schema \<Rightarrow> format_matches (query_format query) (schema_format schema) (wallet_config w)) fetched;
          held = filter (\<lambda>c. cred_state c \<in> {Accepted, CredentialStateEnum.Revoked, Suspended} \<and>
                             cred_role c = Holder) matching
      in case query_trusted_authorities query of
           None \<Rightarrow> held
         | Some authorities \<Rightarrow> filter_credentials_by_trusted_authorities w held authorities)"

definition get_presentation_definition_for_dcql_query ::
  "'f wallet_env \<Rightarrow> DcqlQuery \<Rightarrow> string \<Rightarrow> Organisation option \<Rightarrow>
     (vp_error, 'f PresentationDefinitionResponseDTO) result" where
  "get_presentation_definition_for_dcql_query w dcql_query proof_id proof_organisation =
     rbind (ok_or proof_organisation ProofOrganisationMissing) (\<lambda>organisation.
     rbind (map_err DcqlFailure (credential_filters dcql_query)) (\<lambda>query_to_filters.
     rbind (try_map (\<lambda>query.
              rbind (ok_or (query_to_filters (query_id query)) (MissingCredentialFilters (query_id query)))
                (\<lambda>filters.
              rbind (fetch_credentials_for_schema_ids w (org_id organisation) filters) (\<lambda>fetched.
                let candidates = v1_candidates w query fetched in
                rbind (first_applicable_claim_set w candidates filters) (\<lambda>match_result.
                  Inr (candidates, to_requested_credential query match_result)))))
              (dcql_credentials dcql_query)) (\<lambda>answers.
     rbind (map_err DetailMappingError (try_map (\<lambda>c.
              credential_detail_response_from_model (wallet_mapper w) (wallet_response w) c None
                \<lparr>wallet_instance_attestation_blob = None, wallet_unit_attestation_blob = None\<rparr>)
              (concat (map fst answers)))) (\<lambda>credentials.
       Inr \<lparr>pd_request_groups =
              [\<lparr>rg_id = proof_id, rg_name = None, rg_purpose = None,
                rg_rule = \<lparr>rule_type = All, rule_min = None, rule_max = None, rule_count = None\<rparr>,
                rg_requested_credentials = map snd answers\<rparr>],
            pd_credentials = credentials\<rparr>))))"

end
