(* ===== verification/Dcql_Disclosure.thy ===== *)
theory Dcql_Disclosure
  imports Dcql_Matching
begin

text \<open>
  What the wallet's answer to a DCQL query reveals: the selection of claims is characterised as
  a set of paths, and the theorems state that it has everything the verifier requires, that a
  claim which can be withheld is only selected when it was asked for, and that the selection
  is a subtree of the credential.
\<close>

section \<open>Ancestors\<close>

definition is_above :: "string \<Rightarrow> string \<Rightarrow> bool" where
  "is_above q p \<longleftrightarrow> prefix (q @ [slash]) p"

lemma above_rsplit:
  assumes "rsplit_once slash p = Some (a, b)"
  shows "is_above q p \<longleftrightarrow> q = a \<or> is_above q a"
proof -
  have p: "p = a @ slash # b" and b: "slash \<notin> set b"
    using assms by (auto simp: rsplit_once_eq_Some)
  show ?thesis
  proof
    assume "is_above q p"
    then obtain r where r: "q @ slash # r = a @ slash # b" by (auto simp: is_above_def prefix_def p)
    then consider us where "a = q @ us" "us @ slash # b = slash # r"
      | us where "q = a @ us" "slash # b = us @ slash # r"
      by (auto simp: append_eq_append_conv2)
    then show "q = a \<or> is_above q a"
    proof cases
      case 1
      then show ?thesis by (cases us) (auto simp: is_above_def)
    next
      case 2
      then show ?thesis using b by (cases us) auto
    qed
  next
    assume "q = a \<or> is_above q a"
    then show "is_above q p" by (auto simp: is_above_def p prefix_def)
  qed
qed

lemma not_above: "rsplit_once slash p = None \<Longrightarrow> \<not> is_above q p"
  by (auto simp: is_above_def rsplit_once_eq_None prefix_def)

lemma above_trans: "is_above p q \<Longrightarrow> is_above q r \<Longrightarrow> is_above p r"
  by (auto simp: is_above_def prefix_def)

lemma above_parent: "rsplit_once slash p = Some (a, b) \<Longrightarrow> is_above a p"
  by (simp add: above_rsplit)

section \<open>The queue computes a closure\<close>

text \<open>
  The claims that cannot be withheld below a set of paths: the children of the paths, and the
  children of these, as long as none of them is selectively disclosable.
\<close>

inductive nsd_below :: "Claim list \<Rightarrow> string set \<Rightarrow> Claim \<Rightarrow> bool"
  for claims :: "Claim list" and paths :: "string set"
where
  child: "c \<in> set claims \<Longrightarrow> p \<in> paths \<Longrightarrow> nsd_child p c \<Longrightarrow> nsd_below claims paths c"
| grandchild: "nsd_below claims paths d \<Longrightarrow> c \<in> set claims \<Longrightarrow> nsd_child (claim_path d) c \<Longrightarrow>
    nsd_below claims paths c"

lemma nsd_below_not_sd: "nsd_below cs ps c \<Longrightarrow> c \<in> set cs \<and> \<not> claim_selectively_disclosable c"
  by (induction rule: nsd_below.induct) (auto simp: nsd_child_def)

lemma nsd_below_parent:
  "nsd_below cs ps c \<Longrightarrow> rsplit_once slash (claim_path c) = Some (p, s) \<Longrightarrow>
     p \<in> ps \<or> p \<in> claim_path ` {d. nsd_below cs ps d}"
  by (induction rule: nsd_below.cases) (auto simp: nsd_child_def)

lemma nsd_below_step:
  "nsd_below cs (insert p ps) c \<longleftrightarrow>
     c \<in> set (filter (nsd_child p) cs) \<or>
     nsd_below cs (ps \<union> claim_path ` set (filter (nsd_child p) cs)) c"
proof
  show "nsd_below cs (insert p ps) c \<Longrightarrow>
     c \<in> set (filter (nsd_child p) cs) \<or>
     nsd_below cs (ps \<union> claim_path ` set (filter (nsd_child p) cs)) c"
    by (induction rule: nsd_below.induct) (auto intro: nsd_below.intros)
next
  have "nsd_below cs (insert p ps) c"
    if "nsd_below cs (ps \<union> claim_path ` set (filter (nsd_child p) cs)) c" for c
    using that by (induction rule: nsd_below.induct) (auto intro: nsd_below.intros)
  then show "c \<in> set (filter (nsd_child p) cs) \<or>
     nsd_below cs (ps \<union> claim_path ` set (filter (nsd_child p) cs)) c \<Longrightarrow>
     nsd_below cs (insert p ps) c"
    by (auto intro: nsd_below.child)
qed

lemma nsd_below_empty: "\<not> nsd_below cs {} c"
proof
  assume "nsd_below cs {} c"
  then show False by (induction rule: nsd_below.induct) auto
qed

lemma set_nsd_children:
  "set (get_nonselectively_disclosable_children claims paths) = {c. nsd_below claims (set paths) c}"
proof (induction claims paths rule: get_nonselectively_disclosable_children.induct)
  case (2 claims p ps)
  then show ?case
    using nsd_below_step [of claims p "set ps"] by (auto simp: Let_def)
qed (auto simp: nsd_below_empty)

section \<open>Matching claims as a set\<close>

lemma claims_towards_root_spec:
  "claims_towards_root claims i p = Inr ts \<Longrightarrow>
     set ts \<subseteq> set claims \<and> claim_path ` set ts = {q. is_above q p}"
proof (induction claims i p arbitrary: ts rule: claims_towards_root.induct)
  case (1 claims i p)
  show ?case
  proof (cases "rsplit_once slash p")
    case None
    with 1(2) show ?thesis
      by (subst (asm) claims_towards_root.simps) (auto simp: not_above)
  next
    case (Some ab)
    obtain a b where ab: "rsplit_once slash p = Some (a, b)" using Some by (cases ab) auto
    with 1(2) obtain t rest where t: "find (\<lambda>c. claim_path c = a) claims = Some t"
      and rest: "claims_towards_root claims i a = Inr rest" and ts: "ts = t # rest"
      by (subst (asm) claims_towards_root.simps) auto
    from 1(1) [OF ab refl _ rest] t have "set rest \<subseteq> set claims \<and> claim_path ` set rest = {q. is_above q a}"
      by simp
    then show ?thesis using find_in_set [OF t] by (auto simp: ts above_rsplit [OF ab])
  qed
qed

text \<open>On closed claims the walk to the root finds every ancestor.\<close>

lemma claims_towards_root_total:
  assumes "closed_claims claims" and "p \<in> claim_path ` set claims"
  shows "\<exists>ts. claims_towards_root claims i p = Inr ts"
  using assms
proof (induction claims i p rule: claims_towards_root.induct)
  case (1 claims i p)
  show ?case
  proof (cases "rsplit_once slash p")
    case None
    then show ?thesis by (subst claims_towards_root.simps) simp
  next
    case (Some ab)
    obtain a b where ab: "rsplit_once slash p = Some (a, b)" using Some by (cases ab) auto
    with 1(2,3) have a: "a \<in> claim_path ` set claims"
      by (fastforce simp: closed_claims_def)
    then obtain t where t: "find (\<lambda>c. claim_path c = a) claims = Some t"
      by (cases "find (\<lambda>c. claim_path c = a) claims") (auto simp: find_None_iff)
    from 1(1) [OF ab refl _ 1(2) a] t obtain ts where "claims_towards_root claims i a = Inr ts" by auto
    with ab t show ?thesis by (subst claims_towards_root.simps) simp
  qed
qed

lemma exactly_matching_subset:
  "exactly_matching_claims claims cf up = Inr exact \<Longrightarrow> set exact \<subseteq> set claims"
proof -
  have "set (concat css) \<subseteq> set xs"
    if "try_map f xs = Inr css" "\<And>x ys. f x = Inr ys \<Longrightarrow> set ys \<subseteq> {x}"
    for f :: "Claim \<Rightarrow> (vp_error, Claim list) result" and xs css
    using that by (induction xs arbitrary: css) fastforce+
  then show "exactly_matching_claims claims cf up = Inr exact \<Longrightarrow> set exact \<subseteq> set claims"
    by (fastforce simp: exactly_matching_claims_def Let_def split: if_splits)
qed

text \<open>
  What a claim filter brings along, given its exact matches: the matches, the claims below
  them (when children are selected), the claims above them, and the claims below these that
  cannot be withheld.
\<close>

definition brought_along :: "Claim list \<Rightarrow> bool \<Rightarrow> Claim list \<Rightarrow> Claim set" where
  "brought_along claims select_children exact =
     set exact \<union>
     {c \<in> set claims. select_children \<and> (\<exists>e \<in> set exact. is_above (claim_path e) (claim_path c))} \<union>
     {c. nsd_below claims {q. \<exists>e \<in> set exact. is_above q (claim_path e)} c}"

lemma get_matching_claims_spec:
  assumes "get_matching_claims claims cf up select_children = Inr ms"
  obtains exact trunk where "exactly_matching_claims claims cf up = Inr exact"
    and "ms = [] \<longleftrightarrow> exact = []"
    and "set trunk \<subseteq> set claims"
    and "claim_path ` set trunk = {q. \<exists>e \<in> set exact. is_above q (claim_path e)}"
    and "match_claim ` set ms = brought_along claims select_children exact \<union> set trunk"
proof (cases "exactly_matching_claims claims cf up")
  case (Inl e)
  with assms show thesis by (simp add: get_matching_claims_def)
next
  case (Inr exact)
  show thesis
  proof (cases "exact = []")
    case True
    with assms Inr have "ms = []" by (simp add: get_matching_claims_def)
    with True Inr show thesis
      by (intro that [of "[]" "[]"]) (auto simp: brought_along_def nsd_below_empty)
  next
    case False
    with assms Inr obtain trunks where
      tr: "try_map (\<lambda>c. claims_towards_root claims (claim_id c) (claim_path c)) exact = Inr trunks"
      and ms: "ms = remdups
        (map (\<lambda>c. \<lparr>match_claim = c, match_exact = True\<rparr>) exact @
         map (\<lambda>c. \<lparr>match_claim = c, match_exact = False\<rparr>)
           (if select_children then remdups (concat (map (\<lambda>claim.
              filter (\<lambda>c. prefix (claim_path claim @ [slash]) (claim_path c)) claims) exact)) else []) @
         map (\<lambda>c. \<lparr>match_claim = c, match_exact = False\<rparr>) (remdups (concat trunks)) @
         map (\<lambda>c. \<lparr>match_claim = c, match_exact = False\<rparr>)
           (get_nonselectively_disclosable_children claims (map claim_path (remdups (concat trunks)))))"
      by (auto simp: get_matching_claims_def Let_def)
    have trunk: "set (concat trunks) \<subseteq> set claims \<and>
        claim_path ` set (concat trunks) = {q. \<exists>e \<in> set exact. is_above q (claim_path e)}"
      using tr
    proof (induction exact arbitrary: trunks)
      case (Cons e es)
      then obtain t ts where "claims_towards_root claims (claim_id e) (claim_path e) = Inr t"
        "try_map (\<lambda>c. claims_towards_root claims (claim_id c) (claim_path c)) es = Inr ts" "trunks = t # ts"
        by auto
      with Cons.IH [of ts] claims_towards_root_spec [of claims "claim_id e" "claim_path e" t]
      show ?case by (simp add: image_Un Collect_disj_eq)
    qed simp
    have "set (concat (map (\<lambda>claim. filter (\<lambda>c. prefix (claim_path claim @ [slash]) (claim_path c)) claims) exact)) =
        {c \<in> set claims. \<exists>e \<in> set exact. is_above (claim_path e) (claim_path c)}"
      by (auto simp: is_above_def)
    then have "match_claim ` set ms = brought_along claims select_children exact \<union> set (concat trunks)"
      using trunk unfolding ms brought_along_def
      by (cases select_children) (auto simp: image_Un image_image set_nsd_children simp del: set_concat)
    moreover have "ms \<noteq> []" using ms False by auto
    ultimately show thesis using that [OF Inr, of "concat trunks"] trunk False by simp
  qed
qed

section \<open>The selection as a set of paths\<close>

definition selection_wf :: "selection \<Rightarrow> bool" where
  "selection_wf m \<longleftrightarrow> (\<forall>(k, s) \<in> set m. sel_path s = k)"

lemma set_update_subset: "set (AList.update k v m) \<subseteq> insert (k, v) (set m)"
  by (induction m) auto

definition sel_paths :: "selection \<Rightarrow> string set" where
  "sel_paths m = fst ` set m"

lemma sel_paths_simps [simp]:
  "sel_paths [] = {}" "sel_paths (km # m) = insert (fst km) (sel_paths m)"
  "sel_paths (AList.update k v m) = insert k (sel_paths m)"
  by (simp_all add: sel_paths_def dom_update)

lemma selection_wf_simps [simp]:
  "selection_wf []" "selection_wf (km # m) \<longleftrightarrow> sel_path (snd km) = fst km \<and> selection_wf m"
  by (auto simp: selection_wf_def)

lemma selection_wf_update [simp]:
  "selection_wf m \<Longrightarrow> sel_path s = k \<Longrightarrow> selection_wf (AList.update k s m)"
  using set_update_subset [of k s m] by (fastforce simp: selection_wf_def)

lemma selected_of_path: "selected_of c r u = Inr s \<Longrightarrow> sel_path s = claim_path c"
  by (auto simp: selected_of_def)

lemma selection_wf_lookup: "selection_wf m \<Longrightarrow> map_of m k = Some s \<Longrightarrow> sel_path s = k"
  by (auto simp: selection_wf_def dest: map_of_SomeD)

lemma select_match_paths:
  "select_match cf m sel = Inr sel' \<Longrightarrow> selection_wf sel \<Longrightarrow>
     selection_wf sel' \<and> sel_paths sel' = insert (claim_path (match_claim m)) (sel_paths sel)"
  by (auto simp: select_match_def Let_def selection_wf_lookup
      dest: selected_of_path split: option.splits)

lemma select_matches_paths:
  "try_fold (select_match cf) ms sel = Inr sel' \<Longrightarrow> selection_wf sel \<Longrightarrow>
     selection_wf sel' \<and> sel_paths sel' = claim_path ` match_claim ` set ms \<union> sel_paths sel"
proof (induction ms arbitrary: sel)
  case (Cons m ms)
  then obtain sel1 where one: "select_match cf m sel = Inr sel1"
    and rest: "try_fold (select_match cf) ms sel1 = Inr sel'" by auto
  note 1 = select_match_paths [OF one Cons.prems(2)]
  with Cons.IH [OF rest] show ?case by simp
qed simp

lemma initial_selection_paths:
  assumes "initial_selection claims = Inr sel"
  shows "selection_wf sel \<and> sel_paths sel = claim_path ` set (nonselectively_disclosable claims)"
proof -
  let ?upd = "\<lambda>(k, v) m. AList.update k v m"
  have fold: "selection_wf (fold ?upd kvs m) \<and> sel_paths (fold ?upd kvs m) = sel_paths kvs \<union> sel_paths m"
    if "selection_wf kvs" "selection_wf m" for kvs m
    using that by (induction kvs arbitrary: m) auto
  from assms obtain kvs where
    kvs: "try_map (\<lambda>c. rbind (selected_of c False False) (\<lambda>s. Inr (claim_path c, s)))
            (nonselectively_disclosable claims) = Inr kvs" and sel: "sel = fold ?upd kvs []"
    by (auto simp: initial_selection_def)
  have "selection_wf kvs \<and> sel_paths kvs = claim_path ` set cs"
    if "try_map (\<lambda>c. rbind (selected_of c False False) (\<lambda>s. Inr (claim_path c, s))) cs = Inr kvs" for cs kvs
    using that by (induction cs arbitrary: kvs) (auto dest!: selected_of_path)
  from this [OF kvs] fold [of kvs "[]"] show ?thesis by (simp add: sel)
qed

text \<open>One claim filter: it is either satisfied, or reported as missing when it is required.\<close>

lemma select_filter_paths:
  assumes "select_filter claims schemas fmt up sc cf (sel, missing) = Inr (sel', missing')"
    and "selection_wf sel"
  obtains ms where "get_matching_claims claims cf up sc = Inr ms" and "selection_wf sel'"
    and "sel_paths sel' = claim_path ` match_claim ` set ms \<union> sel_paths sel"
    and "missing' = [] \<longleftrightarrow> missing = [] \<and> (filter_required cf \<longrightarrow> ms \<noteq> [])"
    and "\<exists>xs. missing' = missing @ xs \<and> list_all is_missing xs"
proof -
  from assms(1) obtain ms where ms: "get_matching_claims claims cf up sc = Inr ms"
    by (auto simp: select_filter_def)
  show thesis
  proof (cases "ms = []")
    case True
    with assms ms show thesis
      by (intro that [of ms]) (auto simp: select_filter_def split: if_splits)
  next
    case False
    with assms(1) ms have "try_fold (select_match cf) ms sel = Inr sel'" and "missing' = missing"
      by (auto simp: select_filter_def)
    with select_matches_paths [OF this(1) assms(2)] ms False show thesis by (intro that [of ms]) auto
  qed
qed

lemma select_filters_paths:
  assumes "try_fold (select_filter claims schemas fmt up sc) cfs (sel, missing) = Inr (sel', missing')"
    and "selection_wf sel"
  shows "\<exists>mss. list_all2 (\<lambda>cf ms. get_matching_claims claims cf up sc = Inr ms) cfs mss \<and>
          selection_wf sel' \<and>
          sel_paths sel' = claim_path ` match_claim ` \<Union> (set ` set mss) \<union> sel_paths sel \<and>
          (missing' = [] \<longleftrightarrow> missing = [] \<and>
             list_all2 (\<lambda>cf ms. filter_required cf \<longrightarrow> ms \<noteq> []) cfs mss) \<and>
          (\<exists>xs. missing' = missing @ xs \<and> list_all is_missing xs)"
  using assms
proof (induction cfs arbitrary: sel missing)
  case Nil
  then show ?case by auto
next
  case (Cons cf cfs)
  then obtain sel1 missing1 where
    one: "select_filter claims schemas fmt up sc cf (sel, missing) = Inr (sel1, missing1)"
    and rest: "try_fold (select_filter claims schemas fmt up sc) cfs (sel1, missing1) = Inr (sel', missing')"
    by auto
  obtain ms where ms: "get_matching_claims claims cf up sc = Inr ms" "selection_wf sel1"
    "sel_paths sel1 = claim_path ` match_claim ` set ms \<union> sel_paths sel"
    "missing1 = [] \<longleftrightarrow> missing = [] \<and> (filter_required cf \<longrightarrow> ms \<noteq> [])"
    "\<exists>xs. missing1 = missing @ xs \<and> list_all is_missing xs"
    using select_filter_paths [OF one Cons.prems(2)] by blast
  from Cons.IH [OF rest ms(2)] obtain mss where mss:
    "list_all2 (\<lambda>cf ms. get_matching_claims claims cf up sc = Inr ms) cfs mss" "selection_wf sel'"
    "sel_paths sel' = claim_path ` match_claim ` \<Union> (set ` set mss) \<union> sel_paths sel1"
    "missing' = [] \<longleftrightarrow> missing1 = [] \<and> list_all2 (\<lambda>cf ms. filter_required cf \<longrightarrow> ms \<noteq> []) cfs mss"
    "\<exists>xs. missing' = missing1 @ xs \<and> list_all is_missing xs"
    by blast
  have "\<exists>xs. missing' = missing @ xs \<and> list_all is_missing xs" using ms(5) mss(5) by auto
  moreover have "sel_paths sel' = claim_path ` match_claim ` \<Union> (set ` set (ms # mss)) \<union> sel_paths sel"
    using ms(3) mss(3) by (simp add: image_Un Un_assoc Un_left_commute)
  ultimately show ?case using ms mss by (intro exI [of _ "ms # mss"]) auto
qed

lemma all_selected_Some:
  "all_selected ms = Some sel \<longleftrightarrow> ms = map Selected sel"
  by (induction ms arbitrary: sel rule: all_selected.induct) auto

lemma map_Selected_append_missing:
  "map (\<lambda>(_, s). Selected s) m @ missing = map Selected sel \<Longrightarrow> list_all is_missing missing \<Longrightarrow>
     missing = [] \<and> sel = map snd m"
proof (induction m arbitrary: sel)
  case Nil
  then show ?case by (cases sel) (auto simp: list_all_def)
next
  case (Cons km m)
  then show ?case by (cases sel; cases km) auto
qed

text \<open>
  The paths of a selection that covers its filter: the claims that can never be withheld, and
  what each claim filter brings along.
\<close>

lemma select_matching_claims_paths:
  assumes "select_matching_claims credential filt formatter = Inr (Some sel)"
  obtains claims mss where "cred_claims credential = Some claims"
    and "list_all2 (\<lambda>cf ms. get_matching_claims claims cf (user_claims_path formatter) True = Inr ms \<and>
            (filter_required cf \<longrightarrow> ms \<noteq> [])) (filter_claims filt) mss"
    and "sel_path ` set sel = claim_path ` (set (nonselectively_disclosable claims) \<union>
            match_claim ` \<Union> (set ` set mss))"
proof -
  from assms obtain claims sel0 schema schemas sel' missing where
    claims: "cred_claims credential = Some claims" and init: "initial_selection claims = Inr sel0"
    and fold: "try_fold (select_filter claims schemas (filter_format filt) (user_claims_path formatter) True)
          (filter_claims filt) (sel0, []) = Inr (sel', missing)"
    and all: "all_selected (map (\<lambda>(_, s). Selected s) sel' @ missing) = Some sel"
    by (auto simp: select_matching_claims_def select_claims_def split: prod.splits)
  note init' = initial_selection_paths [OF init]
  from select_filters_paths [OF fold] init' obtain mss where mss:
    "list_all2 (\<lambda>cf ms. get_matching_claims claims cf (user_claims_path formatter) True = Inr ms)
       (filter_claims filt) mss" "selection_wf sel'"
    "sel_paths sel' = claim_path ` match_claim ` \<Union> (set ` set mss) \<union> sel_paths sel0"
    "missing = [] \<longleftrightarrow> list_all2 (\<lambda>cf ms. filter_required cf \<longrightarrow> ms \<noteq> []) (filter_claims filt) mss"
    "list_all is_missing missing"
    by auto
  from map_Selected_append_missing [OF _ mss(5)] all have missing: "missing = []" and sel: "sel = map snd sel'"
    by (auto simp: all_selected_Some)
  have "sel_path ` set sel = sel_paths sel'"
    using mss(2) by (force simp: sel selection_wf_def sel_paths_def)
  also have "\<dots> = claim_path ` (set (nonselectively_disclosable claims) \<union> match_claim ` \<Union> (set ` set mss))"
    using mss(3) init' by (simp add: image_Un Un_commute)
  finally have "sel_path ` set sel = \<dots>" .
  with claims mss(1,4) missing show thesis
    by (intro that [of claims mss]) (auto simp: list_all2_conv_all_nth)
qed

lemma brought_along_parent:
  assumes closed: "closed_claims claims"
    and exact: "exactly_matching_claims claims cf up = Inr exact"
    and trunk: "claim_path ` set trunk = {q. \<exists>e \<in> set exact. is_above q (claim_path e)}"
    and p: "p \<in> claim_path ` (brought_along claims True exact \<union> set trunk)"
    and a: "rsplit_once slash p = Some (a, b)"
  shows "a \<in> claim_path ` (brought_along claims True exact \<union> set trunk)"
proof -
  have in_trunk: "q \<in> claim_path ` set trunk" if "e \<in> set exact" "is_above q (claim_path e)" for q e
    using that trunk by blast
  from p consider e where "e \<in> set exact" "p = claim_path e"
    | c e where "c \<in> set claims" "p = claim_path c" "e \<in> set exact" "is_above (claim_path e) p"
    | c where "nsd_below claims (claim_path ` set trunk) c" "p = claim_path c"
    | "p \<in> claim_path ` set trunk"
    by (auto simp: brought_along_def simp flip: trunk)
  then show ?thesis
  proof cases
    case 1
    with in_trunk [of e a] above_parent [OF a] show ?thesis by blast
  next
    case 2
    with closed a obtain d where d: "d \<in> set claims" "claim_path d = a"
      by (fastforce simp: closed_claims_def)
    from 2(4) above_rsplit [OF a] have "claim_path e = a \<or> is_above (claim_path e) a" by blast
    with 2(3) d show ?thesis
      by (auto simp: brought_along_def intro: rev_image_eqI [of e] rev_image_eqI [of d])
  next
    case 3
    from nsd_below_parent [OF 3(1)] 3(2) a
    have "a \<in> claim_path ` set trunk \<or> a \<in> claim_path ` {d. nsd_below claims (claim_path ` set trunk) d}"
      by blast
    then show ?thesis by (auto simp: brought_along_def simp flip: trunk)
  next
    case 4
    with trunk obtain e where "e \<in> set exact" "is_above p (claim_path e)" by blast
    with above_trans [OF above_parent [OF a]] in_trunk [of e a] show ?thesis by blast
  qed
qed

section \<open>An example credential\<close>

text \<open>
  A holder's credential with an address that can be withheld as a whole and in part, a given
  name that can be withheld, and a nationality that cannot.
\<close>

definition example_claim :: "nat \<Rightarrow> string \<Rightarrow> string option \<Rightarrow> bool \<Rightarrow> Claim" where
  "example_claim i p v sd =
     \<lparr>claim_id = i, claim_credential_id = 1, claim_created_date = 0, claim_last_modified = 0,
      claim_value = v, claim_path = p, claim_selectively_disclosable = sd,
      claim_schema = Some (example_schema i p ''STRING'' False)\<rparr>"

definition wallet_claims :: "Claim list" where
  "wallet_claims =
     [example_claim 1 ''given'' (Some ''Ada'') True, example_claim 2 ''addr'' None True,
      example_claim 3 ''addr/city'' (Some ''Bern'') True, example_claim 4 ''nat'' (Some ''CH'') False]"

definition wallet_schema :: CredentialSchema where
  "wallet_schema = example_credential_schema\<lparr>schema_claim_schemas := Some (map (\<lambda>c. the (claim_schema c)) wallet_claims)\<rparr>"

definition wallet_credential :: Credential where
  "wallet_credential =
     \<lparr>cred_id = 1, cred_created_date = 0, cred_issuance_date = Some 0, cred_last_modified = 0,
      cred_deleted_at = None, cred_protocol = ''p'', cred_redirect_uri = None, cred_role = Holder,
      cred_state = Accepted, cred_suspend_end_date = None, cred_profile = None, cred_blob_id = None,
      cred_wallet_unit_attestation_blob_id = None, cred_wallet_instance_attestation_blob_id = None,
      cred_webhook_url = None, cred_claims = Some wallet_claims, cred_issuer_identifier = None,
      cred_issuer_certificate = None, cred_holder_identifier = None, cred_schema = Some wallet_schema,
      cred_interaction = None, cred_key = None\<rparr>"

definition city_filter :: CredentialFilter where
  "city_filter =
     \<lparr>filter_format = JwtVc, filter_schema_ids = [''id''],
      filter_claims = [\<lparr>filter_path = [PropertyName ''addr'', PropertyName ''city''],
                        filter_values = [], filter_required = True\<rparr>]\<rparr>"

definition plain_formatter :: CredentialFormatter where
  "plain_formatter = \<lparr>user_claims_path = [], metadata_claims = []\<rparr>"

definition selected_example :: "string \<Rightarrow> bool \<Rightarrow> bool \<Rightarrow> SelectedClaim" where
  "selected_example p sd r =
     \<lparr>sel_path = p, sel_selective_disclosure_supported = sd, sel_required_by_verifier = r,
      sel_user_selection = False, sel_metadata = False\<rparr>"

definition city_selection :: "SelectedClaim list" where
  "city_selection = [selected_example ''nat'' False False, selected_example ''addr/city'' True True,
                     selected_example ''addr'' True True]"

lemma select_city: "select_matching_claims wallet_credential city_filter plain_formatter = Inr (Some city_selection)"
  by code_simp

lemma wallet_claims_facts:
  "cred_claims wallet_credential = Some wallet_claims" "distinct (map claim_path wallet_claims)"
  "claim_path ` set wallet_claims = {''given'', ''addr'', ''addr/city'', ''nat''}"
  "sel_path ` set city_selection = {''nat'', ''addr/city'', ''addr''}"
  by (auto simp: wallet_credential_def wallet_claims_def example_claim_def city_selection_def
      selected_example_def)

lemma wallet_claims_closed: "closed_claims wallet_claims"
proof -
  have "list_all (\<lambda>c. case rsplit_once slash (claim_path c) of None \<Rightarrow> True
      | Some (p, _) \<Rightarrow> p \<in> set (map claim_path wallet_claims)) wallet_claims"
    by code_simp
  then show ?thesis by (fastforce simp: closed_claims_def list_all_iff)
qed

section \<open>What is revealed\<close>

text \<open>
  C34. The queue that collects the claims which cannot be withheld always empties, and what it
  has collected is exactly the closure: a claim is collected if and only if it is reached from
  the given paths through children that are not selectively disclosable.
\<close>

theorem nonselectively_disclosable_children_closure:
  "c \<in> set (get_nonselectively_disclosable_children claims paths) \<longleftrightarrow> nsd_below claims (set paths) c"
  by (simp add: set_nsd_children)

text \<open>The alternative the selection comes from, when there is one.\<close>

lemma first_matching_claims_split:
  assumes "first_matching_claims credential filters formatter = Inr res"
  shows "case res of
      None \<Rightarrow> \<forall>f \<in> set filters. select_matching_claims credential f formatter = Inr None
    | Some sel \<Rightarrow> \<exists>pre filt post. filters = pre @ filt # post \<and>
        (\<forall>f \<in> set pre. select_matching_claims credential f formatter = Inr None) \<and>
        select_matching_claims credential filt formatter = Inr (Some sel)"
  using assms
proof (induction filters)
  case (Cons f fs)
  then obtain r where r: "select_matching_claims credential f formatter = Inr r" by auto
  show ?case
  proof (cases r)
    case None
    with r Cons.prems have rest: "first_matching_claims credential fs formatter = Inr res" by simp
    show ?thesis
    proof (cases res)
      case None
      with Cons.IH [OF rest] r \<open>r = None\<close> show ?thesis by simp
    next
      case (Some sel)
      with Cons.IH [OF rest] obtain pre filt post where "fs = pre @ filt # post"
        "\<forall>f \<in> set pre. select_matching_claims credential f formatter = Inr None"
        "select_matching_claims credential filt formatter = Inr (Some sel)" by auto
      with Some \<open>r = None\<close> r show ?thesis
        by (simp, intro exI [of _ "f # pre"] exI [of _ filt] exI [of _ post]) simp
    qed
  next
    case (Some cs)
    with Cons.prems r show ?thesis by (auto intro!: exI [of _ "[]"])
  qed
qed simp

lemma select_matching_claims_exact:
  assumes "select_matching_claims credential filt formatter = Inr (Some sel)"
    and "cred_claims credential = Some claims" and "cf \<in> set (filter_claims filt)"
  shows "\<exists>exact. exactly_matching_claims claims cf (user_claims_path formatter) = Inr exact \<and>
    (filter_required cf \<longrightarrow> exact \<noteq> []) \<and> claim_path ` set exact \<subseteq> sel_path ` set sel"
proof -
  from assms(1,2) obtain mss where
    mss: "list_all2 (\<lambda>cf ms. get_matching_claims claims cf (user_claims_path formatter) True = Inr ms \<and>
            (filter_required cf \<longrightarrow> ms \<noteq> [])) (filter_claims filt) mss"
    and paths: "sel_path ` set sel = claim_path ` (set (nonselectively_disclosable claims) \<union>
            match_claim ` \<Union> (set ` set mss))"
    by (auto elim!: select_matching_claims_paths)
  from list_all2_member1 [OF mss assms(3)] obtain ms where
    ms: "ms \<in> set mss" "filter_required cf \<longrightarrow> ms \<noteq> []"
    and match: "get_matching_claims claims cf (user_claims_path formatter) True = Inr ms" by blast
  from match obtain exact trunk where exact: "exactly_matching_claims claims cf (user_claims_path formatter) = Inr exact"
    "ms = [] \<longleftrightarrow> exact = []" "match_claim ` set ms = brought_along claims True exact \<union> set trunk"
    by (rule get_matching_claims_spec)
  then have "set exact \<subseteq> match_claim ` set ms" by (auto simp: brought_along_def)
  with ms(1) have "claim_path ` set exact \<subseteq> sel_path ` set sel" unfolding paths by blast
  with exact ms(2) show ?thesis by blast
qed

text \<open>
  C7. The selection of a credential comes from the first alternative of the query, in the
  verifier's order, that the credential satisfies: every earlier one lacks a required claim.
  It contains every claim that a claim query of that alternative addresses exactly, and for
  each required claim query there is at least one. There is no selection only if the credential
  satisfies none of the alternatives.
\<close>

theorem first_matching_claims_complete:
  assumes "first_matching_claims credential filters formatter = Inr res"
    and "cred_claims credential = Some claims"
  shows "case res of
      None \<Rightarrow> \<forall>f \<in> set filters. select_matching_claims credential f formatter = Inr None
    | Some sel \<Rightarrow> \<exists>pre filt post. filters = pre @ filt # post \<and>
           (\<forall>f \<in> set pre. select_matching_claims credential f formatter = Inr None) \<and>
           (\<forall>cf \<in> set (filter_claims filt). \<exists>exact.
              exactly_matching_claims claims cf (user_claims_path formatter) = Inr exact \<and>
              (filter_required cf \<longrightarrow> exact \<noteq> []) \<and>
              claim_path ` set exact \<subseteq> sel_path ` set sel)"
proof (cases res)
  case None
  with first_matching_claims_split [OF assms(1)] show ?thesis by simp
next
  case (Some sel)
  with first_matching_claims_split [OF assms(1)] obtain pre filt post where "filters = pre @ filt # post"
    "\<forall>f \<in> set pre. select_matching_claims credential f formatter = Inr None"
    and sel: "select_matching_claims credential filt formatter = Inr (Some sel)" by auto
  with Some select_matching_claims_exact [OF sel assms(2)] show ?thesis
    by (simp, intro exI [of _ pre] exI [of _ filt] conjI exI [of _ post]) simp_all
qed

theorem first_matching_claims_complete_witness:
  "first_matching_claims wallet_credential [city_filter] plain_formatter = Inr (Some city_selection) \<and>
   (\<exists>exact. exactly_matching_claims wallet_claims (hd (filter_claims city_filter)) [] = Inr exact \<and>
      exact \<noteq> [] \<and> claim_path ` set exact \<subseteq> {''nat'', ''addr/city'', ''addr''})"
proof -
  have sel: "first_matching_claims wallet_credential [city_filter] plain_formatter = Inr (Some city_selection)"
    using select_city by simp
  from first_matching_claims_complete [OF sel wallet_claims_facts(1)] have "\<exists>exact.
      exactly_matching_claims wallet_claims (hd (filter_claims city_filter)) [] = Inr exact \<and>
      exact \<noteq> [] \<and> claim_path ` set exact \<subseteq> sel_path ` set city_selection"
    by (fastforce simp: Cons_eq_append_conv city_filter_def plain_formatter_def)
  with sel show ?thesis unfolding wallet_claims_facts(4) by blast
qed

text \<open>
  C1. Data minimisation: a claim that can be withheld is selected only if the verifier asked
  for it. Whenever a selectively disclosable claim is in the selection, some claim query of
  the alternative exactly addresses that claim, a claim above it, or a claim below it.
\<close>

theorem select_matching_claims_minimal:
  assumes "select_matching_claims credential filt formatter = Inr (Some sel)"
    and "cred_claims credential = Some claims" and "distinct (map claim_path claims)"
    and "c \<in> set claims" and "claim_selectively_disclosable c" and "claim_path c \<in> sel_path ` set sel"
  shows "\<exists>cf \<in> set (filter_claims filt). \<exists>exact e.
           exactly_matching_claims claims cf (user_claims_path formatter) = Inr exact \<and> e \<in> set exact \<and>
           (c = e \<or> is_above (claim_path e) (claim_path c) \<or> is_above (claim_path c) (claim_path e))"
proof -
  from assms(1,2) obtain mss where
    mss: "list_all2 (\<lambda>cf ms. get_matching_claims claims cf (user_claims_path formatter) True = Inr ms \<and>
            (filter_required cf \<longrightarrow> ms \<noteq> [])) (filter_claims filt) mss"
    and paths: "sel_path ` set sel = claim_path ` (set (nonselectively_disclosable claims) \<union>
            match_claim ` \<Union> (set ` set mss))"
    by (auto elim!: select_matching_claims_paths)
  have same: "d = c" if "d \<in> set claims" "claim_path d = claim_path c" for d
    using that assms(3,4) by (metis distinct_map inj_onD)
  have nsd: "d \<in> set claims \<and> \<not> claim_selectively_disclosable d"
    if "d \<in> set (nonselectively_disclosable claims)" for d
    using that by (auto simp: nonselectively_disclosable_def root_nonselectively_disclosable_def Let_def
        set_nsd_children dest: nsd_below_not_sd)
  have "claim_path c \<notin> claim_path ` set (nonselectively_disclosable claims)"
  proof
    assume "claim_path c \<in> claim_path ` set (nonselectively_disclosable claims)"
    then obtain d where "d \<in> set (nonselectively_disclosable claims)" "claim_path d = claim_path c" by auto
    with nsd [of d] same [of d] assms(5) show False by simp
  qed
  with assms(6) obtain ms m where ms: "ms \<in> set mss" and m: "m \<in> set ms" "claim_path (match_claim m) = claim_path c"
    unfolding paths by auto
  from list_all2_member2 [OF mss ms] obtain cf where cf: "cf \<in> set (filter_claims filt)"
    and match: "get_matching_claims claims cf (user_claims_path formatter) True = Inr ms" by blast
  from match obtain exact trunk where exact: "exactly_matching_claims claims cf (user_claims_path formatter) = Inr exact"
    and trunk: "set trunk \<subseteq> set claims" "claim_path ` set trunk = {q. \<exists>e \<in> set exact. is_above q (claim_path e)}"
    and matches: "match_claim ` set ms = brought_along claims True exact \<union> set trunk"
    by (rule get_matching_claims_spec)
  from m(1) matches consider "match_claim m \<in> set exact"
    | e where "match_claim m \<in> set claims" "e \<in> set exact" "is_above (claim_path e) (claim_path (match_claim m))"
    | "nsd_below claims {q. \<exists>e \<in> set exact. is_above q (claim_path e)} (match_claim m)"
    | "match_claim m \<in> set trunk"
    by (auto simp: brought_along_def dest!: imageI [of m _ match_claim])
  then have "\<exists>e \<in> set exact. c = e \<or> is_above (claim_path e) (claim_path c) \<or> is_above (claim_path c) (claim_path e)"
  proof cases
    case 1
    with exactly_matching_subset [OF exact] same [OF _ m(2)] show ?thesis by blast
  next
    case 2
    with m(2) show ?thesis by auto
  next
    case 3
    from nsd_below_not_sd [OF this] same [OF _ m(2)] assms(5) show ?thesis by blast
  next
    case 4
    then have "claim_path c \<in> claim_path ` set trunk" using m(2) [symmetric] by simp
    then show ?thesis unfolding trunk(2) by blast
  qed
  with cf exact show ?thesis by blast
qed

theorem select_matching_claims_minimal_witness:
  "select_matching_claims wallet_credential city_filter plain_formatter = Inr (Some city_selection) \<and>
   (\<exists>e :: Claim. is_above ''addr'' (claim_path e) \<or> claim_path e = ''addr'')"
proof -
  let ?c = "example_claim 2 ''addr'' None True"
  have c: "?c \<in> set wallet_claims" "claim_selectively_disclosable ?c" "claim_path ?c \<in> sel_path ` set city_selection"
    by (simp_all add: wallet_claims_def example_claim_def city_selection_def selected_example_def)
  have na: "\<not> is_above p ''addr''" for p by (rule not_above) (simp add: rsplit_once_def)
  have cp: "claim_path ?c = ''addr''" by (simp add: example_claim_def)
  from select_matching_claims_minimal [OF select_city wallet_claims_facts(1,2) c] obtain e where
    "?c = e \<or> is_above (claim_path e) ''addr'' \<or> is_above ''addr'' (claim_path e)"
    unfolding cp by blast
  with na cp have "is_above ''addr'' (claim_path e) \<or> claim_path e = ''addr''" by auto
  with select_city show ?thesis by blast
qed

text \<open>
  C8. When every claim of the credential has its parent among the claims, so has every claim
  of the selection: the selection is a subtree, and no selected claim is lost when the
  response is nested.
\<close>

theorem select_matching_claims_subtree:
  assumes "select_matching_claims credential filt formatter = Inr (Some sel)"
    and "cred_claims credential = Some claims" and "closed_claims claims"
    and "p \<in> sel_path ` set sel" and "rsplit_once slash p = Some (a, b)"
  shows "a \<in> sel_path ` set sel"
proof -
  from assms(1,2) obtain mss where
    mss: "list_all2 (\<lambda>cf ms. get_matching_claims claims cf (user_claims_path formatter) True = Inr ms \<and>
            (filter_required cf \<longrightarrow> ms \<noteq> [])) (filter_claims filt) mss"
    and paths: "sel_path ` set sel = claim_path ` set (nonselectively_disclosable claims) \<union>
            claim_path ` match_claim ` \<Union> (set ` set mss)"
    by (auto simp: image_Un elim!: select_matching_claims_paths)
  show ?thesis
  proof (cases "p \<in> claim_path ` set (nonselectively_disclosable claims)")
    case True
    then have "a \<in> claim_path ` set (nonselectively_disclosable claims)"
      using assms(5) nsd_below_parent [of claims "claim_path ` set (root_nonselectively_disclosable claims)" _ a b]
      by (fastforce simp: nonselectively_disclosable_def root_nonselectively_disclosable_def
          set_nsd_children rsplit_once_eq_Some Let_def)
    then show ?thesis unfolding paths by blast
  next
    case False
    with assms(4) obtain ms where ms: "ms \<in> set mss" and p: "p \<in> claim_path ` match_claim ` set ms"
      unfolding paths by auto
    from list_all2_member2 [OF mss ms] obtain cf where
      match: "get_matching_claims claims cf (user_claims_path formatter) True = Inr ms" by blast
    from match obtain exact trunk where exact: "exactly_matching_claims claims cf (user_claims_path formatter) = Inr exact"
      and trunk: "claim_path ` set trunk = {q. \<exists>e \<in> set exact. is_above q (claim_path e)}"
      and matches: "match_claim ` set ms = brought_along claims True exact \<union> set trunk"
      by (rule get_matching_claims_spec)
    have "a \<in> claim_path ` (brought_along claims True exact \<union> set trunk)"
      using p assms(5) unfolding matches by (rule brought_along_parent [OF assms(3) exact trunk])
    then show ?thesis using ms unfolding paths matches [symmetric] by blast
  qed
qed

theorem select_matching_claims_subtree_witness:
  "select_matching_claims wallet_credential city_filter plain_formatter = Inr (Some city_selection) \<and>
   ''addr'' \<in> sel_path ` set city_selection"
proof -
  have p: "''addr/city'' \<in> sel_path ` set city_selection" unfolding wallet_claims_facts(4) by simp
  have "rsplit_once slash ''addr/city'' = Some (''addr'', ''city'')"
    by (simp add: rsplit_once_def)
  from select_matching_claims_subtree [OF select_city wallet_claims_facts(1) wallet_claims_closed p this]
    select_city show ?thesis by blast
qed

end
