(* ===== verification/Dcql_Answer.thy ===== *)
theory Dcql_Answer
  imports Dcql_Disclosure
begin

text \<open>
  The whole answer of the wallet: which credentials are offered for a query, and what the
  response contains of them, for both versions of the presentation definition.
\<close>

section \<open>Filtering the claim tree\<close>

datatype 'f Scalar = SBoolean bool | SFloat 'f | SInteger int | SString string

fun detail_leaves :: "(string \<Rightarrow> bool) \<Rightarrow> 'f DetailClaim \<Rightarrow> (string \<times> 'f Scalar) list" where
  "detail_leaves keep (DetailClaim p s v) =
     (if keep p then
        case v of
          BooleanV b \<Rightarrow> [(p, SBoolean b)]
        | FloatV f \<Rightarrow> [(p, SFloat f)]
        | IntegerV i \<Rightarrow> [(p, SInteger i)]
        | StringV t \<Rightarrow> [(p, SString t)]
        | Nested cs \<Rightarrow> concat (map (detail_leaves keep) cs)
      else [])"

fun ext_leaves :: "'f ExtClaim \<Rightarrow> (string \<times> 'f Scalar) list" where
  "ext_leaves (ExtClaim p s v u r) =
     (case v of
        BooleanV b \<Rightarrow> [(p, SBoolean b)]
      | FloatV f \<Rightarrow> [(p, SFloat f)]
      | IntegerV i \<Rightarrow> [(p, SInteger i)]
      | StringV t \<Rightarrow> [(p, SString t)]
      | Nested cs \<Rightarrow> concat (map ext_leaves cs))"

fun ext_paths :: "'f ExtClaim \<Rightarrow> string list" where
  "ext_paths (ExtClaim p s v u r) =
     p # (case v of Nested cs \<Rightarrow> concat (map ext_paths cs) | _ \<Rightarrow> [])"

definition opt_leaves :: "'f ExtClaim option \<Rightarrow> (string \<times> 'f Scalar) list" where
  "opt_leaves x = (case x of None \<Rightarrow> [] | Some e \<Rightarrow> ext_leaves e)"

lemma concat_map_filter:
  "concat (map f (List.map_filter g xs)) = concat (map (\<lambda>x. case g x of None \<Rightarrow> [] | Some y \<Rightarrow> f y) xs)"
  by (induction xs) (auto simp: List.map_filter_simps split: option.split)

lemma filtered_leaves:
  "opt_leaves (to_claim_detail_ext_filtered m d) = detail_leaves (\<lambda>p. map_of m p \<noteq> None) d"
proof (induction d)
  case (DetailClaim p s v)
  show ?case
  proof (cases v)
    case (Nested cs)
    let ?mapped = "List.map_filter (to_claim_detail_ext_filtered m) cs"
    have "List.map_filter (\<lambda>x. x) (map (to_claim_detail_ext_filtered m) cs) = ?mapped"
      by (induction cs) (auto simp: List.map_filter_simps split: option.split)
    moreover have "concat (map ext_leaves ?mapped) = concat (map (detail_leaves (\<lambda>p. map_of m p \<noteq> None)) cs)"
      unfolding concat_map_filter using DetailClaim.IH Nested
      by (intro arg_cong [where f = concat] map_cong) (auto simp: opt_leaves_def split: option.splits)
    ultimately show ?thesis
      by (cases "map_of m p") (auto simp: Nested opt_leaves_def Let_def)
  qed (cases "map_of m p"; simp add: opt_leaves_def)+
qed

lemma filtered_paths:
  "to_claim_detail_ext_filtered m d = Some e \<Longrightarrow> set (ext_paths e) \<subseteq> dom (map_of m)"
proof (induction d arbitrary: e)
  case (DetailClaim p s v)
  then obtain sel where sel: "map_of m p = Some sel" by (auto split: Option.bind_splits)
  show ?case
  proof (cases v)
    case (Nested cs)
    have children: "set (ext_paths e') \<subseteq> dom (map_of m)"
      if "e' \<in> set (List.map_filter (\<lambda>x. x) (map (to_claim_detail_ext_filtered m) cs))" for e'
      using that DetailClaim.IH Nested
      by (auto simp: List.map_filter_def) blast
    from DetailClaim.prems sel Nested show ?thesis
      by (auto simp: Let_def split: if_splits dest!: children)
  qed (use DetailClaim.prems sel in auto)
qed

definition tree_keep :: "SelectedClaim list \<Rightarrow> 'f DetailClaim CredentialDetailResponseDTO \<Rightarrow> (string \<times> 'f Scalar) list" where
  "tree_keep sel d = concat (map (detail_leaves (\<lambda>p. p \<in> sel_path ` set sel)) (detail_claims d))"

lemma map_of_by_path:
  "map_of (rev (map (\<lambda>s. (sel_path s, s)) sel)) p \<noteq> None \<longleftrightarrow> p \<in> sel_path ` set sel"
  by (force simp: map_of_eq_None_iff image_iff)

lemma map_to_filtered_dto_leaves:
  "concat (map ext_leaves (detail_claims (map_to_filtered_dto d sel))) = tree_keep sel d"
proof -
  let ?m = "rev (map (\<lambda>s. (sel_path s, s)) sel)"
  have "concat (map ext_leaves (detail_claims (map_to_filtered_dto d sel))) =
      concat (map (\<lambda>c. opt_leaves (to_claim_detail_ext_filtered ?m c)) (detail_claims d))"
    by (simp add: map_to_filtered_dto_def Let_def concat_map_filter opt_leaves_def)
  also have "\<dots> = tree_keep sel d"
    unfolding filtered_leaves map_of_by_path tree_keep_def ..
  finally show ?thesis .
qed

lemma map_to_filtered_dto_paths:
  "x \<in> set (detail_claims (map_to_filtered_dto d sel)) \<Longrightarrow> set (ext_paths x) \<subseteq> sel_path ` set sel"
  using map_of_by_path [of sel] filtered_paths [of "rev (map (\<lambda>s. (sel_path s, s)) sel)"]
  by (fastforce simp: map_to_filtered_dto_def Let_def List.map_filter_def)

section \<open>An example wallet\<close>

definition example_org :: Organisation where
  "example_org = \<lparr>org_id = 7, org_name = ''org'', org_created_date = 0, org_last_modified = 0,
     org_deactivated_at = None, org_wallet_provider = None, org_wallet_provider_issuer = None\<rparr>"

definition stored_credential :: Credential where
  "stored_credential =
     wallet_credential\<lparr>cred_schema := Some (wallet_schema\<lparr>schema_organisation := Some example_org\<rparr>)\<rparr>"

definition example_wallet :: "unit wallet_env" where
  "example_wallet =
     \<lparr>stored_credentials = (\<lambda>i org. Some (if i = ''id'' \<and> org = 7 then [stored_credential] else [])),
      stored_schema = (\<lambda>_ _. Some None),
      wallet_formatters = (\<lambda>f. if f = ''JWT'' then Some plain_formatter else None),
      wallet_config = [(''JWT'', FormatType.Jwt)], wallet_akis = (\<lambda>_. None), wallet_mapper = example_env,
      wallet_response = \<lparr>env_mdoc_params = (\<lambda>_. None), env_x509_ok = (\<lambda>_. True),
        env_parse_wallet_instance = (\<lambda>_. None), env_parse_wallet_unit = (\<lambda>_. None)\<rparr>,
      wallet_schema_detail = Inr, wallet_new_uuid = 0, wallet_now = 0\<rparr>"

definition city_query :: DcqlQuery where
  "city_query =
     \<lparr>dcql_credentials = [(jwt_vc [[''VC'', ''id'']] ''q'')\<lparr>query_claims := Some
        [\<lparr>cq_id = None, cq_path = [PropertyName ''addr'', PropertyName ''city''], cq_values = None,
          cq_required = None, cq_intent_to_retain = None\<rparr>]\<rparr>],
      dcql_credential_sets = None\<rparr>"

fun offered_credentials :: "'f ApplicableCredentialOrFailureHint \<Rightarrow> 'f ExtClaim CredentialDetailResponseDTO list" where
  "offered_credentials (ApplicableCredentials xs) = xs"
| "offered_credentials (FailureHint _ _) = []"

lemma city_answer:
  "\<exists>r resp x. get_presentation_definition_v2 example_wallet city_query (Some example_org) = Inr r \<and>
     (''q'', resp) \<in> set (pd2_credential_queries r) \<and>
     resp_credential_or_failure_hint resp = ApplicableCredentials [x] \<and>
     concat (map ext_leaves (detail_claims x)) = [(''addr/city'', SString ''Bern''), (''nat'', SString ''CH'')]"
proof -
  let ?r = "get_presentation_definition_v2 example_wallet city_query (Some example_org)"
  let ?leaves = "[(''addr/city'', SString ''Bern''), (''nat'', SString ''CH'')] :: (string \<times> unit Scalar) list"
  have "is_ok ?r" by code_simp
  then obtain r where r: "?r = Inr r" by (auto simp: is_ok_iff)
  have "map (\<lambda>(i, resp). (i, map (\<lambda>x. concat (map ext_leaves (detail_claims x)))
          (offered_credentials (resp_credential_or_failure_hint resp)))) (pd2_credential_queries (projr ?r)) =
        [(''q'', [?leaves])]"
    by code_simp
  then obtain resp where q: "pd2_credential_queries r = [(''q'', resp)]"
    and resp: "map (\<lambda>x. concat (map ext_leaves (detail_claims x)))
          (offered_credentials (resp_credential_or_failure_hint resp)) = [?leaves]"
    unfolding r by (auto simp: map_eq_Cons_conv)
  then obtain x where "resp_credential_or_failure_hint resp = ApplicableCredentials [x]"
    and "concat (map ext_leaves (detail_claims x)) = ?leaves"
    by (cases "resp_credential_or_failure_hint resp") auto
  with r q show ?thesis by auto
qed

section \<open>Second version\<close>

lemma concat_try_map_member:
  "try_map f xs = Inr yss \<Longrightarrow> y \<in> set (concat yss) \<Longrightarrow> \<exists>x \<in> set xs. \<exists>ys. f x = Inr ys \<and> y \<in> set ys"
  by (induction xs arbitrary: yss) (simp, fastforce)

lemma fetched_stored:
  "fetch_credentials_for_schema_ids w org filters = Inr cs \<Longrightarrow> c \<in> set cs \<Longrightarrow>
     \<exists>i cs'. stored_credentials w i org = Some cs' \<and> c \<in> set cs'"
  by (cases filters)
    (auto simp: fetch_credentials_for_schema_ids_def simp del: set_concat, drule concat_try_map_member, auto)

lemma credential_detail_claims:
  assumes "credential_detail_response_from_model env renv c vc att = Inr dto"
  shows "detail_id dto = cred_id c \<and>
         from_vec_claim env
           (filter (\<lambda>cl. \<not> (case claim_schema cl of None \<Rightarrow> False | Some s \<Rightarrow> csch_metadata s)) (the (cred_claims c)))
           (the (cred_schema c)) = Inr (detail_claims dto)"
  using assms by (auto simp: credential_detail_response_from_model_def Let_def)

lemma applicable_credential_spec:
  assumes "applicable_credential w filters c = Inr xs" and "x \<in> set xs"
  shows "\<exists>formatter sel dto. formatter_of w c = Inr formatter \<and>
           first_matching_claims c filters formatter = Inr (Some sel) \<and>
           credential_detail_response_from_model (wallet_mapper w) (wallet_response w) c None
             \<lparr>wallet_instance_attestation_blob = None, wallet_unit_attestation_blob = None\<rparr> = Inr dto \<and>
           x = map_to_filtered_dto dto sel"
  using assms by (auto simp: applicable_credential_def split: option.splits)

lemma answer_query_applicable:
  assumes "answer_query w org q filters = Inr r"
    and "resp_credential_or_failure_hint r = ApplicableCredentials xs" and "x \<in> set xs"
  shows "\<exists>c fetched. fetch_credentials_for_schema_ids w org filters = Inr fetched \<and>
           c \<in> set (v2_candidates w q fetched) \<and> cred_state c = Accepted \<and>
           (\<exists>ys. applicable_credential w filters c = Inr ys \<and> x \<in> set ys)"
proof -
  from assms(1) obtain fetched where f: "fetch_credentials_for_schema_ids w org filters = Inr fetched"
    by (auto simp: answer_query_def)
  with assms obtain yss where
    "try_map (applicable_credential w filters)
       (filter (\<lambda>c. cred_state c = Accepted) (v2_candidates w q fetched)) = Inr yss"
    and "x \<in> set (concat yss)"
    by (auto simp: answer_query_def Let_def failure_hint_def split: if_splits)
  from concat_try_map_member [OF this] f show ?thesis by auto
qed

lemma set_update_member: "kv \<in> set (AList.update k v m) \<Longrightarrow> kv = (k, v) \<or> kv \<in> set m"
  using set_update_subset [of k v m] by blast

lemma v2_answers:
  assumes "get_presentation_definition_v2 w d proof_org = Inr r"
    and "(i, resp) \<in> set (pd2_credential_queries r)"
  shows "\<exists>org q m filters. proof_org = Some org \<and> q \<in> set (dcql_credentials d) \<and> query_id q = i \<and>
           credential_filters d = Inr m \<and> m i = Some filters \<and> answer_query w (org_id org) q filters = Inr resp"
proof -
  from assms obtain org m where org: "proof_org = Some org" and m: "credential_filters d = Inr m"
    and fold: "try_fold (\<lambda>query queries.
              rbind (ok_or (m (query_id query)) (MissingCredentialFilters (query_id query)))
                (\<lambda>filters. rbind (answer_query w (org_id org) query filters) (\<lambda>response.
                Inr (AList.update (query_id query) response queries))))
              (dcql_credentials d) [] = Inr (pd2_credential_queries r)"
    by (auto simp: get_presentation_definition_v2_def Let_def)
  have "\<forall>(i, resp) \<in> set (pd2_credential_queries r). \<exists>q filters. q \<in> set (dcql_credentials d) \<and>
      query_id q = i \<and> m i = Some filters \<and> answer_query w (org_id org) q filters = Inr resp"
    using fold by (rule try_fold_invariant) (auto dest!: set_update_member)
  with assms(2) org m show ?thesis by fast
qed

text \<open>
  C6. Every credential that the wallet offers in answer to a DCQL query is stored for the
  organisation, accepted, held by the wallet, in the format of a query with that identifier,
  and satisfies one of the alternatives. What the response contains of it are nodes of the
  selection computed for that alternative, and its leaves are those leaves of the credential's
  claim tree all of whose ancestors are selected, values included.
\<close>

theorem get_presentation_definition_v2_reveals:
  assumes "get_presentation_definition_v2 w d proof_org = Inr r"
    and "(i, resp) \<in> set (pd2_credential_queries r)"
    and "resp_credential_or_failure_hint resp = ApplicableCredentials xs" and "x \<in> set xs"
  shows "\<exists>org q m filters c schema_id cs schema formatter sel dto.
           proof_org = Some org \<and> q \<in> set (dcql_credentials d) \<and> query_id q = i \<and>
           credential_filters d = Inr m \<and> m i = Some filters \<and>
           stored_credentials w schema_id (org_id org) = Some cs \<and> c \<in> set cs \<and>
           cred_state c = Accepted \<and> cred_role c = Holder \<and> cred_schema c = Some schema \<and>
           format_matches (query_format q) (schema_format schema) (wallet_config w) \<and>
           first_matching_claims c filters formatter = Inr (Some sel) \<and>
           credential_detail_response_from_model (wallet_mapper w) (wallet_response w) c None
             \<lparr>wallet_instance_attestation_blob = None, wallet_unit_attestation_blob = None\<rparr> = Inr dto \<and>
           x = map_to_filtered_dto dto sel \<and>
           (\<forall>n \<in> set (detail_claims x). set (ext_paths n) \<subseteq> sel_path ` set sel) \<and>
           concat (map ext_leaves (detail_claims x)) = tree_keep sel dto"
proof -
  from v2_answers [OF assms(1,2)] obtain org q m filters where q:
    "proof_org = Some org" "q \<in> set (dcql_credentials d)" "query_id q = i" "credential_filters d = Inr m"
    "m i = Some filters" and answer: "answer_query w (org_id org) q filters = Inr resp" by blast
  from answer_query_applicable [OF answer assms(3,4)] obtain c fetched ys where
    fetched: "fetch_credentials_for_schema_ids w (org_id org) filters = Inr fetched"
    and c: "c \<in> set (v2_candidates w q fetched)" "cred_state c = Accepted"
    and ys: "applicable_credential w filters c = Inr ys" "x \<in> set ys" by blast
  from c obtain schema where schema: "cred_schema c = Some schema" "cred_role c = Holder"
    "format_matches (query_format q) (schema_format schema) (wallet_config w)" "c \<in> set fetched"
    by (auto simp: v2_candidates_def split: option.splits)
  from fetched_stored [OF fetched schema(4)] obtain schema_id cs where
    stored: "stored_credentials w schema_id (org_id org) = Some cs" "c \<in> set cs" by blast
  from applicable_credential_spec [OF ys] obtain formatter sel dto where dto:
    "first_matching_claims c filters formatter = Inr (Some sel)"
    "credential_detail_response_from_model (wallet_mapper w) (wallet_response w) c None
       \<lparr>wallet_instance_attestation_blob = None, wallet_unit_attestation_blob = None\<rparr> = Inr dto"
    "x = map_to_filtered_dto dto sel" by blast
  have "(\<forall>n \<in> set (detail_claims x). set (ext_paths n) \<subseteq> sel_path ` set sel) \<and>
      concat (map ext_leaves (detail_claims x)) = tree_keep sel dto"
    unfolding dto(3) using map_to_filtered_dto_paths map_to_filtered_dto_leaves by blast
  with q c(2) schema stored dto show ?thesis by blast
qed

theorem get_presentation_definition_v2_reveals_witness:
  "\<exists>r resp x sel. get_presentation_definition_v2 example_wallet city_query (Some example_org) = Inr r \<and>
     (''q'', resp) \<in> set (pd2_credential_queries r) \<and>
     resp_credential_or_failure_hint resp = ApplicableCredentials [x] \<and>
     concat (map ext_leaves (detail_claims x)) = [(''addr/city'', SString ''Bern''), (''nat'', SString ''CH'')] \<and>
     (\<forall>n \<in> set (detail_claims x). set (ext_paths n) \<subseteq> sel_path ` set (sel :: SelectedClaim list))"
proof -
  from city_answer obtain r resp x where
    r: "get_presentation_definition_v2 example_wallet city_query (Some example_org) = Inr r"
      "(''q'', resp) \<in> set (pd2_credential_queries r)"
      "resp_credential_or_failure_hint resp = ApplicableCredentials [x]"
    and leaves: "concat (map ext_leaves (detail_claims x)) = [(''addr/city'', SString ''Bern''), (''nat'', SString ''CH'')]"
    by blast
  from get_presentation_definition_v2_reveals [OF r, of x] obtain sel :: "SelectedClaim list" where
    "\<forall>n \<in> set (detail_claims x). set (ext_paths n) \<subseteq> sel_path ` set sel" by auto
  with r leaves show ?thesis by blast
qed

subsection \<open>Trusted authorities\<close>

definition with_authorities ::
  "(CredentialQuery \<Rightarrow> TrustedAuthority list option) \<Rightarrow> CredentialQuery \<Rightarrow> CredentialQuery" where
  "with_authorities f q = q\<lparr>query_trusted_authorities := f q\<rparr>"

lemma with_authorities_simps [simp]:
  "query_id (with_authorities f q) = query_id q" "query_multiple (with_authorities f q) = query_multiple q"
  "query_filters (with_authorities f q) = query_filters q"
  "failure_hint (with_authorities f q) = failure_hint q"
  "v2_candidates w (with_authorities f q) = v2_candidates w q"
  by (simp_all add: with_authorities_def query_filters_def fun_eq_iff failure_hint_def v2_candidates_def
      cong: option.case_cong if_cong)

lemma answer_query_authorities: "answer_query w org (with_authorities f q) filters = answer_query w org q filters"
  unfolding answer_query_def with_authorities_simps ..

lemma try_fold_map: "try_fold g (map h xs) s = try_fold (\<lambda>x. g (h x)) xs s"
  by (induction xs arbitrary: s) (auto intro!: rbind_cong)

text \<open>
  C35. The second version of the presentation definition does not look at the trusted
  authorities of a query: whatever authorities the verifier names, the wallet offers the same
  credentials. (The first version removes the candidates of other issuers.)
\<close>

theorem v2_ignores_trusted_authorities:
  "get_presentation_definition_v2 w
     (d\<lparr>dcql_credentials := map (with_authorities f) (dcql_credentials d)\<rparr>) proof_org =
   get_presentation_definition_v2 w d proof_org"
proof -
  have "credential_filters (d\<lparr>dcql_credentials := map (with_authorities f) (dcql_credentials d)\<rparr>) =
      credential_filters d"
    by (simp add: credential_filters_def try_fold_map)
  then show ?thesis
    by (simp add: get_presentation_definition_v2_def try_fold_map answer_query_authorities comp_def
        cong: option.case_cong)
qed

section \<open>First version\<close>

text \<open>A credential satisfies one of the filters when none of that filter's claims is missing.\<close>

definition some_filter_applies :: "CredentialFormatter \<Rightarrow> CredentialFilter list \<Rightarrow> Credential \<Rightarrow> bool" where
  "some_filter_applies formatter filters c \<longleftrightarrow>
     list_ex (\<lambda>f. case select_claims c f formatter False of
                    Inl e \<Rightarrow> False | Inr ms \<Rightarrow> \<not> list_ex is_missing ms) filters"

definition offered :: "'f wallet_env \<Rightarrow> CredentialFilter list \<Rightarrow> Credential \<Rightarrow> bool" where
  "offered w filters c \<longleftrightarrow>
     cred_state c = Accepted \<and> some_filter_applies (projr (formatter_of w c)) filters c"

lemma some_filter_applies_Cons:
  "some_filter_applies formatter (f # fs) c \<longleftrightarrow>
     (case select_claims c f formatter False of Inl e \<Rightarrow> False | Inr ms \<Rightarrow> \<not> list_ex is_missing ms) \<or>
     some_filter_applies formatter fs c"
  by (simp add: some_filter_applies_def)

lemma match_filters_applies:
  "match_filters c formatter filters matched = Inr (ms, b) \<Longrightarrow> b = some_filter_applies formatter filters c"
proof (induction filters arbitrary: matched)
  case Nil
  then show ?case by (simp add: some_filter_applies_def)
next
  case (Cons f fs)
  then obtain cs where cs: "select_claims c f formatter False = Inr cs" by auto
  with Cons show ?case by (cases "list_ex is_missing cs") (auto simp: some_filter_applies_Cons)
qed

lemma match_credential_spec:
  assumes "match_credential w filters c r = Inr r'"
  shows "applicable_credentials r' = applicable_credentials r @ (if offered w filters c then [cred_id c] else []) \<and>
         inapplicable_credentials r' = inapplicable_credentials r @ (if offered w filters c then [] else [cred_id c])"
proof -
  from assms obtain formatter matched b m where fm: "formatter_of w c = Inr formatter"
    and matched: "match_filters c formatter filters [] = Inr (matched, b)"
    and r': "r' = (if b \<and> cred_state c = Accepted
                   then r\<lparr>applicable_credentials := applicable_credentials r @ [cred_id c]\<rparr>
                   else r\<lparr>inapplicable_credentials := inapplicable_credentials r @ [cred_id c]\<rparr>)
                  \<lparr>claims_to_credentials := m\<rparr>"
    by (auto simp: match_credential_def Let_def)
  from match_filters_applies [OF matched] fm have "offered w filters c \<longleftrightarrow> b \<and> cred_state c = Accepted"
    by (auto simp: offered_def)
  then show ?thesis by (simp add: r')
qed

lemma match_credentials_spec:
  "try_fold (match_credential w filters) cs r = Inr r' \<Longrightarrow>
     applicable_credentials r' = applicable_credentials r @ map cred_id (filter (offered w filters) cs) \<and>
     inapplicable_credentials r' = inapplicable_credentials r @ map cred_id (filter (\<lambda>c. \<not> offered w filters c) cs)"
  by (induction cs arbitrary: r) (auto dest!: match_credential_spec)

text \<open>
  C29. Every candidate is listed once, in order: as applicable when it is accepted and lacks no
  required claim of some alternative, and as inapplicable otherwise.
\<close>

theorem first_applicable_claim_set_partition:
  assumes "first_applicable_claim_set w candidates filters = Inr r"
  shows "applicable_credentials r = map cred_id (filter (offered w filters) candidates) \<and>
         inapplicable_credentials r = map cred_id (filter (\<lambda>c. \<not> offered w filters c) candidates)"
  using assms
  by (auto simp: first_applicable_claim_set_def absent_claim_set_def Let_def
      dest!: match_credentials_spec split: if_splits)

theorem first_applicable_claim_set_partition_witness:
  "\<exists>r. first_applicable_claim_set example_wallet
          [stored_credential, stored_credential\<lparr>cred_id := 2, cred_state := Suspended\<rparr>] [city_filter] = Inr r \<and>
     applicable_credentials r = [1] \<and> inapplicable_credentials r = [2]"
proof -
  let ?cs = "[stored_credential, stored_credential\<lparr>cred_id := 2, cred_state := Suspended\<rparr>]"
  have "is_ok (first_applicable_claim_set example_wallet ?cs [city_filter])" by code_simp
  then obtain r where r: "first_applicable_claim_set example_wallet ?cs [city_filter] = Inr r"
    by (auto simp: is_ok_iff)
  have "map cred_id (filter (offered example_wallet [city_filter]) ?cs) = [1]"
    "map cred_id (filter (\<lambda>c. \<not> offered example_wallet [city_filter] c) ?cs) = [2]"
    by code_simp+
  with first_applicable_claim_set_partition [OF r] r show ?thesis by auto
qed

end
