(* ===== verification/Errors.thy ===== *)
theory Errors
  imports Entities
begin

text \<open>
  Error values shared by the components over the database: the error code carried through
  \<open>error_while\<close> (\<open>one-core-portable/src/error/mod.rs\<close>) and the errors of the data layer
  (\<open>one-core/src/repository/error.rs\<close>). A \<open>NestedError\<close> boxes its source only to display it
  and to hand its code on, so it is the context with that code.
\<close>

type_synonym error_code = string

datatype NestedError = NestedError (nested_context: string) (nested_error_code: error_code)

definition error_while :: "('e \<Rightarrow> error_code) \<Rightarrow> string \<Rightarrow> 'e \<Rightarrow> NestedError" where
  "error_while code context e = NestedError context (code e)"

datatype DataLayerError =
    AlreadyExists
  | IncorrectParameters
  | RecordNotUpdated
  | DlMappingError
  | MissingRequiredRelation string string
  | IncompleteClaimsList nat nat
  | IncompleteClaimsSchemaList nat nat
  | MissingClaimsSchemaForClaim uuid uuid
  | MissingProofState uuid
  | TransactionError string
  | UnsupportedDbBackend
  | DbError string
  | UUIDError string
  | DlNested NestedError

fun data_layer_error_code :: "DataLayerError \<Rightarrow> error_code" where
  "data_layer_error_code (DbError _) = ''BR_0054''"
| "data_layer_error_code AlreadyExists = ''BR_0357''"
| "data_layer_error_code (DlNested nested) = nested_error_code nested"
| "data_layer_error_code _ = ''BR_0000''"

text \<open>The errors of \<open>sea_orm\<close> that the providers tell apart.\<close>

datatype db_err =
    UniqueConstraintViolation
  | ForeignKeyConstraintViolation
  | DbRecordNotUpdated
  | DbRecordNotFound
  | OtherDbErr string

fun to_data_layer_error :: "db_err \<Rightarrow> DataLayerError" where
  "to_data_layer_error UniqueConstraintViolation = AlreadyExists"
| "to_data_layer_error ForeignKeyConstraintViolation = IncorrectParameters"
| "to_data_layer_error DbRecordNotUpdated = DbError ''None of the records are updated''"
| "to_data_layer_error DbRecordNotFound = DbError ''RecordNotFound Error''"
| "to_data_layer_error (OtherDbErr e) = DbError e"

fun to_update_data_layer_error :: "db_err \<Rightarrow> DataLayerError" where
  "to_update_data_layer_error DbRecordNotUpdated = RecordNotUpdated"
| "to_update_data_layer_error DbRecordNotFound = RecordNotUpdated"
| "to_update_data_layer_error e = to_data_layer_error e"

section \<open>The text of a UUID\<close>

text \<open>The hyphenated lower-case form of a 128-bit number.\<close>

definition hex_digit :: "nat \<Rightarrow> char" where
  "hex_digit d = (if d < 10 then char_of (48 + d) else char_of (87 + d))"

fun hex_digits :: "nat \<Rightarrow> nat \<Rightarrow> string" where
  "hex_digits 0 n = []"
| "hex_digits (Suc k) n = hex_digits k (n div 16) @ [hex_digit (n mod 16)]"

definition uuid_text :: "uuid \<Rightarrow> string" where
  "uuid_text u =
     (let h = hex_digits 32 u in
      join ''-'' [take 8 h, take 4 (drop 8 h), take 4 (drop 12 h), take 4 (drop 16 h), drop 20 h])"

section \<open>Relation selectors\<close>

text \<open>
  Which related entities a repository loads. \<open>OrganisationRelations\<close> has no fields, so an
  \<open>Option\<close> of it is a \<open>bool\<close>.
\<close>

record KeyRelations =
  krel_organisation :: bool

record DidRelations =
  drel_keys :: "KeyRelations option"
  drel_organisation :: bool

record CertificateRelations =
  crel_key :: "KeyRelations option"
  crel_organisation :: bool

record IdentifierRelations =
  irel_organisation :: bool
  irel_did :: "DidRelations option"
  irel_key :: "KeyRelations option"
  irel_certificates :: "CertificateRelations option"

definition key_relations_default :: KeyRelations where
  "key_relations_default = \<lparr>krel_organisation = False\<rparr>"

definition did_relations_default :: DidRelations where
  "did_relations_default = \<lparr>drel_keys = None, drel_organisation = False\<rparr>"

definition certificate_relations_default :: CertificateRelations where
  "certificate_relations_default = \<lparr>crel_key = None, crel_organisation = False\<rparr>"

definition identifier_relations_default :: IdentifierRelations where
  "identifier_relations_default =
     \<lparr>irel_organisation = False, irel_did = None, irel_key = None, irel_certificates = None\<rparr>"

end
