(* ===== verification/Status_Bits.thy ===== *)
theory Status_Bits
  imports Prelude
begin

text \<open>
  Packed status lists: the token status list of
  \<open>one-core/src/provider/revocation/token_status_list/util.rs\<close> and the bitstring status list
  of \<open>one-core/src/provider/revocation/bitstring_status_list/util.rs\<close>, with the shared
  \<open>provider/revocation/utils.rs\<close>.

  The crate \<open>bit_vec\<close> keeps the bits of a byte with the most significant one first; a
  \<open>BitVec\<close> is a \<open>bool list\<close> here, and writing outside it panics. The codecs (base64, zlib,
  gzip) are parameters, collected in a record; \<open>codec_round_trip\<close> states what the code relies
  on. A \<open>usize\<close> is a \<open>nat\<close>: for the indexes below \<open>2 ^ 60\<close> no intermediate value reaches
  \<open>2 ^ 64\<close> (\<open>bit_index_fits_usize\<close>).
\<close>

section \<open>Status values\<close>

datatype RevocationListEntryStatus = Active | Revoked | Suspended

datatype RevocationState = Valid | Revoked | Suspended (suspend_end_date: "int option")

fun status_of_state :: "RevocationState \<Rightarrow> RevocationListEntryStatus" where
  "status_of_state Valid = Active"
| "status_of_state RevocationState.Revoked = RevocationListEntryStatus.Revoked"
| "status_of_state (RevocationState.Suspended _) = RevocationListEntryStatus.Suspended"

text \<open>What a reader of a status list can see of an entry's status.\<close>

fun state_of_status :: "RevocationListEntryStatus \<Rightarrow> RevocationState" where
  "state_of_status Active = Valid"
| "state_of_status RevocationListEntryStatus.Revoked = RevocationState.Revoked"
| "state_of_status RevocationListEntryStatus.Suspended = RevocationState.Suspended None"

section \<open>Bit vectors\<close>

definition byte_bits :: "u8 \<Rightarrow> bool list" where
  "byte_bits b = map (\<lambda>i. bit b (7 - i)) [0..<8]"

definition bits_byte :: "bool list \<Rightarrow> u8" where
  "bits_byte bs = horner_sum of_bool 2 (rev bs)"

text \<open>\<open>BitVec::from_bytes\<close> and \<open>BitVec::to_bytes\<close>, which fills the last byte with zeros.\<close>

definition bitvec_from_bytes :: "bytes \<Rightarrow> bool list" where
  "bitvec_from_bytes bs = concat (map byte_bits bs)"

function bitvec_to_bytes :: "bool list \<Rightarrow> bytes" where
  "bitvec_to_bytes [] = []"
| "bs \<noteq> [] \<Longrightarrow>
     bitvec_to_bytes bs =
       bits_byte (take 8 bs @ replicate (8 - length bs) False) # bitvec_to_bytes (drop 8 bs)"
  by blast auto

termination
  by (relation "measure length") auto

text \<open>\<open>BitVec::set\<close> panics outside the vector.\<close>

definition bitvec_set :: "nat \<Rightarrow> bool list \<Rightarrow> ('e fault, bool list) result" where
  "bitvec_set i bs = (if i < length bs then Inr (bs[i := True]) else Inl Panic)"

section \<open>Codecs\<close>

datatype io_error = UnexpectedEof | OtherIo string

text \<open>
  \<open>b64_decode\<close> is \<open>Base64UrlSafeNoPadding::decode_to_vec\<close> with no ignored characters and
  \<open>b64_decode_padded\<close> the same with \<open>=\<close> ignored; \<open>gunzip_prefix n\<close> reads exactly \<open>n\<close>
  bytes of the decompressed stream.
\<close>

record status_codec =
  b64_encode :: "bytes \<Rightarrow> (string, string) result"
  b64_decode :: "string \<Rightarrow> (string, bytes) result"
  b64_decode_padded :: "string \<Rightarrow> (string, bytes) result"
  zlib_compress :: "bytes \<Rightarrow> (io_error, bytes) result"
  zlib_decompress :: "bytes \<Rightarrow> (io_error, bytes) result"
  gzip_write :: "bytes \<Rightarrow> (io_error, bytes) result"
  gzip_read_exact :: "bytes \<Rightarrow> nat \<Rightarrow> (io_error, bytes) result"

text \<open>
  What the codecs promise: encoding and compressing succeed, decoding and decompressing give
  the bytes back, and reading a prefix of a compressed stream gives that prefix. The base64 form
  of a gzip stream starts with \<open>H4s\<close>, the encoding of its magic number.
\<close>

definition codec_round_trip :: "status_codec \<Rightarrow> bool" where
  "codec_round_trip c \<longleftrightarrow>
     (\<forall>bs. \<exists>s. b64_encode c bs = Inr s \<and> b64_decode c s = Inr bs \<and> b64_decode_padded c s = Inr bs) \<and>
     (\<forall>bs. \<exists>z. zlib_compress c bs = Inr z \<and> zlib_decompress c z = Inr bs) \<and>
     (\<forall>bs. \<exists>z s. gzip_write c bs = Inr z \<and> b64_encode c z = Inr s \<and> prefix ''H4s'' s \<and>
        (\<forall>n. gzip_read_exact c z n =
               (if n \<le> length bs then Inr (take n bs) else Inl UnexpectedEof)))"

section \<open>Token status list\<close>

datatype TokenError =
    Base64Encoding string
  | Base64Decoding string
  | Compression io_error
  | Decompression io_error
  | IndexOutOfBounds nat
  | SuspensionRequiresAtLeastTwoBits

record TokenStatusListSubject =
  tsl_bits :: nat
  tsl_value :: string

definition PREFERRED_ENTRY_SIZE :: nat where
  "PREFERRED_ENTRY_SIZE = 2"

definition checked_div :: "nat \<Rightarrow> nat \<Rightarrow> ('e fault, nat) result" where
  "checked_div a b = (if b = 0 then Inl Panic else Inr (a div b))"

definition get_most_significant_bit_index :: "nat \<Rightarrow> nat \<Rightarrow> ('e fault, nat) result" where
  "get_most_significant_bit_index index bit_size =
     rbind (checked_div 8 bit_size) (\<lambda>words_in_byte.
     rbind (checked_div 8 words_in_byte) (\<lambda>word_size.
       let byte_number = index * word_size div 8;
           byte_start_index = 8 * byte_number;
           smallest_index_in_byte = byte_number * words_in_byte;
           word_index_within_byte = index - smallest_index_in_byte
       in Inr (byte_start_index + 8 - word_index_within_byte * word_size - word_size)))"

definition extract_state_from_token ::
  "status_codec \<Rightarrow> TokenStatusListSubject \<Rightarrow> nat \<Rightarrow> (TokenError fault, RevocationState) result" where
  "extract_state_from_token c status_list index =
     (let entry_size = tsl_bits status_list in
      rbind (map_err (Failure \<circ> Base64Decoding) (b64_decode_padded c (tsl_value status_list))) (\<lambda>compressed.
      rbind (map_err
               (\<lambda>e. Failure (if e = UnexpectedEof then IndexOutOfBounds index else Decompression e))
               (zlib_decompress c compressed)) (\<lambda>bytes.
      let bits = bitvec_from_bytes bytes in
      rbind (get_most_significant_bit_index index entry_size) (\<lambda>most_significant_bit_index.
      rbind (if entry_size > 1
             then ok_or (slice_get bits (most_significant_bit_index + entry_size - 2))
                    (Failure (IndexOutOfBounds index))
             else Inr False) (\<lambda>suspended.
      rbind (ok_or (slice_get bits (most_significant_bit_index + entry_size - 1))
               (Failure (IndexOutOfBounds index))) (\<lambda>revoked.
        Inr (if revoked then RevocationState.Revoked
             else if suspended then RevocationState.Suspended None
             else Valid)))))))"

definition set_status ::
  "nat \<Rightarrow> nat \<times> RevocationListEntryStatus \<Rightarrow> bool list \<Rightarrow> (TokenError fault, bool list) result" where
  "set_status bits = (\<lambda>(index, state) bitvec.
     rbind (get_most_significant_bit_index index bits) (\<lambda>most_significant_bit_index.
       case state of
         Active \<Rightarrow> Inr bitvec
       | RevocationListEntryStatus.Revoked \<Rightarrow> bitvec_set (most_significant_bit_index + bits - 1) bitvec
       | RevocationListEntryStatus.Suspended \<Rightarrow>
           rbind (ensure (PREFERRED_ENTRY_SIZE \<le> bits) (Failure SuspensionRequiresAtLeastTwoBits)) (\<lambda>_.
             bitvec_set (most_significant_bit_index + bits - 2) bitvec)))"

definition generate_token ::
  "status_codec \<Rightarrow> (nat \<times> RevocationListEntryStatus) list \<Rightarrow> nat \<Rightarrow> nat \<Rightarrow> (TokenError fault, string) result" where
  "generate_token c input bits preferred_token_size =
     rbind (try_fold (set_status bits) input (replicate preferred_token_size False)) (\<lambda>bitvec.
     rbind (map_err (Failure \<circ> Compression) (zlib_compress c (bitvec_to_bytes bitvec))) (\<lambda>compressed.
       map_err (Failure \<circ> Base64Encoding) (b64_encode c compressed)))"

definition calculate_preferred_token_size :: "nat \<Rightarrow> nat \<Rightarrow> nat" where
  "calculate_preferred_token_size input_size bits = max (input_size * bits) (131072 * bits)"

section \<open>Bitstring status list\<close>

datatype BitstringError =
    BsBase64Encoding string
  | BsBase64Decoding string
  | BsCompression io_error
  | BsDecompression io_error
  | BsIndexOutOfBounds nat
  | BsInvalidPrefix string

definition MULTIBASE_PREFIX :: char where
  "MULTIBASE_PREFIX = CHR ''u''"

definition GZIP_PREFIX :: string where
  "GZIP_PREFIX = ''H4s''"

definition gzip_compress :: "status_codec \<Rightarrow> bytes \<Rightarrow> (io_error, bytes) result" where
  "gzip_compress c input = gzip_write c input"

definition gzip_decompress :: "status_codec \<Rightarrow> bytes \<Rightarrow> nat \<Rightarrow> (io_error, bytes) result" where
  "gzip_decompress c input index = gzip_read_exact c input (index div 8 + 1)"

definition status_purpose_to_revocation_state :: "string option \<Rightarrow> (string, RevocationState) result" where
  "status_purpose_to_revocation_state status_purpose =
     rbind (ok_or status_purpose ''Missing status purpose '') (\<lambda>value.
       if value = ''revocation'' then Inr RevocationState.Revoked
       else if value = ''suspension'' then Inr (RevocationState.Suspended None)
       else Inl (''Invalid status purpose: '' @ value))"

definition extract_bitstring_index ::
  "status_codec \<Rightarrow> string \<Rightarrow> nat \<Rightarrow> (BitstringError fault, bool) result" where
  "extract_bitstring_index c list index =
     rbind (if prefix [MULTIBASE_PREFIX] list then Inr (tl list)
            else Inl (Failure (BsInvalidPrefix
              (''expected multibase prefix: '' @ [CHR 0x27, MULTIBASE_PREFIX, CHR 0x27] @ '', input: '' @ list))))
       (\<lambda>compressed_list.
     rbind (ensure (prefix GZIP_PREFIX compressed_list) (Failure (BsInvalidPrefix
              (''expected gzip header: '' @ GZIP_PREFIX @ '', input: '' @ compressed_list)))) (\<lambda>_.
     rbind (map_err (Failure \<circ> BsBase64Decoding) (b64_decode c compressed_list)) (\<lambda>compressed.
     rbind (map_err
              (\<lambda>e. Failure (if e = UnexpectedEof then BsIndexOutOfBounds index else BsDecompression e))
              (gzip_decompress c compressed index)) (\<lambda>bytes.
       ok_or (slice_get (bitvec_from_bytes bytes) index) (Failure (BsIndexOutOfBounds index))))))"

definition calculate_bitstring_size :: "nat \<Rightarrow> nat" where
  "calculate_bitstring_size input_size = max input_size 131072"

definition set_bit_of_entry :: "nat \<times> bool \<Rightarrow> bool list \<Rightarrow> (BitstringError fault, bool list) result" where
  "set_bit_of_entry = (\<lambda>(index, state) bits. if state then bitvec_set index bits else Inr bits)"

definition generate_bitstring ::
  "status_codec \<Rightarrow> (nat \<times> bool) list \<Rightarrow> (BitstringError fault, string) result" where
  "generate_bitstring c input =
     rbind (try_fold set_bit_of_entry input
              (replicate (calculate_bitstring_size (length input)) False)) (\<lambda>bits.
     rbind (map_err (Failure \<circ> BsCompression) (gzip_compress c (bitvec_to_bytes bits))) (\<lambda>compressed.
     rbind (map_err (Failure \<circ> BsBase64Encoding) (b64_encode c compressed)) (\<lambda>s.
       Inr (MULTIBASE_PREFIX # s))))"

section \<open>Bit vectors and bytes\<close>

lemma length_byte_bits [simp]: "length (byte_bits b) = 8"
  by (simp add: byte_bits_def)

lemma nth_byte_bits: "i < 8 \<Longrightarrow> byte_bits b ! i = bit b (7 - i)"
  by (simp add: byte_bits_def)

lemma bit_bits_byte: "length bs = 8 \<Longrightarrow> k < 8 \<Longrightarrow> bit (bits_byte bs) k = bs ! (7 - k)"
  by (simp add: bits_byte_def bit_horner_sum_bit_word_iff rev_nth)

lemma byte_bits_bits_byte: "length bs = 8 \<Longrightarrow> byte_bits (bits_byte bs) = bs"
  by (rule nth_equalityI) (simp_all add: nth_byte_bits bit_bits_byte)

lemma bitvec_from_bytes_simps [simp]:
  "bitvec_from_bytes [] = []"
  "bitvec_from_bytes (b # bs) = byte_bits b @ bitvec_from_bytes bs"
  by (simp_all add: bitvec_from_bytes_def)

text \<open>Bytes hold the bits of the vector, then zeros up to a whole byte.\<close>

definition bit_padding :: "nat \<Rightarrow> nat" where
  "bit_padding n = 8 * ((n + 7) div 8) - n"

lemma bit_padding_short: "0 < n \<Longrightarrow> n \<le> 8 \<Longrightarrow> bit_padding n = 8 - n"
proof -
  assume "0 < n" "n \<le> 8"
  then have "(n + 7) div 8 = 1" by (simp add: div_nat_eqI)
  then show ?thesis by (simp add: bit_padding_def)
qed

lemma bit_padding_long: "8 \<le> n \<Longrightarrow> bit_padding n = bit_padding (n - 8)"
proof -
  assume "8 \<le> n"
  then obtain m where n: "n = 8 + m" using le_Suc_ex by blast
  have "(15 + m) div 8 = (m + 7) div 8 + 1" by simp
  then show ?thesis by (simp add: n bit_padding_def)
qed

lemma bitvec_bytes_round_trip:
  "bitvec_from_bytes (bitvec_to_bytes bs) = bs @ replicate (bit_padding (length bs)) False"
proof (induction bs rule: bitvec_to_bytes.induct)
  case 1
  then show ?case by (simp add: bit_padding_def)
next
  case (2 bs)
  show ?case
  proof (cases "8 \<le> length bs")
    case True
    with 2 show ?thesis
      by (simp add: byte_bits_bits_byte bit_padding_long [of "length bs"])
  next
    case False
    with 2 show ?thesis
      by (simp add: byte_bits_bits_byte bit_padding_short)
  qed
qed

lemma length_bitvec_padded: "n + bit_padding n = 8 * ((n + 7) div 8)"
proof -
  have "n \<le> 8 * ((n + 7) div 8)" by linarith
  then show ?thesis by (simp add: bit_padding_def)
qed

section \<open>Position of an entry in the list\<close>

text \<open>
  A byte holds \<open>8 div bits\<close> words of equal size, and the entries of a byte are counted from
  its least significant word.
\<close>

definition words_per_byte :: "nat \<Rightarrow> nat" where
  "words_per_byte bits = 8 div bits"

definition word_bits :: "nat \<Rightarrow> nat" where
  "word_bits bits = 8 div words_per_byte bits"

definition word_slot :: "nat \<Rightarrow> nat \<Rightarrow> nat" where
  "word_slot bits index =
     words_per_byte bits * (index div words_per_byte bits) +
     (words_per_byte bits - 1 - index mod words_per_byte bits)"

lemma entry_sizes: "0 < bits \<Longrightarrow> bits \<le> 8 \<Longrightarrow> bits \<in> {1, 2, 3, 4, 5, 6, 7, 8 :: nat}"
  by auto

lemma word_layout:
  assumes "0 < bits" and "bits \<le> 8"
  shows "0 < words_per_byte bits" and "words_per_byte bits * word_bits bits = 8"
    and "bits \<le> word_bits bits"
  using entry_sizes [OF assms] by (auto simp: words_per_byte_def word_bits_def)

lemma word_slot_inj:
  assumes "0 < words_per_byte bits" and eq: "word_slot bits i = word_slot bits j"
  shows "i = j"
proof -
  let ?w = "words_per_byte bits"
  have b: "?w - 1 - k mod ?w < ?w" for k using assms(1) by simp
  have "word_slot bits k div ?w = k div ?w" "word_slot bits k mod ?w = ?w - 1 - k mod ?w" for k
    using b [of k] by (simp_all add: word_slot_def)
  then have "i div ?w = j div ?w" "?w - 1 - i mod ?w = ?w - 1 - j mod ?w"
    using eq by metis+
  moreover have "i mod ?w < ?w" "j mod ?w < ?w" using assms(1) by simp_all
  ultimately have "i div ?w = j div ?w" "i mod ?w = j mod ?w" by linarith+
  then show ?thesis by (metis div_mult_mod_eq)
qed

lemma byte_of_index:
  assumes "0 < bits" and "bits \<le> 8"
  shows "index * word_bits bits div 8 = index div words_per_byte bits"
proof -
  have "index * word_bits bits div (words_per_byte bits * word_bits bits) = index div words_per_byte bits"
    using word_layout [OF assms] by (metis div_mult_mult2 mult_0_right zero_neq_numeral)
  with word_layout(2) [OF assms] show ?thesis by simp
qed

lemma get_most_significant_bit_index_slot:
  assumes "0 < bits" and "bits \<le> 8"
  shows "get_most_significant_bit_index index bits = Inr (word_bits bits * word_slot bits index)"
proof -
  let ?w = "words_per_byte bits" and ?s = "word_bits bits"
  note layout = word_layout [OF assms]
  have sub: "index - index div ?w * ?w = index mod ?w"
    by (simp add: minus_div_mult_eq_mod)
  have "?w * ?s = 8" by (rule layout)
  moreover have m: "index mod ?w < ?w" using layout by simp
  ultimately have "8 * (index div ?w) + 8 - index mod ?w * ?s - ?s =
      ?w * ?s * (index div ?w) + ?w * ?s - index mod ?w * ?s - ?s"
    by simp
  also have "\<dots> = ?s * (?w * (index div ?w) + (?w - 1 - index mod ?w))"
  proof -
    obtain d where d: "?w = index mod ?w + 1 + d"
      using m by (metis Suc_eq_plus1 Suc_leI le_Suc_ex)
    have full: "x + ?w * ?s - index mod ?w * ?s - ?s = x + d * ?s" for x
    proof -
      have "?w * ?s = index mod ?w * ?s + ?s + d * ?s"
        by (subst d) (simp add: algebra_simps)
      then show ?thesis by simp
    qed
    have rest: "?w - 1 - index mod ?w = d" using d by linarith
    show ?thesis unfolding full rest by (simp add: algebra_simps)
  qed
  finally have "8 * (index div ?w) + 8 - index mod ?w * ?s - ?s = ?s * word_slot bits index"
    by (simp add: word_slot_def)
  moreover have "8 div bits = ?w" "8 div ?w = ?s" by (simp_all add: words_per_byte_def word_bits_def)
  ultimately show ?thesis
    using assms layout byte_of_index [OF assms, of index]
    by (simp add: get_most_significant_bit_index_def checked_div_def sub Let_def)
qed

text \<open>The byte of an entry bounds its bits, and no intermediate value leaves \<open>usize\<close>.\<close>

lemma word_slot_byte:
  assumes "0 < bits" and "bits \<le> 8" and "r < word_bits bits"
  shows "(word_bits bits * word_slot bits index + r) div 8 = index div words_per_byte bits"
proof -
  let ?w = "words_per_byte bits" and ?s = "word_bits bits"
  note layout = word_layout [OF assms(1,2)]
  have "?w - 1 - index mod ?w < ?w" using layout by simp
  then have slot: "word_slot bits index div ?w = index div ?w" by (simp add: word_slot_def)
  have "(?s * word_slot bits index + r) div ?s = word_slot bits index" using assms(3) by simp
  then have "(?s * word_slot bits index + r) div (?s * ?w) = index div ?w"
    by (simp add: div_mult2_eq slot)
  moreover have "?s * ?w = 8" using layout(2) by (simp only: mult.commute)
  ultimately show ?thesis by simp
qed

lemma bit_index_fits_usize:
  assumes "0 < bits" and "bits \<le> 8" and "index < 2 ^ 60" and "r < word_bits bits"
  shows "index * word_bits bits < 2 ^ 64" and "word_bits bits * word_slot bits index + r < 2 ^ 64"
    and "index div words_per_byte bits * words_per_byte bits \<le> index"
    and "index mod words_per_byte bits * word_bits bits + word_bits bits \<le> 8"
proof -
  let ?w = "words_per_byte bits" and ?s = "word_bits bits"
  note layout = word_layout [OF assms(1,2)]
  have "?s \<le> 8" using layout by (metis dvd_imp_le dvd_triv_right zero_less_numeral)
  then have "index * ?s \<le> index * 8" by simp
  also have "\<dots> < 2 ^ 64" using assms(3) by simp
  finally show "index * ?s < 2 ^ 64" .
  have "(?s * word_slot bits index + r) div 8 \<le> index"
    using word_slot_byte [OF assms(1,2,4), of index] by simp
  then show "?s * word_slot bits index + r < 2 ^ 64" using assms(3) by simp
  show "index div ?w * ?w \<le> index" by simp
  have "(index mod ?w + 1) * ?s \<le> ?w * ?s"
    using layout by (intro mult_le_mono1) (simp add: Suc_leI)
  with layout(2) show "index mod ?w * ?s + ?s \<le> 8" by simp
qed

lemma word_slot_bits_disjoint:
  assumes "0 < bits" and "bits \<le> 8" and "r < word_bits bits" and "q < word_bits bits"
    and eq: "word_bits bits * word_slot bits i + r = word_bits bits * word_slot bits j + q"
  shows "i = j \<and> r = q"
proof -
  have "word_slot bits i = (word_bits bits * word_slot bits i + r) div word_bits bits"
    using assms(3) by simp
  also have "\<dots> = word_slot bits j" unfolding eq using assms(4) by simp
  finally have "word_slot bits i = word_slot bits j" .
  with eq word_slot_inj word_layout(1) [OF assms(1,2)] show ?thesis by auto
qed

section \<open>Marking the entries\<close>

text \<open>The bits that an entry sets.\<close>

fun entry_mark :: "nat \<Rightarrow> nat \<times> RevocationListEntryStatus \<Rightarrow> nat option" where
  "entry_mark bits (i, Active) = None"
| "entry_mark bits (i, RevocationListEntryStatus.Revoked) =
     Some (word_bits bits * word_slot bits i + (bits - 1))"
| "entry_mark bits (i, RevocationListEntryStatus.Suspended) =
     Some (word_bits bits * word_slot bits i + (bits - 2))"

lemma set_status_mark:
  assumes "0 < bits" and "bits \<le> 8" and "snd e = RevocationListEntryStatus.Suspended \<Longrightarrow> 2 \<le> bits"
  shows "set_status bits e bs =
    (case entry_mark bits e of None \<Rightarrow> Inr bs | Some k \<Rightarrow> bitvec_set k bs)"
  using assms
  by (cases "(bits, e)" rule: entry_mark.cases)
    (auto simp: set_status_def get_most_significant_bit_index_slot PREFERRED_ENTRY_SIZE_def)

lemma set_statuses:
  assumes bits: "0 < bits" "bits \<le> 8"
    and "\<And>e. e \<in> set input \<Longrightarrow> snd e = RevocationListEntryStatus.Suspended \<Longrightarrow> 2 \<le> bits"
    and "\<And>e k. e \<in> set input \<Longrightarrow> entry_mark bits e = Some k \<Longrightarrow> k < length bs"
  shows "\<exists>bs'. try_fold (set_status bits) input bs = Inr bs' \<and> length bs' = length bs \<and>
    (\<forall>k < length bs. bs' ! k \<longleftrightarrow> bs ! k \<or> (\<exists>e \<in> set input. entry_mark bits e = Some k))"
  using assms(3,4)
proof (induction input arbitrary: bs)
  case Nil
  then show ?case by simp
next
  case (Cons e input)
  define bs1 where "bs1 = (case entry_mark bits e of None \<Rightarrow> bs | Some k \<Rightarrow> bs[k := True])"
  have len: "length bs1 = length bs" by (simp add: bs1_def split: option.splits)
  have "snd e = RevocationListEntryStatus.Suspended \<Longrightarrow> 2 \<le> bits" using Cons.prems(1) [of e] by simp
  then have step: "set_status bits e bs = Inr bs1"
    using Cons.prems(2) [of e]
    by (auto simp: set_status_mark [OF bits] bs1_def bitvec_set_def split: option.splits)
  have nth: "bs1 ! k \<longleftrightarrow> bs ! k \<or> entry_mark bits e = Some k" if "k < length bs" for k
    using that Cons.prems(2) [of e] by (auto simp: bs1_def nth_list_update split: option.splits)
  have "\<exists>bs'. try_fold (set_status bits) input bs1 = Inr bs' \<and> length bs' = length bs1 \<and>
    (\<forall>k < length bs1. bs' ! k \<longleftrightarrow> bs1 ! k \<or> (\<exists>e \<in> set input. entry_mark bits e = Some k))"
  proof (rule Cons.IH)
    show "2 \<le> bits" if "d \<in> set input" "snd d = RevocationListEntryStatus.Suspended" for d
      using that by (intro Cons.prems(1) [of d]) simp_all
    show "k < length bs1" if "d \<in> set input" "entry_mark bits d = Some k" for d k
      using that unfolding len by (intro Cons.prems(2) [of d]) simp_all
  qed
  then obtain bs' where "try_fold (set_status bits) input bs1 = Inr bs'" "length bs' = length bs1"
    and "\<And>k. k < length bs1 \<Longrightarrow>
      bs' ! k \<longleftrightarrow> bs1 ! k \<or> (\<exists>e \<in> set input. entry_mark bits e = Some k)"
    by blast
  with step len nth show ?case by (intro exI [of _ bs']) auto
qed

text \<open>A mark outside the vector is fatal, whatever the other entries are.\<close>

lemma set_statuses_panic:
  assumes bits: "2 \<le> bits" "bits \<le> 8"
    and "e \<in> set input" and "entry_mark bits e = Some k" and "length bs \<le> k"
  shows "try_fold (set_status bits) input bs = Inl Panic"
  using assms(3-)
proof (induction input arbitrary: bs)
  case Nil
  then show ?case by simp
next
  case (Cons d input)
  have step: "set_status bits d bs =
      (case entry_mark bits d of None \<Rightarrow> Inr bs | Some k \<Rightarrow> bitvec_set k bs)"
    using bits by (intro set_status_mark) auto
  show ?case
  proof (cases "set_status bits d bs")
    case (Inl err)
    with step show ?thesis by (auto simp: bitvec_set_def split: option.splits if_splits)
  next
    case (Inr bs1)
    with step have "length bs1 = length bs"
      by (auto simp: bitvec_set_def split: option.splits if_splits)
    moreover have "d \<noteq> e"
      using Inr step Cons.prems by (auto simp: bitvec_set_def)
    ultimately show ?thesis using Inr Cons.IH [of bs1] Cons.prems by simp
  qed
qed

lemma entry_mark_eq:
  assumes "0 < bits" and "bits \<le> 8" and "st = RevocationListEntryStatus.Suspended \<Longrightarrow> 2 \<le> bits"
  shows "entry_mark bits (i, st) = Some (word_bits bits * word_slot bits j + (bits - 1)) \<longleftrightarrow>
      i = j \<and> st = RevocationListEntryStatus.Revoked"
    and "2 \<le> bits \<Longrightarrow> entry_mark bits (i, st) = Some (word_bits bits * word_slot bits j + (bits - 2)) \<longleftrightarrow>
      i = j \<and> st = RevocationListEntryStatus.Suspended"
proof -
  have r: "bits - 1 < word_bits bits" "2 \<le> bits \<Longrightarrow> bits - 2 < word_bits bits"
    using word_layout(3) [OF assms(1,2)] assms(1) by simp_all
  note disjoint = word_slot_bits_disjoint [OF assms(1,2)]
  show "entry_mark bits (i, st) = Some (word_bits bits * word_slot bits j + (bits - 1)) \<longleftrightarrow>
      i = j \<and> st = RevocationListEntryStatus.Revoked"
    using disjoint [of "bits - 1" "bits - 1" i j] disjoint [of "bits - 2" "bits - 1" i j] r assms
    by (cases st) auto
  show "entry_mark bits (i, st) = Some (word_bits bits * word_slot bits j + (bits - 2)) \<longleftrightarrow>
      i = j \<and> st = RevocationListEntryStatus.Suspended" if "2 \<le> bits"
    using disjoint [of "bits - 1" "bits - 2" i j] disjoint [of "bits - 2" "bits - 2" i j] r assms that
    by (cases st) auto
qed

section \<open>Reading a generated token\<close>

lemma length_bitvec_from_bytes [simp]: "length (bitvec_from_bytes bytes) = 8 * length bytes"
  by (induction bytes) simp_all

lemma length_bitvec_to_bytes: "length (bitvec_to_bytes bs) = (length bs + 7) div 8"
  using length_bitvec_from_bytes [of "bitvec_to_bytes bs"] length_bitvec_padded [of "length bs"]
  by (simp add: bitvec_bytes_round_trip)

lemma entry_bit_in_range:
  assumes "0 < bits" and "bits \<le> 8"
  shows "word_bits bits * word_slot bits index + (bits - 1) < 8 * n \<longleftrightarrow>
      index div words_per_byte bits < n"
    and "1 < bits \<Longrightarrow> word_bits bits * word_slot bits index + (bits - 2) < 8 * n \<longleftrightarrow>
      index div words_per_byte bits < n"
proof -
  have *: "word_bits bits * word_slot bits index + r < 8 * n \<longleftrightarrow> index div words_per_byte bits < n"
    if "r < word_bits bits" for r
    using word_slot_byte [OF assms that, of index]
    by (metis div_less_iff_less_mult mult.commute zero_less_numeral)
  show "word_bits bits * word_slot bits index + (bits - 1) < 8 * n \<longleftrightarrow>
      index div words_per_byte bits < n"
    and "1 < bits \<Longrightarrow> word_bits bits * word_slot bits index + (bits - 2) < 8 * n \<longleftrightarrow>
      index div words_per_byte bits < n"
    using * [of "bits - 1"] * [of "bits - 2"] word_layout(3) [OF assms] assms(1) by simp_all
qed

lemma bex_pair: "(\<exists>e \<in> S. fst e = a \<and> snd e = b) \<longleftrightarrow> (a, b) \<in> S"
  by force

text \<open>What \<open>extract_state_from_token\<close> reads, once the codecs gave the bit vector.\<close>

lemma extract_state_bits:
  assumes "0 < bits" and "bits \<le> 8"
    and "b64_decode_padded c t = Inr z" and "zlib_decompress c z = Inr bytes"
  shows "extract_state_from_token c \<lparr>tsl_bits = bits, tsl_value = t\<rparr> index =
    (let bv = bitvec_from_bytes bytes; start = word_bits bits * word_slot bits index in
     if index div words_per_byte bits < length bytes then
       Inr (if bv ! (start + (bits - 1)) then RevocationState.Revoked
            else if 1 < bits \<and> bv ! (start + (bits - 2)) then RevocationState.Suspended None
            else Valid)
     else Inl (Failure (IndexOutOfBounds index)))"
proof -
  let ?start = "word_bits bits * word_slot bits index"
  note inside = entry_bit_in_range [OF assms(1,2)]
  have idx: "?start + bits - 1 = ?start + (bits - 1)" "1 < bits \<Longrightarrow> ?start + bits - 2 = ?start + (bits - 2)"
    using assms(1) by simp_all
  show ?thesis
    using assms inside idx
    by (auto simp: extract_state_from_token_def get_most_significant_bit_index_slot Let_def
        slice_get_def)
qed

lemma token_read_back:
  assumes codec: "codec_round_trip c"
    and bits: "0 < bits" "bits \<le> 8"
    and suspended: "\<And>e. e \<in> set input \<Longrightarrow> snd e = RevocationListEntryStatus.Suspended \<Longrightarrow> 2 \<le> bits"
    and distinct: "distinct (map fst input)"
    and marks: "\<And>e k. e \<in> set input \<Longrightarrow> entry_mark bits e = Some k \<Longrightarrow> k < sz"
  shows "\<exists>t. generate_token c input bits sz = Inr t \<and>
    (\<forall>index. extract_state_from_token c \<lparr>tsl_bits = bits, tsl_value = t\<rparr> index =
       (if index div words_per_byte bits < (sz + 7) div 8 then
          Inr (case map_of input index of None \<Rightarrow> Valid | Some st \<Rightarrow> state_of_status st)
        else Inl (Failure (IndexOutOfBounds index))))"
proof -
  obtain bs where fold: "try_fold (set_status bits) input (replicate sz False) = Inr bs"
    and len: "length bs = sz"
    and nth: "\<And>k. k < sz \<Longrightarrow> bs ! k \<longleftrightarrow> (\<exists>e \<in> set input. entry_mark bits e = Some k)"
    using set_statuses [OF bits, of input "replicate sz False"] suspended marks by auto
  obtain z where z: "zlib_compress c (bitvec_to_bytes bs) = Inr z"
    "zlib_decompress c z = Inr (bitvec_to_bytes bs)"
    using codec unfolding codec_round_trip_def by blast
  obtain t where t: "b64_encode c z = Inr t" "b64_decode_padded c t = Inr z"
    using codec unfolding codec_round_trip_def by blast
  have gen: "generate_token c input bits sz = Inr t"
    using fold z t by (simp add: generate_token_def)
  define padded where "padded = bs @ replicate (bit_padding sz) False"
  have round: "bitvec_from_bytes (bitvec_to_bytes bs) = padded"
    by (simp add: bitvec_bytes_round_trip len padded_def)
  have bytes: "length (bitvec_to_bytes bs) = (sz + 7) div 8"
    by (simp add: length_bitvec_to_bytes len)
  have bit: "padded ! k \<longleftrightarrow> (\<exists>e \<in> set input. entry_mark bits e = Some k)"
    if "k < 8 * ((sz + 7) div 8)" for k
  proof (cases "k < sz")
    case True
    with nth len show ?thesis by (simp add: padded_def nth_append)
  next
    case False
    then have "k - sz < bit_padding sz" using that length_bitvec_padded [of sz] by linarith
    with False marks show ?thesis by (auto simp: padded_def nth_append len)
  qed
  have revoked: "padded ! (word_bits bits * word_slot bits i + (bits - 1)) \<longleftrightarrow>
      map_of input i = Some RevocationListEntryStatus.Revoked"
    and held: "1 < bits \<Longrightarrow> padded ! (word_bits bits * word_slot bits i + (bits - 2)) \<longleftrightarrow>
      map_of input i = Some RevocationListEntryStatus.Suspended"
    if "i div words_per_byte bits < (sz + 7) div 8" for i
  proof -
    note range = entry_bit_in_range [OF bits, of i "(sz + 7) div 8"]
    have of: "map_of input i = Some st \<longleftrightarrow> (i, st) \<in> set input" for st
      using distinct by simp
    have "padded ! (word_bits bits * word_slot bits i + (bits - 1)) \<longleftrightarrow>
        (\<exists>e \<in> set input. entry_mark bits e = Some (word_bits bits * word_slot bits i + (bits - 1)))"
      using that range by (intro bit) simp
    also have "\<dots> \<longleftrightarrow> (i, RevocationListEntryStatus.Revoked) \<in> set input"
      unfolding bex_pair [symmetric] using suspended
      by (intro bex_cong [OF refl]) (use entry_mark_eq(1) [OF bits] in \<open>metis prod.collapse\<close>)
    finally show "padded ! (word_bits bits * word_slot bits i + (bits - 1)) \<longleftrightarrow>
      map_of input i = Some RevocationListEntryStatus.Revoked" by (simp add: of)
    assume "1 < bits"
    then have "padded ! (word_bits bits * word_slot bits i + (bits - 2)) \<longleftrightarrow>
        (\<exists>e \<in> set input. entry_mark bits e = Some (word_bits bits * word_slot bits i + (bits - 2)))"
      using that range by (intro bit) simp
    also have "\<dots> \<longleftrightarrow> (i, RevocationListEntryStatus.Suspended) \<in> set input"
      unfolding bex_pair [symmetric] using suspended \<open>1 < bits\<close>
      by (intro bex_cong [OF refl]) (use entry_mark_eq(2) [OF bits] in \<open>metis prod.collapse Suc_leI numeral_2_eq_2 One_nat_def\<close>)
    finally show "padded ! (word_bits bits * word_slot bits i + (bits - 2)) \<longleftrightarrow>
      map_of input i = Some RevocationListEntryStatus.Suspended" by (simp add: of)
  qed
  have none: "map_of input i = Some RevocationListEntryStatus.Suspended \<longrightarrow> 1 < bits" for i
    using suspended [of "(i, RevocationListEntryStatus.Suspended)"] by (auto dest: map_of_SomeD)
  have "extract_state_from_token c \<lparr>tsl_bits = bits, tsl_value = t\<rparr> i =
       (if i div words_per_byte bits < (sz + 7) div 8 then
          Inr (case map_of input i of None \<Rightarrow> Valid | Some st \<Rightarrow> state_of_status st)
        else Inl (Failure (IndexOutOfBounds i)))" for i
  proof (cases "i div words_per_byte bits < (sz + 7) div 8")
    case True
    show ?thesis
    proof (cases "map_of input i")
      case None
      with True revoked [of i] held [of i] show ?thesis
        by (simp add: extract_state_bits [OF bits t(2) z(2)] round bytes Let_def)
    next
      case (Some st)
      with True revoked [of i] held [of i] none [of i] show ?thesis
        by (cases st) (simp_all add: extract_state_bits [OF bits t(2) z(2)] round bytes Let_def)
    qed
  next
    case False
    then show ?thesis by (simp add: extract_state_bits [OF bits t(2) z(2)] bytes)
  qed
  with gen show ?thesis by blast
qed

lemma entry_mark_less:
  assumes "0 < bits" and "bits \<le> 8" and "snd e = RevocationListEntryStatus.Suspended \<longrightarrow> 2 \<le> bits"
    and "fst e div words_per_byte bits < sz div 8" and "entry_mark bits e = Some k"
  shows "k < sz"
proof -
  have "k < 8 * (sz div 8)"
    using assms entry_bit_in_range [OF assms(1,2), of "fst e" "sz div 8"]
    by (cases "(bits, e)" rule: entry_mark.cases) auto
  then show ?thesis by simp
qed


text \<open>A codec for examples: bytes as characters, and a compression that only adds a header.\<close>

definition example_codec :: status_codec where
  "example_codec =
     \<lparr>b64_encode = \<lambda>bs. Inr (map (\<lambda>b. char_of (unat b)) bs),
      b64_decode = \<lambda>s. Inr (map (\<lambda>ch. word_of_nat (of_char ch)) s),
      b64_decode_padded = \<lambda>s. Inr (map (\<lambda>ch. word_of_nat (of_char ch)) s),
      zlib_compress = Inr, zlib_decompress = Inr,
      gzip_write = \<lambda>bs. Inr ([72, 52, 115] @ bs),
      gzip_read_exact = \<lambda>z n.
        (if n \<le> length (drop 3 z) then Inr (take n (drop 3 z)) else Inl UnexpectedEof)\<rparr>"

lemma example_codec_round_trip: "codec_round_trip example_codec"
proof -
  have "word_of_nat (unat b mod 256) = b" for b :: u8
    using u8_less [of b] by simp
  moreover have "char_of (72 :: nat) = CHR ''H''" "char_of (52 :: nat) = CHR ''4''"
    "char_of (115 :: nat) = CHR ''s''"
    by code_simp+
  ultimately show ?thesis
    by (simp add: codec_round_trip_def example_codec_def comp_def)
qed



section \<open>The size of a token\<close>

lemma preferred_token_size: "calculate_preferred_token_size n PREFERRED_ENTRY_SIZE = 2 * max n 131072"
  by (auto simp: calculate_preferred_token_size_def PREFERRED_ENTRY_SIZE_def max_def)

text \<open>
  The preferred size has a whole byte for each of \<open>n\<close> dense entries when \<open>n\<close> is at most the
  minimum size, and beyond it when the entries fill their last byte.
\<close>

lemma preferred_token_size_fits:
  assumes "index < n" and "n \<le> 131072 \<or> 4 dvd n"
  shows "index div 4 < calculate_preferred_token_size n PREFERRED_ENTRY_SIZE div 8"
proof (cases "n \<le> 131072")
  case True
  with assms(1) show ?thesis by (simp add: preferred_token_size max_def div_less_iff_less_mult)
next
  case False
  with assms(2) obtain k where "n = 4 * k" by auto
  with False assms(1) show ?thesis by (simp add: preferred_token_size max_def div_less_iff_less_mult)
qed

text \<open>
  C36. The size is not rounded up to whole bytes: once a list has more than 131072 entries and
  their number is not a multiple of four, the first entry of the last byte cannot be revoked or
  suspended, because generating the token panics.
\<close>

theorem generate_token_partial_byte_panics:
  assumes "131072 < length input" and "length input mod 4 \<noteq> 0"
    and "(4 * (length input div 4), state) \<in> set input" and "state \<noteq> Active"
  shows "generate_token c input PREFERRED_ENTRY_SIZE
    (calculate_preferred_token_size (length input) PREFERRED_ENTRY_SIZE) = Inl Panic"
proof -
  let ?i = "4 * (length input div 4)"
  have slot: "word_bits 2 = 2" "word_slot 2 ?i = ?i + 3"
    by (simp_all add: word_bits_def words_per_byte_def word_slot_def)
  obtain k where k: "entry_mark 2 (?i, state) = Some k" "2 * (?i + 3) \<le> k"
    using assms(4) by (cases state) (auto simp: slot)
  have "length input \<le> ?i + 3" by presburger
  then have "2 * length input \<le> 2 * (?i + 3)" by (rule mult_le_mono2)
  with k(2) have "2 * length input \<le> k" by (rule order_trans [rotated])
  then have "try_fold (set_status 2) input (replicate (2 * length input) False) = Inl Panic"
    using assms(3) k(1) by (intro set_statuses_panic) auto
  with assms(1) show ?thesis
    by (simp add: generate_token_def preferred_token_size max_def) (simp add: PREFERRED_ENTRY_SIZE_def)
qed

theorem generate_token_partial_byte_panics_witness:
  "generate_token example_codec
     (map (\<lambda>i. (i, if i = 131072 then RevocationListEntryStatus.Revoked else Active)) [0..<131073])
     PREFERRED_ENTRY_SIZE (calculate_preferred_token_size 131073 PREFERRED_ENTRY_SIZE) = Inl Panic"
  using generate_token_partial_byte_panics [of
      "map (\<lambda>i. (i, if i = 131072 then RevocationListEntryStatus.Revoked else Active)) [0..<131073]"
      RevocationListEntryStatus.Revoked example_codec]
  by (simp del: upt_rec_numeral)

section \<open>Reading a generated bitstring\<close>

lemma set_bits_of_entries:
  assumes "\<And>i. (i, True) \<in> set input \<Longrightarrow> i < length bs"
  shows "\<exists>bs'. try_fold set_bit_of_entry input bs = Inr bs' \<and> length bs' = length bs \<and>
    (\<forall>k < length bs. bs' ! k \<longleftrightarrow> bs ! k \<or> (k, True) \<in> set input)"
  using assms
proof (induction input arbitrary: bs)
  case Nil
  then show ?case by simp
next
  case (Cons e input)
  obtain i b where e: "e = (i, b)" by (cases e)
  define bs1 where "bs1 = (if b then bs[i := True] else bs)"
  have len: "length bs1 = length bs" by (simp add: bs1_def)
  have step: "set_bit_of_entry e bs = Inr bs1"
    using Cons.prems [of i] by (simp add: e set_bit_of_entry_def bs1_def bitvec_set_def)
  have nth: "bs1 ! k \<longleftrightarrow> bs ! k \<or> (k, True) = e" if "k < length bs" for k
    using that Cons.prems [of i] by (auto simp: bs1_def e nth_list_update)
  have "\<exists>bs'. try_fold set_bit_of_entry input bs1 = Inr bs' \<and> length bs' = length bs1 \<and>
    (\<forall>k < length bs1. bs' ! k \<longleftrightarrow> bs1 ! k \<or> (k, True) \<in> set input)"
    by (rule Cons.IH) (simp add: len Cons.prems)
  with step len nth show ?case by auto
qed

lemma bitvec_from_bytes_take:
  "bitvec_from_bytes (take n bytes) = take (8 * n) (bitvec_from_bytes bytes)"
proof (induction bytes arbitrary: n)
  case (Cons b bytes)
  then show ?case by (cases n) simp_all
qed simp

lemma bitstring_read_back:
  assumes codec: "codec_round_trip c" and "distinct (map fst input)"
    and inside: "\<forall>(index, state) \<in> set input. index < calculate_bitstring_size (length input)"
  shows "\<exists>t. generate_bitstring c input = Inr t \<and>
    (\<forall>index. extract_bitstring_index c t index =
       (if index div 8 < (calculate_bitstring_size (length input) + 7) div 8
        then Inr (map_of input index = Some True)
        else Inl (Failure (BsIndexOutOfBounds index))))"
proof -
  define sz where "sz = calculate_bitstring_size (length input)"
  obtain bs where fold: "try_fold set_bit_of_entry input (replicate sz False) = Inr bs"
    and len: "length bs = sz" and nth: "\<And>k. k < sz \<Longrightarrow> bs ! k \<longleftrightarrow> (k, True) \<in> set input"
    using set_bits_of_entries [of input "replicate sz False"] inside by (auto simp: sz_def)
  obtain z s where z: "gzip_write c (bitvec_to_bytes bs) = Inr z" "b64_encode c z = Inr s"
    "prefix ''H4s'' s"
    and read: "\<And>n. gzip_read_exact c z n = (if n \<le> length (bitvec_to_bytes bs)
      then Inr (take n (bitvec_to_bytes bs)) else Inl UnexpectedEof)"
    using codec unfolding codec_round_trip_def by metis
  have dec: "b64_decode c s = Inr z"
    using codec z(2) unfolding codec_round_trip_def by (metis Inr_inject)
  have gen: "generate_bitstring c input = Inr (MULTIBASE_PREFIX # s)"
    using fold z by (simp add: generate_bitstring_def gzip_compress_def flip: sz_def)
  have bytes: "length (bitvec_to_bytes bs) = (sz + 7) div 8"
    by (simp add: length_bitvec_to_bytes len)
  have bit: "slice_get (bitvec_from_bytes (take (i div 8 + 1) (bitvec_to_bytes bs))) i =
      Some (map_of input i = Some True)" if "i div 8 < (sz + 7) div 8" for i
  proof -
    have i: "i < 8 * (i div 8 + 1)" by simp
    have below: "i < sz + bit_padding sz"
      unfolding length_bitvec_padded using that i by (simp add: div_less_iff_less_mult mult.commute)
    have "(bs @ replicate (bit_padding sz) False) ! i \<longleftrightarrow> (i, True) \<in> set input"
    proof (cases "i < sz")
      case True
      with nth show ?thesis by (simp add: nth_append len)
    next
      case False
      with below inside show ?thesis by (auto simp: nth_append len sz_def)
    qed
    moreover have "map_of input i = Some True \<longleftrightarrow> (i, True) \<in> set input"
      using assms(2) by simp
    moreover have "slice_get (take n v) i = Some (v ! i)" if "i < n" "i < length v" for n and v :: "bool list"
      using that by (simp add: slice_get_def)
    ultimately show ?thesis
      using i below by (simp add: bitvec_from_bytes_take bitvec_bytes_round_trip len del: take_append)
  qed
  have "extract_bitstring_index c (MULTIBASE_PREFIX # s) i =
       (if i div 8 < (sz + 7) div 8 then Inr (map_of input i = Some True)
        else Inl (Failure (BsIndexOutOfBounds i)))" for i
    using z(3) dec bit [of i]
    by (simp add: extract_bitstring_index_def GZIP_PREFIX_def gzip_decompress_def read bytes Suc_le_eq)
  with gen show ?thesis by (auto simp: sz_def)
qed

text \<open>
  C33. A bitstring generated for entries with distinct indexes gives back the bit of each entry
  and a zero where there is no entry; beyond the list, and only there, reading fails.
\<close>

theorem generate_bitstring_read_back:
  assumes codec: "codec_round_trip c" and "distinct (map fst input)"
    and inside: "\<forall>(index, state) \<in> set input. index < calculate_bitstring_size (length input)"
  shows "\<exists>t. generate_bitstring c input = Inr t \<and>
    (\<forall>index. extract_bitstring_index c t index =
       (if index div 8 < (calculate_bitstring_size (length input) + 7) div 8
        then Inr (map_of input index = Some True)
        else Inl (Failure (BsIndexOutOfBounds index))))"
  using assms by (rule bitstring_read_back)

theorem generate_bitstring_read_back_witness:
  "\<exists>t. generate_bitstring example_codec [(3, True), (9, False), (131071, True)] = Inr t \<and>
     map (extract_bitstring_index example_codec t) [3, 9, 131071, 131072] =
       [Inr True, Inr False, Inr True, Inl (Failure (BsIndexOutOfBounds 131072))]"
  using generate_bitstring_read_back [OF example_codec_round_trip, of "[(3, True), (9, False), (131071, True)]"]
  by (fastforce simp: calculate_bitstring_size_def)

end
