(* ===== verification/Revocation_Model.thy ===== *)
theory Revocation_Model
  imports Errors Status_Bits
begin

text \<open>
  Revocation lists and their entries (\<open>one-core/src/model/revocation_list.rs\<close>), the repository
  trait of \<open>one-core/src/repository/revocation_list_repository.rs\<close> as a record of operations over
  an arbitrary state, and the contract its clients rely on as a locale.
\<close>

section \<open>Entities\<close>

datatype RevocationListPurpose = Revocation | Suspension | RevocationAndSuspension

datatype StatusListCredentialFormat = Jwt | JsonLdClassic | X509Crl

record RevocationList =
  rvl_id :: uuid
  rvl_created_date :: date_time
  rvl_last_modified :: date_time
  rvl_formatted_list :: bytes
  rvl_format :: StatusListCredentialFormat
  rvl_type :: string
  rvl_purpose :: RevocationListPurpose
  rvl_issuer_identifier :: "Identifier option"
  rvl_issuer_certificate :: "Certificate option"

record RevocationListRelations =
  rvlrel_issuer_identifier :: "IdentifierRelations option"
  rvlrel_issuer_certificate :: "CertificateRelations option"

definition revocation_list_relations_default :: RevocationListRelations where
  "revocation_list_relations_default =
     \<lparr>rvlrel_issuer_identifier = None, rvlrel_issuer_certificate = None\<rparr>"

text \<open>A certificate serial is at most twenty bytes.\<close>

type_synonym serial = bytes

definition serial_try_from :: "bytes \<Rightarrow> (DataLayerError, serial) result" where
  "serial_try_from value =
     (if 20 < length value then Inl (DbError ''Certificate serial too long'') else Inr value)"

datatype RevocationListEntityId =
    EntityCredential uuid
  | EntitySignature string "serial option"
  | EntityWalletUnitAttestedKey uuid

fun entity_serial :: "RevocationListEntityId \<Rightarrow> serial option" where
  "entity_serial (EntitySignature _ serial) = serial"
| "entity_serial _ = None"

datatype RevocationListEntityInfo =
    InfoCredential uuid
  | InfoSignature string "serial option"
  | InfoWalletUnitAttestedKey

record RevocationListEntry =
  rve_id :: uuid
  rve_created_date :: date_time
  rve_last_modified :: date_time
  rve_entity_info :: RevocationListEntityInfo
  rve_index :: "nat option"
  rve_status :: RevocationListEntryStatus

datatype UpdateRevocationListEntryId = ByCredential uuid | ById uuid | ByIndex uuid nat

record UpdateRevocationListEntryRequest =
  ure_status :: "RevocationListEntryStatus option"

datatype LockType = LockUpdate | LockShare

section \<open>The repository interface\<close>

record 's revocation_list_repository =
  repo_create_revocation_list :: "RevocationList \<Rightarrow> ('s, DataLayerError, uuid) comp"
  repo_get_revocation_list ::
    "uuid \<Rightarrow> RevocationListRelations \<Rightarrow> ('s, DataLayerError, RevocationList option) comp"
  repo_get_revocation_list_by_entry_id ::
    "uuid \<Rightarrow> RevocationListRelations \<Rightarrow> ('s, DataLayerError, RevocationList option) comp"
  repo_get_revocation_by_issuer_identifier_id ::
    "uuid \<Rightarrow> uuid option \<Rightarrow> RevocationListPurpose \<Rightarrow> string \<Rightarrow> RevocationListRelations \<Rightarrow>
     ('s, DataLayerError, RevocationList option) comp"
  repo_update_formatted_list :: "uuid \<Rightarrow> bytes \<Rightarrow> ('s, DataLayerError, unit) comp"
  repo_next_free_index :: "uuid \<Rightarrow> LockType option \<Rightarrow> ('s, DataLayerError, nat) comp"
  repo_create_entry ::
    "uuid \<Rightarrow> RevocationListEntityId \<Rightarrow> nat option \<Rightarrow> ('s, DataLayerError, uuid) comp"
  repo_update_entry ::
    "UpdateRevocationListEntryId \<Rightarrow> UpdateRevocationListEntryRequest \<Rightarrow> ('s, DataLayerError, unit) comp"
  repo_get_entry_by_id :: "uuid \<Rightarrow> ('s, DataLayerError, RevocationListEntry option) comp"
  repo_get_entries :: "uuid \<Rightarrow> ('s, DataLayerError, RevocationListEntry list) comp"
  repo_get_entries_by_id :: "uuid list \<Rightarrow> ('s, DataLayerError, RevocationListEntry list) comp"

section \<open>The contract of a repository\<close>

text \<open>
  What a client sees of a list: its entries in the order of their index, the published text,
  whether every entry has an index, and the issuer, certificate, purpose and method it belongs
  to (\<open>None\<close> when there is no such list).
\<close>

type_synonym list_owner = "uuid \<times> uuid option \<times> RevocationListPurpose \<times> string"

record list_view =
  lv_entries :: "RevocationListEntry list"
  lv_published :: "bytes option"
  lv_indexed :: bool
  lv_owner :: "list_owner option"

fun view_selected :: "UpdateRevocationListEntryId \<Rightarrow> uuid \<Rightarrow> RevocationListEntry \<Rightarrow> bool" where
  "view_selected (ByCredential c) l e \<longleftrightarrow> rve_entity_info e = InfoCredential c"
| "view_selected (ById i) l e \<longleftrightarrow> rve_id e = i"
| "view_selected (ByIndex l' i) l e \<longleftrightarrow> l' = l \<and> rve_index e = Some (i mod 2 ^ 32)"

definition set_entry_status ::
  "UpdateRevocationListEntryId \<Rightarrow> RevocationListEntryStatus \<Rightarrow> date_time \<Rightarrow> uuid \<Rightarrow> list_view \<Rightarrow> list_view" where
  "set_entry_status u st now l v =
     v\<lparr>lv_entries := map (\<lambda>e. if view_selected u l e
        then e\<lparr>rve_last_modified := now, rve_status := st\<rparr> else e) (lv_entries v)\<rparr>"

fun info_of_entity :: "RevocationListEntityId \<Rightarrow> RevocationListEntityInfo" where
  "info_of_entity (EntityCredential c) = InfoCredential c"
| "info_of_entity (EntitySignature t serial) = InfoSignature t serial"
| "info_of_entity (EntityWalletUnitAttestedKey k) = InfoWalletUnitAttestedKey"

text \<open>
  The laws. \<open>method_name\<close> is a revocation method all of whose lists are indexed. A new entry
  takes the next index; an index that is in use is refused; a status update reaches the selected
  entries of every list and nothing else; publishing changes one list.
\<close>

locale revocation_list_contract =
  fixes repo :: "'s revocation_list_repository"
    and inv :: "'s \<Rightarrow> bool"
    and view :: "'s \<Rightarrow> uuid \<Rightarrow> list_view"
    and clock :: "'s \<Rightarrow> date_time"
    and method_name :: string
  assumes entries: "inv s \<Longrightarrow> repo_get_entries repo l s = (Inr (lv_entries (view s l)), s)"
    and dense: "inv s \<Longrightarrow> lv_indexed (view s l) \<Longrightarrow>
      map rve_index (lv_entries (view s l)) = map Some [0..<length (lv_entries (view s l))]"
    and small: "inv s \<Longrightarrow> lv_indexed (view s l) \<Longrightarrow> length (lv_entries (view s l)) \<le> 2 ^ 32"
    and next_index: "inv s \<Longrightarrow> lv_indexed (view s l) \<Longrightarrow>
      repo_next_free_index repo l lock s = (Inr i, t) \<Longrightarrow> t = s \<and> i = length (lv_entries (view s l)) mod 2 ^ 32"
    and next_index_error: "repo_next_free_index repo l lock s = (Inl e, t) \<Longrightarrow> t = s \<and> e \<noteq> AlreadyExists"
    and next_index_total: "inv s \<Longrightarrow> lv_owner (view s l) \<noteq> None \<Longrightarrow>
      \<exists>i. repo_next_free_index repo l lock s = (Inr i, s)"
    and new_entry: "inv s \<Longrightarrow> lv_indexed (view s l) \<Longrightarrow> i \<le> length (lv_entries (view s l)) \<Longrightarrow> i < 2 ^ 32 \<Longrightarrow>
      repo_create_entry repo l entity (Some i) s = (Inr eid, t) \<Longrightarrow>
      inv t \<and> i = length (lv_entries (view s l)) \<and>
      view t = (view s)(l := (view s l)\<lparr>lv_entries := lv_entries (view s l) @
        [\<lparr>rve_id = eid, rve_created_date = clock s, rve_last_modified = clock s,
          rve_entity_info = info_of_entity entity, rve_index = Some i, rve_status = Active\<rparr>]\<rparr>)"
    and index_in_use: "inv s \<Longrightarrow> lv_indexed (view s l) \<Longrightarrow> i < length (lv_entries (view s l)) \<Longrightarrow>
      repo_create_entry repo l entity (Some i) s = (Inl e, t) \<Longrightarrow>
      entity_serial entity = None \<Longrightarrow> e = AlreadyExists \<and> inv t \<and> view t = view s"
    and index_free: "inv s \<Longrightarrow> length (lv_entries (view s l)) \<le> i \<Longrightarrow> i < 2 ^ 32 \<Longrightarrow>
      repo_create_entry repo l entity (Some i) s = (Inl e, t) \<Longrightarrow> entity_serial entity = None \<Longrightarrow> e \<noteq> AlreadyExists"
    and update_status: "inv s \<Longrightarrow> \<exists>t. repo_update_entry repo u \<lparr>ure_status = Some st\<rparr> s = (Inr (), t) \<and>
      inv t \<and> view t = (\<lambda>l. set_entry_status u st (clock s) l (view s l))"
    and publish: "inv s \<Longrightarrow> repo_update_formatted_list repo l text s = (Inr (), t) \<Longrightarrow>
      inv t \<and> view t = (view s)(l := (view s l)\<lparr>lv_published := Some text\<rparr>)"
    and publish_error: "repo_update_formatted_list repo l text s = (Inl e, t) \<Longrightarrow> t = s"
    and publish_total: "inv s \<Longrightarrow> lv_owner (view s l) \<noteq> None \<Longrightarrow>
      \<exists>t. repo_update_formatted_list repo l text s = (Inr (), t)"
    and found: "inv s \<Longrightarrow> repo_get_revocation_by_issuer_identifier_id repo i c p m rel s = (Inr (Some li), t) \<Longrightarrow>
      t = s \<and> lv_owner (view s (rvl_id li)) = Some (i, c, p, m)"
    and not_found: "inv s \<Longrightarrow> repo_get_revocation_by_issuer_identifier_id repo i c p m rel s = (Inr None, t) \<Longrightarrow>
      t = s \<and> (\<forall>l. lv_owner (view s l) \<noteq> Some (i, c, p, m))"
    and find_error: "repo_get_revocation_by_issuer_identifier_id repo i c p m rel s = (Inl e, t) \<Longrightarrow> t = s"
    and find_total: "\<exists>r. repo_get_revocation_by_issuer_identifier_id repo i c p m
      revocation_list_relations_default s = (Inr r, s)"
    and by_entry: "inv s \<Longrightarrow> repo_get_revocation_list_by_entry_id repo eid rel s = (Inr (Some li), t) \<Longrightarrow>
      t = s \<and> lv_owner (view s (rvl_id li)) \<noteq> None \<and> (\<exists>e \<in> set (lv_entries (view s (rvl_id li))). rve_id e = eid)"
    and by_entry_state: "snd (repo_get_revocation_list_by_entry_id repo eid rel s) = s"
    and owner_unique: "inv s \<Longrightarrow> lv_owner (view s l) = Some ow \<Longrightarrow> lv_owner (view s l') = Some ow \<Longrightarrow> l = l'"
    and entry_unique: "inv s \<Longrightarrow> en \<in> set (lv_entries (view s l)) \<Longrightarrow> en' \<in> set (lv_entries (view s l')) \<Longrightarrow>
      rve_id en = rve_id en' \<Longrightarrow> l = l'"
    and no_list: "inv s \<Longrightarrow> lv_owner (view s l) = None \<Longrightarrow> lv_entries (view s l) = []"
    and method_indexed: "inv s \<Longrightarrow> lv_owner (view s l) = Some (i, c, p, method_name) \<Longrightarrow> lv_indexed (view s l)"
    and new_list: "inv s \<Longrightarrow> repo_create_revocation_list repo li s = (Inr l, t) \<Longrightarrow>
      inv t \<and> l = rvl_id li \<and> lv_owner (view s l) = None \<and> (\<exists>iss. rvl_issuer_identifier li = Some iss \<and>
      view t = (view s)(l := \<lparr>lv_entries = [], lv_published = Some (rvl_formatted_list li), lv_indexed = True,
        lv_owner = Some (idf_id iss, map_option cert_id (rvl_issuer_certificate li), rvl_purpose li, rvl_type li)\<rparr>))"
    and new_list_error: "repo_create_revocation_list repo li s = (Inl e, t) \<Longrightarrow> t = s"
begin

lemma indexes_distinct:
  assumes "inv s" and "lv_indexed (view s l)"
  shows "distinct (map (the \<circ> rve_index) (lv_entries (view s l)))"
proof -
  have "map (the \<circ> rve_index) (lv_entries (view s l)) = [0..<length (lv_entries (view s l))]"
    using arg_cong [OF dense [OF assms], of "map the"] by (simp add: comp_def)
  then show ?thesis by simp
qed

end

end
