(* ===== verification/Key_Selection.thy ===== *)
theory Key_Selection
  imports Entities
begin

text \<open>
  Selection of the signing key of an identifier
  (\<open>one-core/src/util/key_selection.rs\<close>). The reader of X.509 certificates is a parameter:
  \<open>x509_key_usage chain\<close> is the key usage extension of the first certificate of the PEM text,
  and \<open>None\<close> when the text does not parse or the certificate has no such extension.
\<close>

datatype KeyUsagePurpose =
    DigitalSignature
  | ContentCommitment
  | KeyEncipherment
  | DataEncipherment
  | KeyAgreement
  | KeyCertSign
  | CrlSign
  | EncipherOnly
  | DecipherOnly

record KeyUsage =
  digital_signature :: bool
  non_repudiation :: bool
  key_encipherment :: bool
  data_encipherment :: bool
  key_agreement :: bool
  key_cert_sign :: bool
  crl_sign :: bool
  encipher_only :: bool
  decipher_only :: bool

record KeyFilter =
  did_role :: "KeyRole option"
  certificate_key_usage :: "KeyUsagePurpose list option"
  algorithms :: "KeyAlgorithmType list option"

definition key_filter_default :: KeyFilter where
  "key_filter_default = \<lparr>did_role = None, certificate_key_usage = None, algorithms = None\<rparr>"

definition role_filter :: "KeyRole \<Rightarrow> KeyFilter" where
  "role_filter role = key_filter_default\<lparr>did_role := Some role\<rparr>"

definition cert_usage_filter :: "KeyUsagePurpose list \<Rightarrow> KeyFilter" where
  "cert_usage_filter usage = key_filter_default\<lparr>certificate_key_usage := Some usage\<rparr>"

definition matches_key :: "KeyFilter \<Rightarrow> Key \<Rightarrow> bool" where
  "matches_key flt key =
     (case algorithms flt of
        None \<Rightarrow> True
      | Some algs \<Rightarrow>
          (case key_algorithm_type key of None \<Rightarrow> False | Some algorithm_type \<Rightarrow> algorithm_type \<in> set algs))"

definition matches_related_key :: "KeyFilter \<Rightarrow> RelatedKey \<Rightarrow> bool" where
  "matches_related_key flt key \<longleftrightarrow>
     (case did_role flt of None \<Rightarrow> True | Some role \<Rightarrow> role = rel_role key) \<and>
     matches_key flt (rel_key key)"

record KeySelection =
  sel_key :: "uuid option"
  sel_did :: "uuid option"
  sel_certificate :: "uuid option"
  sel_key_filter :: "KeyFilter option"

definition selection_default :: KeySelection where
  "selection_default =
     \<lparr>sel_key = None, sel_did = None, sel_certificate = None, sel_key_filter = None\<rparr>"

definition selection_of_filter :: "KeyFilter \<Rightarrow> KeySelection" where
  "selection_of_filter flt = selection_default\<lparr>sel_key_filter := Some flt\<rparr>"

datatype SelectedKey =
    SelKey Key
  | SelCertificate Certificate Key
  | SelDid Did RelatedKey

fun selected_key :: "SelectedKey \<Rightarrow> Key" where
  "selected_key (SelKey key) = key"
| "selected_key (SelCertificate certificate key) = key"
| "selected_key (SelDid did key) = rel_key key"

fun selected_certificate :: "SelectedKey \<Rightarrow> Certificate option" where
  "selected_certificate (SelCertificate certificate key) = Some certificate"
| "selected_certificate _ = None"

fun selected_did :: "SelectedKey \<Rightarrow> Did option" where
  "selected_did (SelDid did key) = Some did"
| "selected_did _ = None"

datatype KeySelectionError =
    SelectionNotApplicableForType uuid string IdentifierType
  | RemoteIdentifier
  | KeyNotFound uuid uuid
  | DidIdentifierMismatch uuid uuid
  | DidDeactivated uuid
  | NoKeyMatchingFilter uuid KeyFilter
  | KeyNotMatchingFilter uuid KeyFilter
  | CertificateNotFound uuid uuid
  | CertificateInvalidState uuid CertificateState
  | NoActiveMatchingCertificate uuid KeyFilter
  | KeyCertificateMismatch uuid uuid
  | KeyDidMismatch uuid uuid
  | SelMappingError string

fun key_selection_error_code :: "KeySelectionError \<Rightarrow> string" where
  "key_selection_error_code (SelMappingError _) = ''BR_0047''"
| "key_selection_error_code _ = ''BR_0330''"

section \<open>Keys of a DID and of a certificate\<close>

definition find_key :: "Did \<Rightarrow> uuid \<Rightarrow> KeyFilter \<Rightarrow> (KeySelectionError, RelatedKey) result" where
  "find_key did kid flt =
     rbind (ok_or (did_keys did) (SelMappingError ''keys is None'')) (\<lambda>keys.
       let same_id_keys = filter (\<lambda>entry. key_id (rel_key entry) = kid) keys in
       if same_id_keys = [] then Inl (KeyDidMismatch (did_id did) kid)
       else ok_or (find (matches_related_key flt) same_id_keys) (KeyNotMatchingFilter kid flt))"

definition find_first_matching_key ::
  "Did \<Rightarrow> KeyFilter \<Rightarrow> (KeySelectionError, RelatedKey option) result" where
  "find_first_matching_key did flt =
     rbind (ok_or (did_keys did) (SelMappingError ''keys is None'')) (\<lambda>keys.
       Inr (find (matches_related_key flt) keys))"

fun key_usage_matches :: "KeyUsage \<Rightarrow> KeyUsagePurpose \<Rightarrow> bool" where
  "key_usage_matches u DigitalSignature = digital_signature u"
| "key_usage_matches u ContentCommitment = non_repudiation u"
| "key_usage_matches u KeyEncipherment = key_encipherment u"
| "key_usage_matches u DataEncipherment = data_encipherment u"
| "key_usage_matches u KeyUsagePurpose.KeyAgreement = key_agreement u"
| "key_usage_matches u KeyCertSign = key_cert_sign u"
| "key_usage_matches u CrlSign = crl_sign u"
| "key_usage_matches u EncipherOnly = encipher_only u"
| "key_usage_matches u DecipherOnly = decipher_only u"

definition matches_key_usage ::
  "(string \<Rightarrow> KeyUsage option) \<Rightarrow> Certificate \<Rightarrow> KeyUsagePurpose list \<Rightarrow> bool" where
  "matches_key_usage x509_key_usage certificate usages =
     (case x509_key_usage (cert_chain certificate) of
        None \<Rightarrow> False
      | Some key_usage \<Rightarrow> list_all (key_usage_matches key_usage) usages)"

definition has_matching_key ::
  "(string \<Rightarrow> KeyUsage option) \<Rightarrow> Certificate \<Rightarrow> KeyFilter \<Rightarrow> bool" where
  "has_matching_key x509_key_usage certificate flt \<longleftrightarrow>
     (case certificate_key_usage flt of
        None \<Rightarrow> True | Some usages \<Rightarrow> matches_key_usage x509_key_usage certificate usages) \<and>
     (case cert_key certificate of None \<Rightarrow> False | Some k \<Rightarrow> matches_key flt k)"

section \<open>Selection\<close>

definition throw_on_certificate_id :: "Identifier \<Rightarrow> KeySelection \<Rightarrow> (KeySelectionError, unit) result" where
  "throw_on_certificate_id i selection =
     ensure (sel_certificate selection = None)
       (SelectionNotApplicableForType (idf_id i) ''Certificate'' (idf_type i))"

definition throw_on_did_id :: "Identifier \<Rightarrow> KeySelection \<Rightarrow> (KeySelectionError, unit) result" where
  "throw_on_did_id i selection =
     ensure (sel_did selection = None)
       (SelectionNotApplicableForType (idf_id i) ''Did'' (idf_type i))"

definition requested_or_any :: "uuid option \<Rightarrow> uuid \<Rightarrow> bool" where
  "requested_or_any requested kid \<longleftrightarrow> (case requested of None \<Rightarrow> True | Some r \<Rightarrow> r = kid)"

text \<open>The three arms of the match in \<open>select_key\<close>.\<close>

definition select_from_key :: "Identifier \<Rightarrow> KeySelection \<Rightarrow> KeyFilter \<Rightarrow> (KeySelectionError, SelectedKey) result" where
  "select_from_key i selection flt =
     rbind (throw_on_certificate_id i selection) (\<lambda>_.
     rbind (throw_on_did_id i selection) (\<lambda>_.
     rbind (ok_or (idf_key i) (SelMappingError ''Missing identifier key'')) (\<lambda>key.
     rbind (ensure (matches_key flt key) (NoKeyMatchingFilter (idf_id i) flt)) (\<lambda>_.
     rbind (ensure (requested_or_any (sel_key selection) (key_id key))
              (KeyNotFound (idf_id i) (the (sel_key selection)))) (\<lambda>_.
       Inr (SelKey key))))))"

definition select_from_did :: "Identifier \<Rightarrow> KeySelection \<Rightarrow> KeyFilter \<Rightarrow> (KeySelectionError, SelectedKey) result" where
  "select_from_did i selection flt =
     rbind (throw_on_certificate_id i selection) (\<lambda>_.
     rbind (ok_or (idf_did i) (SelMappingError ''Missing identifier did'')) (\<lambda>did.
     rbind (ensure (\<not> did_deactivated did) (DidDeactivated (did_id did))) (\<lambda>_.
     rbind (ensure (requested_or_any (sel_did selection) (did_id did))
              (DidIdentifierMismatch (idf_id i) (the (sel_did selection)))) (\<lambda>_.
     rbind (case sel_key selection of
              Some kid \<Rightarrow> find_key did kid flt
            | None \<Rightarrow> rbind (find_first_matching_key did flt) (\<lambda>key.
                ok_or key (NoKeyMatchingFilter (idf_id i) flt))) (\<lambda>key.
       Inr (SelDid did key))))))"

definition select_from_certificates ::
  "(string \<Rightarrow> KeyUsage option) \<Rightarrow> Identifier \<Rightarrow> KeySelection \<Rightarrow> KeyFilter \<Rightarrow> (KeySelectionError, SelectedKey) result" where
  "select_from_certificates x509_key_usage i selection flt =
     rbind (throw_on_did_id i selection) (\<lambda>_.
     rbind (ok_or (idf_certificates i) (SelMappingError ''Missing identifier certificates'')) (\<lambda>certs.
     rbind (case sel_certificate selection of
              Some requested_id \<Rightarrow>
                rbind (ok_or (find (\<lambda>cert. cert_id cert = requested_id) certs)
                         (CertificateNotFound (idf_id i) requested_id)) (\<lambda>requested_cert.
                rbind (ensure (cert_state requested_cert = CertificateState.Active)
                         (CertificateInvalidState (cert_id requested_cert) (cert_state requested_cert))) (\<lambda>_.
                  Inr requested_cert))
            | None \<Rightarrow>
                ok_or (find (\<lambda>c. cert_state c = CertificateState.Active \<and> has_matching_key x509_key_usage c flt) certs)
                  (NoActiveMatchingCertificate (idf_id i) flt)) (\<lambda>certificate.
     rbind (ok_or (cert_key certificate) (SelMappingError ''Missing certificate key'')) (\<lambda>key.
     rbind (ensure (matches_key flt key) (KeyNotMatchingFilter (key_id key) flt)) (\<lambda>_.
     rbind (ensure (requested_or_any (sel_key selection) (key_id key))
              (KeyCertificateMismatch (cert_id certificate) (the (sel_key selection)))) (\<lambda>_.
       Inr (SelCertificate certificate key)))))))"

definition select_key ::
  "(string \<Rightarrow> KeyUsage option) \<Rightarrow> Identifier \<Rightarrow> KeySelection \<Rightarrow> (KeySelectionError, SelectedKey) result" where
  "select_key x509_key_usage i selection =
     (if idf_is_remote i then Inl RemoteIdentifier
      else
        let flt = (case sel_key_filter selection of None \<Rightarrow> key_filter_default | Some f \<Rightarrow> f) in
        case idf_type i of
          IdKey \<Rightarrow> select_from_key i selection flt
        | IdDid \<Rightarrow> select_from_did i selection flt
        | IdCertificate \<Rightarrow> select_from_certificates x509_key_usage i selection flt
        | IdCertificateAuthority \<Rightarrow> select_from_certificates x509_key_usage i selection flt)"

section \<open>What a selection may return\<close>

text \<open>
  The specification: the candidates of an identifier are the keys it can sign with, in the order
  of the identifier, and a selection admits some of them.
\<close>

definition certificate_candidates :: "Certificate list \<Rightarrow> SelectedKey list" where
  "certificate_candidates certs =
     List.map_filter (\<lambda>c. if cert_state c = CertificateState.Active
       then map_option (SelCertificate c) (cert_key c) else None) certs"

definition key_candidates :: "Identifier \<Rightarrow> SelectedKey list" where
  "key_candidates i =
     (if idf_is_remote i then []
      else case idf_type i of
        IdKey \<Rightarrow> (case idf_key i of None \<Rightarrow> [] | Some k \<Rightarrow> [SelKey k])
      | IdDid \<Rightarrow> (case idf_did i of
            None \<Rightarrow> []
          | Some d \<Rightarrow> if did_deactivated d then []
              else (case did_keys d of None \<Rightarrow> [] | Some keys \<Rightarrow> map (SelDid d) keys))
      | _ \<Rightarrow> (case idf_certificates i of None \<Rightarrow> [] | Some certs \<Rightarrow> certificate_candidates certs))"

definition selection_filter :: "KeySelection \<Rightarrow> KeyFilter" where
  "selection_filter selection =
     (case sel_key_filter selection of None \<Rightarrow> key_filter_default | Some f \<Rightarrow> f)"

fun admissible :: "(string \<Rightarrow> KeyUsage option) \<Rightarrow> KeySelection \<Rightarrow> SelectedKey \<Rightarrow> bool" where
  "admissible u selection (SelKey k) \<longleftrightarrow>
     sel_certificate selection = None \<and> sel_did selection = None \<and>
     requested_or_any (sel_key selection) (key_id k) \<and> matches_key (selection_filter selection) k"
| "admissible u selection (SelDid d k) \<longleftrightarrow>
     sel_certificate selection = None \<and> requested_or_any (sel_did selection) (did_id d) \<and>
     requested_or_any (sel_key selection) (key_id (rel_key k)) \<and>
     matches_related_key (selection_filter selection) k"
| "admissible u selection (SelCertificate c k) \<longleftrightarrow>
     sel_did selection = None \<and> requested_or_any (sel_certificate selection) (cert_id c) \<and>
     requested_or_any (sel_key selection) (key_id k) \<and> matches_key (selection_filter selection) k \<and>
     (sel_certificate selection = None \<longrightarrow> has_matching_key u c (selection_filter selection))"

lemma requested_or_any_simps [simp]:
  "requested_or_any None k" "requested_or_any (Some r) k \<longleftrightarrow> k = r"
  by (auto simp: requested_or_any_def)

lemma certificate_candidates_simps [simp]:
  "certificate_candidates [] = []"
  "certificate_candidates (c # cs) =
     (if cert_state c = CertificateState.Active
      then case cert_key c of None \<Rightarrow> certificate_candidates cs
           | Some k \<Rightarrow> SelCertificate c k # certificate_candidates cs
      else certificate_candidates cs)"
  by (simp_all add: certificate_candidates_def List.map_filter_def split: option.splits)

lemma set_certificate_candidates:
  "sk \<in> set (certificate_candidates certs) \<longleftrightarrow>
     (\<exists>c k. sk = SelCertificate c k \<and> c \<in> set certs \<and>
        cert_state c = CertificateState.Active \<and> cert_key c = Some k)"
  by (induction certs) (auto split: option.splits)

lemma find_filter: "find P (filter Q xs) = find (\<lambda>x. Q x \<and> P x) xs"
  by (induction xs) auto

lemma find_False [simp]: "find (\<lambda>x. False) xs = None"
  by (induction xs) auto

lemma find_map_constructor: "find P (map f xs) = map_option f (find (P \<circ> f) xs)"
  by (induction xs) auto

lemma select_key_cases:
  "select_key u i selection =
     (if idf_is_remote i then Inl RemoteIdentifier
      else case idf_type i of
          IdKey \<Rightarrow> select_from_key i selection (selection_filter selection)
        | IdDid \<Rightarrow> select_from_did i selection (selection_filter selection)
        | _ \<Rightarrow> select_from_certificates u i selection (selection_filter selection))"
  by (simp add: select_key_def selection_filter_def Let_def split: IdentifierType.split)

lemma select_from_key_eq:
  "select_from_key i selection (selection_filter selection) = Inr sk \<longleftrightarrow>
     (\<exists>k. idf_key i = Some k \<and> sk = SelKey k \<and> admissible u selection sk)"
  by (auto simp: select_from_key_def throw_on_certificate_id_def throw_on_did_id_def)

lemma select_from_did_sound:
  "select_from_did i selection (selection_filter selection) = Inr sk \<Longrightarrow>
     \<exists>d keys k. idf_did i = Some d \<and> \<not> did_deactivated d \<and> did_keys d = Some keys \<and> k \<in> set keys \<and>
       sk = SelDid d k \<and> admissible u selection sk"
  by (cases "sel_key selection")
    (auto simp: select_from_did_def throw_on_certificate_id_def find_key_def
      find_first_matching_key_def Let_def split: if_splits dest!: find_in_set)

lemma select_from_certificates_sound:
  "select_from_certificates u i selection (selection_filter selection) = Inr sk \<Longrightarrow>
     \<exists>certs c k. idf_certificates i = Some certs \<and> c \<in> set certs \<and>
       cert_state c = CertificateState.Active \<and> cert_key c = Some k \<and>
       sk = SelCertificate c k \<and> admissible u selection sk"
  by (cases "sel_certificate selection")
    (auto simp: select_from_certificates_def throw_on_did_id_def dest!: find_in_set)


text \<open>Whether a result carries a value, and which.\<close>

definition ok_value :: "('e, 'a) result \<Rightarrow> 'a option" where
  "ok_value r = (case r of Inl _ \<Rightarrow> None | Inr x \<Rightarrow> Some x)"

lemma ok_value_simps [simp]:
  "ok_value (Inl e) = None" "ok_value (Inr x) = Some x"
  "ok_value (ok_or m e) = m"
  "ok_value (rbind (ensure b e) f) = (if b then ok_value (f ()) else None)"
  "ok_value (rbind (ok_or m e) g) = (case m of None \<Rightarrow> None | Some x \<Rightarrow> ok_value (g x))"
  "ok_value (rbind r (\<lambda>x. Inr (h x))) = map_option h (ok_value r)"
  by (cases r; cases m; simp add: ok_value_def ensure_def)+

lemma select_from_key_refines:
  "ok_value (select_from_key i selection (selection_filter selection)) =
     find (admissible u selection) (case idf_key i of None \<Rightarrow> [] | Some k \<Rightarrow> [SelKey k])"
  by (auto simp: select_from_key_def throw_on_certificate_id_def throw_on_did_id_def
      split: option.split)

lemma find_key_eq:
  "ok_value (find_key did kid f) =
     (case did_keys did of None \<Rightarrow> None
      | Some keys \<Rightarrow> find (\<lambda>k. key_id (rel_key k) = kid \<and> matches_related_key f k) keys)"
  by (auto simp: find_key_def Let_def find_filter [symmetric] split: option.split)

lemma find_first_matching_key_eq:
  "ok_value (rbind (find_first_matching_key did f) (\<lambda>key. ok_or key e)) =
     (case did_keys did of None \<Rightarrow> None | Some keys \<Rightarrow> find (matches_related_key f) keys)"
  by (auto simp: find_first_matching_key_def split: option.split)

lemma select_from_did_refines:
  "ok_value (select_from_did i selection (selection_filter selection)) =
     find (admissible u selection)
       (case idf_did i of None \<Rightarrow> []
        | Some d \<Rightarrow> if did_deactivated d then []
            else (case did_keys d of None \<Rightarrow> [] | Some keys \<Rightarrow> map (SelDid d) keys))"
proof (cases "idf_did i")
  case None
  then show ?thesis by (simp add: select_from_did_def throw_on_certificate_id_def)
next
  case (Some d)
  show ?thesis
    by (cases "sel_key selection"; cases "did_keys d")
      (auto simp: Some select_from_did_def throw_on_certificate_id_def find_key_eq
        find_first_matching_key_eq find_map_constructor comp_def find_None_iff)
qed

lemma find_certificate_candidates:
  "find P (certificate_candidates certs) =
     Option.bind (find (\<lambda>c. cert_state c = CertificateState.Active \<and>
        (\<exists>k. cert_key c = Some k \<and> P (SelCertificate c k))) certs)
       (\<lambda>c. map_option (SelCertificate c) (cert_key c))"
  by (induction certs) (auto split: option.splits)

lemma find_distinct_key:
  "distinct (map f xs) \<Longrightarrow>
     find (\<lambda>x. f x = r \<and> Q x) xs = (case find (\<lambda>x. f x = r) xs of None \<Rightarrow> None
       | Some x \<Rightarrow> if Q x then Some x else None)"
proof (induction xs)
  case (Cons x xs)
  have "find (\<lambda>y. f y = r \<and> Q y) xs = None" if "f x = r"
    using that Cons.prems by (auto simp: find_None_iff) (metis image_eqI)
  with Cons show ?case by auto
qed simp

lemma select_from_certificates_refines:
  assumes "\<And>certs. idf_certificates i = Some certs \<Longrightarrow> distinct (map cert_id certs)"
    and "sel_key selection = None \<or> sel_certificate selection \<noteq> None"
  shows "ok_value (select_from_certificates u i selection (selection_filter selection)) =
     find (admissible u selection)
       (case idf_certificates i of None \<Rightarrow> [] | Some certs \<Rightarrow> certificate_candidates certs)"
proof (cases "idf_certificates i")
  case None
  then show ?thesis by (simp add: select_from_certificates_def throw_on_did_id_def)
next
  case (Some certs)
  let ?f = "selection_filter selection"
  show ?thesis
  proof (cases "sel_certificate selection")
    case None
    with assms(2) have key: "sel_key selection = None" by simp
    have has: "has_matching_key u c ?f \<longleftrightarrow>
      (\<exists>k. cert_key c = Some k \<and> matches_key ?f k \<and> has_matching_key u c ?f)" for c
      by (auto simp: has_matching_key_def split: option.splits)
    have pred: "(\<lambda>c. cert_state c = CertificateState.Active \<and>
        (\<exists>k. cert_key c = Some k \<and> admissible u selection (SelCertificate c k))) =
      (\<lambda>c. sel_did selection = None \<and> cert_state c = CertificateState.Active \<and> has_matching_key u c ?f)"
      using None key by (intro ext) (use has in \<open>simp, blast\<close>)
    show ?thesis
    proof (cases "sel_did selection = None \<and>
        find (\<lambda>c. cert_state c = CertificateState.Active \<and> has_matching_key u c ?f) certs \<noteq> None")
      case True
      then obtain c where c: "find (\<lambda>c. cert_state c = CertificateState.Active \<and> has_matching_key u c ?f) certs = Some c"
        by blast
      then have "has_matching_key u c ?f" by (auto dest!: find_in_set)
      with has [of c] obtain k where "cert_key c = Some k" "matches_key ?f k" by blast
      with True c None key show ?thesis
        unfolding \<open>idf_certificates i = Some certs\<close> option.case find_certificate_candidates pred
        by (simp add: \<open>idf_certificates i = Some certs\<close> select_from_certificates_def throw_on_did_id_def)
    next
      case False
      then show ?thesis
        unfolding \<open>idf_certificates i = Some certs\<close> option.case find_certificate_candidates pred
        by (cases "sel_did selection")
          (simp_all add: \<open>idf_certificates i = Some certs\<close> None
            select_from_certificates_def throw_on_did_id_def)
    qed
  next
    case (Some r)
    let ?ok = "\<lambda>c. cert_state c = CertificateState.Active \<and> sel_did selection = None \<and>
      (\<exists>k. cert_key c = Some k \<and> requested_or_any (sel_key selection) (key_id k) \<and> matches_key ?f k)"
    have pred: "(\<lambda>c. cert_state c = CertificateState.Active \<and>
        (\<exists>k. cert_key c = Some k \<and> admissible u selection (SelCertificate c k))) =
      (\<lambda>c. cert_id c = r \<and> ?ok c)"
      using Some by auto
    have "distinct (map cert_id certs)" by (rule assms(1)) fact
    note found = find_distinct_key [OF this, of r ?ok]
    show ?thesis
      unfolding \<open>idf_certificates i = Some certs\<close> option.case find_certificate_candidates pred found
      by (cases "find (\<lambda>c. cert_id c = r) certs")
        (auto simp: Some \<open>idf_certificates i = Some certs\<close> select_from_certificates_def
          throw_on_did_id_def rbind_assoc split: option.splits)
  qed
qed


definition example_key :: "nat \<Rightarrow> Key" where
  "example_key n =
     \<lparr>key_id = n, key_created_date = 0, key_last_modified = 0, key_public_key = [], key_name = ''key'',
      key_reference = None, key_storage_type = ''INTERNAL'', key_type = ''ECDSA'', key_organisation = None\<rparr>"

definition example_certificate :: "nat \<Rightarrow> CertificateState \<Rightarrow> Certificate" where
  "example_certificate n st =
     \<lparr>cert_id = n, cert_identifier_id = 1, cert_organisation_id = None, cert_created_date = 0,
      cert_last_modified = 0, cert_expiry_date = 100, cert_name = ''cert'', cert_chain = ''chain'',
      cert_fingerprint = '''', cert_state = st, cert_key = Some (example_key n)\<rparr>"

definition example_identifier :: Identifier where
  "example_identifier =
     \<lparr>idf_id = 1, idf_created_date = 0, idf_last_modified = 0, idf_name = ''issuer'',
      idf_type = IdCertificate, idf_is_remote = False, idf_state = IdActive, idf_deleted_at = None,
      idf_organisation = None, idf_did = None, idf_key = None,
      idf_certificates = Some [example_certificate 10 CertificateState.Expired,
        example_certificate 11 CertificateState.Active]\<rparr>"



text \<open>
  C38. When a certificate is requested by its id, the key usage the filter asks for is not
  checked: the outcome does not depend on the key usage extensions of the certificates, although
  without a requested certificate the same filter excludes certificates that lack the usage.
\<close>

theorem select_key_requested_certificate_ignores_usage:
  assumes "sel_certificate selection = Some c"
  shows "select_key u i selection = select_key u' i selection"
  using assms by (simp add: select_key_def select_from_certificates_def Let_def split: IdentifierType.split)

theorem select_key_requested_certificate_ignores_usage_witness:
  "select_key (\<lambda>_. None) example_identifier
     (selection_default\<lparr>sel_certificate := Some 11, sel_key_filter := Some (cert_usage_filter [DigitalSignature])\<rparr>) =
   Inr (SelCertificate (example_certificate 11 CertificateState.Active) (example_key 11)) \<and>
   select_key (\<lambda>_. None) example_identifier
     (selection_default\<lparr>sel_key_filter := Some (cert_usage_filter [DigitalSignature])\<rparr>) =
   Inl (NoActiveMatchingCertificate 1 (cert_usage_filter [DigitalSignature]))"
proof
  have "select_key (\<lambda>_. None) example_identifier
     (selection_default\<lparr>sel_certificate := Some 11, sel_key_filter := Some (cert_usage_filter [DigitalSignature])\<rparr>) =
    select_key (\<lambda>_. Some \<lparr>digital_signature = True, non_repudiation = False, key_encipherment = False,
        data_encipherment = False, key_agreement = False, key_cert_sign = False, crl_sign = False,
        encipher_only = False, decipher_only = False\<rparr>) example_identifier
     (selection_default\<lparr>sel_certificate := Some 11, sel_key_filter := Some (cert_usage_filter [DigitalSignature])\<rparr>)"
    by (rule select_key_requested_certificate_ignores_usage) simp
  also have "\<dots> = Inr (SelCertificate (example_certificate 11 CertificateState.Active) (example_key 11))"
    by code_simp
  finally show "select_key (\<lambda>_. None) example_identifier
     (selection_default\<lparr>sel_certificate := Some 11, sel_key_filter := Some (cert_usage_filter [DigitalSignature])\<rparr>) =
   Inr (SelCertificate (example_certificate 11 CertificateState.Active) (example_key 11))" .
qed code_simp

end
