(* ===== verification/Revocation_Method.thy ===== *)
theory Revocation_Method
  imports Revocation_Model Key_Selection
begin

text \<open>
  What the revocation methods share (\<open>one-core/src/provider/revocation/\<close>): their errors, the
  status block of a credential, the entities they are given, and the trait
  \<open>RevocationMethod\<close> as a record of operations. An operation may panic, so its error type is a
  \<open>fault\<close>.
\<close>

section \<open>Errors\<close>

datatype RevocationError =
    FormatterNotFound string
  | InvalidIdentifierType IdentifierType
  | InvalidKeyAlgorithm string
  | KeyWithRoleNotFound KeyRole
  | MappingError string
  | MissingCredentialIndexOnRevocationList uuid uuid
  | OperationNotSupported string
  | ValidationError string
  | FromUtf8Error string
  | JsonError string
  | X509Error string
  | Nested NestedError

fun revocation_error_code :: "RevocationError \<Rightarrow> error_code" where
  "revocation_error_code (OperationNotSupported _) = ''BR_0098''"
| "revocation_error_code (Nested nested) = nested_error_code nested"
| "revocation_error_code _ = ''BR_0101''"

text \<open>A data layer error or the error of another component, nested with its context.\<close>

definition nested_db :: "string \<Rightarrow> DataLayerError \<Rightarrow> RevocationError fault" where
  "nested_db context e = Failure (Nested (error_while data_layer_error_code context e))"

definition nested_code :: "string \<Rightarrow> error_code \<Rightarrow> RevocationError fault" where
  "nested_code context code = Failure (Nested (NestedError context code))"

section \<open>Status blocks\<close>

datatype json_value = JsonString string | JsonOther string

fun as_str :: "json_value \<Rightarrow> string option" where
  "as_str (JsonString s) = Some s"
| "as_str (JsonOther _) = None"

record CredentialStatus =
  cs_id :: "string option"
  cs_type :: string
  cs_status_purpose :: "string option"
  cs_additional_fields :: "(string \<times> json_value) list"

record CredentialRevocationInfo =
  cri_credential_status :: CredentialStatus
  cri_serial :: "serial option"

datatype Operation = Revoke | Suspend

record RevocationMethodCapabilities =
  cap_operations :: "Operation list"

datatype StatusPurpose = PurposeRevocation | PurposeSuspension | PurposeRevocationAndSuspension

datatype RevocationType = MdocMsoUpdateSuspension | BitstringStatusList | TokenStatusListType | CRL

text \<open>The issuer of a credential as its formatter found it; a key is its JSON text.\<close>

record CertificateDetails =
  cdet_chain :: string
  cdet_fingerprint :: string
  cdet_expiry :: date_time
  cdet_subject_common_name :: "string option"

datatype IdentifierDetails = DetailsDid string | DetailsCertificate CertificateDetails | DetailsKey string

section \<open>Wallet units\<close>

record WalletUnitAttestedKeyRevocationInfo =
  wri_revocation_list :: RevocationList
  wri_revocation_list_index :: nat

record WalletUnitAttestedKey =
  wak_id :: uuid
  wak_wallet_unit_id :: uuid
  wak_created_date :: date_time
  wak_last_modified :: date_time
  wak_expiration_date :: date_time
  wak_public_key_jwk :: string
  wak_revocation :: "WalletUnitAttestedKeyRevocationInfo option"

datatype WalletUnitOs = Ios | Android | Web

datatype WalletUnitStatus = WuPending | WuActive | WuRevoked | WuUnattested | WuError

record WalletUnit =
  wu_id :: uuid
  wu_name :: string
  wu_created_date :: date_time
  wu_last_modified :: date_time
  wu_os :: WalletUnitOs
  wu_status :: WalletUnitStatus
  wu_wallet_provider_type :: string
  wu_wallet_provider_name :: string
  wu_authentication_key_jwk :: "string option"
  wu_last_issuance :: "date_time option"
  wu_nonce :: "string option"
  wu_organisation :: "Organisation option"
  wu_attested_keys :: "WalletUnitAttestedKey list option"

section \<open>The trait\<close>

text \<open>
  The additional credential data of \<open>check_credential_revocation_status\<close> is left out: every
  implementation ignores it.
\<close>

type_synonym ('s, 'a) rev_comp = "('s, RevocationError fault, 'a) comp"

record 's revocation_method =
  rm_get_status_type :: string
  rm_add_issued_credential :: "Credential \<Rightarrow> ('s, CredentialRevocationInfo list) rev_comp"
  rm_mark_credential_as :: "Credential \<Rightarrow> RevocationState \<Rightarrow> ('s, unit) rev_comp"
  rm_check_credential_revocation_status ::
    "CredentialStatus \<Rightarrow> IdentifierDetails \<Rightarrow> bool \<Rightarrow> ('s, RevocationState) rev_comp"
  rm_add_issued_attestation :: "WalletUnitAttestedKey \<Rightarrow> ('s, CredentialRevocationInfo) rev_comp"
  rm_get_attestation_revocation_info ::
    "WalletUnitAttestedKeyRevocationInfo \<Rightarrow> ('s, CredentialRevocationInfo) rev_comp"
  rm_update_attestation_entries ::
    "WalletUnitAttestedKeyRevocationInfo list \<Rightarrow> RevocationState \<Rightarrow> ('s, unit) rev_comp"
  rm_add_signature ::
    "string \<Rightarrow> Identifier \<Rightarrow> Certificate option \<Rightarrow> ('s, uuid \<times> CredentialRevocationInfo) rev_comp"
  rm_revoke_signature :: "uuid \<Rightarrow> ('s, unit) rev_comp"
  rm_get_updated_list :: "uuid \<Rightarrow> ('s, bytes) rev_comp"
  rm_get_capabilities :: RevocationMethodCapabilities

section \<open>The provider of the methods\<close>

type_synonym 's revocation_methods = "(string \<times> 's revocation_method) list"

definition get_revocation_method :: "'s revocation_methods \<Rightarrow> string \<Rightarrow> 's revocation_method option" where
  "get_revocation_method methods mid = map_of methods mid"

definition get_revocation_method_by_status_type ::
  "'s revocation_methods \<Rightarrow> string \<Rightarrow> ('s revocation_method \<times> string) option" where
  "get_revocation_method_by_status_type methods status_type =
     map_option (\<lambda>(mid, method). (method, mid))
       (find (\<lambda>(mid, method). rm_get_status_type method = status_type) methods)"

end
