(* ===== verification/Token_Status_List.thy ===== *)
theory Token_Status_List
  imports Revocation_Method
begin

text \<open>
  The token status list method
  (\<open>one-core/src/provider/revocation/token_status_list/mod.rs\<close>): issuing entries, changing
  their status, publishing the signed list and checking a status. The method is a record with
  the fields of \<open>TokenStatusList\<close>; providers outside this development are functions in it:
  the key provider, the formatter of the signed list, the codecs, the cached download, and the
  JSON, UTF-8 and JWT readers. Its repository is the record of operations of the trait, so
  everything here holds for any repository that meets the contract.

  A transaction is given what other sessions commit while it runs (\<open>others\<close>); what it reads
  before that point may be outdated when it writes.
\<close>

section \<open>The method\<close>

definition URI_KEY :: string where
  "URI_KEY = ''uri''"

definition INDEX_KEY :: string where
  "INDEX_KEY = ''idx''"

definition CREDENTIAL_STATUS_TYPE :: string where
  "CREDENTIAL_STATUS_TYPE = ''TokenStatusListEntry''"

text \<open>
  The formatter of the signed list takes the URL of the list, the issuer, the encoded list, the
  algorithm, the signer, the purpose and the kind of list.
\<close>

type_synonym 'auth status_list_formatter =
  "string \<Rightarrow> Identifier \<Rightarrow> string \<Rightarrow> KeyAlgorithmType \<Rightarrow> 'auth \<Rightarrow> StatusPurpose \<Rightarrow> RevocationType \<Rightarrow>
   (error_code, string) result"

record ('s, 'auth) token_status_list =
  tm_config_id :: string
  tm_core_base_url :: "string option"
  tm_format :: StatusListCredentialFormat
  tm_repository :: "'s revocation_list_repository"
  tm_codec :: status_codec
  tm_x509_key_usage :: "string \<Rightarrow> KeyUsage option"
  tm_signature_provider :: "Key \<Rightarrow> string option \<Rightarrow> (error_code, 'auth) result"
  tm_formatter_by_type :: "FormatType \<Rightarrow> 'auth status_list_formatter option"
  tm_get_wallet_unit :: "uuid \<Rightarrow> (DataLayerError, WalletUnit option) result"
  tm_get_identifier :: "uuid \<Rightarrow> IdentifierRelations \<Rightarrow> (DataLayerError, Identifier option) result"
  tm_cached_get :: "string \<Rightarrow> bool \<Rightarrow> (error_code, bytes) result"
  tm_cache_entry_content :: "bytes \<Rightarrow> (string, bytes) result"
  tm_from_utf8 :: "bytes \<Rightarrow> (string, string) result"
  tm_jwt_status_list :: "string \<Rightarrow> string option \<Rightarrow> (error_code, TokenStatusListSubject) result"
  tm_new_uuid :: "('s, RevocationError fault, uuid) comp"
  tm_now :: "'s \<Rightarrow> date_time"

text \<open>\<open>TokenStatusList::new\<close> refuses a format other than JWT.\<close>

definition token_status_list_new ::
  "('s, 'auth) token_status_list \<Rightarrow> StatusListCredentialFormat option \<Rightarrow> (RevocationError, ('s, 'auth) token_status_list) result" where
  "token_status_list_new m params =
     (let format = (case params of None \<Rightarrow> StatusListCredentialFormat.Jwt | Some f \<Rightarrow> f) in
      rbind (ensure (format = StatusListCredentialFormat.Jwt) (ValidationError ''Token revocation format must be JWT'')) (\<lambda>_.
        Inr (m\<lparr>tm_format := format\<rparr>)))"

section \<open>Publishing a list\<close>

definition get_revocation_list_url :: "uuid \<Rightarrow> string option \<Rightarrow> (RevocationError fault, string) result" where
  "get_revocation_list_url lid core_base_url =
     rbind (ok_or core_base_url (Failure (MappingError ''Host URL not specified''))) (\<lambda>base.
       Inr (base @ ''/ssi/revocation/v1/list/'' @ uuid_text lid))"

fun format_display :: "StatusListCredentialFormat \<Rightarrow> string" where
  "format_display StatusListCredentialFormat.Jwt = ''JWT''"
| "format_display StatusListCredentialFormat.JsonLdClassic = ''JSON_LD_CLASSIC''"
| "format_display X509Crl = ''X509_CRL''"

definition get_formatter_for_issuance ::
  "('s, 'auth) token_status_list \<Rightarrow> (RevocationError fault, 'auth status_list_formatter) result" where
  "get_formatter_for_issuance m =
     (case tm_format m of
        StatusListCredentialFormat.Jwt \<Rightarrow>
          ok_or (tm_formatter_by_type m FormatType.Jwt) (Failure (FormatterNotFound ''JWT''))
      | StatusListCredentialFormat.JsonLdClassic \<Rightarrow>
          ok_or (tm_formatter_by_type m FormatType.JsonLdClassic) (Failure (FormatterNotFound ''JSON_LD_CLASSIC''))
      | X509Crl \<Rightarrow> Inl (Failure (FormatterNotFound (format_display X509Crl))))"

definition generate_token_from_entries ::
  "status_codec \<Rightarrow> RevocationListEntry list \<Rightarrow> (RevocationError fault, string) result" where
  "generate_token_from_entries c entries =
     rbind (try_map (\<lambda>entry.
       rbind (ok_or (rve_index entry) (Failure (MappingError ''revocation list entry index missing''))) (\<lambda>index.
         Inr (index, rve_status entry))) entries) (\<lambda>index_states.
     map_err (map_failure (\<lambda>_. Nested (NestedError ''generating token status list'' ''BR_0101'')))
       (generate_token c index_states PREFERRED_ENTRY_SIZE
         (calculate_preferred_token_size (length index_states) PREFERRED_ENTRY_SIZE)))"

definition format_status_list_credential ::
  "('s, 'auth) token_status_list \<Rightarrow> uuid \<Rightarrow> Identifier \<Rightarrow> Certificate option \<Rightarrow> string \<Rightarrow>
   'auth status_list_formatter \<Rightarrow> (RevocationError fault, string) result" where
  "format_status_list_credential m lid issuer_identifier issuer_certificate encoded_list formatter =
     rbind (get_revocation_list_url lid (tm_core_base_url m)) (\<lambda>url.
     rbind (map_err (\<lambda>_. Failure (KeyWithRoleNotFound AssertionMethod))
              (select_key (tm_x509_key_usage m) issuer_identifier
                (selection_default\<lparr>sel_certificate := map_option cert_id issuer_certificate,
                  sel_key_filter := Some (key_filter_default\<lparr>did_role := Some AssertionMethod,
                    certificate_key_usage := Some [DigitalSignature]\<rparr>)\<rparr>))) (\<lambda>selection.
     let key = selected_key selection;
         kid = (case selection of SelDid did k \<Rightarrow> Some (verification_method_id did k) | _ \<Rightarrow> None) in
     rbind (map_err (nested_code ''getting signature provider'') (tm_signature_provider m key kid)) (\<lambda>auth_fn.
     rbind (ok_or (key_algorithm_type key) (Failure (InvalidKeyAlgorithm (key_type key)))) (\<lambda>algorithm.
       map_err (nested_code ''formatting token statu list'')
         (formatter url issuer_identifier encoded_list algorithm auth_fn PurposeRevocation TokenStatusListType)))))"

text \<open>The bytes of a string (\<open>into_bytes\<close>); the texts here are ASCII.\<close>

definition string_bytes :: "string \<Rightarrow> bytes" where
  "string_bytes s = map (\<lambda>c. word_of_nat (of_char c)) s"

text \<open>
  The tail of every operation that changes a status: read the entries of the list, encode
  and sign them, and store the result. The commits of other sessions become visible after the
  entries are read.
\<close>

definition publish_list ::
  "('s, 'auth) token_status_list \<Rightarrow> ('s \<Rightarrow> 's) \<Rightarrow> uuid \<Rightarrow> (RevocationError fault, Identifier) result \<Rightarrow>
   Certificate option \<Rightarrow> ('s, unit) rev_comp" where
  "publish_list m others lid issuer certificate =
     sbind (smap_err (nested_db ''getting revocation list entries'') (repo_get_entries (tm_repository m) lid)) (\<lambda>entries.
     sbind (scommitted others) (\<lambda>_.
     sbind (slift (generate_token_from_entries (tm_codec m) entries)) (\<lambda>encoded_list.
     sbind (slift issuer) (\<lambda>issuer_identifier.
     sbind (slift (get_formatter_for_issuance m)) (\<lambda>formatter.
     sbind (slift (format_status_list_credential m lid issuer_identifier certificate encoded_list formatter)) (\<lambda>list_credential.
       smap_err (nested_db ''updating revocation list'')
         (repo_update_formatted_list (tm_repository m) lid (string_bytes list_credential))))))))"

section \<open>Status blocks\<close>

definition create_credential_status ::
  "('s, 'auth) token_status_list \<Rightarrow> uuid \<Rightarrow> nat \<Rightarrow> ('s, CredentialStatus) rev_comp" where
  "create_credential_status m lid index_on_status_list =
     sbind (slift (get_revocation_list_url lid (tm_core_base_url m))) (\<lambda>url.
     sbind (tm_new_uuid m) (\<lambda>u.
       sret \<lparr>cs_id = Some (''urn:uuid:'' @ uuid_text u), cs_type = CREDENTIAL_STATUS_TYPE,
         cs_status_purpose = Some ''revocation'',
         cs_additional_fields = [(URI_KEY, JsonString url), (INDEX_KEY, JsonString (decimal index_on_status_list))]\<rparr>))"

definition token_status_list_entry :: "string \<Rightarrow> nat \<Rightarrow> CredentialStatus" where
  "token_status_list_entry uri index =
     \<lparr>cs_id = None, cs_type = CREDENTIAL_STATUS_TYPE, cs_status_purpose = Some ''revocation'',
      cs_additional_fields = [(URI_KEY, JsonString uri), (INDEX_KEY, JsonString (decimal index))]\<rparr>"

record SdJwtVcStatusList =
  sdst_index :: nat
  sdst_uri :: string

definition credential_status_from_sdjwt_status :: "SdJwtVcStatusList option \<Rightarrow> CredentialStatus list" where
  "credential_status_from_sdjwt_status status =
     (case status of None \<Rightarrow> [] | Some value \<Rightarrow> [token_status_list_entry (sdst_uri value) (sdst_index value)])"

record MsoStatusList =
  mso_idx :: nat
  mso_uri :: string

text \<open>Of the other mechanisms of an MSO status only the names are used.\<close>

record MsoStatus =
  mso_status_list :: "MsoStatusList option"
  mso_other :: "string list"

definition credential_status_from_mso_status :: "MsoStatus option \<Rightarrow> CredentialStatus list" where
  "credential_status_from_mso_status status =
     (case status of
        None \<Rightarrow> []
      | Some st \<Rightarrow>
          (case mso_status_list st of
             Some status_list \<Rightarrow> [token_status_list_entry (mso_uri status_list) (mso_idx status_list)]
           | None \<Rightarrow> map (\<lambda>mechanism. \<lparr>cs_id = None, cs_type = mechanism, cs_status_purpose = None,
               cs_additional_fields = []\<rparr>) (mso_other st)))"

section \<open>Adding entries\<close>

definition start_new_list_for_entity ::
  "('s, 'auth) token_status_list \<Rightarrow> RevocationListEntityId \<Rightarrow> Identifier \<Rightarrow> Certificate option \<Rightarrow>
   ('s, uuid \<times> uuid) rev_comp" where
  "start_new_list_for_entity m entity_id issuer_identifier issuer_certificate =
     sbind (tm_new_uuid m) (\<lambda>revocation_list_id.
     sbind (slift (generate_token_from_entries (tm_codec m) [])) (\<lambda>encoded_list.
     sbind (slift (get_formatter_for_issuance m)) (\<lambda>formatter.
     sbind (slift (format_status_list_credential m revocation_list_id issuer_identifier issuer_certificate
              encoded_list formatter)) (\<lambda>list_credential.
     sbind (sread (tm_now m)) (\<lambda>now.
     sbind (smap_err (nested_db ''creating revocation list'')
              (repo_create_revocation_list (tm_repository m)
                \<lparr>rvl_id = revocation_list_id, rvl_created_date = now, rvl_last_modified = now,
                 rvl_formatted_list = string_bytes list_credential, rvl_format = tm_format m,
                 rvl_type = tm_config_id m, rvl_purpose = RevocationAndSuspension,
                 rvl_issuer_identifier = Some issuer_identifier,
                 rvl_issuer_certificate = issuer_certificate\<rparr>)) (\<lambda>_.
     sbind (smap_err (nested_db ''creating revocation list entry'')
              (repo_create_entry (tm_repository m) revocation_list_id entity_id (Some 0))) (\<lambda>entry_id.
       sret (revocation_list_id, entry_id))))))))"

text \<open>
  One attempt to add an entry: the next free index, then the insertion. An index that another
  session took in between is not an error: the attempt returns \<open>None\<close>.
\<close>

definition add_entity_attempt ::
  "('s, 'auth) token_status_list \<Rightarrow> uuid \<Rightarrow> RevocationListEntityId \<Rightarrow> ('s \<Rightarrow> 's) \<Rightarrow>
   ('s, DataLayerError, (uuid \<times> nat) option) comp" where
  "add_entity_attempt m list_id entity_id others =
     sbind (repo_next_free_index (tm_repository m) list_id (Some LockUpdate)) (\<lambda>index.
     sbind (scommitted others) (\<lambda>_ s.
       case repo_create_entry (tm_repository m) list_id entity_id (Some index) s of
         (Inr entry_id, t) \<Rightarrow> (Inr (Some (entry_id, index)), t)
       | (Inl e, t) \<Rightarrow> (if e = AlreadyExists then (Inr None, t) else (Inl e, t))))"

function add_entity_to_list ::
  "('s, 'auth) token_status_list \<Rightarrow> (nat \<Rightarrow> 's \<Rightarrow> 's) \<Rightarrow> uuid \<Rightarrow> RevocationListEntityId \<Rightarrow> nat \<Rightarrow>
   ('s, uuid \<times> nat) rev_comp" where
  "add_entity_to_list m others list_id entity_id retry_counter =
     sbind (smap_err (nested_db ''creating revocation list entry'')
              (tx (others retry_counter) (add_entity_attempt m list_id entity_id))) (\<lambda>result.
       case result of
         Some index \<Rightarrow> sret index
       | None \<Rightarrow>
           if retry_counter > 100
           then sfail (nested_db ''adding revocation list entry'' (TransactionError ''Too many retries''))
           else add_entity_to_list m others list_id entity_id (retry_counter + 1))"
  by pat_completeness auto

termination
  by (relation "measure (\<lambda>(m, others, list_id, entity_id, retry_counter). 102 - retry_counter)") auto

declare add_entity_to_list.simps [simp del]

text \<open>The list of the issuer, or a new list with its first entry.\<close>

definition find_or_start_list ::
  "('s, 'auth) token_status_list \<Rightarrow> RevocationListEntityId \<Rightarrow> Identifier \<Rightarrow> Certificate option \<Rightarrow> ('s \<Rightarrow> 's) \<Rightarrow>
   ('s, RevocationError fault, uuid \<times> uuid option) comp" where
  "find_or_start_list m entity_id issuer_identifier issuer_certificate others =
     sbind (smap_err (nested_db ''getting revocation list'')
              (repo_get_revocation_by_issuer_identifier_id (tm_repository m) (idf_id issuer_identifier)
                (map_option cert_id issuer_certificate) RevocationAndSuspension (tm_config_id m)
                revocation_list_relations_default)) (\<lambda>current_list.
     sbind (scommitted others) (\<lambda>_.
       case current_list of
         Some li \<Rightarrow> sret (rvl_id li, None)
       | None \<Rightarrow>
           sbind (smap_err (map_failure (\<lambda>e. Nested (error_while revocation_error_code ''starting new token status list'' e)))
                    (start_new_list_for_entity m entity_id issuer_identifier issuer_certificate)) (\<lambda>ids.
             sret (fst ids, Some (snd ids)))))"

text \<open>
  \<open>create_entry\<close> of the method. \<open>others\<close> is what other sessions commit in each of its
  transactions: the first is the search for the list, the others are the attempts to add. A
  list that another session created in the meantime is fetched again.
\<close>

definition list_for_entry ::
  "('s, 'auth) token_status_list \<Rightarrow> ('s \<Rightarrow> 's) \<Rightarrow> RevocationListEntityId \<Rightarrow> Identifier \<Rightarrow> Certificate option \<Rightarrow>
   ('s, uuid \<times> uuid option) rev_comp" where
  "list_for_entry m others0 entity_id issuer_identifier issuer_certificate s =
     (case tx others0 (find_or_start_list m entity_id issuer_identifier issuer_certificate) s of
        (Inr found, t) \<Rightarrow> (Inr found, t)
      | (Inl Panic, t) \<Rightarrow> (Inl Panic, t)
      | (Inl (Failure error), t) \<Rightarrow>
          (if revocation_error_code error = ''BR_0357'' then
             sbind (smap_err (nested_db ''getting revocation list'')
                      (repo_get_revocation_by_issuer_identifier_id (tm_repository m) (idf_id issuer_identifier)
                        (map_option cert_id issuer_certificate) RevocationAndSuspension (tm_config_id m)
                        revocation_list_relations_default)) (\<lambda>current_list.
             sbind (slift (ok_or current_list (Failure (MappingError ''No revocation list found'')))) (\<lambda>li.
               sret (rvl_id li, None))) t
           else (Inl (Failure error), t)))"

definition tsl_create_entry ::
  "('s, 'auth) token_status_list \<Rightarrow> ('s \<Rightarrow> 's) \<Rightarrow> (nat \<Rightarrow> 's \<Rightarrow> 's) \<Rightarrow> RevocationListEntityId \<Rightarrow> Identifier \<Rightarrow>
   Certificate option \<Rightarrow> ('s, uuid \<times> CredentialRevocationInfo) rev_comp" where
  "tsl_create_entry m others0 others entity_id issuer_identifier issuer_certificate =
     sbind (list_for_entry m others0 entity_id issuer_identifier issuer_certificate) (\<lambda>(list_id, maybe_entry_id).
     sbind (case maybe_entry_id of
              Some entry_id \<Rightarrow> sret (entry_id, 0)
            | None \<Rightarrow> add_entity_to_list m others list_id entity_id 0) (\<lambda>(entry_id, entry_index).
     sbind (create_credential_status m list_id entry_index) (\<lambda>status.
       sret (entry_id, \<lparr>cri_credential_status = status, cri_serial = None\<rparr>))))"

definition issuer_of_credential ::
  "Credential \<Rightarrow> (RevocationError fault, Identifier \<times> Certificate option) result" where
  "issuer_of_credential credential =
     rbind (ok_or (cred_issuer_identifier credential) (Failure (MappingError ''issuer identifier is None''))) (\<lambda>issuer_identifier.
     rbind (if idf_type issuer_identifier = IdCertificate
            then rbind (ok_or (cred_issuer_certificate credential) (Failure (MappingError ''issuer certificate is None''))) (\<lambda>c.
              Inr (Some c))
            else Inr None) (\<lambda>issuer_certificate.
       Inr (issuer_identifier, issuer_certificate)))"

definition add_issued_credential ::
  "('s, 'auth) token_status_list \<Rightarrow> ('s \<Rightarrow> 's) \<Rightarrow> (nat \<Rightarrow> 's \<Rightarrow> 's) \<Rightarrow> Credential \<Rightarrow> ('s, CredentialRevocationInfo list) rev_comp" where
  "add_issued_credential m others0 others credential =
     sbind (slift (issuer_of_credential credential)) (\<lambda>(issuer_identifier, issuer_certificate).
     sbind (tsl_create_entry m others0 others (EntityCredential (cred_id credential)) issuer_identifier issuer_certificate) (\<lambda>entry.
       sret [snd entry]))"

definition add_signature ::
  "('s, 'auth) token_status_list \<Rightarrow> ('s \<Rightarrow> 's) \<Rightarrow> (nat \<Rightarrow> 's \<Rightarrow> 's) \<Rightarrow> string \<Rightarrow> Identifier \<Rightarrow> Certificate option \<Rightarrow>
   ('s, uuid \<times> CredentialRevocationInfo) rev_comp" where
  "add_signature m others0 others signature_type issuer certificate =
     tsl_create_entry m others0 others (EntitySignature signature_type None) issuer certificate"

definition attestation_issuer_relations :: IdentifierRelations where
  "attestation_issuer_relations =
     \<lparr>irel_organisation = False,
      irel_did = Some \<lparr>drel_keys = Some key_relations_default, drel_organisation = False\<rparr>,
      irel_key = Some key_relations_default,
      irel_certificates = Some \<lparr>crel_key = Some key_relations_default, crel_organisation = False\<rparr>\<rparr>"

definition add_issued_attestation ::
  "('s, 'auth) token_status_list \<Rightarrow> ('s \<Rightarrow> 's) \<Rightarrow> (nat \<Rightarrow> 's \<Rightarrow> 's) \<Rightarrow> WalletUnitAttestedKey \<Rightarrow> ('s, CredentialRevocationInfo) rev_comp" where
  "add_issued_attestation m others0 others attestation =
     sbind (slift (map_err (nested_db ''getting wallet unit'') (tm_get_wallet_unit m (wak_wallet_unit_id attestation)))) (\<lambda>found.
     sbind (slift (ok_or found (Failure (MappingError ''Missing wallet unit'')))) (\<lambda>wallet_unit.
     sbind (slift (ok_or (wu_organisation wallet_unit) (Failure (MappingError ''Missing organisation'')))) (\<lambda>organisation.
     sbind (slift (ok_or (org_wallet_provider_issuer organisation) (Failure (MappingError ''Missing wallet_provider_issuer'')))) (\<lambda>issuer_id.
     sbind (slift (map_err (nested_db ''getting identifier'') (tm_get_identifier m issuer_id attestation_issuer_relations))) (\<lambda>found_issuer.
     sbind (slift (ok_or found_issuer (Failure (MappingError ''Missing issuer_identifier'')))) (\<lambda>issuer_identifier.
     let issuer_certificate = Option.bind (idf_certificates issuer_identifier)
           (find (\<lambda>c. cert_state c = CertificateState.Active)) in
     sbind (tsl_create_entry m others0 others (EntityWalletUnitAttestedKey (wak_id attestation)) issuer_identifier issuer_certificate) (\<lambda>result.
       sret (snd result))))))))"

definition get_attestation_revocation_info ::
  "('s, 'auth) token_status_list \<Rightarrow> WalletUnitAttestedKeyRevocationInfo \<Rightarrow> ('s, CredentialRevocationInfo) rev_comp" where
  "get_attestation_revocation_info m key_info =
     sbind (create_credential_status m (rvl_id (wri_revocation_list key_info)) (wri_revocation_list_index key_info)) (\<lambda>status.
       sret \<lparr>cri_credential_status = status, cri_serial = None\<rparr>)"

section \<open>Changing a status\<close>

definition mark_credential_as ::
  "('s, 'auth) token_status_list \<Rightarrow> ('s \<Rightarrow> 's) \<Rightarrow> Credential \<Rightarrow> RevocationState \<Rightarrow> ('s, unit) rev_comp" where
  "mark_credential_as m others credential new_state =
     sbind (slift (issuer_of_credential credential)) (\<lambda>(issuer_identifier, issuer_certificate).
     sbind (smap_err (nested_db ''getting revocation list'')
              (repo_get_revocation_by_issuer_identifier_id (tm_repository m) (idf_id issuer_identifier)
                (map_option cert_id issuer_certificate) RevocationAndSuspension (tm_config_id m)
                revocation_list_relations_default)) (\<lambda>found.
     sbind (slift (ok_or found (Failure (MissingCredentialIndexOnRevocationList (cred_id credential)
              (idf_id issuer_identifier))))) (\<lambda>current_list.
     sbind (smap_err (nested_db ''updating revocation list entry'')
              (repo_update_entry (tm_repository m) (ByCredential (cred_id credential))
                \<lparr>ure_status = Some (status_of_state new_state)\<rparr>)) (\<lambda>_.
       publish_list m others (rvl_id current_list) (Inr issuer_identifier) issuer_certificate))))"

text \<open>
  \<open>into_group_map\<close> collects the indexes of each list, keyed by the list's id; the order in
  which a hash map is walked is not determined, here it is the order of first appearance.
\<close>

fun group_insert ::
  "RevocationList \<Rightarrow> nat \<Rightarrow> (RevocationList \<times> nat list) list \<Rightarrow> (RevocationList \<times> nat list) list" where
  "group_insert li i [] = [(li, [i])]"
| "group_insert li i ((l, is) # gs) =
     (if rvl_id l = rvl_id li then (l, is @ [i]) # gs else (l, is) # group_insert li i gs)"

definition group_keys ::
  "WalletUnitAttestedKeyRevocationInfo list \<Rightarrow> (RevocationList \<times> nat list) list" where
  "group_keys keys =
     fold (\<lambda>k. group_insert (wri_revocation_list k) (wri_revocation_list_index k)) keys []"

definition update_group ::
  "('s, 'auth) token_status_list \<Rightarrow> RevocationState \<Rightarrow> RevocationList \<times> nat list \<Rightarrow> ('s, unit) rev_comp" where
  "update_group m new_state = (\<lambda>(li, indexes).
     sbind (sfor_each (\<lambda>index.
              smap_err (nested_db ''updating revocation list entry'')
                (repo_update_entry (tm_repository m) (ByIndex (rvl_id li) index)
                  \<lparr>ure_status = Some (status_of_state new_state)\<rparr>)) indexes) (\<lambda>_.
       publish_list m id (rvl_id li)
         (ok_or (rvl_issuer_identifier li) (Failure (MappingError ''Missing issuer_identifier'')))
         (rvl_issuer_certificate li)))"

definition update_attestation_entries ::
  "('s, 'auth) token_status_list \<Rightarrow> ('s \<Rightarrow> 's) \<Rightarrow> WalletUnitAttestedKeyRevocationInfo list \<Rightarrow> RevocationState \<Rightarrow> ('s, unit) rev_comp" where
  "update_attestation_entries m others keys new_state =
     tx others (\<lambda>others. sbind (scommitted others) (\<lambda>_.
       sfor_each (update_group m new_state) (group_keys keys)))"

definition signature_list_relations :: RevocationListRelations where
  "signature_list_relations =
     \<lparr>rvlrel_issuer_identifier = Some
        \<lparr>irel_organisation = False,
         irel_did = Some \<lparr>drel_keys = Some key_relations_default, drel_organisation = False\<rparr>,
         irel_key = Some key_relations_default,
         irel_certificates = Some \<lparr>crel_key = Some key_relations_default, crel_organisation = False\<rparr>\<rparr>,
      rvlrel_issuer_certificate = Some certificate_relations_default\<rparr>"

definition revoke_signature ::
  "('s, 'auth) token_status_list \<Rightarrow> ('s \<Rightarrow> 's) \<Rightarrow> uuid \<Rightarrow> ('s, unit) rev_comp" where
  "revoke_signature m others signature_id =
     tx others (\<lambda>others.
       sbind (smap_err (nested_db ''updating revocation list entry'')
                (repo_update_entry (tm_repository m) (ById signature_id)
                  \<lparr>ure_status = Some RevocationListEntryStatus.Revoked\<rparr>)) (\<lambda>_.
       sbind (smap_err (nested_db ''getting revocation list'')
                (repo_get_revocation_list_by_entry_id (tm_repository m) signature_id signature_list_relations)) (\<lambda>found.
       sbind (slift (ok_or found (Failure (MappingError ''Missing list for revocation entry'')))) (\<lambda>current_list.
       sbind (slift (ok_or (rvl_issuer_identifier current_list) (Failure (MappingError ''Missing revocation list issuer'')))) (\<lambda>issuer.
         publish_list m others (rvl_id current_list) (Inr issuer) (rvl_issuer_certificate current_list))))))"

definition get_updated_list :: "uuid \<Rightarrow> ('s, bytes) rev_comp" where
  "get_updated_list list_id = sfail (Failure (OperationNotSupported ''Updated list not supported''))"

definition get_capabilities :: RevocationMethodCapabilities where
  "get_capabilities = \<lparr>cap_operations = [Revoke, Suspend]\<rparr>"

section \<open>Checking a status\<close>

definition check_credential_revocation_status ::
  "('s, 'auth) token_status_list \<Rightarrow> CredentialStatus \<Rightarrow> IdentifierDetails \<Rightarrow> bool \<Rightarrow> (RevocationError fault, RevocationState) result" where
  "check_credential_revocation_status m credential_status issuer_details force_refresh =
     rbind (ensure (cs_type credential_status = CREDENTIAL_STATUS_TYPE)
              (Failure (ValidationError (''Invalid credential status type: '' @ cs_type credential_status)))) (\<lambda>_.
     rbind (ok_or (Option.bind (map_of (cs_additional_fields credential_status) URI_KEY) as_str)
              (Failure (ValidationError ''Missing status list url''))) (\<lambda>list_url.
     rbind (ok_or (Option.bind (map_of (cs_additional_fields credential_status) INDEX_KEY) as_str)
              (Failure (ValidationError ''Missing status list index''))) (\<lambda>index_text.
     rbind (ok_or (parse_usize index_text) (Failure (ValidationError ''Invalid list index''))) (\<lambda>list_index.
     rbind (map_err (nested_code ''getting token status list'') (tm_cached_get m list_url force_refresh)) (\<lambda>content.
     rbind (map_err (Failure \<circ> JsonError) (tm_cache_entry_content m content)) (\<lambda>response.
     rbind (map_err (Failure \<circ> FromUtf8Error) (tm_from_utf8 m response)) (\<lambda>response_content.
     let issuer_did = (case issuer_details of DetailsDid did \<Rightarrow> Some did | _ \<Rightarrow> None) in
     rbind (map_err (nested_code ''validating token status list'')
              (tm_jwt_status_list m response_content issuer_did)) (\<lambda>status_list.
       map_err (map_failure (\<lambda>_. Nested (NestedError ''extracting token status'' ''BR_0101'')))
         (extract_state_from_token (tm_codec m) status_list list_index)))))))))"

text \<open>The method as an implementation of the trait, with no other sessions.\<close>

definition token_status_list_method :: "('s, 'auth) token_status_list \<Rightarrow> 's revocation_method" where
  "token_status_list_method m =
     \<lparr>rm_get_status_type = CREDENTIAL_STATUS_TYPE,
      rm_add_issued_credential = add_issued_credential m id (\<lambda>_. id),
      rm_mark_credential_as = mark_credential_as m id,
      rm_check_credential_revocation_status =
        (\<lambda>status issuer force. slift (check_credential_revocation_status m status issuer force)),
      rm_add_issued_attestation = add_issued_attestation m id (\<lambda>_. id),
      rm_get_attestation_revocation_info = get_attestation_revocation_info m,
      rm_update_attestation_entries = update_attestation_entries m id,
      rm_add_signature = add_signature m id (\<lambda>_. id),
      rm_revoke_signature = revoke_signature m id,
      rm_get_updated_list = get_updated_list,
      rm_get_capabilities = get_capabilities\<rparr>"

end
