(* ===== verification/Revocation_Store.thy ===== *)
theory Revocation_Store
  imports Revocation_Model "HOL-Library.Multiset"
begin

text \<open>
  The SQL implementation of the revocation list repository,
  \<open>sql-data-provider/src/revocation_list/repository.rs\<close>, over tables that are lists of rows. The
  unique indexes and foreign keys are those of the migrations; statements fail only for them (a
  lost connection is not modelled). Rows of other tables appear through their ids. The
  identifier and certificate repositories, which load related entities, are parameters. The
  store invariant is kept by every operation, and the contract of the repository is discharged
  for it.
\<close>

section \<open>Tables\<close>

record list_row =
  lr_id :: uuid
  lr_created_date :: date_time
  lr_last_modified :: date_time
  lr_formatted_list :: bytes
  lr_purpose :: RevocationListPurpose
  lr_format :: StatusListCredentialFormat
  lr_type :: string
  lr_issuer_identifier_id :: uuid
  lr_issuer_certificate_id :: "uuid option"

datatype entry_type = TypeCredential | TypeWalletUnitAttestedKey | TypeSignature

text \<open>The column \<open>index\<close> is a \<open>u32\<close>: its values are below \<open>2 ^ 32\<close>.\<close>

record entry_row =
  er_id :: uuid
  er_created_date :: date_time
  er_last_modified :: date_time
  er_revocation_list_id :: uuid
  er_index :: "nat option"
  er_credential_id :: "uuid option"
  er_type :: entry_type
  er_signature_type :: "string option"
  er_status :: RevocationListEntryStatus
  er_serial :: "bytes option"

record attested_key_row =
  akr_id :: uuid
  akr_last_modified :: date_time
  akr_revocation_list_entry_id :: "uuid option"

text \<open>
  \<open>db_now\<close> is what the clock shows and \<open>db_uuids\<close> the next UUID a generator returns.
\<close>

record revocation_db =
  db_lists :: "list_row list"
  db_entries :: "entry_row list"
  db_attested_keys :: "attested_key_row list"
  db_identifier_ids :: "uuid list"
  db_certificate_ids :: "uuid list"
  db_credential_ids :: "uuid list"
  db_now :: date_time
  db_uuids :: uuid

definition new_uuid :: "(revocation_db, 'e, uuid) comp" where
  "new_uuid s = (Inr (db_uuids s), s\<lparr>db_uuids := db_uuids s + 1\<rparr>)"

definition now_utc :: "(revocation_db, 'e, date_time) comp" where
  "now_utc = sread db_now"

text \<open>\<open>INSERT\<close> checks the primary key and the unique indexes, then the foreign keys.\<close>

definition list_conflict :: "list_row \<Rightarrow> list_row \<Rightarrow> bool" where
  "list_conflict r q \<longleftrightarrow> lr_id r = lr_id q \<or>
     (lr_issuer_identifier_id r = lr_issuer_identifier_id q \<and>
      lr_issuer_certificate_id r = lr_issuer_certificate_id q \<and>
      lr_purpose r = lr_purpose q \<and> lr_type r = lr_type q)"

definition insert_list :: "list_row \<Rightarrow> (revocation_db, db_err, unit) comp" where
  "insert_list r s =
     (if list_ex (list_conflict r) (db_lists s) then (Inl UniqueConstraintViolation, s)
      else if lr_issuer_identifier_id r \<in> set (db_identifier_ids s) \<and>
              (case lr_issuer_certificate_id r of None \<Rightarrow> True | Some c \<Rightarrow> c \<in> set (db_certificate_ids s))
      then (Inr (), s\<lparr>db_lists := db_lists s @ [r]\<rparr>)
      else (Inl ForeignKeyConstraintViolation, s))"

definition entry_conflict :: "entry_row \<Rightarrow> entry_row \<Rightarrow> bool" where
  "entry_conflict r q \<longleftrightarrow> er_id r = er_id q \<or>
     (er_revocation_list_id r = er_revocation_list_id q \<and>
      (er_index r = er_index q \<and> er_index r \<noteq> None \<or> er_serial r = er_serial q \<and> er_serial r \<noteq> None))"

definition insert_entry :: "entry_row \<Rightarrow> (revocation_db, db_err, unit) comp" where
  "insert_entry r s =
     (if list_ex (entry_conflict r) (db_entries s) then (Inl UniqueConstraintViolation, s)
      else if er_revocation_list_id r \<in> lr_id ` set (db_lists s) \<and>
              (case er_credential_id r of None \<Rightarrow> True | Some c \<Rightarrow> c \<in> set (db_credential_ids s))
      then (Inr (), s\<lparr>db_entries := db_entries s @ [r]\<rparr>)
      else (Inl ForeignKeyConstraintViolation, s))"

section \<open>The SQL provider\<close>

record related_repositories =
  identifier_get :: "uuid \<Rightarrow> IdentifierRelations \<Rightarrow> (DataLayerError, Identifier option) result"
  certificate_get :: "uuid \<Rightarrow> CertificateRelations \<Rightarrow> (DataLayerError, Certificate option) result"

definition entity_model_to_repository_model ::
  "related_repositories \<Rightarrow> list_row \<Rightarrow> RevocationListRelations \<Rightarrow> (DataLayerError, RevocationList) result" where
  "entity_model_to_repository_model rep row relations =
     rbind (case rvlrel_issuer_identifier relations of
              Some irel \<Rightarrow>
                rbind (identifier_get rep (lr_issuer_identifier_id row) irel) (\<lambda>found.
                rbind (ok_or found (MissingRequiredRelation ''revocation_list-identifier''
                         (uuid_text (lr_issuer_identifier_id row)))) (\<lambda>i. Inr (Some i)))
            | None \<Rightarrow> Inr None) (\<lambda>issuer_identifier.
     rbind (case (rvlrel_issuer_certificate relations, lr_issuer_certificate_id row) of
              (Some crel, Some cid) \<Rightarrow>
                rbind (certificate_get rep cid crel) (\<lambda>found.
                rbind (ok_or found (MissingRequiredRelation ''revocation_list-certificate'' (uuid_text cid)))
                  (\<lambda>c. Inr (Some c)))
            | _ \<Rightarrow> Inr None) (\<lambda>issuer_certificate.
       Inr \<lparr>rvl_id = lr_id row, rvl_created_date = lr_created_date row,
            rvl_last_modified = lr_last_modified row, rvl_formatted_list = lr_formatted_list row,
            rvl_format = lr_format row, rvl_type = lr_type row, rvl_purpose = lr_purpose row,
            rvl_issuer_identifier = issuer_identifier, rvl_issuer_certificate = issuer_certificate\<rparr>))"

definition load_list ::
  "related_repositories \<Rightarrow> list_row option \<Rightarrow> RevocationListRelations \<Rightarrow> (DataLayerError, RevocationList option) result" where
  "load_list rep found relations =
     (case found of
        None \<Rightarrow> Inr None
      | Some row \<Rightarrow> rbind (entity_model_to_repository_model rep row relations) (\<lambda>l. Inr (Some l)))"

definition create_revocation_list :: "RevocationList \<Rightarrow> (revocation_db, DataLayerError, uuid) comp" where
  "create_revocation_list request =
     sbind (slift (ok_or (rvl_issuer_identifier request) DlMappingError)) (\<lambda>issuer_identifier.
     sbind (smap_err to_data_layer_error (insert_list
       \<lparr>lr_id = rvl_id request, lr_created_date = rvl_created_date request,
        lr_last_modified = rvl_last_modified request, lr_formatted_list = rvl_formatted_list request,
        lr_purpose = rvl_purpose request, lr_format = rvl_format request, lr_type = rvl_type request,
        lr_issuer_identifier_id = idf_id issuer_identifier,
        lr_issuer_certificate_id = map_option cert_id (rvl_issuer_certificate request)\<rparr>)) (\<lambda>_.
       sret (rvl_id request)))"

definition get_revocation_list ::
  "related_repositories \<Rightarrow> uuid \<Rightarrow> RevocationListRelations \<Rightarrow> (revocation_db, DataLayerError, RevocationList option) comp" where
  "get_revocation_list rep lid relations =
     sbind (sread (\<lambda>s. find (\<lambda>r. lr_id r = lid) (db_lists s))) (\<lambda>found.
       slift (load_list rep found relations))"

definition get_revocation_list_by_entry_id ::
  "related_repositories \<Rightarrow> uuid \<Rightarrow> RevocationListRelations \<Rightarrow> (revocation_db, DataLayerError, RevocationList option) comp" where
  "get_revocation_list_by_entry_id rep entry_id relations =
     sbind (sread (\<lambda>s. find (\<lambda>e. er_id e = entry_id) (db_entries s))) (\<lambda>found.
       case found of
         Some entry \<Rightarrow> get_revocation_list rep (er_revocation_list_id entry) relations
       | None \<Rightarrow> sret None)"

definition get_revocation_by_issuer_identifier_id ::
  "related_repositories \<Rightarrow> uuid \<Rightarrow> uuid option \<Rightarrow> RevocationListPurpose \<Rightarrow> string \<Rightarrow>
   RevocationListRelations \<Rightarrow> (revocation_db, DataLayerError, RevocationList option) comp" where
  "get_revocation_by_issuer_identifier_id rep issuer_id certificate_id purpose status_list_type relations =
     sbind (sread (\<lambda>s. find (\<lambda>r. lr_issuer_identifier_id r = issuer_id \<and> lr_purpose r = purpose \<and>
       lr_type r = status_list_type \<and> lr_issuer_certificate_id r = certificate_id) (db_lists s))) (\<lambda>found.
       slift (load_list rep found relations))"

definition update_list_rows :: "uuid \<Rightarrow> (list_row \<Rightarrow> list_row) \<Rightarrow> (revocation_db, db_err, unit) comp" where
  "update_list_rows lid f s =
     (if lid \<in> lr_id ` set (db_lists s)
      then (Inr (), s\<lparr>db_lists := map (\<lambda>r. if lr_id r = lid then f r else r) (db_lists s)\<rparr>)
      else (Inl DbRecordNotUpdated, s))"

definition update_formatted_list :: "uuid \<Rightarrow> bytes \<Rightarrow> (revocation_db, DataLayerError, unit) comp" where
  "update_formatted_list lid formatted_list =
     sbind now_utc (\<lambda>now.
       smap_err to_update_data_layer_error
         (update_list_rows lid (\<lambda>r. r\<lparr>lr_last_modified := now, lr_formatted_list := formatted_list\<rparr>)))"

text \<open>Rows by index, rows without an index first.\<close>

definition index_rank :: "entry_row \<Rightarrow> nat" where
  "index_rank r = (case er_index r of None \<Rightarrow> 0 | Some i \<Rightarrow> Suc i)"

definition max_index :: "uuid \<Rightarrow> revocation_db \<Rightarrow> nat option" where
  "max_index lid s =
     (case rev (sort_key index_rank (filter (\<lambda>r. er_revocation_list_id r = lid) (db_entries s))) of
        [] \<Rightarrow> None | r # _ \<Rightarrow> er_index r)"

definition next_free_index :: "uuid \<Rightarrow> LockType option \<Rightarrow> (revocation_db, DataLayerError, nat) comp" where
  "next_free_index lid lock =
     sbind (sread (max_index lid)) (\<lambda>max.
       let free_index = map_option (\<lambda>index. (index + 1) mod 2 ^ 32) max in
       sbind (if free_index = None
              then sbind (sread (\<lambda>s. lid \<in> lr_id ` set (db_lists s))) (\<lambda>exists.
                slift (ensure exists (MissingRequiredRelation ''revocation_list'' (uuid_text lid))))
              else sret ()) (\<lambda>_.
         sret (case free_index of None \<Rightarrow> 0 | Some i \<Rightarrow> i)))"

definition update_attested_key :: "uuid \<Rightarrow> date_time \<Rightarrow> uuid \<Rightarrow> (revocation_db, db_err, unit) comp" where
  "update_attested_key kid now entry_id s =
     (if kid \<in> akr_id ` set (db_attested_keys s)
      then (Inr (), s\<lparr>db_attested_keys := map (\<lambda>k. if akr_id k = kid
        then k\<lparr>akr_last_modified := now, akr_revocation_list_entry_id := Some entry_id\<rparr> else k)
        (db_attested_keys s)\<rparr>)
      else (Inl DbRecordNotUpdated, s))"

definition create_entry ::
  "uuid \<Rightarrow> RevocationListEntityId \<Rightarrow> nat option \<Rightarrow> (revocation_db, DataLayerError, uuid) comp" where
  "create_entry list_id entity_id index_on_status_list =
     sbind (slift (ensure ((entity_serial entity_id = None) = (index_on_status_list \<noteq> None)) IncorrectParameters)) (\<lambda>_.
     sbind now_utc (\<lambda>now.
     sbind new_uuid (\<lambda>entry_id.
     sbind (smap_err to_data_layer_error (insert_entry
       \<lparr>er_id = entry_id, er_created_date = now, er_last_modified = now,
        er_revocation_list_id = list_id,
        er_index = map_option (\<lambda>index. index mod 2 ^ 32) index_on_status_list,
        er_credential_id = (case entity_id of EntityCredential c \<Rightarrow> Some c | _ \<Rightarrow> None),
        er_type = (case entity_id of EntityCredential _ \<Rightarrow> TypeCredential
          | EntitySignature _ _ \<Rightarrow> TypeSignature
          | EntityWalletUnitAttestedKey _ \<Rightarrow> TypeWalletUnitAttestedKey),
        er_signature_type = (case entity_id of EntitySignature t _ \<Rightarrow> Some t | _ \<Rightarrow> None),
        er_status = Active,
        er_serial = entity_serial entity_id\<rparr>)) (\<lambda>_.
     sbind (case entity_id of
              EntityWalletUnitAttestedKey kid \<Rightarrow>
                smap_err to_update_data_layer_error (update_attested_key kid now entry_id)
            | _ \<Rightarrow> sret ()) (\<lambda>_.
       sret entry_id)))))"

text \<open>\<open>update_many\<close> changes the rows of the filter and does not fail when there are none.\<close>

fun entry_selected :: "UpdateRevocationListEntryId \<Rightarrow> entry_row \<Rightarrow> bool" where
  "entry_selected (ByCredential credential_id) r \<longleftrightarrow> er_credential_id r = Some credential_id"
| "entry_selected (ById eid) r \<longleftrightarrow> er_id r = eid"
| "entry_selected (ByIndex list_id index) r \<longleftrightarrow>
     er_revocation_list_id r = list_id \<and> er_index r = Some (index mod 2 ^ 32)"

definition update_entry ::
  "UpdateRevocationListEntryId \<Rightarrow> UpdateRevocationListEntryRequest \<Rightarrow> (revocation_db, DataLayerError, unit) comp" where
  "update_entry eid request s =
     (let f = (\<lambda>r. r\<lparr>er_last_modified := db_now s,
        er_status := (case ure_status request of None \<Rightarrow> er_status r | Some status \<Rightarrow> status)\<rparr>) in
      (Inr (), s\<lparr>db_entries := map (\<lambda>r. if entry_selected eid r then f r else r) (db_entries s)\<rparr>))"

definition entry_info :: "entry_row \<Rightarrow> (DataLayerError, RevocationListEntityInfo) result" where
  "entry_info r =
     (case er_type r of
        TypeCredential \<Rightarrow>
          (case er_credential_id r of Some value \<Rightarrow> Inr (InfoCredential value) | None \<Rightarrow> Inl DlMappingError)
      | TypeWalletUnitAttestedKey \<Rightarrow> Inr InfoWalletUnitAttestedKey
      | TypeSignature \<Rightarrow>
          (case er_signature_type r of
             Some value \<Rightarrow>
               rbind (case er_serial r of Some serial \<Rightarrow> rbind (serial_try_from serial) (\<lambda>x. Inr (Some x))
                      | None \<Rightarrow> Inr None) (\<lambda>serial.
                 Inr (InfoSignature value serial))
           | None \<Rightarrow> Inl DlMappingError))"

definition entry_of_row :: "entry_row \<Rightarrow> (DataLayerError, RevocationListEntry) result" where
  "entry_of_row r =
     rbind (entry_info r) (\<lambda>entity_info.
       Inr \<lparr>rve_id = er_id r, rve_created_date = er_created_date r,
            rve_last_modified = er_last_modified r, rve_entity_info = entity_info,
            rve_index = er_index r, rve_status = er_status r\<rparr>)"

definition get_filtered_entries ::
  "(entry_row \<Rightarrow> bool) \<Rightarrow> (revocation_db, DataLayerError, RevocationListEntry list) comp" where
  "get_filtered_entries P =
     sbind (sread (\<lambda>s. sort_key index_rank (filter P (db_entries s)))) (\<lambda>entries.
       slift (try_map entry_of_row entries))"

definition get_entry_by_id :: "uuid \<Rightarrow> (revocation_db, DataLayerError, RevocationListEntry option) comp" where
  "get_entry_by_id eid =
     sbind (get_filtered_entries (\<lambda>r. er_id r = eid)) (\<lambda>entries.
       sret (if entries = [] then None else Some (last entries)))"

definition get_entries :: "uuid \<Rightarrow> (revocation_db, DataLayerError, RevocationListEntry list) comp" where
  "get_entries list_id = get_filtered_entries (\<lambda>r. er_revocation_list_id r = list_id)"

definition get_entries_by_id :: "uuid list \<Rightarrow> (revocation_db, DataLayerError, RevocationListEntry list) comp" where
  "get_entries_by_id entry_ids = get_filtered_entries (\<lambda>r. er_id r \<in> set entry_ids)"

definition revocation_list_provider :: "related_repositories \<Rightarrow> revocation_db revocation_list_repository" where
  "revocation_list_provider rep =
     \<lparr>repo_create_revocation_list = create_revocation_list,
      repo_get_revocation_list = get_revocation_list rep,
      repo_get_revocation_list_by_entry_id = get_revocation_list_by_entry_id rep,
      repo_get_revocation_by_issuer_identifier_id = get_revocation_by_issuer_identifier_id rep,
      repo_update_formatted_list = update_formatted_list,
      repo_next_free_index = next_free_index,
      repo_create_entry = create_entry,
      repo_update_entry = update_entry,
      repo_get_entry_by_id = get_entry_by_id,
      repo_get_entries = get_entries,
      repo_get_entries_by_id = get_entries_by_id\<rparr>"

section \<open>Sorting rows\<close>

lemma sort_key_snoc:
  assumes "\<forall>y \<in> set xs. f y < f x"
  shows "sort_key f (xs @ [x]) = sort_key f xs @ [x]"
proof (rule properties_for_sort_key)
  show "filter (\<lambda>y. f k = f y) (sort_key f xs @ [x]) = filter (\<lambda>y. f k = f y) (xs @ [x])" for k
    using sort_key_stable [of f "f k" xs] by (simp add: eq_commute [of "f k"])
  show "sorted (map f (sort_key f xs @ [x]))"
    using assms by (auto simp: sorted_append intro: less_imp_le)
qed simp

lemma sort_key_map_same:
  assumes "\<And>x. f (g x) = f x"
  shows "sort_key f (map g xs) = map g (sort_key f xs)"
proof (rule properties_for_sort_key)
  show "filter (\<lambda>y. f k = f y) (map g (sort_key f xs)) = filter (\<lambda>y. f k = f y) (map g xs)" for k
    using sort_key_stable [of f "f k" xs] by (simp add: filter_map comp_def assms eq_commute [of "f k"])
  show "sorted (map f (map g (sort_key f xs)))"
    by (simp add: comp_def assms)
qed simp

lemma map_sort_key: "map f (sort_key f xs) = sort (map f xs)"
  by (rule properties_for_sort [symmetric]) simp_all

lemma sort_map_Suc: "sort (map Suc xs) = map Suc (sort xs)"
  by (rule properties_for_sort) (simp_all add: sorted_wrt_map)

section \<open>The store invariant\<close>

definition rows_of :: "uuid \<Rightarrow> revocation_db \<Rightarrow> entry_row list" where
  "rows_of l s = filter (\<lambda>r. er_revocation_list_id r = l) (db_entries s)"

definition row_entry :: "entry_row \<Rightarrow> RevocationListEntry" where
  "row_entry r = projr (entry_of_row r)"

definition row_owner :: "list_row \<Rightarrow> list_owner" where
  "row_owner r = (lr_issuer_identifier_id r, lr_issuer_certificate_id r, lr_purpose r, lr_type r)"

definition row_ok :: "entry_row \<Rightarrow> bool" where
  "row_ok r \<longleftrightarrow> is_ok (entry_info r) \<and>
     (er_credential_id r \<noteq> None \<longleftrightarrow> er_type r = TypeCredential) \<and>
     (case er_index r of None \<Rightarrow> True | Some i \<Rightarrow> i < 2 ^ 32)"

text \<open>The indexes of every list are \<open>0, \<dots>, n - 1\<close>, each used once.\<close>

definition list_indexes :: "uuid \<Rightarrow> revocation_db \<Rightarrow> nat list" where
  "list_indexes l s = map (the \<circ> er_index) (filter (\<lambda>r. er_index r \<noteq> None) (rows_of l s))"

definition store_ok :: "string \<Rightarrow> revocation_db \<Rightarrow> bool" where
  "store_ok m s \<longleftrightarrow>
     distinct (map lr_id (db_lists s)) \<and> distinct (map row_owner (db_lists s)) \<and>
     list_all row_ok (db_entries s) \<and> distinct (map er_id (db_entries s)) \<and>
     list_all (\<lambda>r. er_id r < db_uuids s) (db_entries s) \<and>
     list_all (\<lambda>r. er_revocation_list_id r \<in> lr_id ` set (db_lists s)) (db_entries s) \<and>
     (\<forall>l \<in> lr_id ` set (db_lists s). sort (list_indexes l s) = [0..<length (list_indexes l s)]) \<and>
     list_all (\<lambda>r. lr_type r = m \<longrightarrow> list_all (\<lambda>e. er_index e \<noteq> None) (rows_of (lr_id r) s)) (db_lists s)"

definition sql_view :: "revocation_db \<Rightarrow> uuid \<Rightarrow> list_view" where
  "sql_view s l =
     \<lparr>lv_entries = map row_entry (sort_key index_rank (rows_of l s)),
      lv_published = map_option lr_formatted_list (find (\<lambda>r. lr_id r = l) (db_lists s)),
      lv_indexed = list_all (\<lambda>e. er_index e \<noteq> None) (rows_of l s),
      lv_owner = map_option row_owner (find (\<lambda>r. lr_id r = l) (db_lists s))\<rparr>"

lemma row_ok_entry: "row_ok r \<Longrightarrow> entry_of_row r = Inr (row_entry r)"
  by (auto simp: row_ok_def row_entry_def entry_of_row_def is_ok_iff)

lemma row_entry_fields:
  assumes "row_ok r"
  shows "rve_id (row_entry r) = er_id r" and "rve_index (row_entry r) = er_index r"
    and "rve_status (row_entry r) = er_status r"
    and "rve_entity_info (row_entry r) = InfoCredential c \<longleftrightarrow> er_credential_id r = Some c"
  using assms
  by (auto simp: row_ok_def row_entry_def entry_of_row_def is_ok_iff entry_info_def
      split: entry_type.splits option.splits)

lemma rows_of_ok: "store_ok m s \<Longrightarrow> r \<in> set (rows_of l s) \<Longrightarrow> row_ok r"
  by (simp add: store_ok_def rows_of_def list_all_iff)

lemma rows_of_no_list: "store_ok m s \<Longrightarrow> l \<notin> lr_id ` set (db_lists s) \<Longrightarrow> rows_of l s = []"
  by (auto simp: store_ok_def rows_of_def list_all_iff filter_empty_conv)

lemma list_indexes_dense:
  assumes "store_ok m s"
  shows "sort (list_indexes l s) = [0..<length (list_indexes l s)]"
proof (cases "l \<in> lr_id ` set (db_lists s)")
  case True
  with assms show ?thesis by (auto simp: store_ok_def)
next
  case False
  with assms show ?thesis by (simp add: rows_of_no_list list_indexes_def)
qed

lemma set_list_indexes:
  assumes "store_ok m s"
  shows "set (list_indexes l s) = {..<length (list_indexes l s)}"
  using arg_cong [OF list_indexes_dense [OF assms, of l], of set] by (auto simp: atLeast0LessThan)

lemma indexed_filter:
  "list_all (\<lambda>e. er_index e \<noteq> None) (rows_of l s) \<Longrightarrow> list_indexes l s = map (the \<circ> er_index) (rows_of l s)"
  by (simp add: list_indexes_def list_all_iff filter_id_conv)

lemma indexed_sorted:
  assumes "store_ok m s" and "list_all (\<lambda>e. er_index e \<noteq> None) (rows_of l s)"
  shows "map er_index (sort_key index_rank (rows_of l s)) = map Some [0..<length (rows_of l s)]"
proof -
  let ?rows = "rows_of l s"
  have rank: "index_rank r = Suc (the (er_index r))" if "r \<in> set ?rows" for r
    using that assms(2) by (auto simp: index_rank_def list_all_iff)
  have "map index_rank (sort_key index_rank ?rows) = sort (map index_rank ?rows)"
    by (rule map_sort_key)
  also have "map index_rank ?rows = map Suc (list_indexes l s)"
    using rank by (simp add: indexed_filter [OF assms(2)])
  also have "sort \<dots> = map Suc [0..<length ?rows]"
    by (simp add: sort_map_Suc list_indexes_dense [OF assms(1)] del: map_Suc_upt)
      (simp add: indexed_filter [OF assms(2)])
  finally have ranks: "map index_rank (sort_key index_rank ?rows) = map Suc [0..<length ?rows]" .
  have "map er_index (sort_key index_rank ?rows) =
      map (\<lambda>k. Some (k - 1)) (map index_rank (sort_key index_rank ?rows))"
    using rank assms(2) by (auto simp: list_all_iff)
  also have "\<dots> = map Some [0..<length ?rows]"
    unfolding ranks by (simp add: comp_def del: map_Suc_upt)
  finally show ?thesis .
qed

text \<open>The invariant and the view depend on the two tables, and on the UUIDs handed out so far.\<close>

lemma sql_view_cong:
  "db_lists t = db_lists s \<Longrightarrow> db_entries t = db_entries s \<Longrightarrow> sql_view t = sql_view s"
  by (simp add: sql_view_def rows_of_def fun_eq_iff)

lemma store_ok_cong:
  "store_ok m s \<Longrightarrow> db_lists t = db_lists s \<Longrightarrow> db_entries t = db_entries s \<Longrightarrow> db_uuids s \<le> db_uuids t \<Longrightarrow>
     store_ok m t"
  by (auto simp: store_ok_def rows_of_def list_indexes_def list_all_iff intro: less_le_trans)

section \<open>The laws for the SQL provider\<close>

lemma find_list_row:
  "find (\<lambda>r. lr_id r = l) (db_lists s) = Some r \<Longrightarrow> r \<in> set (db_lists s) \<and> lr_id r = l"
  by (rule find_in_set)

lemma find_unique_row:
  assumes "distinct (map f xs)" and "x \<in> set xs"
  shows "find (\<lambda>y. f y = f x) xs = Some x"
  using assms by (induction xs) (auto simp: image_iff)

lemma sql_entries:
  assumes "store_ok m s"
  shows "get_entries l s = (Inr (lv_entries (sql_view s l)), s)"
proof -
  have "try_map entry_of_row (sort_key index_rank (rows_of l s)) =
      Inr (map row_entry (sort_key index_rank (rows_of l s)))"
    using rows_of_ok [OF assms] row_ok_entry by (intro try_map_Inr_map) auto
  then show ?thesis
    by (simp add: get_entries_def get_filtered_entries_def sql_view_def rows_of_def sbind_def)
qed

lemma sql_dense:
  assumes "store_ok m s" and "lv_indexed (sql_view s l)"
  shows "map rve_index (lv_entries (sql_view s l)) = map Some [0..<length (lv_entries (sql_view s l))]"
proof -
  have "map rve_index (lv_entries (sql_view s l)) = map er_index (sort_key index_rank (rows_of l s))"
    using rows_of_ok [OF assms(1)] row_entry_fields by (auto simp: sql_view_def)
  with indexed_sorted [OF assms(1)] assms(2) show ?thesis by (simp add: sql_view_def)
qed

lemma list_indexes_small:
  assumes "store_ok m s"
  shows "length (list_indexes l s) \<le> 2 ^ 32"
proof -
  have "set (list_indexes l s) \<subseteq> {..<2 ^ 32}"
    using rows_of_ok [OF assms] by (force simp: list_indexes_def row_ok_def)
  then show ?thesis unfolding set_list_indexes [OF assms] by simp
qed

lemma sql_small:
  assumes "store_ok m s" and "lv_indexed (sql_view s l)"
  shows "length (lv_entries (sql_view s l)) \<le> 2 ^ 32"
  using list_indexes_small [OF assms(1), of l] assms(2)
  by (simp add: sql_view_def indexed_filter)

lemma max_index_view:
  assumes "store_ok m s" and "lv_indexed (sql_view s l)"
  shows "max_index l s = (if rows_of l s = [] then None else Some (length (rows_of l s) - 1))"
proof (cases "rows_of l s = []")
  case True
  then show ?thesis by (simp add: max_index_def rows_of_def)
next
  case False
  let ?sorted = "sort_key index_rank (rows_of l s)"
  have idx: "map er_index ?sorted = map Some [0..<length (rows_of l s)]"
    using assms by (intro indexed_sorted) (auto simp: sql_view_def)
  from False have ne: "?sorted \<noteq> []" by (metis length_0_conv length_sort)
  then have "max_index l s = er_index (last ?sorted)"
    unfolding max_index_def rows_of_def [symmetric]
    by (cases "rev ?sorted") (auto simp: last_rev [symmetric] rev_swap)
  also have "\<dots> = last (map er_index ?sorted)" using ne by (simp add: last_map)
  also have "\<dots> = Some (length (rows_of l s) - 1)"
    using False unfolding idx by (simp add: last_map)
  finally show ?thesis using False by simp
qed

lemma sql_next_index:
  assumes "store_ok m s" and "lv_indexed (sql_view s l)" and "next_free_index l lock s = (Inr i, t)"
  shows "t = s \<and> i = length (lv_entries (sql_view s l)) mod 2 ^ 32"
  using assms(3)
  by (auto simp: next_free_index_def max_index_view [OF assms(1,2)] sbind_eq_Inr Let_def sql_view_def
      split: if_splits)

lemma sql_next_index_error: "next_free_index l lock s = (Inl e, t) \<Longrightarrow> t = s \<and> e \<noteq> AlreadyExists"
  by (auto simp: next_free_index_def sbind_eq_Inl sbind_eq_Inr Let_def split: if_splits)

lemma owner_exists: "lv_owner (sql_view s l) \<noteq> None \<longleftrightarrow> l \<in> lr_id ` set (db_lists s)"
  by (auto simp: sql_view_def find_None_iff image_iff)

lemma sql_next_index_total:
  "lv_owner (sql_view s l) \<noteq> None \<Longrightarrow> \<exists>i. next_free_index l lock s = (Inr i, s)"
  unfolding owner_exists by (auto simp: next_free_index_def sbind_def Let_def)

text \<open>A created row, and what its insertion found.\<close>

definition new_entry_row :: "uuid \<Rightarrow> RevocationListEntityId \<Rightarrow> nat option \<Rightarrow> revocation_db \<Rightarrow> entry_row" where
  "new_entry_row l entity index s =
     \<lparr>er_id = db_uuids s, er_created_date = db_now s, er_last_modified = db_now s,
      er_revocation_list_id = l, er_index = map_option (\<lambda>index. index mod 2 ^ 32) index,
      er_credential_id = (case entity of EntityCredential c \<Rightarrow> Some c | _ \<Rightarrow> None),
      er_type = (case entity of EntityCredential _ \<Rightarrow> TypeCredential
        | EntitySignature _ _ \<Rightarrow> TypeSignature | EntityWalletUnitAttestedKey _ \<Rightarrow> TypeWalletUnitAttestedKey),
      er_signature_type = (case entity of EntitySignature t _ \<Rightarrow> Some t | _ \<Rightarrow> None),
      er_status = Active, er_serial = entity_serial entity\<rparr>"

lemma new_entry_row_list [simp]: "er_revocation_list_id (new_entry_row l entity index s) = l"
  by (simp add: new_entry_row_def)

lemma new_entry_row_index [simp]:
  "er_index (new_entry_row l entity index s) = map_option (\<lambda>i. i mod 2 ^ 32) index"
  by (simp add: new_entry_row_def)

lemma create_entry_Inr:
  assumes "create_entry l entity index s = (Inr eid, t)"
  shows "db_lists t = db_lists s" and "db_entries t = db_entries s @ [new_entry_row l entity index s]"
    and "eid = db_uuids s" and "\<not> list_ex (entry_conflict (new_entry_row l entity index s)) (db_entries s)"
    and "l \<in> lr_id ` set (db_lists s)" and "entity_serial entity = None \<longleftrightarrow> index \<noteq> None"
    and "db_uuids t = db_uuids s + 1"
  using assms
  by (auto simp: create_entry_def sbind_eq_Inr now_utc_def new_uuid_def insert_entry_def
      new_entry_row_def update_attested_key_def split: if_splits RevocationListEntityId.splits)

lemma create_entry_Inl:
  assumes "create_entry l entity index s = (Inl e, t)" and "entity_serial entity = None \<longleftrightarrow> index \<noteq> None"
    and "list_ex (entry_conflict (new_entry_row l entity index s)) (db_entries s)"
  shows "e = AlreadyExists" and "db_lists t = db_lists s" and "db_entries t = db_entries s"
    and "db_uuids t = db_uuids s + 1"
  using assms
  by (auto simp: create_entry_def sbind_eq_Inr sbind_eq_Inl now_utc_def new_uuid_def insert_entry_def
      new_entry_row_def smap_err_eq_Inl split: if_splits)

lemma rows_of_snoc:
  "db_entries t = db_entries s @ [r] \<Longrightarrow>
     rows_of l t = (if er_revocation_list_id r = l then rows_of l s @ [r] else rows_of l s)"
  by (simp add: rows_of_def)

lemma new_entry_row_ok:
  "entity_serial entity = None \<Longrightarrow> row_ok (new_entry_row l entity index s)"
  by (auto simp: row_ok_def new_entry_row_def entry_info_def split: RevocationListEntityId.splits option.splits)

lemma new_entry_row_entry:
  "entity_serial entity = None \<Longrightarrow> row_entry (new_entry_row l entity (Some i) s) =
     \<lparr>rve_id = db_uuids s, rve_created_date = db_now s, rve_last_modified = db_now s,
      rve_entity_info = info_of_entity entity, rve_index = Some (i mod 2 ^ 32), rve_status = Active\<rparr>"
  by (cases entity) (auto simp: row_entry_def entry_of_row_def new_entry_row_def entry_info_def)

lemma index_conflict:
  assumes "store_ok m s" and "i < length (list_indexes l s)"
  shows "list_ex (entry_conflict (new_entry_row l entity (Some i) s)) (db_entries s)"
proof -
  have "i \<in> set (list_indexes l s)" using assms set_list_indexes by auto
  then obtain r where "r \<in> set (rows_of l s)" "er_index r = Some i"
    by (auto simp: list_indexes_def)
  moreover have "i < 2 ^ 32" using assms list_indexes_small [of m s l] by simp
  ultimately show ?thesis
    by (auto simp: list_ex_iff entry_conflict_def new_entry_row_def rows_of_def)
qed

lemma sort_upt_snoc: "sort xs = [0..<length xs] \<Longrightarrow> sort (xs @ [length xs]) = [0..<Suc (length xs)]"
proof -
  assume a: "sort xs = [0..<length xs]"
  have "\<forall>y \<in> set xs. y < length xs" using arg_cong [OF a, of set] by simp
  then have "sort (xs @ [length xs]) = sort xs @ [length xs]"
    by (rule sort_key_snoc [of xs "\<lambda>x. x"])
  with a show ?thesis by simp
qed

lemma sql_new_entry:
  assumes ok: "store_ok m s" and ix: "lv_indexed (sql_view s l)"
    and le: "i \<le> length (lv_entries (sql_view s l))" "i < 2 ^ 32"
    and create: "create_entry l entity (Some i) s = (Inr eid, t)"
  shows "store_ok m t \<and> i = length (lv_entries (sql_view s l)) \<and>
    sql_view t = (sql_view s)(l := (sql_view s l)\<lparr>lv_entries := lv_entries (sql_view s l) @
      [\<lparr>rve_id = eid, rve_created_date = db_now s, rve_last_modified = db_now s,
        rve_entity_info = info_of_entity entity, rve_index = Some i, rve_status = Active\<rparr>]\<rparr>)"
proof -
  let ?r = "new_entry_row l entity (Some i) s"
  note c = create_entry_Inr [OF create]
  have rows: "list_all (\<lambda>e. er_index e \<noteq> None) (rows_of l s)" using ix by (simp add: sql_view_def)
  have len: "length (lv_entries (sql_view s l)) = length (list_indexes l s)"
    by (simp add: sql_view_def indexed_filter [OF rows])
  have i: "i = length (list_indexes l s)"
    using index_conflict [OF ok, of i l entity] c(4) le(1) len by fastforce
  have mod: "i mod 2 ^ 32 = i" using le(2) by simp
  have serial: "entity_serial entity = None" using c(6) by simp
  have r: "er_index ?r = Some i" using mod by simp
  note t_rows = rows_of_snoc [OF c(2), unfolded new_entry_row_list]
  have idx: "list_indexes l' t = (if l' = l then list_indexes l s @ [i] else list_indexes l' s)" for l'
    using r by (simp add: list_indexes_def t_rows)
  have "sort (list_indexes l' t) = [0..<length (list_indexes l' t)]" for l'
    using list_indexes_dense [OF ok] sort_upt_snoc [OF list_indexes_dense [OF ok, of l]]
    unfolding idx i by simp
  moreover have "list_all row_ok (db_entries t)"
    using ok new_entry_row_ok [OF serial] by (simp add: store_ok_def c(2))
  moreover have "list_all (\<lambda>e. er_revocation_list_id e \<in> lr_id ` set (db_lists s)) (db_entries t)"
    using ok c(5) by (simp add: store_ok_def c(2))
  moreover have "list_all (\<lambda>q. lr_type q = m \<longrightarrow> list_all (\<lambda>e. er_index e \<noteq> None) (rows_of (lr_id q) t)) (db_lists s)"
    using ok by (simp add: store_ok_def t_rows list_all_iff)
  moreover have "list_all (\<lambda>e. er_id e < db_uuids t) (db_entries t)"
    using ok by (auto simp: store_ok_def c(2,7) list_all_iff new_entry_row_def)
  moreover have "distinct (map er_id (db_entries t))"
    using ok by (force simp: store_ok_def c(2) list_all_iff new_entry_row_def)
  ultimately have "store_ok m t"
    using ok by (simp add: store_ok_def c(1))
  moreover have "sort_key index_rank (rows_of l s @ [?r]) = sort_key index_rank (rows_of l s) @ [?r]"
  proof (rule sort_key_snoc, rule ballI)
    fix y assume y: "y \<in> set (rows_of l s)"
    then obtain j where j: "er_index y = Some j" using rows by (auto simp: list_all_iff)
    with y have "j \<in> set (list_indexes l s)" by (force simp: indexed_filter [OF rows])
    then have "j < i" using set_list_indexes [OF ok, of l] i by auto
    with j r show "index_rank y < index_rank ?r" by (simp add: index_rank_def)
  qed
  moreover from this have "sql_view t l = (sql_view s l)\<lparr>lv_entries := lv_entries (sql_view s l) @
      [\<lparr>rve_id = eid, rve_created_date = db_now s, rve_last_modified = db_now s,
        rve_entity_info = info_of_entity entity, rve_index = Some i, rve_status = Active\<rparr>]\<rparr>"
    using new_entry_row_entry [OF serial, of l i s] mod c(3) r rows
    by (simp add: sql_view_def t_rows c(1))
  moreover have "sql_view t l' = sql_view s l'" if "l' \<noteq> l" for l'
    using that by (simp add: sql_view_def t_rows c(1))
  ultimately show ?thesis
    using i len by (simp add: fun_eq_iff)
qed

lemma sql_index_in_use:
  assumes "store_ok m s" and "lv_indexed (sql_view s l)" and "i < length (lv_entries (sql_view s l))"
    and "create_entry l entity (Some i) s = (Inl e, t)" and "entity_serial entity = None"
  shows "e = AlreadyExists \<and> store_ok m t \<and> sql_view t = sql_view s"
proof -
  have "i < length (list_indexes l s)" using assms(2,3) by (simp add: sql_view_def indexed_filter)
  from index_conflict [OF assms(1) this, of entity]
  have "e = AlreadyExists" "db_lists t = db_lists s" "db_entries t = db_entries s" "db_uuids s \<le> db_uuids t"
    using create_entry_Inl [OF assms(4)] assms(5) by simp_all
  with store_ok_cong [OF assms(1), of t] sql_view_cong [of t s] show ?thesis by simp
qed

lemma sql_index_free:
  assumes "store_ok m s" and "length (lv_entries (sql_view s l)) \<le> i" and "i < 2 ^ 32"
    and "create_entry l entity (Some i) s = (Inl e, t)" and "entity_serial entity = None"
  shows "e \<noteq> AlreadyExists"
proof -
  have "\<not> list_ex (entry_conflict (new_entry_row l entity (Some i) s)) (db_entries s)"
  proof -
    have "j < length (list_indexes l s)" if "r \<in> set (rows_of l s)" "er_index r = Some j" for r j
      using that set_list_indexes [OF assms(1), of l] by (force simp: list_indexes_def)
    moreover have "length (list_indexes l s) \<le> i"
      using assms(2) le_trans [OF length_filter_le [of "\<lambda>r. er_index r \<noteq> None" "rows_of l s"]]
      by (simp add: sql_view_def list_indexes_def)
    ultimately have "\<forall>r \<in> set (db_entries s). er_revocation_list_id r = l \<longrightarrow> er_index r \<noteq> Some i"
      by (fastforce simp: rows_of_def)
    moreover have "\<forall>r \<in> set (db_entries s). er_id r < db_uuids s"
      using assms(1) by (simp add: store_ok_def list_all_iff)
    ultimately show ?thesis
      using assms(3,5) by (auto simp: list_ex_iff entry_conflict_def new_entry_row_def)
  qed
  with assms(4,5) show ?thesis
    by (auto simp: create_entry_def sbind_eq_Inl sbind_eq_Inr now_utc_def new_uuid_def insert_entry_def
        new_entry_row_def smap_err_eq_Inl update_attested_key_def
        split: if_splits RevocationListEntityId.splits)
qed

text \<open>A status update keeps the place of every row.\<close>

lemma row_entry_status:
  "row_ok r \<Longrightarrow> row_entry (r\<lparr>er_last_modified := now, er_status := st\<rparr>) =
     (row_entry r)\<lparr>rve_last_modified := now, rve_status := st\<rparr>"
  by (auto simp: row_ok_def row_entry_def entry_of_row_def entry_info_def is_ok_iff
      split: entry_type.splits option.splits)

lemma entry_selected_view:
  "row_ok r \<Longrightarrow> er_revocation_list_id r = l \<Longrightarrow> entry_selected u r = view_selected u l (row_entry r)"
  by (cases u) (auto simp: row_entry_fields)

lemma sql_update_status:
  assumes ok: "store_ok m s"
  shows "\<exists>t. update_entry u \<lparr>ure_status = Some st\<rparr> s = (Inr (), t) \<and> store_ok m t \<and>
    sql_view t = (\<lambda>l. set_entry_status u st (db_now s) l (sql_view s l))"
proof -
  define f where "f r = (if entry_selected u r then r\<lparr>er_last_modified := db_now s, er_status := st\<rparr> else r)" for r
  define t where "t = s\<lparr>db_entries := map f (db_entries s)\<rparr>"
  have upd: "update_entry u \<lparr>ure_status = Some st\<rparr> s = (Inr (), t)"
    by (simp add: update_entry_def t_def f_def)
  have keep: "er_revocation_list_id (f r) = er_revocation_list_id r" "er_index (f r) = er_index r"
    "row_ok (f r) = row_ok r" "index_rank (f r) = index_rank r" "er_id (f r) = er_id r" for r
    by (auto simp: f_def row_ok_def entry_info_def index_rank_def split: entry_type.splits option.splits)
  have rows: "rows_of l t = map f (rows_of l s)" for l
    by (simp add: rows_of_def t_def filter_map comp_def keep)
  have "list_indexes l t = list_indexes l s" for l
    by (simp add: list_indexes_def rows filter_map comp_def keep)
  with ok have "store_ok m t"
    by (simp add: store_ok_def t_def [symmetric] rows list_all_iff)
      (simp add: t_def keep list_all_iff comp_def)
  moreover have "sql_view t l = set_entry_status u st (db_now s) l (sql_view s l)" for l
  proof -
    have row: "row_entry (f r) = (if view_selected u l (row_entry r)
        then (row_entry r)\<lparr>rve_last_modified := db_now s, rve_status := st\<rparr> else row_entry r)"
      if "r \<in> set (rows_of l s)" for r
      using that rows_of_ok [OF ok that] entry_selected_view [of r l u] row_entry_status [of r]
      by (simp add: f_def rows_of_def)
    show ?thesis
      by (simp add: sql_view_def set_entry_status_def rows sort_key_map_same keep row list_all_iff)
        (simp add: t_def)
  qed
  ultimately show ?thesis using upd by blast
qed

lemma find_map_same:
  "(\<And>x. P (f x) = P x) \<Longrightarrow> find P (map f xs) = map_option f (find P xs)"
  by (induction xs) auto

lemma sql_publish:
  assumes ok: "store_ok m s" and upd: "update_formatted_list l text s = (Inr (), t)"
  shows "store_ok m t \<and> sql_view t = (sql_view s)(l := (sql_view s l)\<lparr>lv_published := Some text\<rparr>)"
proof -
  define f where "f r = (if lr_id r = l then r\<lparr>lr_last_modified := db_now s, lr_formatted_list := text\<rparr> else r)" for r :: list_row
  from upd have t: "t = s\<lparr>db_lists := map f (db_lists s)\<rparr>" and ex: "l \<in> lr_id ` set (db_lists s)"
    by (auto simp: update_formatted_list_def now_utc_def sbind_def update_list_rows_def f_def
        split: if_splits)
  have keep: "lr_id (f r) = lr_id r" "row_owner (f r) = row_owner r" "lr_type (f r) = lr_type r" for r
    by (simp_all add: f_def row_owner_def)
  have rows: "rows_of l' t = rows_of l' s" "list_indexes l' t = list_indexes l' s" for l'
    by (simp_all add: rows_of_def list_indexes_def t)
  have ids: "lr_id ` set (db_lists t) = lr_id ` set (db_lists s)"
    by (simp add: t image_image keep)
  have "store_ok m t"
    using ok unfolding store_ok_def rows ids by (simp add: t comp_def keep list_all_iff)
  moreover have "sql_view t l' = ((sql_view s)(l := (sql_view s l)\<lparr>lv_published := Some text\<rparr>)) l'" for l'
  proof (cases "l' = l")
    case True
    from ex obtain r where "find (\<lambda>r. lr_id r = l) (db_lists s) = Some r"
      by (metis (mono_tags, lifting) find_None_iff imageE not_None_eq)
    moreover from this have "lr_id r = l" by (auto dest: find_in_set)
    ultimately show ?thesis
      using True unfolding sql_view_def rows fun_upd_def
      by (simp add: t find_map_same keep) (simp add: f_def row_owner_def)
  next
    case False
    have "map_option f (find (\<lambda>r. lr_id r = l') (db_lists s)) = find (\<lambda>r. lr_id r = l') (db_lists s)"
      using False
      by (cases "find (\<lambda>r. lr_id r = l') (db_lists s)") (auto simp: f_def dest!: find_in_set)
    then show ?thesis
      using False unfolding sql_view_def rows fun_upd_def by (simp add: t find_map_same keep)
  qed
  ultimately show ?thesis by blast
qed

lemma sql_publish_error: "update_formatted_list l text s = (Inl e, t) \<Longrightarrow> t = s"
  by (auto simp: update_formatted_list_def now_utc_def sbind_def update_list_rows_def smap_err_def
      split: if_splits)

lemma sql_publish_total:
  "lv_owner (sql_view s l) \<noteq> None \<Longrightarrow> \<exists>t. update_formatted_list l text s = (Inr (), t)"
  unfolding owner_exists
  by (simp add: update_formatted_list_def now_utc_def sbind_def update_list_rows_def)

lemma load_list_id: "load_list rep found rel = Inr (Some li) \<Longrightarrow> \<exists>r. found = Some r \<and> rvl_id li = lr_id r"
  by (auto simp: load_list_def entity_model_to_repository_model_def split: option.splits)

lemma load_list_None: "load_list rep found rel = Inr None \<Longrightarrow> found = None"
  by (auto simp: load_list_def split: option.splits)

lemma sql_owner:
  "store_ok m s \<Longrightarrow> r \<in> set (db_lists s) \<Longrightarrow> lv_owner (sql_view s (lr_id r)) = Some (row_owner r)"
  by (simp add: sql_view_def store_ok_def find_unique_row)

lemma sql_found:
  assumes "store_ok m s" and "get_revocation_by_issuer_identifier_id rep i c p k rel s = (Inr (Some li), t)"
  shows "t = s \<and> lv_owner (sql_view s (rvl_id li)) = Some (i, c, p, k)"
proof -
  from assms(2) obtain r where "t = s" and "r \<in> set (db_lists s)" and "rvl_id li = lr_id r"
    and "row_owner r = (i, c, p, k)"
    by (auto simp: get_revocation_by_issuer_identifier_id_def sbind_def row_owner_def
        dest!: load_list_id find_in_set)
  with sql_owner [OF assms(1)] show ?thesis by simp
qed

lemma sql_not_found:
  assumes "get_revocation_by_issuer_identifier_id rep i c p k rel s = (Inr None, t)"
  shows "t = s \<and> (\<forall>l. lv_owner (sql_view s l) \<noteq> Some (i, c, p, k))"
proof -
  from assms have "t = s" and "\<forall>r \<in> set (db_lists s). row_owner r \<noteq> (i, c, p, k)"
    by (auto simp: get_revocation_by_issuer_identifier_id_def sbind_def row_owner_def find_None_iff
        dest!: load_list_None)
  then show ?thesis by (auto simp: sql_view_def dest!: find_in_set)
qed

lemma sql_find_error: "get_revocation_by_issuer_identifier_id rep i c p k rel s = (Inl e, t) \<Longrightarrow> t = s"
  by (simp add: get_revocation_by_issuer_identifier_id_def sbind_def)

lemma sql_find_total:
  "\<exists>r. get_revocation_by_issuer_identifier_id rep i c p k revocation_list_relations_default s = (Inr r, s)"
  by (auto simp: get_revocation_by_issuer_identifier_id_def sbind_def load_list_def
      entity_model_to_repository_model_def revocation_list_relations_default_def split: option.split)

lemma sql_by_entry:
  assumes "store_ok m s" and "get_revocation_list_by_entry_id rep eid rel s = (Inr (Some li), t)"
  shows "t = s \<and> lv_owner (sql_view s (rvl_id li)) \<noteq> None \<and>
    (\<exists>e \<in> set (lv_entries (sql_view s (rvl_id li))). rve_id e = eid)"
proof -
  from assms(2) obtain r where r: "t = s" "r \<in> set (db_entries s)" "er_id r = eid"
    and l: "rvl_id li = er_revocation_list_id r"
    by (auto simp: get_revocation_list_by_entry_id_def get_revocation_list_def sbind_def
        split: option.splits dest!: load_list_id find_in_set)
  then have "r \<in> set (rows_of (rvl_id li) s)" by (simp add: rows_of_def)
  moreover from this have "rve_id (row_entry r) = eid"
    using rows_of_ok [OF assms(1)] row_entry_fields(1) r(3) by blast
  moreover have "lv_owner (sql_view s (rvl_id li)) \<noteq> None"
    unfolding owner_exists using assms(1) r(2) l by (auto simp: store_ok_def list_all_iff)
  ultimately show ?thesis using r(1) by (auto simp: sql_view_def)
qed

lemma sql_by_entry_state: "snd (get_revocation_list_by_entry_id rep eid rel s) = s"
  by (auto simp: get_revocation_list_by_entry_id_def get_revocation_list_def sbind_def split: option.split)

lemma sql_owner_unique:
  assumes "store_ok m s" and "lv_owner (sql_view s l) = Some ow" and "lv_owner (sql_view s l') = Some ow"
  shows "l = l'"
proof -
  obtain r r' where "r \<in> set (db_lists s)" "lr_id r = l" "row_owner r = ow"
    and "r' \<in> set (db_lists s)" "lr_id r' = l'" "row_owner r' = ow"
    using assms(2,3) by (auto simp: sql_view_def dest!: find_in_set)
  moreover have "distinct (map row_owner (db_lists s))" using assms(1) by (simp add: store_ok_def)
  ultimately have "r = r'" by (metis distinct_map inj_onD)
  with \<open>lr_id r = l\<close> \<open>lr_id r' = l'\<close> show ?thesis by simp
qed

lemma sql_method_indexed:
  "store_ok m s \<Longrightarrow> lv_owner (sql_view s l) = Some (i, c, p, m) \<Longrightarrow> lv_indexed (sql_view s l)"
  by (auto simp: sql_view_def store_ok_def row_owner_def list_all_iff dest!: find_in_set)

lemma sql_entry_unique:
  assumes "store_ok m s" and "e \<in> set (lv_entries (sql_view s l))" and "e' \<in> set (lv_entries (sql_view s l'))"
    and "rve_id e = rve_id e'"
  shows "l = l'"
proof -
  obtain r r' where "e = row_entry r" "r \<in> set (rows_of l s)" and "e' = row_entry r'" "r' \<in> set (rows_of l' s)"
    using assms(2,3) by (auto simp: sql_view_def)
  moreover from this have "er_id r = er_id r'"
    using assms(4) rows_of_ok [OF assms(1)] row_entry_fields(1) by metis
  moreover have "distinct (map er_id (db_entries s))" using assms(1) by (simp add: store_ok_def)
  ultimately have "r = r'" by (auto simp: rows_of_def distinct_map dest: inj_onD)
  with \<open>r \<in> set (rows_of l s)\<close> \<open>r' \<in> set (rows_of l' s)\<close> show ?thesis by (simp add: rows_of_def)
qed

lemma sql_no_list: "store_ok m s \<Longrightarrow> lv_owner (sql_view s l) = None \<Longrightarrow> lv_entries (sql_view s l) = []"
  using owner_exists [of s l] rows_of_no_list [of m s l] by (simp add: sql_view_def)

lemma sql_new_list:
  assumes ok: "store_ok m s" and create: "create_revocation_list li s = (Inr l, t)"
  shows "store_ok m t \<and> l = rvl_id li \<and> lv_owner (sql_view s l) = None \<and>
    (\<exists>iss. rvl_issuer_identifier li = Some iss \<and>
      sql_view t = (sql_view s)(l := \<lparr>lv_entries = [], lv_published = Some (rvl_formatted_list li), lv_indexed = True,
        lv_owner = Some (idf_id iss, map_option cert_id (rvl_issuer_certificate li), rvl_purpose li, rvl_type li)\<rparr>))"
proof -
  from create obtain iss r where iss: "rvl_issuer_identifier li = Some iss" and l: "l = rvl_id li"
    and t: "t = s\<lparr>db_lists := db_lists s @ [r]\<rparr>" and new: "\<not> list_ex (list_conflict r) (db_lists s)"
    and r: "lr_id r = l" "lr_formatted_list r = rvl_formatted_list li"
      "row_owner r = (idf_id iss, map_option cert_id (rvl_issuer_certificate li), rvl_purpose li, rvl_type li)"
    by (auto simp: create_revocation_list_def sbind_eq_Inr insert_list_def row_owner_def split: if_splits)
  have fresh: "l \<notin> lr_id ` set (db_lists s)" "row_owner r \<notin> row_owner ` set (db_lists s)"
    using new r(1) by (auto simp: list_ex_iff list_conflict_def row_owner_def)
  have rows: "rows_of l' t = rows_of l' s" "list_indexes l' t = list_indexes l' s" for l'
    by (simp_all add: rows_of_def list_indexes_def t)
  have empty: "rows_of l s = []" by (rule rows_of_no_list [OF ok fresh(1)])
  then have noidx: "list_indexes l s = []" by (simp add: list_indexes_def)
  have "store_ok m t"
    using ok fresh empty noidx unfolding store_ok_def rows
    by (auto simp: t r(1) list_all_iff)
  moreover have none: "find (\<lambda>q. lr_id q = l) (db_lists s) = None"
    using fresh(1) by (auto simp: find_None_iff)
  moreover have "find P (xs @ [x]) = (case find P xs of None \<Rightarrow> (if P x then Some x else None) | Some y \<Rightarrow> Some y)"
    for P and xs and x :: list_row
    by (induction xs) auto
  then have "sql_view t = (sql_view s)(l := \<lparr>lv_entries = [], lv_published = Some (rvl_formatted_list li), lv_indexed = True,
        lv_owner = Some (idf_id iss, map_option cert_id (rvl_issuer_certificate li), rvl_purpose li, rvl_type li)\<rparr>)"
    unfolding sql_view_def rows fun_eq_iff fun_upd_def
    using none empty r by (auto simp: t split: option.split)
  ultimately show ?thesis using iss l by (auto simp: sql_view_def)
qed

lemma sql_new_list_error: "create_revocation_list li s = (Inl e, t) \<Longrightarrow> t = s"
  by (auto simp: create_revocation_list_def sbind_eq_Inl sbind_eq_Inr insert_list_def smap_err_eq_Inl
      split: if_splits)

lemma provider_simps:
  "repo_create_revocation_list (revocation_list_provider rep) = create_revocation_list"
  "repo_get_revocation_list (revocation_list_provider rep) = get_revocation_list rep"
  "repo_get_revocation_list_by_entry_id (revocation_list_provider rep) = get_revocation_list_by_entry_id rep"
  "repo_get_revocation_by_issuer_identifier_id (revocation_list_provider rep) =
     get_revocation_by_issuer_identifier_id rep"
  "repo_update_formatted_list (revocation_list_provider rep) = update_formatted_list"
  "repo_next_free_index (revocation_list_provider rep) = next_free_index"
  "repo_create_entry (revocation_list_provider rep) = create_entry"
  "repo_update_entry (revocation_list_provider rep) = update_entry"
  "repo_get_entry_by_id (revocation_list_provider rep) = get_entry_by_id"
  "repo_get_entries (revocation_list_provider rep) = get_entries"
  "repo_get_entries_by_id (revocation_list_provider rep) = get_entries_by_id"
  by (simp_all add: revocation_list_provider_def)

interpretation sql_store: revocation_list_contract
  "revocation_list_provider rep" "store_ok m" sql_view db_now m
  for rep m
  by (unfold_locales, unfold provider_simps)
    (fact sql_entries sql_dense sql_small sql_next_index sql_next_index_error sql_new_entry
      sql_index_in_use sql_index_free sql_update_status sql_publish sql_publish_error sql_found sql_find_error
      sql_find_total sql_by_entry sql_by_entry_state sql_owner_unique sql_method_indexed sql_entry_unique sql_no_list sql_new_list
      sql_new_list_error
    | rule sql_next_index_total sql_publish_total sql_not_found, assumption)+

end
