(* ===== verification/Status_List_Service.thy ===== *)
theory Status_List_Service
  imports Token_Status_List Revocation_Store
begin

text \<open>
  Correctness of the token status list method over any repository that meets the contract, and
  for the SQL repository: the published list shows every entry's status, a new entry gets an
  index of its own whatever other sessions do, an operation in a transaction that fails leaves
  nothing behind, and what happens when two sessions publish the same list.
\<close>

section \<open>Encoding dense entries\<close>

lemma dense_states:
  assumes "map rve_index es = map Some [0..<length es]"
  shows "try_map (\<lambda>entry. rbind (ok_or (rve_index entry) e) (\<lambda>index. Inr (index, f (rve_status entry)))) es =
    Inr (zip [0..<length es] (map (f \<circ> rve_status) es))"
proof -
  have ix: "rve_index x = Some (the (rve_index x))" if "x \<in> set es" for x
  proof -
    have "rve_index x \<in> set (map rve_index es)" using that by simp
    then show ?thesis unfolding assms by auto
  qed
  have "try_map (\<lambda>entry. rbind (ok_or (rve_index entry) e) (\<lambda>index. Inr (index, f (rve_status entry)))) es =
      Inr (map (\<lambda>x. (the (rve_index x), f (rve_status x))) es)"
    by (rule try_map_Inr_map) (metis ix ok_or_Some rbind_Inr)
  also have "map (\<lambda>x. (the (rve_index x), f (rve_status x))) es =
      zip (map the (map rve_index es)) (map (f \<circ> rve_status) es)"
    by (simp add: zip_map_map zip_same_conv_map)
  also have "map the (map rve_index es) = [0..<length es]" unfolding assms by (simp add: comp_def)
  finally show ?thesis .
qed

lemma dense_pairs:
  assumes "map rve_index es = map Some [0..<length es]"
  shows "try_map (\<lambda>entry. rbind (ok_or (rve_index entry) e) (\<lambda>index. Inr (index, rve_status entry))) es =
    Inr (zip [0..<length es] (map rve_status es))"
  using dense_states [OF assms, of e "\<lambda>st. st"] by (simp add: comp_def)

lemma map_of_zip_upt: "i < length xs \<Longrightarrow> map_of (zip [0..<length xs] xs) i = Some (xs ! i)"
  by (rule map_of_is_SomeI) (auto simp: set_zip intro!: exI [of _ i])

text \<open>
  The entries fit the token when there are at most 131072 of them, or they fill whole bytes.
\<close>

definition token_fits :: "nat \<Rightarrow> bool" where
  "token_fits n \<longleftrightarrow> n \<le> 131072 \<or> 4 dvd n"

text \<open>The state of an index: that of its entry, or valid when there is none yet.\<close>

definition state_at :: "RevocationListEntry list \<Rightarrow> nat \<Rightarrow> RevocationState" where
  "state_at es i = (if i < length es then state_of_status (rve_status (es ! i)) else Valid)"

lemma generate_token_from_dense:
  assumes "codec_round_trip c" and "map rve_index es = map Some [0..<length es]" and "token_fits (length es)"
  shows "\<exists>t. generate_token_from_entries c es = Inr t \<and>
    (\<forall>i < max (length es) 131072.
       extract_state_from_token c \<lparr>tsl_bits = PREFERRED_ENTRY_SIZE, tsl_value = t\<rparr> i = Inr (state_at es i))"
proof -
  define n where "n = length es"
  define input where "input = zip [0..<n] (map rve_status es)"
  define sz where "sz = calculate_preferred_token_size n PREFERRED_ENTRY_SIZE"
  have fit: "i div 4 < sz div 8" if "i < max n 131072" for i
    using preferred_token_size_fits [of i n] assms(3) that
    by (auto simp: token_fits_def n_def sz_def preferred_token_size max_def split: if_splits)
  have marks: "k < sz" if "e \<in> set input" "entry_mark 2 e = Some k" for e k
  proof (rule entry_mark_less [of 2 e])
    have "fst e < n" using that(1) by (auto simp: input_def set_zip)
    then show "fst e div words_per_byte 2 < sz div 8" using fit by (simp add: words_per_byte_def)
  qed (use that in auto)
  obtain t where t: "generate_token c input 2 sz = Inr t"
    and read: "\<And>i. extract_state_from_token c \<lparr>tsl_bits = 2, tsl_value = t\<rparr> i =
       (if i div words_per_byte 2 < (sz + 7) div 8 then
          Inr (case map_of input i of None \<Rightarrow> Valid | Some st \<Rightarrow> state_of_status st)
        else Inl (Failure (IndexOutOfBounds i)))"
    using token_read_back [OF assms(1), of 2 input sz] marks
    by (auto simp: input_def n_def)
  have "length input = n" by (simp add: input_def n_def)
  then have "generate_token_from_entries c es = Inr t"
    using t dense_pairs [OF assms(2), of "Failure (MappingError ''revocation list entry index missing'')"]
    by (simp add: generate_token_from_entries_def n_def [symmetric] input_def [symmetric] sz_def)
      (simp add: PREFERRED_ENTRY_SIZE_def)
  moreover have "extract_state_from_token c \<lparr>tsl_bits = 2, tsl_value = t\<rparr> i = Inr (state_at es i)"
    if "i < max n 131072" for i
  proof -
    have "i div words_per_byte 2 < (sz + 7) div 8"
      using fit [OF that] by (simp add: words_per_byte_def)
    moreover have "map_of input i = (if i < n then Some (rve_status (es ! i)) else None)"
      using map_of_zip_upt [of i "map rve_status es"] by (auto simp: input_def n_def map_of_eq_None_iff dest: set_zip_leftD)
    ultimately show ?thesis by (simp add: read state_at_def n_def)
  qed
  ultimately show ?thesis by (auto simp: PREFERRED_ENTRY_SIZE_def n_def)
qed

section \<open>Hypotheses about the providers\<close>

text \<open>
  What the formatter of the signed list and the reader of the verifier (for an expected issuer
  \<open>did\<close>) promise together: reading a signed list gives the encoded list that was signed.
\<close>

definition signed_list_readable :: "('s, 'auth) token_status_list \<Rightarrow> string option \<Rightarrow> bool" where
  "signed_list_readable m did \<longleftrightarrow>
     (\<forall>f url i enc alg auth out.
        tm_formatter_by_type m FormatType.Jwt = Some f \<longrightarrow>
        f url i enc alg auth PurposeRevocation TokenStatusListType = Inr out \<longrightarrow>
        tm_from_utf8 m (string_bytes out) = Inr out \<and>
        tm_jwt_status_list m out did = Inr \<lparr>tsl_bits = PREFERRED_ENTRY_SIZE, tsl_value = enc\<rparr>)"

text \<open>The issuer can sign the list: a base URL, a key for the purpose, a signer and a formatter.\<close>

definition can_sign :: "('s, 'auth) token_status_list \<Rightarrow> uuid \<Rightarrow> Identifier \<Rightarrow> Certificate option \<Rightarrow> bool" where
  "can_sign m l issuer certificate \<longleftrightarrow>
     (\<exists>f. tm_formatter_by_type m FormatType.Jwt = Some f \<and>
       (\<forall>enc. is_ok (format_status_list_credential m l issuer certificate enc f)))"

text \<open>What a verifier reads at an index of a published text.\<close>

definition published_state ::
  "('s, 'auth) token_status_list \<Rightarrow> string option \<Rightarrow> bytes \<Rightarrow> nat \<Rightarrow> RevocationState option" where
  "published_state m did text i =
     Option.bind (ok_value (tm_from_utf8 m text)) (\<lambda>content.
     Option.bind (ok_value (tm_jwt_status_list m content did)) (\<lambda>status_list.
       ok_value (extract_state_from_token (tm_codec m) status_list i)))"

text \<open>
  A published text shows the statuses of the entries, and the indexes up to the minimum size
  that are not assigned yet as valid.
\<close>

definition shows_statuses ::
  "('s, 'auth) token_status_list \<Rightarrow> string option \<Rightarrow> bytes option \<Rightarrow> RevocationListEntry list \<Rightarrow> bool" where
  "shows_statuses m did text es \<longleftrightarrow>
     (\<exists>b. text = Some b \<and>
       (\<forall>i < max (length es) 131072. published_state m did b i = Some (state_at es i)))"

lemma format_status_list_credential_out:
  assumes "format_status_list_credential m l issuer cert enc f = Inr out"
  shows "\<exists>url alg auth. f url issuer enc alg auth PurposeRevocation TokenStatusListType = Inr out"
  using assms by (auto simp: format_status_list_credential_def Let_def)

lemma signed_text_shows:
  assumes "codec_round_trip (tm_codec m)" and "signed_list_readable m did"
    and "tm_formatter_by_type m FormatType.Jwt = Some f"
    and "map rve_index es = map Some [0..<length es]" and "token_fits (length es)"
    and "generate_token_from_entries (tm_codec m) es = Inr enc"
    and "format_status_list_credential m l issuer cert enc f = Inr out"
  shows "shows_statuses m did (Some (string_bytes out)) es"
proof -
  obtain url alg auth where "f url issuer enc alg auth PurposeRevocation TokenStatusListType = Inr out"
    using format_status_list_credential_out [OF assms(7)] by blast
  then have read: "tm_from_utf8 m (string_bytes out) = Inr out"
    "tm_jwt_status_list m out did = Inr \<lparr>tsl_bits = PREFERRED_ENTRY_SIZE, tsl_value = enc\<rparr>"
    using assms(2,3) unfolding signed_list_readable_def by blast+
  have "\<forall>i < max (length es) 131072. extract_state_from_token (tm_codec m)
      \<lparr>tsl_bits = PREFERRED_ENTRY_SIZE, tsl_value = enc\<rparr> i = Inr (state_at es i)"
    using generate_token_from_dense [OF assms(1,4,5)] assms(6) by auto
  with read show ?thesis by (simp add: shows_statuses_def published_state_def)
qed

text \<open>
  What the transactions of other sessions do to the lists: they keep the invariant and the
  owners, and they do not remove entries.
\<close>

definition other_sessions_ok :: "('s \<Rightarrow> bool) \<Rightarrow> ('s \<Rightarrow> uuid \<Rightarrow> list_view) \<Rightarrow> ('s \<Rightarrow> 's) \<Rightarrow> bool" where
  "other_sessions_ok ok view others \<longleftrightarrow>
     (\<forall>s. ok s \<longrightarrow> ok (others s) \<and>
       (\<forall>l ow. lv_owner (view s l) = Some ow \<longrightarrow> lv_owner (view (others s) l) = Some ow) \<and>
       (\<forall>l. lv_indexed (view s l) \<longrightarrow> lv_indexed (view (others s) l)) \<and>
       (\<forall>l. length (lv_entries (view s l)) \<le> length (lv_entries (view (others s) l))))"

text \<open>One round of the loop that adds an entry.\<close>

lemma add_entity_round:
  assumes "tx (others k) (add_entity_attempt m l entity) s = (q, s1)"
  shows "add_entity_to_list m others l entity k s =
    (case q of
       Inl e \<Rightarrow> (Inl (nested_db ''creating revocation list entry'' e), s1)
     | Inr (Some p) \<Rightarrow> (Inr p, s1)
     | Inr None \<Rightarrow>
         if k > 100 then (Inl (nested_db ''adding revocation list entry'' (TransactionError ''Too many retries'')), s1)
         else add_entity_to_list m others l entity (k + 1) s1)"
  using assms
  by (cases q; cases "projr q")
    (simp_all add: add_entity_to_list.simps [of _ _ _ _ k] sbind_def smap_err_def del: tx_eq_Inr)

section \<open>The method over a repository\<close>

locale status_list_service =
  revocation_list_contract repo inv view clock method_name
  for repo :: "'s revocation_list_repository" and inv view clock method_name +
  fixes m :: "('s, 'auth) token_status_list"
  assumes repository: "tm_repository m = repo"
    and config: "tm_config_id m = method_name"
    and jwt: "tm_format m = StatusListCredentialFormat.Jwt"
    and uuid_supply: "inv s \<Longrightarrow> \<exists>u t. tm_new_uuid m s = (Inr u, t) \<and> inv t \<and> view t = view s"
begin

lemma publish_shows:
  assumes "inv s" and "lv_indexed (view s l)" and "lv_owner (view (others s) l) \<noteq> None"
    and "inv (others s)" and "token_fits (length (lv_entries (view s l)))"
    and codec: "codec_round_trip (tm_codec m)" and readable: "signed_list_readable m did"
    and sign: "can_sign m l issuer cert"
  shows "\<exists>t out. publish_list m others l (Inr issuer) cert s = (Inr (), t) \<and> inv t \<and>
    view t = (view (others s))(l := (view (others s) l)\<lparr>lv_published := Some out\<rparr>) \<and>
    shows_statuses m did (Some out) (lv_entries (view s l))"
proof -
  let ?es = "lv_entries (view s l)"
  obtain f where f: "tm_formatter_by_type m FormatType.Jwt = Some f"
    and ok: "\<And>enc. is_ok (format_status_list_credential m l issuer cert enc f)"
    using sign unfolding can_sign_def by blast
  note d = dense [OF assms(1,2)]
  obtain enc where enc: "generate_token_from_entries (tm_codec m) ?es = Inr enc"
    using generate_token_from_dense [OF codec d assms(5)] by blast
  obtain out where out: "format_status_list_credential m l issuer cert enc f = Inr out"
    using ok [of enc] by (auto simp: is_ok_iff)
  obtain t where t: "repo_update_formatted_list repo l (string_bytes out) (others s) = (Inr (), t)"
    using publish_total [OF assms(4,3)] by blast
  have "publish_list m others l (Inr issuer) cert s = (Inr (), t)"
    using entries [OF assms(1), of l] enc out t f
    by (simp add: publish_list_def repository get_formatter_for_issuance_def jwt sbind_def smap_err_def)
  with publish [OF assms(4) t] signed_text_shows [OF codec readable f d assms(5) enc out]
  show ?thesis by blast
qed

text \<open>Whatever made publishing succeed, the published text shows the entries that were read.\<close>

lemma published:
  assumes "inv s" and "inv (others s)"
    and "codec_round_trip (tm_codec m)" and "signed_list_readable m did"
    and run: "publish_list m others l issuer cert s = (Inr (), t)"
  shows "\<exists>out. inv t \<and> view t = (view (others s))(l := (view (others s) l)\<lparr>lv_published := Some out\<rparr>) \<and>
    (lv_indexed (view s l) \<longrightarrow> token_fits (length (lv_entries (view s l))) \<longrightarrow>
     shows_statuses m did (Some out) (lv_entries (view s l)))"
proof -
  from run obtain enc f iss out where enc: "generate_token_from_entries (tm_codec m) (lv_entries (view s l)) = Inr enc"
    and f: "tm_formatter_by_type m FormatType.Jwt = Some f"
    and out: "format_status_list_credential m l iss cert enc f = Inr out"
    and t: "repo_update_formatted_list repo l (string_bytes out) (others s) = (Inr (), t)"
    using entries [OF assms(1), of l]
    by (auto simp: publish_list_def repository get_formatter_for_issuance_def jwt sbind_eq_Inr ok_or_def
        split: option.splits)
  show ?thesis
    using publish [OF assms(2) t] signed_text_shows [OF assms(3,4) f dense [OF assms(1)] _ enc out] by blast
qed

lemma mark:
  assumes "inv s" and issuer: "issuer_of_credential c = Inr (issuer, cert)"
    and owner: "lv_owner (view s l) = Some (idf_id issuer, map_option cert_id cert, RevocationAndSuspension, tm_config_id m)"
    and "token_fits (length (lv_entries (view s l)))"
    and "codec_round_trip (tm_codec m)" and "signed_list_readable m did" and "can_sign m l issuer cert"
    and others: "\<And>s'. inv s' \<Longrightarrow>
      view s' = (\<lambda>l. set_entry_status (ByCredential (cred_id c)) (status_of_state new_state) (clock s) l (view s l)) \<Longrightarrow>
      inv (others s') \<and> lv_owner (view (others s') l) \<noteq> None"
  shows "\<exists>s1 t out. mark_credential_as m others c new_state s = (Inr (), t) \<and> inv s1 \<and> inv t \<and>
    view s1 = (\<lambda>l. set_entry_status (ByCredential (cred_id c)) (status_of_state new_state) (clock s) l (view s l)) \<and>
    view t = (view (others s1))(l := (view (others s1) l)\<lparr>lv_published := Some out\<rparr>) \<and>
    shows_statuses m did (Some out) (lv_entries (view s1 l))"
proof -
  obtain r where r: "repo_get_revocation_by_issuer_identifier_id repo (idf_id issuer)
      (map_option cert_id cert) RevocationAndSuspension method_name revocation_list_relations_default s = (Inr r, s)"
    using find_total by blast
  obtain li where li: "r = Some li"
    using not_found [OF assms(1)] r owner config by (cases r) auto
  have "rvl_id li = l"
    using owner_unique [OF assms(1)] found [OF assms(1)] r owner li config by metis
  obtain s1 where s1: "repo_update_entry repo (ByCredential (cred_id c)) \<lparr>ure_status = Some (status_of_state new_state)\<rparr> s = (Inr (), s1)"
    and inv1: "inv s1"
    and view1: "view s1 = (\<lambda>l. set_entry_status (ByCredential (cred_id c)) (status_of_state new_state) (clock s) l (view s l))"
    using update_status [OF assms(1)] by blast
  have ix: "lv_indexed (view s1 l)"
    using method_indexed [OF assms(1)] owner config by (auto simp: view1 set_entry_status_def)
  have len: "token_fits (length (lv_entries (view s1 l)))"
    using assms(4) by (simp add: view1 set_entry_status_def)
  obtain t out where pub: "publish_list m others l (Inr issuer) cert s1 = (Inr (), t)" and t: "inv t"
    "view t = (view (others s1))(l := (view (others s1) l)\<lparr>lv_published := Some out\<rparr>)"
    "shows_statuses m did (Some out) (lv_entries (view s1 l))"
    using publish_shows [of s1 l others did issuer cert] inv1 ix others [OF inv1 view1] len assms(5-7) by blast
  have "mark_credential_as m others c new_state s = (Inr (), t)"
    using issuer r li s1 \<open>rvl_id li = l\<close> pub
    by (simp add: mark_credential_as_def repository config sbind_def smap_err_def)
  then show ?thesis using inv1 view1 t by blast
qed

lemma attempt:
  assumes inv: "inv s" "inv (others s)" and ix: "lv_indexed (view s l)" "lv_indexed (view (others s) l)"
    and grows: "length (lv_entries (view s l)) \<le> length (lv_entries (view (others s) l))"
    and serial: "entity_serial entity = None"
    and run: "tx others (add_entity_attempt m l entity) s = (r, t)"
  shows "inv t \<and>
    (case r of
       Inl e \<Rightarrow> t = others s
     | Inr None \<Rightarrow> view t = view (others s) \<and>
         (length (lv_entries (view s l)) < length (lv_entries (view (others s) l)) \<or>
          length (lv_entries (view s l)) = 2 ^ 32)
     | Inr (Some (eid, i)) \<Rightarrow> length (lv_entries (view s l)) \<le> i \<and>
         i = length (lv_entries (view (others s) l)) \<and> i < 2 ^ 32 \<and>
         view t = (view (others s))(l := (view (others s) l)\<lparr>lv_entries := lv_entries (view (others s) l) @
           [\<lparr>rve_id = eid, rve_created_date = clock (others s), rve_last_modified = clock (others s),
             rve_entity_info = info_of_entity entity, rve_index = Some i, rve_status = Active\<rparr>]\<rparr>))"
proof (cases r)
  case (Inl e)
  with run inv show ?thesis by (auto simp: tx_eq_Inl)
next
  case (Inr res)
  let ?n = "length (lv_entries (view s l))" and ?n' = "length (lv_entries (view (others s) l))"
  from run Inr have run': "add_entity_attempt m l entity others s = (Inr res, t)" by simp
  then obtain i s0 where nxt: "repo_next_free_index repo l (Some LockUpdate) s = (Inr i, s0)"
    and rest: "(case repo_create_entry repo l entity (Some i) (others s0) of
         (Inr entry_id, t) \<Rightarrow> (Inr (Some (entry_id, i)), t)
       | (Inl e, t) \<Rightarrow> (if e = AlreadyExists then (Inr None, t) else (Inl e, t))) = (Inr res, t)"
    by (auto simp: add_entity_attempt_def sbind_eq_Inr repository)
  have i: "i = ?n mod 2 ^ 32" and s0: "s0 = s" using next_index [OF inv(1) ix(1) nxt] by auto
  have le: "i \<le> ?n'" "i < 2 ^ 32"
    using grows mod_less_eq_dividend [of ?n "2 ^ 32"] by (simp_all add: i)
  have small: "?n \<le> 2 ^ 32" by (rule small [OF inv(1) ix(1)])
  show ?thesis
  proof (cases "repo_create_entry repo l entity (Some i) (others s)")
    case (Pair q t')
    show ?thesis
    proof (cases q)
      case (Inr eid)
      note new = new_entry [OF inv(2) ix(2) le Pair [unfolded Inr]]
      have res: "res = Some (eid, i)" "t' = t" using rest s0 Pair Inr by auto
      have "?n \<le> i"
      proof (cases "?n = 2 ^ 32")
        case True
        with i new grows show ?thesis by simp
      qed (use i small in simp)
      with new res \<open>r = Inr res\<close> le(2) show ?thesis by simp
    next
      case (Inl e)
      then have e: "e = AlreadyExists" "res = None" "t' = t" using rest s0 Pair by (auto split: if_splits)
      show ?thesis
      proof (cases "i < ?n'")
        case True
        have "?n < ?n' \<or> ?n = 2 ^ 32" using True i small by (cases "?n = 2 ^ 32") simp_all
        with index_in_use [OF inv(2) ix(2) True _ serial] Pair Inl e \<open>r = Inr res\<close> show ?thesis by auto
      next
        case False
        then have "?n' \<le> i" by simp
        with index_free [OF inv(2) _ le(2) _ serial] Pair Inl e(1) show ?thesis by blast
      qed
    qed
  qed
qed

lemma add_entity:
  assumes ok: "\<And>k. other_sessions_ok inv view (others k)"
    and serial: "entity_serial entity = None"
    and run: "add_entity_to_list m others l entity k s = (r, t)"
    and inv: "inv s" "lv_indexed (view s l)"
  shows "inv t \<and> lv_indexed (view t l) \<and>
    (\<forall>ow. lv_owner (view s l) = Some ow \<longrightarrow> lv_owner (view t l) = Some ow) \<and>
    (case r of Inl e \<Rightarrow> True
     | Inr (eid, i) \<Rightarrow> length (lv_entries (view s l)) \<le> i \<and> i < 2 ^ 32 \<and>
         length (lv_entries (view t l)) = Suc i \<and> rve_id (last (lv_entries (view t l))) = eid \<and>
         rve_index (last (lv_entries (view t l))) = Some i \<and>
         rve_status (last (lv_entries (view t l))) = Active \<and>
         rve_entity_info (last (lv_entries (view t l))) = info_of_entity entity)"
  using run inv
proof (induction "102 - k" arbitrary: k s rule: less_induct)
  case less
  obtain q s1 where a: "tx (others k) (add_entity_attempt m l entity) s = (q, s1)" by fastforce
  have o: "inv (others k s) \<and> lv_indexed (view (others k s) l) \<and>
      (\<forall>ow. lv_owner (view s l) = Some ow \<longrightarrow> lv_owner (view (others k s) l) = Some ow) \<and>
      length (lv_entries (view s l)) \<le> length (lv_entries (view (others k s) l))"
    using ok [of k] less.prems(2,3) by (simp add: other_sessions_ok_def)
  note at = attempt [of s "others k" l entity q s1, OF less.prems(2) _ less.prems(3) _ _ serial a]
  show ?case
  proof (cases q)
    case (Inl e)
    then have "r = Inl (nested_db ''creating revocation list entry'' e)" "t = s1"
      using less.prems(1) add_entity_round [where others = others, OF a] by auto
    with at o Inl show ?thesis by simp
  next
    case (Inr res)
    show ?thesis
    proof (cases res)
      case None
      with Inr at o have s1: "inv s1" "view s1 = view (others k s)" by auto
      show ?thesis
      proof (cases "k > 100")
        case True
        then have "\<exists>e. r = Inl e" "t = s1"
          using less.prems(1) add_entity_round [where others = others, OF a] Inr None by auto
        with s1 o show ?thesis by auto
      next
        case False
        then have "add_entity_to_list m others l entity (k + 1) s1 = (r, t)"
          using less.prems(1) add_entity_round [where others = others, OF a] Inr None by simp
        moreover have "102 - (k + 1) < 102 - k" using False by simp
        ultimately show ?thesis
          using less.hyps [of "k + 1" s1] s1 o by (auto split: sum.splits)
      qed
    next
      case (Some p)
      obtain eid i where p: "p = (eid, i)" by (cases p)
      have "r = Inr (eid, i)" "t = s1"
        using less.prems(1) add_entity_round [where others = others, OF a] Inr Some p by auto
      with at o Inr Some p show ?thesis by auto
    qed
  qed
qed

text \<open>When another session takes the index in every attempt, the loop gives up.\<close>

lemma too_many_retries:
  assumes others: "\<And>k s. inv s \<Longrightarrow> lv_owner (view s l) = Some (i, c, p, method_name) \<Longrightarrow> length (lv_entries (view s l)) < N \<Longrightarrow>
      inv (others k s) \<and> lv_owner (view (others k s) l) = Some (i, c, p, method_name) \<and>
      length (lv_entries (view (others k s) l)) = Suc (length (lv_entries (view s l)))"
    and bound: "N \<le> 2 ^ 32" and serial: "entity_serial entity = None"
    and inv: "inv s" "lv_owner (view s l) = Some (i, c, p, method_name)"
    and "length (lv_entries (view s l)) + (102 - k) \<le> N" and "k \<le> 101"
  shows "\<exists>t. add_entity_to_list m others l entity k s =
    (Inl (nested_db ''adding revocation list entry'' (TransactionError ''Too many retries'')), t)"
  using inv assms(6,7)
proof (induction "102 - k" arbitrary: k s rule: less_induct)
  case less
  let ?n = "length (lv_entries (view s l))" and ?s' = "others k s"
  have "?n < N" using less.prems(3,4) by simp
  note o = others [OF less.prems(1,2) this]
  have small: "?n < 2 ^ 32" using \<open>?n < N\<close> bound by simp
  have ix: "lv_indexed (view s l)" "lv_indexed (view ?s' l)"
    using method_indexed less.prems(1,2) o by blast+
  obtain j where nxt: "repo_next_free_index repo l (Some LockUpdate) s = (Inr j, s)"
    using next_index_total [OF less.prems(1)] less.prems(2) by fastforce
  then have j: "j = ?n" using next_index [OF less.prems(1) ix(1)] small by fastforce
  obtain q s1 where c: "repo_create_entry repo l entity (Some j) ?s' = (q, s1)" by fastforce
  have "q = Inl AlreadyExists \<and> inv s1 \<and> view s1 = view ?s'"
  proof (cases q)
    case (Inr eid)
    then show ?thesis using new_entry [of ?s' l j entity eid s1] c o ix j small by auto
  next
    case (Inl e)
    then show ?thesis using index_in_use [of ?s' l j entity e s1] c o ix j serial by auto
  qed
  then have s1: "inv s1" "view s1 = view ?s'"
    and a: "tx (others k) (add_entity_attempt m l entity) s = (Inr None, s1)"
    using nxt c by (auto simp: add_entity_attempt_def repository sbind_def)
  show ?case
  proof (cases "k > 100")
    case True
    with add_entity_round [where others = others, OF a] show ?thesis by auto
  next
    case False
    then have "102 - (k + 1) < 102 - k" "length (lv_entries (view s1 l)) + (102 - (k + 1)) \<le> N"
      using o s1(2) less.prems(3) by simp_all
    then have "\<exists>t. add_entity_to_list m others l entity (k + 1) s1 =
        (Inl (nested_db ''adding revocation list entry'' (TransactionError ''Too many retries'')), t)"
      using less.hyps [of "k + 1" s1] s1 o False by simp
    with add_entity_round [where others = others, OF a] False show ?thesis by simp
  qed
qed

lemma uuid_state: "inv s \<Longrightarrow> tm_new_uuid m s = (r, t) \<Longrightarrow> \<exists>u. r = Inr u \<and> inv t \<and> view t = view s"
  using uuid_supply [of s] by auto

lemma status_block:
  assumes "inv s" and "create_credential_status m l i s = (Inr cs, t)"
  shows "inv t \<and> view t = view s \<and> (\<exists>url. get_revocation_list_url l (tm_core_base_url m) = Inr url \<and>
    cs_type cs = CREDENTIAL_STATUS_TYPE \<and>
    cs_additional_fields cs = [(URI_KEY, JsonString url), (INDEX_KEY, JsonString (decimal i))])"
  using assms(2) uuid_state [OF assms(1)]
  by (force simp: create_credential_status_def sbind_eq_Inr)

lemma start_new_list:
  assumes "inv s" and "entity_serial entity = None"
    and "start_new_list_for_entity m entity issuer cert s = (Inr (l, eid), t)"
  shows "inv t \<and> lv_owner (view s l) = None \<and>
    lv_owner (view t l) = Some (idf_id issuer, map_option cert_id cert, RevocationAndSuspension, tm_config_id m) \<and>
    (\<exists>now. lv_entries (view t l) = [\<lparr>rve_id = eid, rve_created_date = now, rve_last_modified = now,
      rve_entity_info = info_of_entity entity, rve_index = Some 0, rve_status = Active\<rparr>]) \<and>
    (\<forall>l'. l' \<noteq> l \<longrightarrow> view t l' = view s l') \<and>
    (codec_round_trip (tm_codec m) \<longrightarrow> signed_list_readable m did \<longrightarrow> shows_statuses m did (lv_published (view t l)) [])"
proof -
  from assms(3) obtain s1 s2 out x f enc where u: "tm_new_uuid m s = (Inr l, s1)"
    and enc: "generate_token_from_entries (tm_codec m) [] = Inr enc"
    and f: "tm_formatter_by_type m FormatType.Jwt = Some f"
    and out: "format_status_list_credential m l issuer cert enc f = Inr out"
    and li: "repo_create_revocation_list repo
       \<lparr>rvl_id = l, rvl_created_date = tm_now m s1, rvl_last_modified = tm_now m s1,
        rvl_formatted_list = string_bytes out, rvl_format = tm_format m,
        rvl_type = tm_config_id m, rvl_purpose = RevocationAndSuspension,
        rvl_issuer_identifier = Some issuer, rvl_issuer_certificate = cert\<rparr> s1 = (Inr x, s2)"
    and e: "repo_create_entry repo l entity (Some 0) s2 = (Inr eid, t)"
    by (auto simp: start_new_list_for_entity_def sbind_eq_Inr repository get_formatter_for_issuance_def jwt
        ok_or_def split: option.splits)
  have s1: "inv s1" "view s1 = view s" using uuid_state [OF assms(1) u] by auto
  have s2: "inv s2" "lv_owner (view s1 l) = None"
    "view s2 = (view s1)(l := \<lparr>lv_entries = [], lv_published = Some (string_bytes out), lv_indexed = True,
        lv_owner = Some (idf_id issuer, map_option cert_id cert, RevocationAndSuspension, tm_config_id m)\<rparr>)"
    using new_list [OF s1(1) li] by auto
  have "shows_statuses m did (Some (string_bytes out)) []"
    if "codec_round_trip (tm_codec m)" "signed_list_readable m did"
    by (rule signed_text_shows [OF that f _ _ enc out]) (simp_all add: token_fits_def)
  then show ?thesis
    using new_entry [OF s2(1) _ _ _ e] s1 s2 by simp
qed

lemma find_list:
  assumes "inv s" and "repo_get_revocation_by_issuer_identifier_id repo i c p method_name rel s = (Inr (Some li), t)"
  shows "t = s \<and> lv_owner (view s (rvl_id li)) = Some (i, c, p, method_name) \<and> lv_indexed (view s (rvl_id li))"
  using found [OF assms] method_indexed [OF assms(1)] by blast

text \<open>The list that an entry goes to: an existing one of the issuer, or a new one with the entry.\<close>

lemma choose_list:
  assumes inv: "inv s" and ok: "other_sessions_ok inv view others0" and serial: "entity_serial entity = None"
    and run: "list_for_entry m others0 entity issuer cert s = (Inr (l, e), t)"
  shows "inv t \<and> lv_indexed (view t l) \<and>
    lv_owner (view t l) = Some (idf_id issuer, map_option cert_id cert, RevocationAndSuspension, method_name) \<and>
    (case e of
       None \<Rightarrow> length (lv_entries (view s l)) \<le> length (lv_entries (view t l))
     | Some eid \<Rightarrow> lv_entries (view s l) = [] \<and>
         (\<exists>now. lv_entries (view t l) = [\<lparr>rve_id = eid, rve_created_date = now, rve_last_modified = now,
           rve_entity_info = info_of_entity entity, rve_index = Some 0, rve_status = Active\<rparr>]))"
proof -
  let ?key = "(idf_id issuer, map_option cert_id cert, RevocationAndSuspension, method_name)"
  have o: "inv (others0 s)" "\<And>l ow. lv_owner (view s l) = Some ow \<Longrightarrow> lv_owner (view (others0 s) l) = Some ow"
    "\<And>l. length (lv_entries (view s l)) \<le> length (lv_entries (view (others0 s) l))"
    using ok inv by (auto simp: other_sessions_ok_def)
  obtain q s1 where q: "tx others0 (find_or_start_list m entity issuer cert) s = (q, s1)" by fastforce
  show ?thesis
  proof (cases q)
    case (Inl f)
    then have s1: "s1 = others0 s" using q by (auto simp: tx_eq_Inl)
    from run q Inl obtain li where "repo_get_revocation_by_issuer_identifier_id repo (idf_id issuer)
      (map_option cert_id cert) RevocationAndSuspension method_name revocation_list_relations_default (others0 s) = (Inr (Some li), t)"
      and "l = rvl_id li" "e = None"
      by (auto simp: list_for_entry_def sbind_eq_Inr repository config s1 split: fault.splits if_splits)
    with find_list [OF o(1) this(1)] o show ?thesis by simp
  next
    case (Inr p)
    with run q have "find_or_start_list m entity issuer cert others0 s = (Inr (l, e), t)"
      by (auto simp: list_for_entry_def)
    then obtain found s0 where f: "repo_get_revocation_by_issuer_identifier_id repo (idf_id issuer)
        (map_option cert_id cert) RevocationAndSuspension method_name revocation_list_relations_default s = (Inr found, s0)"
      and rest: "(case found of
           Some li \<Rightarrow> sret (rvl_id li, None)
         | None \<Rightarrow>
             sbind (smap_err (map_failure (\<lambda>e. Nested (error_while revocation_error_code ''starting new token status list'' e)))
                      (start_new_list_for_entity m entity issuer cert)) (\<lambda>ids.
               sret (fst ids, Some (snd ids)))) (others0 s0) = (Inr (l, e), t)"
      by (auto simp: find_or_start_list_def sbind_eq_Inr repository config)
    show ?thesis
    proof (cases found)
      case (Some li)
      with find_list [OF inv] f have "s0 = s" "lv_owner (view s (rvl_id li)) = Some ?key" by auto
      moreover from this Some rest have "l = rvl_id li" "e = None" "t = others0 s" by auto
      ultimately show ?thesis using o method_indexed [OF o(1)] by auto
    next
      case None
      with not_found [OF inv] f have "s0 = s" by auto
      with None rest obtain eid where "start_new_list_for_entity m entity issuer cert (others0 s) = (Inr (l, eid), t)"
        and e: "e = Some eid"
        by (auto simp: sbind_eq_Inr)
      note new = start_new_list [OF o(1) serial this(1)]
      have "lv_entries (view s l) = []"
        using no_list [OF o(1), of l] new o(3) [of l] by simp
      with new e method_indexed [of t l] show ?thesis by (auto simp: config)
    qed
  qed
qed

lemma create:
  assumes inv: "inv s" and ok0: "other_sessions_ok inv view others0"
    and ok: "\<And>k. other_sessions_ok inv view (others k)" and serial: "entity_serial entity = None"
    and run: "tsl_create_entry m others0 others entity issuer cert s = (Inr (eid, info), t)"
  shows "inv t \<and> (\<exists>l i url.
    lv_owner (view t l) = Some (idf_id issuer, map_option cert_id cert, RevocationAndSuspension, method_name) \<and>
    length (lv_entries (view s l)) \<le> i \<and> length (lv_entries (view t l)) = Suc i \<and>
    rve_id (last (lv_entries (view t l))) = eid \<and> rve_index (last (lv_entries (view t l))) = Some i \<and>
    rve_status (last (lv_entries (view t l))) = Active \<and>
    rve_entity_info (last (lv_entries (view t l))) = info_of_entity entity \<and>
    get_revocation_list_url l (tm_core_base_url m) = Inr url \<and>
    cs_type (cri_credential_status info) = CREDENTIAL_STATUS_TYPE \<and>
    cs_additional_fields (cri_credential_status info) =
      [(URI_KEY, JsonString url), (INDEX_KEY, JsonString (decimal i))])"
proof -
  let ?key = "(idf_id issuer, map_option cert_id cert, RevocationAndSuspension, method_name)"
  from run obtain l e s2 i s3 cs where "list_for_entry m others0 entity issuer cert s = (Inr (l, e), s2)"
    and add: "(case e of Some entry_id \<Rightarrow> sret (entry_id, 0) | None \<Rightarrow> add_entity_to_list m others l entity 0) s2 = (Inr (eid, i), s3)"
    and block: "create_credential_status m l i s3 = (Inr cs, t)"
    and info: "info = \<lparr>cri_credential_status = cs, cri_serial = None\<rparr>"
    by (auto simp: tsl_create_entry_def sbind_eq_Inr)
  note c = choose_list [OF inv ok0 serial this(1)]
  note added = add_entity [where k = 0 and others = others and l = l and s = s2 and r = "Inr (eid, i)"
      and t = s3, OF ok serial]
  have s3: "inv s3" "lv_owner (view s3 l) = Some ?key" "length (lv_entries (view s l)) \<le> i"
    "length (lv_entries (view s3 l)) = Suc i"
    "rve_id (last (lv_entries (view s3 l))) = eid" "rve_index (last (lv_entries (view s3 l))) = Some i"
    "rve_status (last (lv_entries (view s3 l))) = Active"
    "rve_entity_info (last (lv_entries (view s3 l))) = info_of_entity entity"
    using c add added
    by (auto split: option.splits)
  with status_block [OF s3(1) block] info show ?thesis by auto
qed

end

section \<open>The method over the SQL repository\<close>

text \<open>The method that \<open>token_status_list_new\<close> builds, with the SQL repository.\<close>

definition sql_token_status_list ::
  "related_repositories \<Rightarrow> (revocation_db, 'auth) token_status_list \<Rightarrow> (revocation_db, 'auth) token_status_list" where
  "sql_token_status_list rep m =
     m\<lparr>tm_format := StatusListCredentialFormat.Jwt, tm_repository := revocation_list_provider rep,
       tm_new_uuid := new_uuid, tm_now := db_now\<rparr>"

lemma sql_token_status_list_fields [simp]:
  "tm_format (sql_token_status_list rep m) = StatusListCredentialFormat.Jwt"
  "tm_repository (sql_token_status_list rep m) = revocation_list_provider rep"
  "tm_config_id (sql_token_status_list rep m) = tm_config_id m"
  by (simp_all add: sql_token_status_list_def)

lemma sql_uuid_supply:
  assumes "store_ok k s"
  shows "\<exists>u t. tm_new_uuid (sql_token_status_list rep m) s = (Inr u, t) \<and> store_ok k t \<and> sql_view t = sql_view s"
  using store_ok_cong [OF assms, of "s\<lparr>db_uuids := db_uuids s + 1\<rparr>"] sql_view_cong [of "s\<lparr>db_uuids := db_uuids s + 1\<rparr>" s]
  by (simp add: sql_token_status_list_def new_uuid_def)

interpretation sql_tsl: status_list_service
  "revocation_list_provider rep" "store_ok (tm_config_id m)" sql_view db_now "tm_config_id m"
  "sql_token_status_list rep m"
  for rep m
  by unfold_locales (simp, simp, simp, rule sql_uuid_supply)

end
