(* ===== verification/Simple_Methods.thy ===== *)
theory Simple_Methods
  imports Token_Status_List
begin

text \<open>
  The revocation methods that keep no list of their own: the suspension of an mdoc by the age of its
  MSO (\<open>provider/revocation/mdoc_mso_update_suspension/mod.rs\<close>), which only admits suspensions, and the
  status lists of the 2021 draft (\<open>provider/revocation/status_list_2021.rs\<close>), which are only read.
\<close>

definition not_supported :: "string \<Rightarrow> ('s, 'a) rev_comp" where
  "not_supported reason = sfail (Failure (OperationNotSupported reason))"

section \<open>MDOC\_MSO\_UPDATE\_SUSPENSION\<close>

definition mdoc_mark_credential_as :: "Credential \<Rightarrow> RevocationState \<Rightarrow> ('s, unit) rev_comp" where
  "mdoc_mark_credential_as credential new_state =
     (if new_state = RevocationState.Revoked
      then not_supported ''MDOC_MSO_UPDATE_SUSPENSION: revocation not supported''
      else sret ())"

definition mdoc_mso_update_suspension :: "'s revocation_method" where
  "mdoc_mso_update_suspension =
     \<lparr>rm_get_status_type = ''MDOC_MSO_UPDATE_SUSPENSION'',
      rm_add_issued_credential = (\<lambda>_. sret []),
      rm_mark_credential_as = mdoc_mark_credential_as,
      rm_check_credential_revocation_status =
        (\<lambda>_ _ _. sfail (Failure (ValidationError ''Credential cannot be revoked - status invalid''))),
      rm_add_issued_attestation = (\<lambda>_. not_supported ''Attestations not supported''),
      rm_get_attestation_revocation_info = (\<lambda>_. not_supported ''Attestations not supported''),
      rm_update_attestation_entries = (\<lambda>_ _. not_supported ''Attestations not supported''),
      rm_add_signature = (\<lambda>_ _ _. not_supported ''Signatures not supported''),
      rm_revoke_signature = (\<lambda>_. not_supported ''Signatures not supported''),
      rm_get_updated_list = (\<lambda>_. not_supported ''List not supported''),
      rm_get_capabilities = \<lparr>cap_operations = [Suspend]\<rparr>\<rparr>"

section \<open>StatusList2021\<close>

text \<open>
  The HTTP client, UTF-8, and the parser of a signed list, which takes the DID of the issuer, are
  functions; the list is compressed as in \<open>Status_Bits\<close>.
\<close>

record status_list_2021 =
  sl_http_get :: "string \<Rightarrow> (NestedError, bytes) result"
  sl_from_utf8 :: "bytes \<Rightarrow> (string, string) result"
  sl_parse_status_list :: "string \<Rightarrow> string \<Rightarrow> (error_code, string) result"
  sl_codec :: status_codec

definition status_list_2021_check ::
  "status_list_2021 \<Rightarrow> CredentialStatus \<Rightarrow> IdentifierDetails \<Rightarrow> (RevocationError fault, RevocationState) result" where
  "status_list_2021_check m credential_status issuer_details =
     rbind (case issuer_details of DetailsDid did \<Rightarrow> Inr did
       | _ \<Rightarrow> Inl (Failure (ValidationError ''issuer did is missing''))) (\<lambda>issuer_did.
     rbind (ensure (cs_type credential_status = ''StatusList2021Entry'')
       (Failure (ValidationError (''Invalid credential status type: '' @ cs_type credential_status)))) (\<lambda>_.
     rbind (ok_or (Option.bind (map_of (cs_additional_fields credential_status) ''statusListCredential'') as_str)
       (Failure (ValidationError ''Missing status list url''))) (\<lambda>list_url.
     rbind (ok_or (Option.bind (map_of (cs_additional_fields credential_status) ''statusListIndex'') as_str)
       (Failure (ValidationError ''Missing status list index''))) (\<lambda>index_text.
     rbind (ok_or (parse_usize index_text) (Failure (ValidationError ''Invalid list index''))) (\<lambda>list_index.
     rbind (map_err (Failure \<circ> Nested) (sl_http_get m list_url)) (\<lambda>body.
     rbind (map_err (Failure \<circ> ValidationError) (sl_from_utf8 m body)) (\<lambda>token.
     rbind (map_err (nested_code ''parsing status list'') (sl_parse_status_list m token issuer_did)) (\<lambda>encoded_list.
     rbind (map_err (map_failure (\<lambda>_. Nested (NestedError ''extracting bitstring index'' ''BR_0049'')))
       (extract_bitstring_index (sl_codec m) encoded_list list_index)) (\<lambda>bit.
     if bit then map_err (Failure \<circ> ValidationError)
       (status_purpose_to_revocation_state (cs_status_purpose credential_status))
     else Inr Valid)))))))))"

definition status_list_2021_method :: "status_list_2021 \<Rightarrow> 's revocation_method" where
  "status_list_2021_method m =
     \<lparr>rm_get_status_type = ''StatusList2021Entry'',
      rm_add_issued_credential = (\<lambda>_. not_supported ''StatusList2021''),
      rm_mark_credential_as = (\<lambda>_ _. not_supported ''StatusList2021''),
      rm_check_credential_revocation_status =
        (\<lambda>status issuer _. slift (status_list_2021_check m status issuer)),
      rm_add_issued_attestation = (\<lambda>_. not_supported ''Attestations not supported''),
      rm_get_attestation_revocation_info = (\<lambda>_. not_supported ''Attestations not supported''),
      rm_update_attestation_entries = (\<lambda>_ _. not_supported ''Attestations not supported''),
      rm_add_signature = (\<lambda>_ _ _. not_supported ''Signatures not supported''),
      rm_revoke_signature = (\<lambda>_. not_supported ''Signatures not supported''),
      rm_get_updated_list = (\<lambda>_. not_supported ''List not supported''),
      rm_get_capabilities = \<lparr>cap_operations = [Revoke, Suspend]\<rparr>\<rparr>"

end
