(* ===== verification/Bitstring_Status_List.thy ===== *)
theory Bitstring_Status_List
  imports Status_List_Service Simple_Methods
begin

text \<open>
  The bitstring status list method
  (\<open>one-core/src/provider/revocation/bitstring_status_list/mod.rs\<close>): one list for revocations and one for
  suspensions, each entry one bit. The method is a record with the fields of \<open>BitstringStatusList\<close>; the
  providers outside this development are functions in it, as in \<open>Token_Status_List\<close>. Of the JSON-LD
  formatter with BBS+ signatures (\<open>credential_formatter/json_ld_bbsplus/mod.rs\<close>) the guards of
  \<open>format_status_list\<close> are modelled. What holds over a repository that meets the contract is proved in the
  locale \<open>bitstring_service\<close>, and for the SQL repository by its interpretation \<open>sql_bsl\<close>.
\<close>

section \<open>The method\<close>

text \<open>
  What the method uses of a credential formatter: signing a list, and verifying and decoding a
  credential, of which only the claims are used.
\<close>

record 'auth list_formatter =
  lf_format_status_list :: "'auth status_list_formatter"
  lf_extract_claims :: "string \<Rightarrow> (error_code, (string \<times> json_value) list) result"

record StatusListCacheEntry =
  sce_content :: bytes
  sce_content_type :: "string option"

text \<open>
  \<open>bs_cached_get\<close> returns the content and the media type. \<open>bs_cryptosuite\<close> is the name in the proof of a text
  that is a JSON-LD credential with a proof.
\<close>

record ('s, 'auth) bitstring_status_list =
  bs_config_id :: string
  bs_core_base_url :: "string option"
  bs_format :: StatusListCredentialFormat
  bs_repository :: "'s revocation_list_repository"
  bs_codec :: status_codec
  bs_signature_provider :: "Key \<Rightarrow> string option \<Rightarrow> (error_code, 'auth) result"
  bs_formatter :: "string \<Rightarrow> 'auth list_formatter option"
  bs_cached_get :: "string \<Rightarrow> bool \<Rightarrow> (error_code, bytes \<times> string option) result"
  bs_cache_entry :: "bytes \<Rightarrow> (string, StatusListCacheEntry) result"
  bs_from_utf8 :: "bytes \<Rightarrow> (string, string) result"
  bs_cryptosuite :: "string \<Rightarrow> string option"
  bs_new_uuid :: "('s, RevocationError fault, uuid) comp"
  bs_now :: "'s \<Rightarrow> date_time"

definition BITSTRING_STATUS_TYPE :: string where
  "BITSTRING_STATUS_TYPE = ''BitstringStatusListEntry''"

definition bitstring_status_list_new ::
  "('s, 'auth) bitstring_status_list \<Rightarrow> StatusListCredentialFormat option \<Rightarrow> ('s, 'auth) bitstring_status_list" where
  "bitstring_status_list_new m params =
     m\<lparr>bs_format := (case params of None \<Rightarrow> StatusListCredentialFormat.Jwt | Some format \<Rightarrow> format)\<rparr>"

fun status_purpose_of :: "RevocationListPurpose \<Rightarrow> StatusPurpose" where
  "status_purpose_of Revocation = PurposeRevocation"
| "status_purpose_of Suspension = PurposeSuspension"
| "status_purpose_of RevocationAndSuspension = PurposeRevocationAndSuspension"

fun status_purpose_display :: "StatusPurpose \<Rightarrow> string" where
  "status_purpose_display PurposeRevocation = ''revocation''"
| "status_purpose_display PurposeSuspension = ''suspension''"
| "status_purpose_display PurposeRevocationAndSuspension = ''revocation_and_suspension''"

section \<open>Signing a list\<close>

definition bsl_get_revocation_list_url :: "uuid \<Rightarrow> string option \<Rightarrow> (RevocationError fault, string) result" where
  "bsl_get_revocation_list_url lid core_base_url =
     rbind (ok_or core_base_url (Failure (MappingError ''Host URL not specified''))) (\<lambda>base.
       Inr (base @ ''/ssi/revocation/v1/list/'' @ uuid_text lid))"

definition bsl_formatter_for_issuance ::
  "('s, 'auth) bitstring_status_list \<Rightarrow> Identifier \<Rightarrow> (RevocationError fault, 'auth list_formatter) result" where
  "bsl_formatter_for_issuance m issuer_identifier =
     rbind (ok_or (idf_did issuer_identifier) (Failure (MappingError ''issuer did is None''))) (\<lambda>issuer_did.
     rbind (ok_or (did_keys issuer_did) (Failure (MappingError ''issuer_did keys are None''))) (\<lambda>keys.
     let is_bbs = \<not> list_ex (\<lambda>key. key_type (rel_key key) = ''BBS_PLUS'') keys in
     rbind (case bs_format m of
         StatusListCredentialFormat.Jwt \<Rightarrow> Inr (format_display (bs_format m))
       | StatusListCredentialFormat.JsonLdClassic \<Rightarrow>
           Inr (if is_bbs then ''JSON_LD_BBSPLUS'' else format_display (bs_format m))
       | format \<Rightarrow> Inl (Failure (FormatterNotFound (format_display format)))) (\<lambda>format.
     ok_or (bs_formatter m format) (Failure (FormatterNotFound (format_display (bs_format m)))))))"

definition bsl_format_status_list_credential ::
  "('s, 'auth) bitstring_status_list \<Rightarrow> uuid \<Rightarrow> Identifier \<Rightarrow> string \<Rightarrow> RevocationListPurpose \<Rightarrow>
   'auth list_formatter \<Rightarrow> (RevocationError fault, string) result" where
  "bsl_format_status_list_credential m lid issuer_identifier encoded_list purpose formatter =
     rbind (bsl_get_revocation_list_url lid (bs_core_base_url m)) (\<lambda>url.
     rbind (ensure (idf_type issuer_identifier = IdDid) (Failure (InvalidIdentifierType (idf_type issuer_identifier)))) (\<lambda>_.
     rbind (ok_or (idf_did issuer_identifier) (Failure (MappingError ''issuer did is None''))) (\<lambda>issuer_did.
     rbind (map_err (\<lambda>_. Failure (KeyWithRoleNotFound AssertionMethod))
       (find_first_matching_key issuer_did (role_filter AssertionMethod))) (\<lambda>found.
     rbind (ok_or found (Failure (KeyWithRoleNotFound AssertionMethod))) (\<lambda>related.
     let key_id = verification_method_id issuer_did related; key = rel_key related in
     rbind (map_err (nested_code ''getting signature provider'') (bs_signature_provider m key (Some key_id))) (\<lambda>auth_fn.
     rbind (ok_or (key_algorithm_type key) (Failure (InvalidKeyAlgorithm (key_type key)))) (\<lambda>algorithm_type.
       map_err (nested_code ''formatting status list'')
         (lf_format_status_list formatter url issuer_identifier encoded_list algorithm_type auth_fn
           (status_purpose_of purpose) BitstringStatusList))))))))"

definition get_revocation_entry_state :: "RevocationListEntryStatus \<Rightarrow> RevocationListPurpose \<Rightarrow> bool" where
  "get_revocation_entry_state entry_status purpose =
     (case purpose of
        Revocation \<Rightarrow> entry_status = RevocationListEntryStatus.Revoked
      | Suspension \<Rightarrow> entry_status = RevocationListEntryStatus.Suspended
      | RevocationAndSuspension \<Rightarrow>
          entry_status = RevocationListEntryStatus.Revoked \<or> entry_status = RevocationListEntryStatus.Suspended)"

definition bitstring_error :: "string \<Rightarrow> BitstringError fault \<Rightarrow> RevocationError fault" where
  "bitstring_error context = map_failure (\<lambda>_. Nested (NestedError context ''BR_0049''))"

definition generate_bitstring_from_entries ::
  "status_codec \<Rightarrow> RevocationListEntry list \<Rightarrow> RevocationListPurpose \<Rightarrow> (RevocationError fault, string) result" where
  "generate_bitstring_from_entries c entries purpose =
     rbind (try_map (\<lambda>entry.
       rbind (ok_or (rve_index entry) (Failure (MappingError ''revocation list entry index missing''))) (\<lambda>index.
         Inr (index, get_revocation_entry_state (rve_status entry) purpose))) entries) (\<lambda>states.
     map_err (bitstring_error ''generating bitstring'') (generate_bitstring c states))"

section \<open>The BBS+ formatter\<close>

text \<open>
  \<open>JsonLdBbsplus::format_status_list\<close> up to the construction of the JSON-LD document and its proof, which is
  the function \<open>sign\<close>; \<open>key_algorithm\<close> is \<open>get_key_algorithm\<close> of the signer.
\<close>

definition bbs_format_status_list ::
  "('auth \<Rightarrow> KeyAlgorithmType option) \<Rightarrow> 'auth status_list_formatter \<Rightarrow> 'auth status_list_formatter" where
  "bbs_format_status_list key_algorithm sign url issuer_identifier encoded_list algorithm auth_fn status_purpose status_list_type =
     rbind (ensure (status_list_type = BitstringStatusList) ''BR_0057'') (\<lambda>_.
     rbind (ensure (key_algorithm auth_fn = Some BbsPlus) ''BR_0090'') (\<lambda>_.
       sign url issuer_identifier encoded_list algorithm auth_fn status_purpose status_list_type))"

section \<open>Adding entries\<close>

definition bsl_create_credential_status ::
  "('s, 'auth) bitstring_status_list \<Rightarrow> uuid \<Rightarrow> nat \<Rightarrow> StatusPurpose \<Rightarrow> ('s, CredentialStatus) rev_comp" where
  "bsl_create_credential_status m lid index_on_status_list purpose =
     sbind (slift (bsl_get_revocation_list_url lid (bs_core_base_url m))) (\<lambda>url.
     sbind (bs_new_uuid m) (\<lambda>u.
       sret \<lparr>cs_id = Some (''urn:uuid:'' @ uuid_text u), cs_type = BITSTRING_STATUS_TYPE,
         cs_status_purpose = Some (status_purpose_display purpose),
         cs_additional_fields = [(''statusListCredential'', JsonString url),
           (''statusListIndex'', JsonString (decimal index_on_status_list))]\<rparr>))"

definition start_new_list_for_credential ::
  "('s, 'auth) bitstring_status_list \<Rightarrow> uuid \<Rightarrow> Identifier \<Rightarrow> RevocationListPurpose \<Rightarrow> ('s, uuid) rev_comp" where
  "start_new_list_for_credential m credential_id issuer_identifier purpose =
     sbind (bs_new_uuid m) (\<lambda>revocation_list_id.
     sbind (slift (map_err (bitstring_error ''generating bitstring'') (generate_bitstring (bs_codec m) []))) (\<lambda>encoded_list.
     sbind (slift (bsl_formatter_for_issuance m issuer_identifier)) (\<lambda>formatter.
     sbind (slift (bsl_format_status_list_credential m revocation_list_id issuer_identifier encoded_list purpose formatter)) (\<lambda>list_credential.
     sbind (sread (bs_now m)) (\<lambda>now.
     sbind (smap_err (nested_db ''creating revocation list'')
       (repo_create_revocation_list (bs_repository m)
         \<lparr>rvl_id = revocation_list_id, rvl_created_date = now, rvl_last_modified = now,
          rvl_formatted_list = string_bytes list_credential, rvl_format = bs_format m,
          rvl_type = bs_config_id m, rvl_purpose = purpose, rvl_issuer_identifier = Some issuer_identifier,
          rvl_issuer_certificate = None\<rparr>)) (\<lambda>_.
     sbind (smap_err (nested_db ''creating revocation list entry'')
       (repo_create_entry (bs_repository m) revocation_list_id (EntityCredential credential_id) (Some 0))) (\<lambda>_.
       sret revocation_list_id)))))))"

definition add_credential_attempt ::
  "('s, 'auth) bitstring_status_list \<Rightarrow> uuid \<Rightarrow> uuid \<Rightarrow> ('s \<Rightarrow> 's) \<Rightarrow> ('s, DataLayerError, nat option) comp" where
  "add_credential_attempt m list_id credential_id others =
     sbind (repo_next_free_index (bs_repository m) list_id (Some LockUpdate)) (\<lambda>index.
     sbind (scommitted others) (\<lambda>_ s.
       case repo_create_entry (bs_repository m) list_id (EntityCredential credential_id) (Some index) s of
         (Inr _, t) \<Rightarrow> (Inr (Some index), t)
       | (Inl e, t) \<Rightarrow> (if e = AlreadyExists then (Inr None, t) else (Inl e, t))))"

function add_credential_to_list ::
  "('s, 'auth) bitstring_status_list \<Rightarrow> (nat \<Rightarrow> 's \<Rightarrow> 's) \<Rightarrow> uuid \<Rightarrow> uuid \<Rightarrow> nat \<Rightarrow> ('s, nat) rev_comp" where
  "add_credential_to_list m others list_id credential_id retry_counter =
     sbind (smap_err (nested_db ''creating revocation list entry'')
       (tx (others retry_counter) (add_credential_attempt m list_id credential_id))) (\<lambda>result.
     case result of
       Some index \<Rightarrow> sret index
     | None \<Rightarrow>
         if retry_counter > 100
         then sfail (nested_db ''adding revocation list entry'' (TransactionError ''Too many retries''))
         else add_credential_to_list m others list_id credential_id (retry_counter + 1))"
  by pat_completeness auto

termination
  by (relation "measure (\<lambda>(m, others, list_id, credential_id, retry_counter). 102 - retry_counter)") auto

declare add_credential_to_list.simps [simp del]

text \<open>
  The list of the issuer for a purpose, or a new list with its first entry. A failure of this transaction is
  not looked at: the list that another session may have created is fetched.
\<close>

definition bsl_find_or_start_list ::
  "('s, 'auth) bitstring_status_list \<Rightarrow> uuid \<Rightarrow> Identifier \<Rightarrow> RevocationListPurpose \<Rightarrow> ('s \<Rightarrow> 's) \<Rightarrow>
   ('s, uuid \<times> nat option) rev_comp" where
  "bsl_find_or_start_list m credential_id issuer_identifier purpose others =
     sbind (smap_err (nested_db ''getting revocation list'')
       (repo_get_revocation_by_issuer_identifier_id (bs_repository m) (idf_id issuer_identifier) None purpose
         (bs_config_id m) revocation_list_relations_default)) (\<lambda>current_list.
     sbind (scommitted others) (\<lambda>_.
     case current_list of
       Some li \<Rightarrow> sret (rvl_id li, None)
     | None \<Rightarrow>
         sbind (start_new_list_for_credential m credential_id issuer_identifier purpose) (\<lambda>list_id.
           sret (list_id, Some 0))))"

definition list_for_credential ::
  "('s, 'auth) bitstring_status_list \<Rightarrow> ('s \<Rightarrow> 's) \<Rightarrow> uuid \<Rightarrow> Identifier \<Rightarrow> RevocationListPurpose \<Rightarrow>
   ('s, uuid \<times> nat option) rev_comp" where
  "list_for_credential m others0 credential_id issuer_identifier purpose s =
     (case tx others0 (bsl_find_or_start_list m credential_id issuer_identifier purpose) s of
        (Inr found, t) \<Rightarrow> (Inr found, t)
      | (Inl Panic, t) \<Rightarrow> (Inl Panic, t)
      | (Inl (Failure _), t) \<Rightarrow>
          sbind (smap_err (nested_db ''getting revocation list'')
            (repo_get_revocation_by_issuer_identifier_id (bs_repository m) (idf_id issuer_identifier) None purpose
              (bs_config_id m) revocation_list_relations_default)) (\<lambda>current_list.
          sbind (slift (ok_or current_list (Failure (MappingError ''No revocation list found'')))) (\<lambda>li.
            sret (rvl_id li, None))) t)"

definition create_credential_entry ::
  "('s, 'auth) bitstring_status_list \<Rightarrow> ('s \<Rightarrow> 's) \<Rightarrow> (nat \<Rightarrow> 's \<Rightarrow> 's) \<Rightarrow> uuid \<Rightarrow> Identifier \<Rightarrow> RevocationListPurpose \<Rightarrow>
   ('s, CredentialRevocationInfo) rev_comp" where
  "create_credential_entry m others0 others credential_id issuer_identifier purpose =
     sbind (list_for_credential m others0 credential_id issuer_identifier purpose) (\<lambda>(list_id, maybe_index).
     sbind (case maybe_index of
         Some index \<Rightarrow> sret index
       | None \<Rightarrow> add_credential_to_list m others list_id credential_id 0) (\<lambda>index.
     sbind (bsl_create_credential_status m list_id index (status_purpose_of purpose)) (\<lambda>status.
       sret \<lparr>cri_credential_status = status, cri_serial = None\<rparr>)))"

definition bsl_add_issued_credential ::
  "('s, 'auth) bitstring_status_list \<Rightarrow> ('s \<Rightarrow> 's) \<Rightarrow> (nat \<Rightarrow> 's \<Rightarrow> 's) \<Rightarrow> Credential \<Rightarrow> ('s, CredentialRevocationInfo list) rev_comp" where
  "bsl_add_issued_credential m others0 others credential =
     sbind (slift (ok_or (cred_issuer_identifier credential) (Failure (MappingError ''issuer identifier is None'')))) (\<lambda>issuer_identifier.
     sbind (slift (ok_or (cred_schema credential) (Failure (MappingError ''credential schema is None'')))) (\<lambda>credential_schema.
     sbind (create_credential_entry m others0 others (cred_id credential) issuer_identifier Revocation) (\<lambda>revocation_info.
     if schema_allow_suspension credential_schema then
       sbind (create_credential_entry m others0 others (cred_id credential) issuer_identifier Suspension) (\<lambda>suspension_info.
         sret [revocation_info, suspension_info])
     else sret [revocation_info])))"

section \<open>Changing a status\<close>

definition purpose_of_state :: "RevocationState \<Rightarrow> RevocationListPurpose" where
  "purpose_of_state new_state = (if new_state = RevocationState.Revoked then Revocation else Suspension)"

definition bsl_publish_list ::
  "('s, 'auth) bitstring_status_list \<Rightarrow> ('s \<Rightarrow> 's) \<Rightarrow> uuid \<Rightarrow> Identifier \<Rightarrow> RevocationListPurpose \<Rightarrow> ('s, unit) rev_comp" where
  "bsl_publish_list m others lid issuer_identifier purpose =
     sbind (smap_err (nested_db ''getting revocation list entries'') (repo_get_entries (bs_repository m) lid)) (\<lambda>current_entries.
     sbind (scommitted others) (\<lambda>_.
     sbind (slift (generate_bitstring_from_entries (bs_codec m) current_entries purpose)) (\<lambda>encoded_list.
     sbind (slift (bsl_formatter_for_issuance m issuer_identifier)) (\<lambda>formatter.
     sbind (slift (bsl_format_status_list_credential m lid issuer_identifier encoded_list purpose formatter)) (\<lambda>list_credential.
       smap_err (nested_db ''updating revocation list'')
         (repo_update_formatted_list (bs_repository m) lid (string_bytes list_credential)))))))"

definition bsl_mark_credential_as ::
  "('s, 'auth) bitstring_status_list \<Rightarrow> ('s \<Rightarrow> 's) \<Rightarrow> Credential \<Rightarrow> RevocationState \<Rightarrow> ('s, unit) rev_comp" where
  "bsl_mark_credential_as m others credential new_state =
     sbind (slift (ok_or (cred_issuer_identifier credential) (Failure (MappingError ''issuer identifier is None'')))) (\<lambda>issuer_identifier.
     let purpose = purpose_of_state new_state in
     sbind (smap_err (nested_db ''getting revocation list'')
       (repo_get_revocation_by_issuer_identifier_id (bs_repository m) (idf_id issuer_identifier)
         (map_option cert_id (cred_issuer_certificate credential)) purpose (bs_config_id m)
         revocation_list_relations_default)) (\<lambda>found.
     sbind (slift (ok_or found (Failure (MissingCredentialIndexOnRevocationList (cred_id credential)
       (idf_id issuer_identifier))))) (\<lambda>current_list.
     sbind (smap_err (nested_db ''updating revocation list entry'')
       (repo_update_entry (bs_repository m) (ByCredential (cred_id credential))
         \<lparr>ure_status = Some (status_of_state new_state)\<rparr>)) (\<lambda>_.
       bsl_publish_list m others (rvl_id current_list) issuer_identifier purpose))))"

section \<open>Checking a status\<close>

definition get_formatter_for_parsing ::
  "('s, 'auth) bitstring_status_list \<Rightarrow> string \<Rightarrow> bool \<Rightarrow> (RevocationError fault, 'auth list_formatter) result" where
  "get_formatter_for_parsing m content_type is_bbs =
     rbind (if content_type = ''application/jwt'' then Inr ''JWT''
       else if content_type \<in> {''application/vc+ld+json'', ''application/ld+json'', ''application/json''}
       then Inr (if is_bbs then ''JSON_LD_BBSPLUS'' else ''JSON_LD_CLASSIC'')
       else Inl (Failure (MappingError (''Invalid status list Content-Type: '' @ content_type)))) (\<lambda>format.
     ok_or (bs_formatter m format) (Failure (FormatterNotFound format)))"

definition bsl_check_credential_revocation_status ::
  "('s, 'auth) bitstring_status_list \<Rightarrow> CredentialStatus \<Rightarrow> IdentifierDetails \<Rightarrow> bool \<Rightarrow> (RevocationError fault, RevocationState) result" where
  "bsl_check_credential_revocation_status m credential_status issuer_details force_refresh =
     rbind (ensure (cs_type credential_status = BITSTRING_STATUS_TYPE)
       (Failure (ValidationError (''Invalid credential status type: '' @ cs_type credential_status)))) (\<lambda>_.
     rbind (ok_or (Option.bind (map_of (cs_additional_fields credential_status) ''statusListCredential'') as_str)
       (Failure (ValidationError ''Missing status list url''))) (\<lambda>list_url.
     rbind (ok_or (Option.bind (map_of (cs_additional_fields credential_status) ''statusListIndex'') as_str)
       (Failure (ValidationError ''Missing status list index''))) (\<lambda>index_text.
     rbind (ok_or (parse_usize index_text) (Failure (ValidationError ''Invalid list index''))) (\<lambda>list_index.
     rbind (map_err (nested_code ''getting bitstring status list'') (bs_cached_get m list_url force_refresh)) (\<lambda>(content, media_type).
     rbind (map_err (Failure \<circ> JsonError) (bs_cache_entry m content)) (\<lambda>response.
     rbind (map_err (Failure \<circ> FromUtf8Error) (bs_from_utf8 m (sce_content response))) (\<lambda>response_content.
     let is_bbs = bs_cryptosuite m response_content = Some ''bbs-2023'' in
     rbind (ok_or (case media_type of Some t \<Rightarrow> Some t | None \<Rightarrow> sce_content_type response)
       (Failure (ValidationError ''Missing content type''))) (\<lambda>content_type.
     rbind (get_formatter_for_parsing m content_type is_bbs) (\<lambda>formatter.
     rbind (map_err (nested_code ''parsing status list'') (lf_extract_claims formatter response_content)) (\<lambda>claims.
     rbind (ok_or (Option.bind (map_of claims ''encodedList'') as_str)
       (Failure (ValidationError ''Missing encodedList in status credential''))) (\<lambda>encoded_list.
     rbind (map_err (bitstring_error ''extracting bitstring index'')
       (extract_bitstring_index (bs_codec m) encoded_list list_index)) (\<lambda>bit.
     if bit then map_err (Failure \<circ> ValidationError)
       (status_purpose_to_revocation_state (cs_status_purpose credential_status))
     else Inr Valid))))))))))))"

definition bitstring_status_list_method :: "('s, 'auth) bitstring_status_list \<Rightarrow> 's revocation_method" where
  "bitstring_status_list_method m =
     \<lparr>rm_get_status_type = BITSTRING_STATUS_TYPE,
      rm_add_issued_credential = bsl_add_issued_credential m id (\<lambda>_. id),
      rm_mark_credential_as = bsl_mark_credential_as m id,
      rm_check_credential_revocation_status =
        (\<lambda>status issuer force. slift (bsl_check_credential_revocation_status m status issuer force)),
      rm_add_issued_attestation = (\<lambda>_. not_supported ''Attestations not supported''),
      rm_get_attestation_revocation_info = (\<lambda>_. not_supported ''Attestations not supported''),
      rm_update_attestation_entries = (\<lambda>_ _. not_supported ''Attestations not supported''),
      rm_add_signature = (\<lambda>_ _ _. not_supported ''Signatures not supported''),
      rm_revoke_signature = (\<lambda>_. not_supported ''Signatures not supported''),
      rm_get_updated_list = (\<lambda>_. not_supported ''Updated list not supported''),
      rm_get_capabilities = \<lparr>cap_operations = [Revoke, Suspend]\<rparr>\<rparr>"

section \<open>Reading the bits back\<close>

lemma generate_bitstring_from_dense:
  assumes "codec_round_trip c" and "map rve_index es = map Some [0..<length es]"
  shows "\<exists>t. generate_bitstring_from_entries c es purpose = Inr t \<and>
    (\<forall>i < length es. extract_bitstring_index c t i = Inr (get_revocation_entry_state (rve_status (es ! i)) purpose))"
proof -
  define states where "states = zip [0..<length es] (map (\<lambda>e. get_revocation_entry_state (rve_status e) purpose) es)"
  have len: "length states = length es" by (simp add: states_def)
  have inside: "\<forall>(index, state) \<in> set states. index < calculate_bitstring_size (length states)"
    by (auto simp: states_def calculate_bitstring_size_def dest: set_zip_leftD)
  have "distinct (map fst states)" by (simp add: states_def)
  from bitstring_read_back [OF assms(1) this inside] obtain t where t: "generate_bitstring c states = Inr t"
    and read: "\<And>i. extract_bitstring_index c t i =
      (if i div 8 < (calculate_bitstring_size (length states) + 7) div 8
       then Inr (map_of states i = Some True) else Inl (Failure (BsIndexOutOfBounds i)))"
    by blast
  have "generate_bitstring_from_entries c es purpose = Inr t"
    using t dense_states [OF assms(2), of "Failure (MappingError ''revocation list entry index missing'')"
      "\<lambda>st. get_revocation_entry_state st purpose"]
    by (simp add: generate_bitstring_from_entries_def states_def comp_def)
  moreover have "extract_bitstring_index c t i = Inr (get_revocation_entry_state (rve_status (es ! i)) purpose)"
    if "i < length es" for i
  proof -
    have "i < calculate_bitstring_size (length states)" using that by (simp add: len calculate_bitstring_size_def)
    then have "i div 8 < (calculate_bitstring_size (length states) + 7) div 8" by linarith
    moreover have "map_of states i = Some (get_revocation_entry_state (rve_status (es ! i)) purpose)"
      using map_of_zip_upt [of i "map (\<lambda>e. get_revocation_entry_state (rve_status e) purpose) es"] that
      by (simp add: states_def)
    ultimately show ?thesis by (simp add: read)
  qed
  ultimately show ?thesis by blast
qed

section \<open>The method over a repository\<close>

text \<open>
  What the JWT formatter promises: verifying a list that it signed gives the encoded list that was
  signed. And the issuer can sign: a base URL, a key for assertions, a signer and the formatter.
\<close>

definition signed_bitstring_readable :: "('s, 'auth) bitstring_status_list \<Rightarrow> 'auth list_formatter \<Rightarrow> bool" where
  "signed_bitstring_readable m f \<longleftrightarrow>
     (\<forall>url i enc alg auth purpose out. lf_format_status_list f url i enc alg auth purpose BitstringStatusList = Inr out \<longrightarrow>
        bs_from_utf8 m (string_bytes out) = Inr out \<and>
        (\<exists>claims. lf_extract_claims f out = Inr claims \<and> map_of claims ''encodedList'' = Some (JsonString enc)))"

definition can_sign_bitstring ::
  "('s, 'auth) bitstring_status_list \<Rightarrow> uuid \<Rightarrow> Identifier \<Rightarrow> RevocationListPurpose \<Rightarrow> 'auth list_formatter \<Rightarrow> bool" where
  "can_sign_bitstring m l issuer purpose f \<longleftrightarrow>
     (\<forall>enc. is_ok (bsl_format_status_list_credential m l issuer enc purpose f))"

lemma bsl_format_out:
  assumes "bsl_format_status_list_credential m l issuer enc purpose f = Inr out"
  shows "\<exists>url alg auth. lf_format_status_list f url issuer enc alg auth (status_purpose_of purpose) BitstringStatusList = Inr out"
    and "\<exists>did. idf_did issuer = Some did \<and> did_keys did \<noteq> None"
  using assms by (auto simp: bsl_format_status_list_credential_def Let_def find_first_matching_key_def)

lemma jwt_formatter_for_issuance:
  assumes "bs_format m = StatusListCredentialFormat.Jwt" and "bs_formatter m ''JWT'' = Some f"
    and "bsl_format_status_list_credential m l issuer enc purpose f = Inr out"
  shows "bsl_formatter_for_issuance m issuer = Inr f"
  using bsl_format_out(2) [OF assms(3)] assms(1,2) by (auto simp: bsl_formatter_for_issuance_def Let_def)

text \<open>What a verifier reads at an index of a published text.\<close>

definition published_bit :: "('s, 'auth) bitstring_status_list \<Rightarrow> 'auth list_formatter \<Rightarrow> bytes \<Rightarrow> nat \<Rightarrow> bool option" where
  "published_bit m f text i =
     Option.bind (ok_value (bs_from_utf8 m text)) (\<lambda>content.
     Option.bind (ok_value (lf_extract_claims f content)) (\<lambda>claims.
     Option.bind (Option.bind (map_of claims ''encodedList'') as_str) (\<lambda>enc.
       ok_value (extract_bitstring_index (bs_codec m) enc i))))"

locale bitstring_service =
  revocation_list_contract repo inv view clock method_name
  for repo :: "'s revocation_list_repository" and inv view clock method_name +
  fixes m :: "('s, 'auth) bitstring_status_list"
  assumes repository: "bs_repository m = repo"
    and config: "bs_config_id m = method_name"
    and uuid_supply: "inv s \<Longrightarrow> \<exists>u t. bs_new_uuid m s = (Inr u, t) \<and> inv t \<and> view t = view s"
begin

lemma publish_bits:
  assumes "inv s" and "lv_indexed (view s l)" and "lv_owner (view s l) \<noteq> None"
    and jwt: "bs_format m = StatusListCredentialFormat.Jwt" "bs_formatter m ''JWT'' = Some f"
    and codec: "codec_round_trip (bs_codec m)" and readable: "signed_bitstring_readable m f"
    and sign: "can_sign_bitstring m l issuer purpose f"
  shows "\<exists>t out. bsl_publish_list m id l issuer purpose s = (Inr (), t) \<and> inv t \<and>
    view t = (view s)(l := (view s l)\<lparr>lv_published := Some out\<rparr>) \<and>
    (\<forall>i < length (lv_entries (view s l)).
      published_bit m f out i = Some (get_revocation_entry_state (rve_status (lv_entries (view s l) ! i)) purpose))"
proof -
  obtain enc where enc: "generate_bitstring_from_entries (bs_codec m) (lv_entries (view s l)) purpose = Inr enc"
    and bits: "\<forall>i < length (lv_entries (view s l)). extract_bitstring_index (bs_codec m) enc i =
      Inr (get_revocation_entry_state (rve_status (lv_entries (view s l) ! i)) purpose)"
    using generate_bitstring_from_dense [OF codec dense [OF assms(1,2)]] by blast
  obtain out where out: "bsl_format_status_list_credential m l issuer enc purpose f = Inr out"
    using sign unfolding can_sign_bitstring_def by (metis is_ok_iff)
  obtain t where t: "repo_update_formatted_list repo l (string_bytes out) s = (Inr (), t)"
    using publish_total [OF assms(1,3)] by blast
  obtain claims where "bs_from_utf8 m (string_bytes out) = Inr out" "lf_extract_claims f out = Inr claims"
    "map_of claims ''encodedList'' = Some (JsonString enc)"
    using bsl_format_out(1) [OF out] readable unfolding signed_bitstring_readable_def by blast
  then have "\<forall>i < length (lv_entries (view s l)).
      published_bit m f (string_bytes out) i = Some (get_revocation_entry_state (rve_status (lv_entries (view s l) ! i)) purpose)"
    using bits by (simp add: published_bit_def)
  moreover have "bsl_publish_list m id l issuer purpose s = (Inr (), t)"
    using entries [OF assms(1), of l] enc out t jwt_formatter_for_issuance [OF jwt out]
    by (simp add: bsl_publish_list_def repository sbind_def smap_err_def)
  ultimately show ?thesis using publish [OF assms(1) t] by blast
qed

lemma mark_bits:
  assumes "inv s" and issuer: "cred_issuer_identifier c = Some issuer"
    and owner: "lv_owner (view s l) = Some (idf_id issuer, map_option cert_id (cred_issuer_certificate c),
      purpose_of_state new_state, bs_config_id m)"
    and "bs_format m = StatusListCredentialFormat.Jwt" "bs_formatter m ''JWT'' = Some f"
    and "codec_round_trip (bs_codec m)" and "signed_bitstring_readable m f"
    and "can_sign_bitstring m l issuer (purpose_of_state new_state) f"
  shows "\<exists>t out. bsl_mark_credential_as m id c new_state s = (Inr (), t) \<and> inv t \<and>
    view t = (\<lambda>l'. let v = set_entry_status (ByCredential (cred_id c)) (status_of_state new_state) (clock s) l' (view s l')
      in if l' = l then v\<lparr>lv_published := Some out\<rparr> else v) \<and>
    (\<forall>i < length (lv_entries (view t l)). published_bit m f out i =
      Some (get_revocation_entry_state (rve_status (lv_entries (view t l) ! i)) (purpose_of_state new_state)))"
proof -
  obtain r where r: "repo_get_revocation_by_issuer_identifier_id repo (idf_id issuer)
      (map_option cert_id (cred_issuer_certificate c)) (purpose_of_state new_state) method_name
      revocation_list_relations_default s = (Inr r, s)"
    using find_total by blast
  obtain li where li: "r = Some li"
    using not_found [OF assms(1)] r owner config by (cases r) auto
  have l: "rvl_id li = l"
    using owner_unique [OF assms(1)] found [OF assms(1)] r owner li config by metis
  obtain s1 where s1: "repo_update_entry repo (ByCredential (cred_id c)) \<lparr>ure_status = Some (status_of_state new_state)\<rparr> s = (Inr (), s1)"
    and inv1: "inv s1"
    and view1: "view s1 = (\<lambda>l. set_entry_status (ByCredential (cred_id c)) (status_of_state new_state) (clock s) l (view s l))"
    using update_status [OF assms(1)] by blast
  have "lv_indexed (view s1 l)" "lv_owner (view s1 l) \<noteq> None"
    using method_indexed [OF assms(1)] owner config by (auto simp: view1 set_entry_status_def)
  from publish_bits [OF inv1 this assms(4-8)] obtain t out where
    t: "bsl_publish_list m id l issuer (purpose_of_state new_state) s1 = (Inr (), t)" "inv t"
    "view t = (view s1)(l := (view s1 l)\<lparr>lv_published := Some out\<rparr>)"
    "\<forall>i < length (lv_entries (view s1 l)). published_bit m f out i =
      Some (get_revocation_entry_state (rve_status (lv_entries (view s1 l) ! i)) (purpose_of_state new_state))"
    by blast
  have "bsl_mark_credential_as m id c new_state s = (Inr (), t)"
    using issuer r li l s1 t(1) by (simp add: bsl_mark_credential_as_def repository config sbind_def smap_err_def Let_def)
  moreover have "view t = (\<lambda>l'. let v = set_entry_status (ByCredential (cred_id c)) (status_of_state new_state) (clock s) l' (view s l')
      in if l' = l then v\<lparr>lv_published := Some out\<rparr> else v)"
    unfolding t(3) view1 by (simp add: fun_eq_iff Let_def)
  moreover have "lv_entries (view t l) = lv_entries (view s1 l)" by (simp add: t(3))
  ultimately show ?thesis using t(2,4) by (intro exI [of _ t] exI [of _ out] conjI) simp_all
qed

text \<open>A list that cannot be signed cannot be started, and the cause of the failure is lost.\<close>

lemma unsigned_list_not_started:
  assumes "inv s" and "\<forall>l. lv_owner (view s l) \<noteq> Some (idf_id issuer, None, purpose, bs_config_id m)"
    and "codec_round_trip (bs_codec m)" and "bsl_formatter_for_issuance m issuer = Inr f"
    and "\<And>l enc. \<exists>e. bsl_format_status_list_credential m l issuer enc purpose f = Inl (Failure e)"
  shows "create_credential_entry m id others cid issuer purpose s = (Inl (Failure (MappingError ''No revocation list found'')), s)"
proof -
  have none: "repo_get_revocation_by_issuer_identifier_id repo (idf_id issuer) None purpose method_name
      revocation_list_relations_default s = (Inr None, s)"
    using find_total [of "idf_id issuer" None purpose method_name s] found [OF assms(1)] assms(2) config
    by (metis not_Some_eq)
  obtain u t where u: "bs_new_uuid m s = (Inr u, t)" using uuid_supply [OF assms(1)] by blast
  obtain enc where enc: "generate_bitstring (bs_codec m) [] = Inr enc"
    using bitstring_read_back [OF assms(3), of "[]"] by auto
  obtain e where "bsl_format_status_list_credential m u issuer enc purpose f = Inl (Failure e)" using assms(5) by blast
  then have "fst (bsl_find_or_start_list m cid issuer purpose id s) = Inl (Failure e)"
    using none u enc assms(4)
    by (simp add: bsl_find_or_start_list_def start_new_list_for_credential_def repository config sbind_def smap_err_def)
  then have "tx id (bsl_find_or_start_list m cid issuer purpose) s = (Inl (Failure e), s)"
    by (cases "bsl_find_or_start_list m cid issuer purpose id s") (simp add: tx_def)
  then have "list_for_credential m id cid issuer purpose s = (Inl (Failure (MappingError ''No revocation list found'')), s)"
    using none by (simp add: list_for_credential_def repository config sbind_def smap_err_def)
  then show ?thesis by (simp add: create_credential_entry_def sbind_def)
qed

end

definition sql_bitstring_status_list ::
  "related_repositories \<Rightarrow> (revocation_db, 'auth) bitstring_status_list \<Rightarrow> (revocation_db, 'auth) bitstring_status_list" where
  "sql_bitstring_status_list rep m = m\<lparr>bs_repository := revocation_list_provider rep, bs_new_uuid := new_uuid, bs_now := db_now\<rparr>"

lemma sql_bitstring_fields [simp]:
  "bs_repository (sql_bitstring_status_list rep m) = revocation_list_provider rep"
  "bs_config_id (sql_bitstring_status_list rep m) = bs_config_id m"
  by (simp_all add: sql_bitstring_status_list_def)

lemma sql_bitstring_uuid_supply:
  assumes "store_ok k s"
  shows "\<exists>u t. bs_new_uuid (sql_bitstring_status_list rep m) s = (Inr u, t) \<and> store_ok k t \<and> sql_view t = sql_view s"
  using store_ok_cong [OF assms, of "s\<lparr>db_uuids := db_uuids s + 1\<rparr>"] sql_view_cong [of "s\<lparr>db_uuids := db_uuids s + 1\<rparr>" s]
  by (simp add: sql_bitstring_status_list_def new_uuid_def)

interpretation sql_bsl: bitstring_service
  "revocation_list_provider rep" "store_ok (bs_config_id m)" sql_view db_now "bs_config_id m"
  "sql_bitstring_status_list rep m"
  for rep m
  by unfold_locales (simp, simp, rule sql_bitstring_uuid_supply)

end
