(* ===== verification/Status_List_System.thy ===== *)
theory Status_List_System
  imports Status_List_Service
begin

text \<open>
  The token status lists as a system: the operations of the method as steps of a transition
  relation over the SQL repository, in which issuing runs concurrently with any other steps, and
  the invariant that every published list shows the current statuses.
\<close>

section \<open>Lists that show their entries\<close>

text \<open>
  A list of the method with at most 131072 entries is in sync when its published text shows the
  status of every entry. Beyond that size a new entry is not covered by the text until the next
  publication.
\<close>

definition in_sync :: "('s, 'auth) token_status_list \<Rightarrow> string option \<Rightarrow> list_view \<Rightarrow> bool" where
  "in_sync m did v \<longleftrightarrow>
     (\<forall>i c p. lv_owner v = Some (i, c, p, tm_config_id m) \<longrightarrow> length (lv_entries v) \<le> 131072 \<longrightarrow>
       shows_statuses m did (lv_published v) (lv_entries v))"

text \<open>The entries of a credential are in the list of its issuer.\<close>

definition credentials_at_home :: "(uuid \<Rightarrow> list_owner) \<Rightarrow> list_view \<Rightarrow> bool" where
  "credentials_at_home home v \<longleftrightarrow>
     (\<forall>e \<in> set (lv_entries v). \<forall>c. rve_entity_info e = InfoCredential c \<longrightarrow> lv_owner v = Some (home c))"

definition synced_except ::
  "('s, 'auth) token_status_list \<Rightarrow> string option \<Rightarrow> (uuid \<Rightarrow> list_owner) \<Rightarrow> ('s \<Rightarrow> bool) \<Rightarrow>
   ('s \<Rightarrow> uuid \<Rightarrow> list_view) \<Rightarrow> uuid set \<Rightarrow> 's \<Rightarrow> bool" where
  "synced_except m did home ok view L s \<longleftrightarrow>
     ok s \<and> (\<forall>l. credentials_at_home home (view s l)) \<and> (\<forall>l. l \<notin> L \<longrightarrow> in_sync m did (view s l))"

abbreviation synced ::
  "('s, 'auth) token_status_list \<Rightarrow> string option \<Rightarrow> (uuid \<Rightarrow> list_owner) \<Rightarrow> ('s \<Rightarrow> bool) \<Rightarrow>
   ('s \<Rightarrow> uuid \<Rightarrow> list_view) \<Rightarrow> 's \<Rightarrow> bool" where
  "synced m did home ok view \<equiv> synced_except m did home ok view {}"

definition lists_grow :: "('s \<Rightarrow> uuid \<Rightarrow> list_view) \<Rightarrow> 's \<Rightarrow> 's \<Rightarrow> bool" where
  "lists_grow view s t \<longleftrightarrow>
     (\<forall>l ow. lv_owner (view s l) = Some ow \<longrightarrow> lv_owner (view t l) = Some ow) \<and>
     (\<forall>l. length (lv_entries (view s l)) \<le> length (lv_entries (view t l)))"

text \<open>The codecs and the signed text can be read back.\<close>

definition providers_ok :: "('s, 'auth) token_status_list \<Rightarrow> string option \<Rightarrow> bool" where
  "providers_ok m did \<longleftrightarrow> codec_round_trip (tm_codec m) \<and> signed_list_readable m did"

lemma lists_grow_refl [simp]: "lists_grow view s s"
  by (simp add: lists_grow_def)

lemma lists_grow_trans: "lists_grow view s t \<Longrightarrow> lists_grow view t u \<Longrightarrow> lists_grow view s u"
  unfolding lists_grow_def by (meson order_trans)

lemma grow_step: "P s1 \<and> lists_grow view s s1 \<Longrightarrow> P t \<and> lists_grow view s1 t \<Longrightarrow> P t \<and> lists_grow view s t"
  using lists_grow_trans [of view s s1 t] by simp

lemma lists_grow_view: "view s = view t \<Longrightarrow> lists_grow view s t"
  by (simp add: lists_grow_def)

text \<open>Other sessions that keep a property of the lists.\<close>

definition keeps_synced :: "('s \<Rightarrow> uuid \<Rightarrow> list_view) \<Rightarrow> ('s \<Rightarrow> bool) \<Rightarrow> ('s \<Rightarrow> 's) \<Rightarrow> bool" where
  "keeps_synced view P others \<longleftrightarrow> (\<forall>s. P s \<longrightarrow> P (others s) \<and> lists_grow view s (others s))"

lemma state_at_new: "rve_status e = Active \<Longrightarrow> state_at (es @ [e]) = state_at es"
  by (auto simp: state_at_def fun_eq_iff nth_append less_Suc_eq)

lemma in_sync_new_entry:
  assumes "in_sync m did v" and "rve_status e = Active"
  shows "in_sync m did (v\<lparr>lv_entries := lv_entries v @ [e]\<rparr>)"
  using assms unfolding in_sync_def shows_statuses_def
  by (auto simp: state_at_new max_def)

lemma set_entry_status_unselected:
  assumes "\<forall>e \<in> set (lv_entries v). \<not> view_selected u l e"
  shows "set_entry_status u st now l v = v"
proof -
  have "map (\<lambda>e. if view_selected u l e then e\<lparr>rve_last_modified := now, rve_status := st\<rparr> else e) (lv_entries v) =
      lv_entries v"
    using assms by (simp add: map_idI)
  then show ?thesis by (simp add: set_entry_status_def)
qed

lemma set_entry_status_fields:
  "lv_owner (set_entry_status u st now l v) = lv_owner v"
  "length (lv_entries (set_entry_status u st now l v)) = length (lv_entries v)"
  "map rve_id (lv_entries (set_entry_status u st now l v)) = map rve_id (lv_entries v)"
  by (auto simp: set_entry_status_def)

lemma credentials_at_home_status:
  "credentials_at_home home (set_entry_status u st now l v) \<longleftrightarrow> credentials_at_home home v"
  unfolding credentials_at_home_def list_all_iff [symmetric]
  by (simp add: set_entry_status_def list.pred_map comp_def if_distrib [of rve_entity_info])

section \<open>The operations keep the lists in sync\<close>

context status_list_service
begin

lemma new_entry_synced:
  assumes "synced m did home inv view s" and "inv t" and "rve_status e = Active"
    and "view t = (view s)(l := (view s l)\<lparr>lv_entries := lv_entries (view s l) @ [e]\<rparr>)"
    and "\<forall>c. rve_entity_info e = InfoCredential c \<longrightarrow> lv_owner (view s l) = Some (home c)"
  shows "synced m did home inv view t \<and> lists_grow view s t"
  using assms in_sync_new_entry [of m did "view s l" e]
  by (auto simp: synced_except_def lists_grow_def credentials_at_home_def)

lemma status_synced:
  assumes "synced_except m did home inv view L s"
    and "\<forall>l. l \<noteq> l0 \<longrightarrow> (\<forall>e \<in> set (lv_entries (view s l)). \<not> view_selected u l e)"
    and "repo_update_entry repo u \<lparr>ure_status = Some st\<rparr> s = (r, t)"
  shows "r = Inr () \<and> synced_except m did home inv view (insert l0 L) t \<and> lists_grow view s t"
proof -
  have inv: "inv s" using assms(1) by (simp add: synced_except_def)
  have t: "r = Inr ()" "inv t" "view t = (\<lambda>l. set_entry_status u st (clock s) l (view s l))"
    using update_status [OF inv, of u st] assms(3) by auto
  have "view t l = view s l" if "l \<noteq> l0" for l
    using set_entry_status_unselected assms(2) that by (simp add: t(3))
  with t assms(1) show ?thesis
    by (auto simp: synced_except_def lists_grow_def set_entry_status_fields credentials_at_home_status)
qed

lemma publish_synced:
  assumes prov: "providers_ok m did" and "synced_except m did home inv view {l} s" and "publish_list m id l issuer cert s = (Inr (), t)"
  shows "synced m did home inv view t \<and> lists_grow view s t"
proof -
  have inv: "inv s" using assms(2) by (simp add: synced_except_def)
  obtain out where t: "inv t" "view t = (view s)(l := (view s l)\<lparr>lv_published := Some out\<rparr>)"
    and out: "lv_indexed (view s l) \<longrightarrow> token_fits (length (lv_entries (view s l))) \<longrightarrow>
      shows_statuses m did (Some out) (lv_entries (view s l))"
    using published [of s id did l issuer cert t] inv prov assms(3) by (auto simp: providers_ok_def)
  have "in_sync m did (view t l)"
    using out method_indexed [OF inv] by (auto simp: in_sync_def t(2) config token_fits_def)
  with t assms(2) show ?thesis
    by (auto simp: synced_except_def lists_grow_def credentials_at_home_def)
qed

lemma publish_error_state:
  assumes "inv s" and "publish_list m id l issuer cert s = (Inl e, t)"
  shows "t = s"
  using assms(2) entries [OF assms(1), of l] publish_error
  by (auto simp: publish_list_def repository sbind_eq_Inl sbind_eq_Inr smap_err_eq_Inl)

lemma mark_synced:
  assumes prov: "providers_ok m did" and sync: "synced m did home inv view s" and issuer: "issuer_of_credential c = Inr (issuer, cert)"
    and home: "home (cred_id c) = (idf_id issuer, map_option cert_id cert, RevocationAndSuspension, tm_config_id m)"
    and run: "mark_credential_as m id c new_state s = (Inr (), t)"
  shows "synced m did home inv view t \<and> lists_grow view s t"
proof -
  have inv: "inv s" using sync by (simp add: synced_except_def)
  from run issuer obtain li s0 s1 where li: "repo_get_revocation_by_issuer_identifier_id repo (idf_id issuer)
      (map_option cert_id cert) RevocationAndSuspension method_name revocation_list_relations_default s = (Inr (Some li), s0)"
    and s1: "repo_update_entry repo (ByCredential (cred_id c)) \<lparr>ure_status = Some (status_of_state new_state)\<rparr> s0 = (Inr (), s1)"
    and pub: "publish_list m id (rvl_id li) (Inr issuer) cert s1 = (Inr (), t)"
    by (auto simp: mark_credential_as_def sbind_eq_Inr repository config)
  have own: "s0 = s" "lv_owner (view s (rvl_id li)) = Some (home (cred_id c))"
    using found [OF inv li] home config by auto
  have "\<forall>l. l \<noteq> rvl_id li \<longrightarrow> (\<forall>e \<in> set (lv_entries (view s l)). \<not> view_selected (ByCredential (cred_id c)) l e)"
    using sync owner_unique [OF inv _ own(2)] by (auto simp: synced_except_def credentials_at_home_def)
  from status_synced [OF sync this] s1 own(1)
  have s1: "synced_except m did home inv view {rvl_id li} s1" "lists_grow view s s1" by auto
  show ?thesis using publish_synced [OF prov s1(1) pub] lists_grow_trans [OF s1(2)] by simp
qed

lemma revoke_synced:
  assumes prov: "providers_ok m did" and sync: "synced m did home inv view s" and run: "revoke_signature m id i s = (r, t)"
  shows "synced m did home inv view t \<and> lists_grow view s t"
proof (cases r)
  case (Inl e)
  with run sync show ?thesis by (auto simp: revoke_signature_def tx_eq_Inl)
next
  case (Inr x)
  have inv: "inv s" using sync by (simp add: synced_except_def)
  from run Inr obtain s1 li s2 issuer where s1: "repo_update_entry repo (ById i) \<lparr>ure_status = Some RevocationListEntryStatus.Revoked\<rparr> s = (Inr (), s1)"
    and li: "repo_get_revocation_list_by_entry_id repo i signature_list_relations s1 = (Inr (Some li), s2)"
    and pub: "publish_list m id (rvl_id li) (Inr issuer) (rvl_issuer_certificate li) s2 = (Inr (), t)"
    by (auto simp: revoke_signature_def sbind_eq_Inr repository)
  have view1: "inv s1" "view s1 = (\<lambda>l. set_entry_status (ById i) RevocationListEntryStatus.Revoked (clock s) l (view s l))"
    using update_status [OF inv, of "ById i" RevocationListEntryStatus.Revoked] s1 by auto
  have ids: "rve_id ` set (lv_entries (view s1 l)) = rve_id ` set (lv_entries (view s l))" for l
    unfolding set_map [symmetric] view1(2) set_entry_status_fields ..
  obtain e where e: "s2 = s1" "e \<in> set (lv_entries (view s1 (rvl_id li)))" "rve_id e = i"
    using by_entry [OF view1(1) li] by blast
  have "l = rvl_id li" if "x \<in> set (lv_entries (view s l))" "rve_id x = i" for l x
  proof -
    have "i \<in> rve_id ` set (lv_entries (view s1 l))" unfolding ids using that by auto
    then show ?thesis using entry_unique [OF view1(1) _ e(2), of _ l] e(3) by auto
  qed
  then have "\<forall>l. l \<noteq> rvl_id li \<longrightarrow> (\<forall>e \<in> set (lv_entries (view s l)). \<not> view_selected (ById i) l e)"
    by auto
  from status_synced [OF sync this s1]
  have s1: "synced_except m did home inv view {rvl_id li} s1" "lists_grow view s s1" by auto
  show ?thesis using publish_synced [OF prov s1(1) pub [unfolded e(1)]] lists_grow_trans [OF s1(2)] by simp
qed

lemma group_synced:
  assumes prov: "providers_ok m did" and sync: "synced m did home inv view s" and run: "update_group m new_state g s = (Inr (), t)"
  shows "synced m did home inv view t \<and> lists_grow view s t"
proof -
  obtain li "is" where g: "g = (li, is)" by (cases g)
  from run obtain s1 issuer where s1: "sfor_each (\<lambda>index. smap_err (nested_db ''updating revocation list entry'')
        (repo_update_entry repo (ByIndex (rvl_id li) index)
          \<lparr>ure_status = Some (status_of_state new_state)\<rparr>)) is s = (Inr (), s1)"
    and pub: "publish_list m id (rvl_id li) issuer (rvl_issuer_certificate li) s1 = (Inr (), t)"
    by (auto simp: g update_group_def sbind_eq_Inr repository)
  let ?P = "synced_except m did home inv view {rvl_id li}"
  have "?P s" using sync by (simp add: synced_except_def)
  then have s1': "?P s1 \<and> lists_grow view s s1"
  proof (rule sfor_each_success [OF s1])
    fix i s t
    assume "?P s" and "smap_err (nested_db ''updating revocation list entry'') (repo_update_entry repo (ByIndex (rvl_id li) i)
          \<lparr>ure_status = Some (status_of_state new_state)\<rparr>) s = (Inr (), t)"
    then show "?P t \<and> lists_grow view s t"
      using status_synced [of did home "{rvl_id li}" s "rvl_id li" "ByIndex (rvl_id li) i"] by auto
  qed (fact lists_grow_refl, fact lists_grow_trans)
  show ?thesis using publish_synced [OF prov conjunct1 [OF s1'] pub] lists_grow_trans [OF conjunct2 [OF s1']] by simp
qed

lemma attestations_synced:
  assumes prov: "providers_ok m did" and sync: "synced m did home inv view s" and run: "update_attestation_entries m id keys new_state s = (r, t)"
  shows "synced m did home inv view t \<and> lists_grow view s t"
proof (cases r)
  case (Inl e)
  with run sync show ?thesis by (auto simp: update_attestation_entries_def tx_eq_Inl)
next
  case (Inr x)
  with run have "sfor_each (update_group m new_state) (group_keys keys) s = (Inr (), t)"
    by (auto simp: update_attestation_entries_def sbind_eq_Inr)
  then show ?thesis
    using sync group_synced [OF prov] lists_grow_refl lists_grow_trans by (rule sfor_each_success)
qed

lemma attempt_synced:
  assumes sync: "synced m did home inv view s" and others: "keeps_synced view (synced m did home inv view) others"
    and owner: "lv_owner (view s l) = Some (i, c, p, method_name)" and serial: "entity_serial entity = None"
    and home: "\<forall>c'. info_of_entity entity = InfoCredential c' \<longrightarrow> home c' = (i, c, p, method_name)"
    and run: "tx others (add_entity_attempt m l entity) s = (r, t)"
  shows "synced m did home inv view t \<and> lists_grow view s t"
proof -
  let ?s' = "others s"
  have s': "synced m did home inv view ?s'" "lists_grow view s ?s'"
    using others sync by (auto simp: keeps_synced_def)
  have inv: "inv s" "inv ?s'" using sync s' by (auto simp: synced_except_def)
  have owner': "lv_owner (view ?s' l) = Some (i, c, p, method_name)"
    and grows: "length (lv_entries (view s l)) \<le> length (lv_entries (view ?s' l))"
    using s'(2) owner by (auto simp: lists_grow_def)
  note a = attempt [OF inv method_indexed [OF inv(1) owner] method_indexed [OF inv(2) owner'] grows serial run]
  show ?thesis
  proof (cases r)
    case (Inl e)
    with a s' show ?thesis by simp
  next
    case (Inr res)
    show ?thesis
    proof (cases res)
      case None
      with Inr a have "inv t" "view t = view ?s'" by auto
      with s' show ?thesis by (auto simp: synced_except_def lists_grow_def)
    next
      case (Some x)
      obtain eid k where "x = (eid, k)" by (cases x)
      with Inr Some a owner' home
      have "synced m did home inv view t \<and> lists_grow view ?s' t"
        by (intro new_entry_synced [OF s'(1)]) auto
      with lists_grow_trans [OF s'(2)] show ?thesis by simp
    qed
  qed
qed

lemma add_entity_synced:
  assumes others: "\<And>k. keeps_synced view (synced m did home inv view) (others k)" and serial: "entity_serial entity = None"
    and home: "\<forall>c'. info_of_entity entity = InfoCredential c' \<longrightarrow> home c' = (i, c, p, method_name)"
    and run: "add_entity_to_list m others l entity k s = (r, t)"
    and sync: "synced m did home inv view s" and owner: "lv_owner (view s l) = Some (i, c, p, method_name)"
  shows "synced m did home inv view t \<and> lists_grow view s t"
  using run sync owner
proof (induction "102 - k" arbitrary: k s rule: less_induct)
  case less
  obtain q s1 where a: "tx (others k) (add_entity_attempt m l entity) s = (q, s1)" by fastforce
  have s1: "synced m did home inv view s1" "lists_grow view s s1"
    using attempt_synced [OF less.prems(2) others less.prems(3) serial home a] by auto
  show ?case
  proof (cases "q = Inr None \<and> k \<le> 100")
    case True
    then have again: "add_entity_to_list m others l entity (k + 1) s1 = (r, t)"
      using less.prems(1) add_entity_round [where others = others, OF a] by simp
    have "lv_owner (view s1 l) = Some (i, c, p, method_name)"
      using s1(2) less.prems(3) by (simp add: lists_grow_def)
    moreover have "102 - (k + 1) < 102 - k" using True by linarith
    ultimately have "synced m did home inv view t \<and> lists_grow view s1 t"
      using less.hyps [OF _ again s1(1)] by blast
    with lists_grow_trans [OF s1(2)] show ?thesis by simp
  next
    case False
    then have "t = s1"
      using less.prems(1) add_entity_round [where others = others, OF a]
      by (auto split: sum.splits option.splits if_splits)
    with s1 show ?thesis by simp
  qed
qed

lemma start_synced:
  assumes prov: "providers_ok m did" and sync: "synced m did home inv view s" and serial: "entity_serial entity = None"
    and home: "\<forall>c. info_of_entity entity = InfoCredential c \<longrightarrow>
      home c = (idf_id issuer, map_option cert_id cert, RevocationAndSuspension, method_name)"
    and run: "start_new_list_for_entity m entity issuer cert s = (Inr (l, eid), t)"
  shows "synced m did home inv view t \<and> lists_grow view s t"
proof -
  have inv: "inv s" using sync by (simp add: synced_except_def)
  note new = start_new_list [OF inv serial run, of did]
  obtain e where e: "lv_entries (view t l) = [e]" "rve_status e = Active" "rve_entity_info e = info_of_entity entity"
    using new by auto
  have "shows_statuses m did (lv_published (view t l)) [e]"
    using new prov state_at_new [OF e(2), of "[]"] by (simp add: shows_statuses_def providers_ok_def)
  then have "in_sync m did (view t l)" by (simp add: in_sync_def e(1))
  moreover have "credentials_at_home home (view t l)"
    using new home by (simp add: credentials_at_home_def e config)
  moreover have "lv_entries (view s l) = []" using no_list [OF inv] new by simp
  moreover obtain v where "view t = (view s)(l := v)"
  proof
    show "view t = (view s)(l := view t l)" using new by (auto simp: fun_eq_iff)
  qed
  moreover have "inv t" "lv_owner (view s l) = None" using new by auto
  ultimately show ?thesis using sync by (auto simp: synced_except_def lists_grow_def)
qed

lemma list_synced:
  assumes prov: "providers_ok m did" and sync: "synced m did home inv view s" and others: "keeps_synced view (synced m did home inv view) others0"
    and serial: "entity_serial entity = None"
    and home: "\<forall>c. info_of_entity entity = InfoCredential c \<longrightarrow>
      home c = (idf_id issuer, map_option cert_id cert, RevocationAndSuspension, method_name)"
    and run: "list_for_entry m others0 entity issuer cert s = (r, t)"
  shows "synced m did home inv view t \<and> lists_grow view s t \<and> (\<forall>l. r = Inr (l, None) \<longrightarrow>
    lv_owner (view t l) = Some (idf_id issuer, map_option cert_id cert, RevocationAndSuspension, method_name))"
proof -
  let ?key = "(idf_id issuer, map_option cert_id cert, RevocationAndSuspension, method_name)"
  let ?get = "repo_get_revocation_by_issuer_identifier_id repo (idf_id issuer) (map_option cert_id cert)
    RevocationAndSuspension method_name revocation_list_relations_default"
  have s': "synced m did home inv view (others0 s)" "lists_grow view s (others0 s)"
    using others sync by (auto simp: keeps_synced_def)
  have inv: "inv s" "inv (others0 s)" using sync s' by (auto simp: synced_except_def)
  obtain q s1 where q: "tx others0 (find_or_start_list m entity issuer cert) s = (q, s1)" by fastforce
  obtain x where get: "?get s = (Inr x, s)" using find_total by blast
  obtain y where get': "?get (others0 s) = (Inr y, others0 s)" using find_total by blast
  have owner: "lv_owner (view s (rvl_id li)) = Some ?key" if "x = Some li" for li
    using found [OF inv(1)] get that by blast
  have owner': "lv_owner (view (others0 s) (rvl_id li)) = Some ?key" if "y = Some li" for li
    using found [OF inv(2)] get' that by blast
  show ?thesis
  proof (cases q)
    case (Inl f)
    then have "s1 = others0 s" using q by (auto simp: tx_eq_Inl)
    then have "t = others0 s \<and> (\<forall>l. r = Inr (l, None) \<longrightarrow> (\<exists>li. y = Some li \<and> l = rvl_id li))"
      using run q Inl get'
      by (cases y; cases f)
        (auto simp: list_for_entry_def sbind_def smap_err_def repository config split: if_splits)
    with s' owner' show ?thesis by auto
  next
    case (Inr p)
    with run q have r: "r = Inr p" "t = s1" by (auto simp: list_for_entry_def)
    from Inr q have run': "find_or_start_list m entity issuer cert others0 s = (Inr p, s1)" by simp
    show ?thesis
    proof (cases x)
      case (Some li)
      with run' get have "p = (rvl_id li, None)" "s1 = others0 s"
        by (auto simp: find_or_start_list_def sbind_def smap_err_def repository config)
      with r s' owner [OF Some] show ?thesis by (auto simp: lists_grow_def)
    next
      case None
      with run' get obtain l eid where p: "p = (l, Some eid)"
        and "start_new_list_for_entity m entity issuer cert (others0 s) = (Inr (l, eid), s1)"
        by (auto simp: find_or_start_list_def sbind_eq_Inr repository config)
      from start_synced [OF prov s'(1) serial home this(2)] r p lists_grow_trans [OF s'(2)] show ?thesis by simp
    qed
  qed
qed

lemma create_synced:
  assumes prov: "providers_ok m did" and sync: "synced m did home inv view s" and others0: "keeps_synced view (synced m did home inv view) others0"
    and others: "\<And>k. keeps_synced view (synced m did home inv view) (others k)"
    and serial: "entity_serial entity = None"
    and home: "\<forall>c. info_of_entity entity = InfoCredential c \<longrightarrow>
      home c = (idf_id issuer, map_option cert_id cert, RevocationAndSuspension, method_name)"
    and run: "tsl_create_entry m others0 others entity issuer cert s = (r, t)"
  shows "synced m did home inv view t \<and> lists_grow view s t"
proof -
  obtain q s1 where q: "list_for_entry m others0 entity issuer cert s = (q, s1)" by fastforce
  note l = list_synced [OF prov sync others0 serial home q]
  show ?thesis
  proof (cases q)
    case (Inl e)
    with run q l show ?thesis by (auto simp: tsl_create_entry_def sbind_def)
  next
    case (Inr p)
    obtain lid e where p: "p = (lid, e)" by (cases p)
    obtain q2 s2 where q2: "(case e of Some entry_id \<Rightarrow> sret (entry_id, 0)
        | None \<Rightarrow> add_entity_to_list m others lid entity 0) s1 = (q2, s2)" by fastforce
    have s2: "synced m did home inv view s2 \<and> lists_grow view s s2"
    proof (cases e)
      case None
      with add_entity_synced [where others = others and l = lid and k = 0 and s = s1 and r = q2 and t = s2, OF others serial home] q2 l Inr p
      have "synced m did home inv view s2 \<and> lists_grow view s1 s2" by simp
      with l lists_grow_trans [of view s s1 s2] show ?thesis by simp
    qed (use q2 l in simp)
    have "inv t \<and> view t = view s2"
    proof (cases q2)
      case (Inl e)
      with run q q2 Inr p s2 show ?thesis by (auto simp: tsl_create_entry_def sbind_def synced_except_def)
    next
      case (Inr x)
      obtain eid i where x: "x = (eid, i)" by (cases x)
      obtain q3 s3 where q3: "create_credential_status m lid i s2 = (q3, s3)" by fastforce
      have "t = s3"
        using run q q2 \<open>q = Inr p\<close> p Inr x q3 by (cases q3) (auto simp: tsl_create_entry_def sbind_def)
      moreover have "inv s3 \<and> view s3 = view s2"
        using q3 s2 uuid_state [of s2]
        by (cases "get_revocation_list_url lid (tm_core_base_url m)")
          (auto simp: create_credential_status_def sbind_def synced_except_def split: prod.splits sum.splits)
      ultimately show ?thesis by simp
    qed
    with s2 show ?thesis by (auto simp: synced_except_def lists_grow_def)
  qed
qed

end

section \<open>The system\<close>

text \<open>
  The steps of the system. Issuing, signing and attesting may run while other sessions take any
  steps, in the transaction that looks for the list (\<open>others0\<close>) and in each attempt to add an entry
  (\<open>others\<close>); they count as a step whether they succeed or fail. So do the operations that change
  statuses in a transaction. Marking a credential is not in a transaction and counts when it
  succeeds. Other parts of the system may change the clock, use up UUIDs and change the other tables.
\<close>

inductive status_steps ::
  "(revocation_db, 'auth) token_status_list \<Rightarrow> (uuid \<Rightarrow> list_owner) \<Rightarrow> revocation_db \<Rightarrow> revocation_db \<Rightarrow> bool"
  for m home where
  start: "status_steps m home s s"
| issue: "status_steps m home s s1 \<Longrightarrow> \<forall>u. status_steps m home u (others0 u) \<Longrightarrow>
    \<forall>k u. status_steps m home u (others k u) \<Longrightarrow>
    \<forall>issuer cert. issuer_of_credential c = Inr (issuer, cert) \<longrightarrow>
      home (cred_id c) = (idf_id issuer, map_option cert_id cert, RevocationAndSuspension, tm_config_id m) \<Longrightarrow>
    add_issued_credential m others0 others c s1 = (r, t) \<Longrightarrow> status_steps m home s t"
| sign: "status_steps m home s s1 \<Longrightarrow> \<forall>u. status_steps m home u (others0 u) \<Longrightarrow>
    \<forall>k u. status_steps m home u (others k u) \<Longrightarrow>
    add_signature m others0 others signature_type issuer cert s1 = (r', t) \<Longrightarrow> status_steps m home s t"
| attest: "status_steps m home s s1 \<Longrightarrow> \<forall>u. status_steps m home u (others0 u) \<Longrightarrow>
    \<forall>k u. status_steps m home u (others k u) \<Longrightarrow>
    add_issued_attestation m others0 others attestation s1 = (r'', t) \<Longrightarrow> status_steps m home s t"
| mark: "status_steps m home s s1 \<Longrightarrow> issuer_of_credential c = Inr (issuer, cert) \<Longrightarrow>
    home (cred_id c) = (idf_id issuer, map_option cert_id cert, RevocationAndSuspension, tm_config_id m) \<Longrightarrow>
    mark_credential_as m id c new_state s1 = (Inr (), t) \<Longrightarrow> status_steps m home s t"
| revoke: "status_steps m home s s1 \<Longrightarrow> revoke_signature m id signature_id s1 = (r3, t) \<Longrightarrow>
    status_steps m home s t"
| attestations: "status_steps m home s s1 \<Longrightarrow> update_attestation_entries m id keys new_state s1 = (r3, t) \<Longrightarrow>
    status_steps m home s t"
| outside: "status_steps m home s s1 \<Longrightarrow> db_lists t = db_lists s1 \<Longrightarrow> db_entries t = db_entries s1 \<Longrightarrow>
    db_uuids s1 \<le> db_uuids t \<Longrightarrow> status_steps m home s t"

lemma outside_synced:
  assumes "synced M did home (store_ok k) sql_view s"
    and "db_lists t = db_lists s" "db_entries t = db_entries s" "db_uuids s \<le> db_uuids t"
  shows "synced M did home (store_ok k) sql_view t \<and> lists_grow sql_view s t"
  using assms store_ok_cong [of k s t] sql_view_cong [of t s]
  by (auto simp: synced_except_def lists_grow_def)

lemma create_result_state:
  "add_issued_credential m others0 others c s = (r, t) \<Longrightarrow>
     t = s \<or> (\<exists>issuer cert q. issuer_of_credential c = Inr (issuer, cert) \<and>
       tsl_create_entry m others0 others (EntityCredential (cred_id c)) issuer cert s = (q, t))"
  "add_issued_attestation m others0 others a s = (r', t) \<Longrightarrow>
     t = s \<or> (\<exists>k issuer cert q. tsl_create_entry m others0 others (EntityWalletUnitAttestedKey k) issuer cert s = (q, t))"
  unfolding add_issued_credential_def add_issued_attestation_def sbind_def
  by (auto split: prod.splits sum.splits simp: Let_def)

lemma create_step:
  assumes M: "M = sql_token_status_list rep m" and prov: "providers_ok M did"
    and sync: "synced M did home (store_ok (tm_config_id m)) sql_view s"
    and "\<forall>u. status_steps M home u (others0 u) \<and> (synced M did home (store_ok (tm_config_id m)) sql_view u \<longrightarrow>
      synced M did home (store_ok (tm_config_id m)) sql_view (others0 u) \<and> lists_grow sql_view u (others0 u))"
    and "\<forall>k u. status_steps M home u (others k u) \<and> (synced M did home (store_ok (tm_config_id m)) sql_view u \<longrightarrow>
      synced M did home (store_ok (tm_config_id m)) sql_view (others k u) \<and> lists_grow sql_view u (others k u))"
    and "entity_serial entity = None"
    and "\<forall>c. info_of_entity entity = InfoCredential c \<longrightarrow>
      home c = (idf_id issuer, map_option cert_id cert, RevocationAndSuspension, tm_config_id m)"
    and "tsl_create_entry M others0 others entity issuer cert s = (r, t)"
  shows "synced M did home (store_ok (tm_config_id m)) sql_view t \<and> lists_grow sql_view s t"
  using sql_tsl.create_synced [of rep m did home s others0 others entity issuer cert r t] assms
  by (auto simp: keeps_synced_def)

lemma steps_synced:
  assumes "status_steps M home s t" and M: "M = sql_token_status_list rep m" and prov: "providers_ok M did"
    and "synced M did home (store_ok (tm_config_id m)) sql_view s"
  shows "synced M did home (store_ok (tm_config_id m)) sql_view t \<and> lists_grow sql_view s t"
  using assms(1,4)
proof (induction rule: status_steps.induct)
  case (issue s s1 others0 others c r t)
  then have s1: "synced M did home (store_ok (tm_config_id m)) sql_view s1 \<and> lists_grow sql_view s s1" by simp
  note create = create_step [OF M prov conjunct1 [OF s1] issue.IH(2,3)]
  have "synced M did home (store_ok (tm_config_id m)) sql_view t \<and> lists_grow sql_view s1 t"
    using create_result_state(1) [OF issue.hyps(3)]
  proof
    assume "\<exists>issuer cert q. issuer_of_credential c = Inr (issuer, cert) \<and>
       tsl_create_entry M others0 others (EntityCredential (cred_id c)) issuer cert s1 = (q, t)"
    then show ?thesis using create issue.hyps(2) M by force
  qed (use s1 in simp)
  with s1 show ?case by (rule grow_step)
next
  case (sign s s1 others0 others signature_type issuer cert r t)
  then have s1: "synced M did home (store_ok (tm_config_id m)) sql_view s1 \<and> lists_grow sql_view s s1" by simp
  from create_step [OF M prov conjunct1 [OF s1] sign.IH(2,3) _ _ sign.hyps(2) [unfolded add_signature_def]]
  have "synced M did home (store_ok (tm_config_id m)) sql_view t \<and> lists_grow sql_view s1 t" by simp
  with s1 show ?case by (rule grow_step)
next
  case (attest s s1 others0 others attestation r t)
  then have s1: "synced M did home (store_ok (tm_config_id m)) sql_view s1 \<and> lists_grow sql_view s s1" by simp
  note create = create_step [OF M prov conjunct1 [OF s1] attest.IH(2,3)]
  have "synced M did home (store_ok (tm_config_id m)) sql_view t \<and> lists_grow sql_view s1 t"
    using create_result_state(2) [OF attest.hyps(2)]
  proof
    assume "\<exists>k issuer cert q. tsl_create_entry M others0 others (EntityWalletUnitAttestedKey k) issuer cert s1 = (q, t)"
    then show ?thesis using create by force
  qed (use s1 in simp)
  with s1 show ?case by (rule grow_step)
next
  case (mark s s1 c issuer cert new_state t)
  then have s1: "synced M did home (store_ok (tm_config_id m)) sql_view s1 \<and> lists_grow sql_view s s1" by simp
  from sql_tsl.mark_synced [of rep m did home s1 c issuer cert new_state t] mark.hyps prov s1
  have "synced M did home (store_ok (tm_config_id m)) sql_view t \<and> lists_grow sql_view s1 t" by (simp add: M)
  with s1 show ?case by (rule grow_step)
next
  case (revoke s s1 i r t)
  then have s1: "synced M did home (store_ok (tm_config_id m)) sql_view s1 \<and> lists_grow sql_view s s1" by simp
  from sql_tsl.revoke_synced [of rep m did home s1 i r t] revoke.hyps prov s1
  have "synced M did home (store_ok (tm_config_id m)) sql_view t \<and> lists_grow sql_view s1 t" by (simp add: M)
  with s1 show ?case by (rule grow_step)
next
  case (attestations s s1 keys new_state r t)
  then have s1: "synced M did home (store_ok (tm_config_id m)) sql_view s1 \<and> lists_grow sql_view s s1" by simp
  from sql_tsl.attestations_synced [of rep m did home s1 keys new_state r t] attestations.hyps prov s1
  have "synced M did home (store_ok (tm_config_id m)) sql_view t \<and> lists_grow sql_view s1 t" by (simp add: M)
  with s1 show ?case by (rule grow_step)
next
  case (outside s s1 t)
  then have s1: "synced M did home (store_ok (tm_config_id m)) sql_view s1 \<and> lists_grow sql_view s s1" by simp
  from s1 outside_synced [OF conjunct1 [OF s1] outside.hyps(2-4)] show ?case by (rule grow_step)
qed simp

end
