(* ===== verification/Status_List_Properties.thy ===== *)
theory Status_List_Properties
  imports Status_List_System
begin

text \<open>
  What the token status list method guarantees over the SQL repository, and where it does not:
  the result of a status check, fresh indexes under concurrency, progress and failure of the
  retry loop, the effect of marking a credential, and two ways in which the published list can
  fall behind the entries.
\<close>

section \<open>Reading a status\<close>

lemma ok_value_eq_Some: "ok_value r = Some x \<longleftrightarrow> r = Inr x"
  by (cases r) simp_all

lemma empty_store_synced:
  assumes "db_lists s = []" and "db_entries s = []"
  shows "synced M did home (store_ok k) sql_view s"
  using assms by (simp add: synced_except_def store_ok_def credentials_at_home_def in_sync_def sql_view_def rows_of_def)

lemma dense_nth:
  assumes "map rve_index es = map Some [0..<length es]" and "e \<in> set es" and "rve_index e = Some k"
  shows "k < length es \<and> es ! k = e"
proof -
  obtain j where j: "j < length es" "es ! j = e" using assms(2) by (auto simp: in_set_conv_nth)
  with arg_cong [OF assms(1), of "\<lambda>xs. xs ! j"] assms(3) show ?thesis by simp
qed

lemma check_published:
  assumes "published_state M did text k = Some state" and "k < 2 ^ 64"
    and "did = (case details of DetailsDid d \<Rightarrow> Some d | _ \<Rightarrow> None)"
    and "get url force = Inr content" and "unwrap content = Inr text"
    and "cs_type cs = CREDENTIAL_STATUS_TYPE"
    and "cs_additional_fields cs = [(URI_KEY, JsonString url), (INDEX_KEY, JsonString (decimal k))]"
  shows "check_credential_revocation_status (M\<lparr>tm_cached_get := get, tm_cache_entry_content := unwrap\<rparr>) cs details force =
    Inr state"
proof -
  from assms(1) obtain content' sl where "tm_from_utf8 M text = Inr content'"
    and "tm_jwt_status_list M content' did = Inr sl"
    and "extract_state_from_token (tm_codec M) sl k = Inr state"
    by (auto simp: published_state_def bind_eq_Some_conv ok_value_eq_Some)
  with assms(2-) show ?thesis
    by (simp add: check_credential_revocation_status_def URI_KEY_def INDEX_KEY_def parse_usize_decimal)
qed


section \<open>Issuing\<close>

text \<open>
  C12. An issued credential gets an index of its own, whatever other sessions commit in the
  meantime. When \<open>add_issued_credential\<close> succeeds, the list of the issuer has one entry with the
  returned index; the entry is new, active and belongs to the credential, and the status block
  names the URL of that list and that index.
\<close>

theorem add_issued_credential_fresh:
  assumes "M = sql_token_status_list rep m" and "store_ok (tm_config_id m) s"
    and "other_sessions_ok (store_ok (tm_config_id m)) sql_view others0"
    and "\<forall>k. other_sessions_ok (store_ok (tm_config_id m)) sql_view (others k)"
    and "issuer_of_credential credential = Inr (issuer, cert)"
    and "add_issued_credential M others0 others credential s = (Inr infos, t)"
  shows "store_ok (tm_config_id m) t \<and> (\<exists>l i e url info.
    lv_owner (sql_view t l) = Some (idf_id issuer, map_option cert_id cert, RevocationAndSuspension, tm_config_id m) \<and>
    {x \<in> set (lv_entries (sql_view t l)). rve_index x = Some i} = {e} \<and>
    length (lv_entries (sql_view s l)) \<le> i \<and> i < length (lv_entries (sql_view t l)) \<and>
    rve_status e = Active \<and> rve_entity_info e = InfoCredential (cred_id credential) \<and>
    get_revocation_list_url l (tm_core_base_url M) = Inr url \<and> infos = [info] \<and>
    cs_type (cri_credential_status info) = CREDENTIAL_STATUS_TYPE \<and>
    cs_additional_fields (cri_credential_status info) =
      [(URI_KEY, JsonString url), (INDEX_KEY, JsonString (decimal i))])"
proof -
  from assms(5,6) obtain eid info where run: "tsl_create_entry (sql_token_status_list rep m) others0 others
      (EntityCredential (cred_id credential)) issuer cert s = (Inr (eid, info), t)" and infos: "infos = [info]"
    by (auto simp: add_issued_credential_def sbind_eq_Inr assms(1))
  obtain l i url where t: "store_ok (tm_config_id m) t"
    and owner: "lv_owner (sql_view t l) = Some (idf_id issuer, map_option cert_id cert, RevocationAndSuspension, tm_config_id m)"
    and i: "length (lv_entries (sql_view s l)) \<le> i" "length (lv_entries (sql_view t l)) = Suc i"
    and e: "rve_index (last (lv_entries (sql_view t l))) = Some i" "rve_status (last (lv_entries (sql_view t l))) = Active"
      "rve_entity_info (last (lv_entries (sql_view t l))) = InfoCredential (cred_id credential)"
    and block: "get_revocation_list_url l (tm_core_base_url (sql_token_status_list rep m)) = Inr url"
      "cs_type (cri_credential_status info) = CREDENTIAL_STATUS_TYPE"
      "cs_additional_fields (cri_credential_status info) = [(URI_KEY, JsonString url), (INDEX_KEY, JsonString (decimal i))]"
    using sql_tsl.create [OF assms(2,3) assms(4) [rule_format] _ run] by auto
  let ?es = "lv_entries (sql_view t l)"
  have mem: "last ?es \<in> set ?es" using i(2) by (intro last_in_set) auto
  have "lv_indexed (sql_view t l)" using sql_store.method_indexed [OF t] owner by blast
  note nth = dense_nth [OF sql_store.dense [OF t this]]
  have "x = last ?es" if "x \<in> set ?es" "rve_index x = Some i" for x
    using nth [OF that] nth [OF mem e(1)] by simp
  then have "{x \<in> set ?es. rve_index x = Some i} = {last ?es}" using mem e(1) by blast
  with t owner i e block infos show ?thesis
    by (intro conjI exI [of _ l] exI [of _ i] exI [of _ "last ?es"] exI [of _ url] exI [of _ info])
      (simp_all add: assms(1))
qed

text \<open>Whether the rows an entry refers to exist.\<close>

fun registered :: "RevocationListEntityId \<Rightarrow> revocation_db \<Rightarrow> bool" where
  "registered (EntityCredential c) s \<longleftrightarrow> c \<in> set (db_credential_ids s)"
| "registered (EntitySignature t serial) s \<longleftrightarrow> True"
| "registered (EntityWalletUnitAttestedKey k) s \<longleftrightarrow> k \<in> akr_id ` set (db_attested_keys s)"

lemma create_entry_registered:
  assumes "store_ok k s" and "lv_owner (sql_view s l) \<noteq> None" and "registered entity s"
    and "entity_serial entity = None" and "create_entry l entity (Some i) s = (Inl e, t)"
  shows "e = AlreadyExists"
proof -
  have "l \<in> lr_id ` set (db_lists s)" using assms(2) by (simp only: owner_exists)
  with assms(3-) show ?thesis
    by (cases entity)
      (auto simp: create_entry_def sbind_eq_Inl sbind_eq_Inr smap_err_eq_Inl now_utc_def new_uuid_def insert_entry_def
        update_attested_key_def split: if_splits)
qed

lemma create_entry_error_registered:
  assumes "create_entry l entity (Some i) s = (Inl AlreadyExists, t)" and "registered entity s"
  shows "registered entity t"
  using assms
  by (cases entity)
    (auto simp: create_entry_def sbind_eq_Inl sbind_eq_Inr smap_err_eq_Inl now_utc_def new_uuid_def insert_entry_def
      update_attested_key_def split: if_splits)

text \<open>An attempt of a registered entity does not fail: it adds the entry or finds the index taken.\<close>

lemma attempt_registered:
  assumes M: "M = sql_token_status_list rep m" and ok: "store_ok (tm_config_id m) s" "store_ok (tm_config_id m) (others s)"
    and owner: "lv_owner (sql_view s l) \<noteq> None" "lv_owner (sql_view (others s) l) \<noteq> None"
    and reg: "registered entity (others s)" and serial: "entity_serial entity = None"
    and run: "tx others (add_entity_attempt M l entity) s = (q, t)"
  shows "\<exists>x. q = Inr x \<and> (x = None \<longrightarrow> registered entity t)"
proof -
  obtain i where i: "next_free_index l (Some LockUpdate) s = (Inr i, s)"
    using sql_next_index_total [OF owner(1)] by blast
  obtain r t' where r: "create_entry l entity (Some i) (others s) = (r, t')" by fastforce
  have "add_entity_attempt M l entity others s =
      (case r of Inr entry_id \<Rightarrow> (Inr (Some (entry_id, i)), t')
       | Inl e \<Rightarrow> if e = AlreadyExists then (Inr None, t') else (Inl e, t'))"
    using i r by (simp add: M add_entity_attempt_def sbind_def provider_simps split: sum.split)
  moreover have "e = AlreadyExists \<and> registered entity t'" if "r = Inl e" for e
    using create_entry_registered [OF ok(2) owner(2) reg serial] create_entry_error_registered [OF _ reg] r that by blast
  ultimately show ?thesis using run by (cases r) (auto simp: tx_def)
qed

text \<open>
  C21. The retry loop succeeds once it is left alone: if the list exists and has room, the entity
  is registered, and in one of the 102 attempts no other session interferes, then
  \<open>add_entity_to_list\<close> returns an entry, whatever other sessions commit in the other attempts.
\<close>

theorem add_entity_to_list_succeeds:
  assumes "M = sql_token_status_list rep m" and "entity_serial entity = None"
    and "\<forall>k. other_sessions_ok (store_ok (tm_config_id m)) sql_view (others k)"
    and "\<forall>k u. registered entity u \<longrightarrow> registered entity (others k u)"
    and "\<forall>k u. length (lv_entries (sql_view u l)) < 2 ^ 32 \<longrightarrow> length (lv_entries (sql_view (others k u) l)) < 2 ^ 32"
    and "quiet \<le> 101" and "others quiet = id"
    and "store_ok (tm_config_id m) s" and "lv_owner (sql_view s l) = Some (i, c, p, tm_config_id m)"
    and "registered entity s" and "length (lv_entries (sql_view s l)) < 2 ^ 32"
  shows "\<exists>eid n t. add_entity_to_list M others l entity 0 s = (Inr (eid, n), t)"
proof -
  have "\<exists>x t. add_entity_to_list M others l entity k s = (Inr x, t)"
    if "k \<le> quiet" "store_ok (tm_config_id m) s" "lv_owner (sql_view s l) = Some (i, c, p, tm_config_id m)"
      "registered entity s" "length (lv_entries (sql_view s l)) < 2 ^ 32" for k s
    using that
  proof (induction "quiet - k" arbitrary: k s rule: less_induct)
    case less
    let ?s' = "others k s"
    have o: "store_ok (tm_config_id m) ?s'" "lv_owner (sql_view ?s' l) = Some (i, c, p, tm_config_id m)"
      "length (lv_entries (sql_view s l)) \<le> length (lv_entries (sql_view ?s' l))"
      using assms(3) less.prems(2,3) by (auto simp: other_sessions_ok_def)
    have small: "length (lv_entries (sql_view ?s' l)) < 2 ^ 32" and reg: "registered entity ?s'"
      using assms(4,5) less.prems(4,5) by auto
    note ix = sql_store.method_indexed [OF less.prems(2,3)] sql_store.method_indexed [OF o(1,2)]
    obtain q s1 where a: "tx (others k) (add_entity_attempt M l entity) s = (q, s1)" by fastforce
    have at: "\<exists>x. q = Inr x \<and> (x = None \<longrightarrow> registered entity s1)"
      by (rule attempt_registered [OF assms(1) less.prems(2) o(1) _ _ reg assms(2) a]) (simp_all add: less.prems(3) o(2))
    then obtain x where x: "q = Inr x" by blast
    show ?case
    proof (cases x)
      case (Some y)
      with add_entity_round [where others = others, OF a] x show ?thesis by simp
    next
      case None
      with sql_tsl.attempt [OF less.prems(2) o(1) ix o(3) assms(2) a [unfolded assms(1)]] x less.prems(5)
      have s1: "store_ok (tm_config_id m) s1" "sql_view s1 = sql_view ?s'"
        and grown: "length (lv_entries (sql_view s l)) < length (lv_entries (sql_view ?s' l))" by auto
      have "k \<noteq> quiet" using grown assms(7) by auto
      then have k: "quiet - (k + 1) < quiet - k" "k + 1 \<le> quiet" "\<not> k > 100" using less.prems(1) assms(6) by linarith+
      have "\<exists>x t. add_entity_to_list M others l entity (k + 1) s1 = (Inr x, t)"
        using less.hyps [OF k(1,2) s1(1)] s1(2) o(2) small at x None by simp
      with add_entity_round [where others = others, OF a] x None k(3) show ?thesis by simp
    qed
  qed
  from this [of 0 s] assms(8-11) show ?thesis by auto
qed

text \<open>
  C22. The retry loop gives up with \<open>Too many retries\<close> when another session adds an entry to the
  list in each of its 102 attempts.
\<close>

theorem add_entity_to_list_too_many_retries:
  assumes "M = sql_token_status_list rep m" and "entity_serial entity = None"
    and "store_ok (tm_config_id m) s" and "lv_owner (sql_view s l) = Some (i, c, p, tm_config_id m)"
    and "length (lv_entries (sql_view s l)) + 102 \<le> 2 ^ 32"
    and "\<forall>k u. store_ok (tm_config_id m) u \<and> lv_owner (sql_view u l) = Some (i, c, p, tm_config_id m) \<and>
        length (lv_entries (sql_view u l)) < 2 ^ 32 \<longrightarrow>
      store_ok (tm_config_id m) (others k u) \<and> lv_owner (sql_view (others k u) l) = Some (i, c, p, tm_config_id m) \<and>
      length (lv_entries (sql_view (others k u) l)) = Suc (length (lv_entries (sql_view u l)))"
  shows "\<exists>t. add_entity_to_list M others l entity 0 s =
    (Inl (nested_db ''adding revocation list entry'' (TransactionError ''Too many retries'')), t)"
  unfolding assms(1)
  by (rule sql_tsl.too_many_retries [where N = "2 ^ 32"]) (use assms(2-6) in auto)

section \<open>Marking a credential\<close>

abbreviation marked :: "Credential \<Rightarrow> RevocationState \<Rightarrow> date_time \<Rightarrow> RevocationListEntry list \<Rightarrow> RevocationListEntry list" where
  "marked c new_state now \<equiv> map (\<lambda>e. if rve_entity_info e = InfoCredential (cred_id c)
     then e\<lparr>rve_last_modified := now, rve_status := status_of_state new_state\<rparr> else e)"

lemma marking_publishes:
  assumes "M = sql_token_status_list rep m" and "providers_ok M did" and "store_ok (tm_config_id m) s"
    and "issuer_of_credential credential = Inr (issuer, cert)"
    and "lv_owner (sql_view s l) = Some (idf_id issuer, map_option cert_id cert, RevocationAndSuspension, tm_config_id m)"
    and "token_fits (length (lv_entries (sql_view s l)))" and "can_sign M l issuer cert"
  shows "\<exists>t text. mark_credential_as M id credential new_state s = (Inr (), t) \<and> store_ok (tm_config_id m) t \<and>
    lv_owner (sql_view t l) = lv_owner (sql_view s l) \<and>
    lv_entries (sql_view t l) = marked credential new_state (db_now s) (lv_entries (sql_view s l)) \<and>
    lv_published (sql_view t l) = Some text \<and>
    (\<forall>k < length (lv_entries (sql_view t l)).
      published_state M did text k = Some (state_of_status (rve_status (lv_entries (sql_view t l) ! k))))"
proof -
  have prov: "codec_round_trip (tm_codec M)" "signed_list_readable M did"
    using assms(2) by (auto simp: providers_ok_def)
  obtain s1 t out where run: "mark_credential_as M id credential new_state s = (Inr (), t)" and "store_ok (tm_config_id m) t"
    and s1: "sql_view s1 = (\<lambda>l. set_entry_status (ByCredential (cred_id credential)) (status_of_state new_state) (db_now s) l (sql_view s l))"
    and t: "sql_view t = (sql_view s1)(l := (sql_view s1 l)\<lparr>lv_published := Some out\<rparr>)"
    and out: "shows_statuses M did (Some out) (lv_entries (sql_view s1 l))"
    using sql_tsl.mark [of m s credential issuer cert l rep did new_state id] assms prov
    by (auto simp: set_entry_status_def)
  have "lv_entries (sql_view t l) = marked credential new_state (db_now s) (lv_entries (sql_view s l))"
    by (simp add: t s1 set_entry_status_def)
  moreover have "lv_owner (sql_view t l) = lv_owner (sql_view s l)"
    by (simp add: t s1 set_entry_status_def)
  moreover have "\<forall>k < length (lv_entries (sql_view t l)).
      published_state M did out k = Some (state_of_status (rve_status (lv_entries (sql_view t l) ! k)))"
    using out by (auto simp: shows_statuses_def state_at_def t)
  ultimately show ?thesis using run \<open>store_ok (tm_config_id m) t\<close> by (auto simp: t)
qed


text \<open>
  C23. Marking is not a transaction. When it fails after it found the list, for whatever reason,
  the entries of the credential already have the new status, in every list, while every
  published list is what it was before.
\<close>

theorem mark_credential_as_failure:
  assumes "M = sql_token_status_list rep m" and "store_ok (tm_config_id m) s"
    and "issuer_of_credential credential = Inr (issuer, cert)"
    and "lv_owner (sql_view s l) = Some (idf_id issuer, map_option cert_id cert, RevocationAndSuspension, tm_config_id m)"
    and "mark_credential_as M id credential new_state s = (Inl e, t)"
  shows "lv_entries (sql_view t l') = marked credential new_state (db_now s) (lv_entries (sql_view s l')) \<and>
    lv_published (sql_view t l') = lv_published (sql_view s l')"
proof -
  let ?get = "get_revocation_by_issuer_identifier_id rep (idf_id issuer) (map_option cert_id cert)
    RevocationAndSuspension (tm_config_id m) revocation_list_relations_default"
  obtain x where get: "?get s = (Inr x, s)" using sql_find_total by blast
  obtain li where li: "x = Some li"
    using sql_not_found get assms(4) by (cases x) blast+
  obtain s1 where s1: "update_entry (ByCredential (cred_id credential)) \<lparr>ure_status = Some (status_of_state new_state)\<rparr> s = (Inr (), s1)"
    and ok1: "store_ok (tm_config_id m) s1"
    and view1: "sql_view s1 = (\<lambda>l. set_entry_status (ByCredential (cred_id credential)) (status_of_state new_state) (db_now s) l (sql_view s l))"
    using sql_update_status [OF assms(2)] by blast
  have "publish_list M id (rvl_id li) (Inr issuer) cert s1 = (Inl e, t)"
    using assms(5) get li s1
    by (simp add: mark_credential_as_def assms(1,3) sbind_def smap_err_def provider_simps)
  then have "t = s1" using sql_tsl.publish_error_state [OF ok1] assms(1) by blast
  then show ?thesis by (simp add: view1 set_entry_status_def)
qed


section \<open>Examples\<close>

text \<open>
  A method whose signer is trivial: the signed text is the encoded list, and reading it back
  gives the list.
\<close>

definition example_method :: "(revocation_db, unit) token_status_list" where
  "example_method =
     \<lparr>tm_config_id = ''TOKENSTATUSLIST'', tm_core_base_url = Some ''https://core'',
      tm_format = StatusListCredentialFormat.Jwt,
      tm_repository = revocation_list_provider \<lparr>identifier_get = \<lambda>_ _. Inr None, certificate_get = \<lambda>_ _. Inr None\<rparr>,
      tm_codec = example_codec, tm_x509_key_usage = \<lambda>_. None, tm_signature_provider = \<lambda>_ _. Inr (),
      tm_formatter_by_type = \<lambda>_. Some (\<lambda>url issuer enc alg auth purpose ty. Inr enc),
      tm_get_wallet_unit = \<lambda>_. Inr None, tm_get_identifier = \<lambda>_ _. Inr None,
      tm_cached_get = \<lambda>_ _. Inl ''BR_0000'', tm_cache_entry_content = Inr,
      tm_from_utf8 = \<lambda>bs. Inr (map (\<lambda>b. char_of (unat b)) bs),
      tm_jwt_status_list = \<lambda>s did. Inr \<lparr>tsl_bits = PREFERRED_ENTRY_SIZE, tsl_value = s\<rparr>,
      tm_new_uuid = new_uuid, tm_now = db_now\<rparr>"

abbreviation example_tsl :: "(revocation_db, unit) token_status_list" where
  "example_tsl \<equiv> sql_token_status_list \<lparr>identifier_get = \<lambda>_ _. Inr None, certificate_get = \<lambda>_ _. Inr None\<rparr> example_method"

definition issued_credential :: "uuid \<Rightarrow> Credential" where
  "issued_credential n =
     \<lparr>cred_id = n, cred_created_date = 0, cred_issuance_date = Some 0, cred_last_modified = 0,
      cred_deleted_at = None, cred_protocol = '''', cred_redirect_uri = None, cred_role = CredentialRole.Issuer,
      cred_state = CredentialStateEnum.Accepted, cred_suspend_end_date = None, cred_profile = None, cred_blob_id = None,
      cred_wallet_unit_attestation_blob_id = None, cred_wallet_instance_attestation_blob_id = None,
      cred_webhook_url = None, cred_claims = None, cred_issuer_identifier = Some example_identifier,
      cred_issuer_certificate = Some (example_certificate 11 CertificateState.Active),
      cred_holder_identifier = None, cred_schema = None, cred_interaction = None, cred_key = None\<rparr>"

definition example_store :: "list_row list \<Rightarrow> entry_row list \<Rightarrow> revocation_db" where
  "example_store list_rows entry_rows =
     \<lparr>db_lists = list_rows, db_entries = entry_rows, db_attested_keys = [], db_identifier_ids = [1],
      db_certificate_ids = [11], db_credential_ids = [1, 2], db_now = 5, db_uuids = 1000\<rparr>"

definition example_list :: "bytes \<Rightarrow> list_row" where
  "example_list text =
     \<lparr>lr_id = 100, lr_created_date = 0, lr_last_modified = 0, lr_formatted_list = text,
      lr_purpose = RevocationAndSuspension, lr_format = StatusListCredentialFormat.Jwt, lr_type = ''TOKENSTATUSLIST'',
      lr_issuer_identifier_id = 1, lr_issuer_certificate_id = Some 11\<rparr>"

definition example_entry :: "nat \<Rightarrow> uuid \<Rightarrow> entry_row" where
  "example_entry i c =
     \<lparr>er_id = 200 + i, er_created_date = 0, er_last_modified = 0, er_revocation_list_id = 100, er_index = Some i,
      er_credential_id = Some c, er_type = TypeCredential, er_signature_type = None, er_status = Active, er_serial = None\<rparr>"

definition example_lists :: revocation_db where
  "example_lists = example_store [example_list []] [example_entry 0 1, example_entry 1 2]"

lemma example_string_bytes: "map (\<lambda>b. char_of (unat b)) (string_bytes s) = s"
proof -
  have "char_of (unat (word_of_nat (of_char c) :: u8)) = c" for c
  proof -
    have "(of_char c :: nat) < 256" by (cases c) (simp add: of_char_def horner_sum_bound)
    then show ?thesis by (simp add: unat_of_nat)
  qed
  then show ?thesis by (simp add: string_bytes_def comp_def)
qed

lemma example_providers: "providers_ok example_tsl did"
  by (simp add: providers_ok_def sql_token_status_list_def example_method_def example_codec_round_trip
      signed_list_readable_def example_string_bytes)

lemma example_issuer: "issuer_of_credential (issued_credential n) =
    Inr (example_identifier, Some (example_certificate 11 CertificateState.Active))"
  by (simp add: issuer_of_credential_def issued_credential_def example_identifier_def)

lemma example_fields [simp]:
  "cert_id (example_certificate n st) = n" "key_type (example_key n) = ''ECDSA''"
  "key_algorithm_type (example_key n) = Some Ecdsa" "idf_id example_identifier = 1"
  "cred_id (issued_credential n) = n"
  by (simp_all add: example_certificate_def example_key_def key_algorithm_type_def key_algorithm_from_str_def
      example_identifier_def issued_credential_def)

lemma example_select_key:
  "select_key (\<lambda>_. None) example_identifier
     (selection_default\<lparr>sel_certificate := Some 11, sel_key_filter := Some (key_filter_default\<lparr>did_role := Some AssertionMethod,
        certificate_key_usage := Some [DigitalSignature]\<rparr>)\<rparr>) =
   Inr (SelCertificate (example_certificate 11 CertificateState.Active) (example_key 11))"
  by code_simp

lemma example_format:
  "format_status_list_credential example_tsl l example_identifier (Some (example_certificate 11 CertificateState.Active)) enc f =
     map_err (nested_code ''formatting token statu list'')
       (f (''https://core'' @ ''/ssi/revocation/v1/list/'' @ uuid_text l) example_identifier enc Ecdsa () PurposeRevocation TokenStatusListType)"
  by (simp add: format_status_list_credential_def get_revocation_list_url_def sql_token_status_list_def example_method_def
      example_select_key Let_def)

lemmas example_defs = example_lists_def example_store_def example_list_def example_entry_def

lemma example_store_ok: "store_ok ''TOKENSTATUSLIST'' example_lists"
  by (simp add: store_ok_def example_defs row_ok_def rows_of_def list_indexes_def entry_of_row_def entry_info_def)

lemma example_view:
  "lv_owner (sql_view example_lists 100) = Some (1, Some 11, RevocationAndSuspension, ''TOKENSTATUSLIST'')"
  "map rve_status (lv_entries (sql_view example_lists 100)) = [Active, Active]"
  "map rve_entity_info (lv_entries (sql_view example_lists 100)) = [InfoCredential 1, InfoCredential 2]"
  by code_simp+

lemma example_config [simp]: "tm_config_id example_method = ''TOKENSTATUSLIST''"
  by (simp add: example_method_def)

lemma example_entries:
  "length (lv_entries (sql_view example_lists 100)) = 2"
  "rve_status (lv_entries (sql_view example_lists 100) ! Suc 0) = Active"
  "rve_entity_info (lv_entries (sql_view example_lists 100) ! Suc 0) = InfoCredential 2"
  by code_simp+

lemma example_entry_pair:
  obtains a b where "lv_entries (sql_view example_lists 100) = [a, b]" "rve_status a = Active" "rve_status b = Active"
    "rve_entity_info a = InfoCredential 1" "rve_entity_info b = InfoCredential 2"
  using example_view(2,3) by (auto simp: map_eq_Cons_conv)

lemma example_can_sign: "can_sign example_tsl l example_identifier (Some (example_certificate 11 CertificateState.Active))"
  unfolding can_sign_def
  by (intro exI [of _ "\<lambda>url issuer enc alg auth purpose ty. Inr enc"])
    (simp add: example_format, simp add: sql_token_status_list_def example_method_def)

lemma id_sessions: "other_sessions_ok ok view id"
  by (simp add: other_sessions_ok_def)

lemmas tsl_run_defs = add_issued_credential_def tsl_create_entry_def list_for_entry_def tx_def find_or_start_list_def
  add_entity_to_list.simps add_entity_attempt_def create_credential_status_def get_revocation_list_url_def
  provider_simps get_revocation_by_issuer_identifier_id_def load_list_def entity_model_to_repository_model_def
  revocation_list_relations_default_def next_free_index_def max_index_def create_entry_def insert_entry_def
  entry_conflict_def new_uuid_def now_utc_def index_rank_def sbind_def smap_err_def sql_token_status_list_def

lemma example_issue:
  "\<exists>infos t. add_issued_credential example_tsl id (\<lambda>_. id) (issued_credential 1) example_lists = (Inr infos, t)"
  by (simp add: tsl_run_defs example_issuer example_defs example_method_def)

theorem add_issued_credential_fresh_witness:
  "\<exists>infos t. add_issued_credential example_tsl id (\<lambda>_. id) (issued_credential 1) example_lists = (Inr infos, t) \<and>
    store_ok ''TOKENSTATUSLIST'' t \<and> (\<exists>l i e. {x \<in> set (lv_entries (sql_view t l)). rve_index x = Some i} = {e} \<and>
      rve_status e = Active \<and> rve_entity_info e = InfoCredential 1)"
proof -
  obtain infos t where run: "add_issued_credential example_tsl id (\<lambda>_. id) (issued_credential 1) example_lists = (Inr infos, t)"
    using example_issue by blast
  have "store_ok (tm_config_id example_method) example_lists" using example_store_ok by simp
  from add_issued_credential_fresh [OF refl this id_sessions _ example_issuer run] id_sessions
  obtain l i e where "store_ok ''TOKENSTATUSLIST'' t" "{x \<in> set (lv_entries (sql_view t l)). rve_index x = Some i} = {e}"
    "rve_status e = Active" "rve_entity_info e = InfoCredential 1"
    by (simp only: example_config example_fields) blast
  with run show ?thesis by blast
qed

theorem add_entity_to_list_succeeds_witness:
  "\<exists>eid n t. add_entity_to_list example_tsl (\<lambda>_. id) 100 (EntityCredential 1) 0 example_lists = (Inr (eid, n), t)"
proof (rule add_entity_to_list_succeeds [OF refl, where quiet = 0])
  show "registered (EntityCredential 1) example_lists" by code_simp
qed (simp_all add: id_sessions example_store_ok example_view example_entries)

theorem add_entity_to_list_too_many_retries_witness:
  "\<exists>t. add_entity_to_list example_tsl
     (\<lambda>_ u. snd (create_entry 100 (EntitySignature ''X509'' None) (Some (length (lv_entries (sql_view u 100)))) u))
     100 (EntityCredential 1) 0 example_lists =
   (Inl (nested_db ''adding revocation list entry'' (TransactionError ''Too many retries'')), t)"
proof (rule add_entity_to_list_too_many_retries [OF refl])
  show "\<forall>k u. store_ok (tm_config_id example_method) u \<and>
      lv_owner (sql_view u 100) = Some (1, Some 11, RevocationAndSuspension, tm_config_id example_method) \<and>
      length (lv_entries (sql_view u 100)) < 2 ^ 32 \<longrightarrow>
    store_ok (tm_config_id example_method)
      (snd (create_entry 100 (EntitySignature ''X509'' None) (Some (length (lv_entries (sql_view u 100)))) u)) \<and>
    lv_owner (sql_view (snd (create_entry 100 (EntitySignature ''X509'' None) (Some (length (lv_entries (sql_view u 100)))) u)) 100) =
      Some (1, Some 11, RevocationAndSuspension, tm_config_id example_method) \<and>
    length (lv_entries (sql_view (snd (create_entry 100 (EntitySignature ''X509'' None)
      (Some (length (lv_entries (sql_view u 100)))) u)) 100)) = Suc (length (lv_entries (sql_view u 100)))"
  proof (intro allI impI, elim conjE)
    fix u
    let ?n = "length (lv_entries (sql_view u 100))"
    assume u: "store_ok (tm_config_id example_method) u"
      "lv_owner (sql_view u 100) = Some (1, Some 11, RevocationAndSuspension, tm_config_id example_method)" "?n < 2 ^ 32"
    obtain r t where run: "create_entry 100 (EntitySignature ''X509'' None) (Some ?n) u = (r, t)" by fastforce
    obtain eid where "r = Inr eid"
      using create_entry_registered [OF u(1), of 100 "EntitySignature ''X509'' None" ?n _ t]
        sql_index_free [OF u(1) order_refl u(3), of "EntitySignature ''X509'' None" _ t] u(2) run
      by (cases r) auto
    show "store_ok (tm_config_id example_method) (snd (create_entry 100 (EntitySignature ''X509'' None) (Some ?n) u)) \<and>
      lv_owner (sql_view (snd (create_entry 100 (EntitySignature ''X509'' None) (Some ?n) u)) 100) =
        Some (1, Some 11, RevocationAndSuspension, tm_config_id example_method) \<and>
      length (lv_entries (sql_view (snd (create_entry 100 (EntitySignature ''X509'' None) (Some ?n) u)) 100)) = Suc ?n"
      using sql_new_entry [OF u(1) sql_method_indexed [OF u(1,2)] _ u(3)] run \<open>r = Inr eid\<close> u(2) by auto
  qed
qed (simp_all add: example_store_ok example_view example_entries)

lemma example_owner:
  "lv_owner (sql_view example_lists 100) = Some (idf_id example_identifier,
     map_option cert_id (Some (example_certificate 11 CertificateState.Active)), RevocationAndSuspension, tm_config_id example_method)"
  by (simp add: example_view)

lemma example_store_ok': "store_ok (tm_config_id example_method) example_lists"
  by (simp add: example_store_ok)

lemma example_fits: "token_fits (length (lv_entries (sql_view example_lists 100)))"
  by (simp add: example_entries token_fits_def)



text \<open>The same method with a signer that fails.\<close>

abbreviation unsigned_tsl :: "(revocation_db, unit) token_status_list" where
  "unsigned_tsl \<equiv> sql_token_status_list \<lparr>identifier_get = \<lambda>_ _. Inr None, certificate_get = \<lambda>_ _. Inr None\<rparr>
     (example_method\<lparr>tm_formatter_by_type := \<lambda>_. None\<rparr>)"

theorem mark_credential_as_failure_witness:
  "\<exists>e t. mark_credential_as unsigned_tsl id (issued_credential 1) RevocationState.Revoked example_lists = (Inl e, t) \<and>
    map rve_status (lv_entries (sql_view t 100)) = [RevocationListEntryStatus.Revoked, Active] \<and>
    lv_published (sql_view t 100) = Some []"
proof -
  obtain e t where run: "mark_credential_as unsigned_tsl id (issued_credential 1) RevocationState.Revoked example_lists = (Inl e, t)"
  proof (cases "mark_credential_as unsigned_tsl id (issued_credential 1) RevocationState.Revoked example_lists")
    case (Pair r t)
    have "r \<noteq> Inr ()"
      using Pair by (auto simp: mark_credential_as_def publish_list_def sbind_eq_Inr get_formatter_for_issuance_def)
        (simp add: sql_token_status_list_def)
    with Pair that show ?thesis by (cases r) auto
  qed
  have "lv_owner (sql_view example_lists 100) = Some (idf_id example_identifier,
      map_option cert_id (Some (example_certificate 11 CertificateState.Active)), RevocationAndSuspension,
      tm_config_id (example_method\<lparr>tm_formatter_by_type := \<lambda>_. None\<rparr>))"
    "store_ok (tm_config_id (example_method\<lparr>tm_formatter_by_type := \<lambda>_. None\<rparr>)) example_lists"
    using example_owner example_store_ok by simp_all
  note failed = mark_credential_as_failure [OF refl this(2) example_issuer this(1) run, of 100]
  obtain x y where "lv_entries (sql_view example_lists 100) = [x, y]" "rve_status y = Active"
    "rve_entity_info x = InfoCredential 1" "rve_entity_info y = InfoCredential 2"
    by (rule example_entry_pair) blast
  with failed have "map rve_status (lv_entries (sql_view t 100)) = [RevocationListEntryStatus.Revoked, Active]"
    "lv_published (sql_view t 100) = lv_published (sql_view example_lists 100)"
    by auto
  moreover have "lv_published (sql_view example_lists 100) = Some []" by code_simp
  ultimately show ?thesis using run by auto
qed

text \<open>Issuing a first credential starts a list.\<close>

lemma example_first_issue:
  obtains infos s1 e where
    "add_issued_credential example_tsl id (\<lambda>_. id) (issued_credential 1) (example_store [] []) = (Inr infos, s1)"
    "lv_owner (sql_view s1 1000) = Some (1, Some 11, RevocationAndSuspension, ''TOKENSTATUSLIST'')"
    "lv_entries (sql_view s1 1000) = [e]" "rve_index e = Some 0" "rve_entity_info e = InfoCredential 1"
proof -
  obtain enc where enc: "generate_token_from_entries example_codec [] = Inr enc"
    using generate_token_from_dense [OF example_codec_round_trip, of "[]"] by (auto simp: token_fits_def)
  have fmt: "format_status_list_credential example_tsl 1000 example_identifier
      (Some (example_certificate 11 CertificateState.Active)) enc (\<lambda>url issuer enc alg auth purpose ty. Inr enc) = Inr enc"
    by (simp add: example_format)
  have "\<exists>infos s1. add_issued_credential example_tsl id (\<lambda>_. id) (issued_credential 1) (example_store [] []) = (Inr infos, s1) \<and>
    db_lists s1 = [\<lparr>lr_id = 1000, lr_created_date = 5, lr_last_modified = 5, lr_formatted_list = string_bytes enc,
        lr_purpose = RevocationAndSuspension, lr_format = StatusListCredentialFormat.Jwt, lr_type = ''TOKENSTATUSLIST'',
        lr_issuer_identifier_id = 1, lr_issuer_certificate_id = Some 11\<rparr>] \<and>
    db_entries s1 = [\<lparr>er_id = 1001, er_created_date = 5, er_last_modified = 5, er_revocation_list_id = 1000,
        er_index = Some 0, er_credential_id = Some 1, er_type = TypeCredential, er_signature_type = None,
        er_status = Active, er_serial = None\<rparr>]"
    using fmt
    by (simp add: tsl_run_defs example_issuer example_store_def example_method_def start_new_list_for_entity_def enc
        get_formatter_for_issuance_def create_revocation_list_def insert_list_def list_conflict_def)
  then show ?thesis
    by (auto intro!: that simp: sql_view_def row_owner_def rows_of_def row_entry_def entry_of_row_def entry_info_def)
qed


end
