(* ===== verification/Bitstring_Properties.thy ===== *)
theory Bitstring_Properties
  imports Bitstring_Status_List Status_List_Properties
begin

text \<open>
  What the bitstring status list method guarantees with the SQL repository: the check of a credential
  against the list that marking published, and the issuers for which no JSON-LD list can be started.
\<close>

section \<open>From marking to checking\<close>

text \<open>
  A status block for index \<open>k\<close> of a list whose download gives the published text \<open>out\<close> as a JWT.
\<close>

definition bitstring_served ::
  "('s, 'auth) bitstring_status_list \<Rightarrow> CredentialStatus \<Rightarrow> RevocationListPurpose \<Rightarrow> nat \<Rightarrow> bytes \<Rightarrow> bool \<Rightarrow> bool" where
  "bitstring_served m status purpose k out force \<longleftrightarrow>
     cs_type status = BITSTRING_STATUS_TYPE \<and>
     cs_status_purpose status = Some (status_purpose_display (status_purpose_of purpose)) \<and>
     map_of (cs_additional_fields status) ''statusListIndex'' = Some (JsonString (decimal k)) \<and>
     (\<exists>url content entry. map_of (cs_additional_fields status) ''statusListCredential'' = Some (JsonString url) \<and>
        bs_cached_get m url force = Inr (content, Some ''application/jwt'') \<and>
        bs_cache_entry m content = Inr entry \<and> sce_content entry = out)"

fun state_of_purpose :: "RevocationListPurpose \<Rightarrow> RevocationState" where
  "state_of_purpose Revocation = RevocationState.Revoked"
| "state_of_purpose _ = RevocationState.Suspended None"

lemma check_reads_bit:
  assumes "bitstring_served m status purpose k out force" and "purpose \<noteq> RevocationAndSuspension"
    and "k < 2 ^ 64" and "bs_formatter m ''JWT'' = Some f" and "published_bit m f out k = Some b"
  shows "bsl_check_credential_revocation_status m status details force = Inr (if b then state_of_purpose purpose else Valid)"
proof -
  from assms(1) obtain url content entry where served: "cs_type status = BITSTRING_STATUS_TYPE"
    "cs_status_purpose status = Some (status_purpose_display (status_purpose_of purpose))"
    "map_of (cs_additional_fields status) ''statusListIndex'' = Some (JsonString (decimal k))"
    "map_of (cs_additional_fields status) ''statusListCredential'' = Some (JsonString url)"
    "bs_cached_get m url force = Inr (content, Some ''application/jwt'')"
    "bs_cache_entry m content = Inr entry" "sce_content entry = out"
    by (auto simp: bitstring_served_def)
  from assms(5) obtain str claims enc where read: "bs_from_utf8 m out = Inr str" "lf_extract_claims f str = Inr claims"
    "Option.bind (map_of claims ''encodedList'') as_str = Some enc" "extract_bitstring_index (bs_codec m) enc k = Inr b"
    by (auto simp: published_bit_def bind_eq_Some_conv ok_value_eq_Some)
  have "status_purpose_to_revocation_state (cs_status_purpose status) = Inr (state_of_purpose purpose)"
    using served(2) assms(2) by (cases purpose) (simp_all add: status_purpose_to_revocation_state_def)
  then show ?thesis
    using served read assms(4) parse_usize_decimal [OF assms(3)]
    by (simp add: bsl_check_credential_revocation_status_def get_formatter_for_parsing_def)
qed


section \<open>Lists that cannot be started\<close>

lemma bbs_list_refused:
  assumes "lf_format_status_list f = bbs_format_status_list key_algorithm sign"
    and "\<forall>key kid auth. bs_signature_provider m key kid = Inr auth \<longrightarrow> key_algorithm auth = key_algorithm_type key"
    and "idf_did issuer = Some did" and "did_keys did = Some keys"
    and "\<forall>k \<in> set keys. key_type (rel_key k) \<noteq> ''BBS_PLUS''"
  shows "\<exists>e. bsl_format_status_list_credential m l issuer enc purpose f = Inl (Failure e)"
proof (cases "find (matches_related_key (role_filter AssertionMethod)) keys")
  case None
  then show ?thesis using assms(3,4)
    by (cases "bs_core_base_url m"; cases "idf_type issuer = IdDid")
      (simp_all add: bsl_format_status_list_credential_def bsl_get_revocation_list_url_def find_first_matching_key_def)
next
  case (Some related)
  then have "related \<in> set keys" by (auto simp: find_Some_iff)
  then have "key_algorithm_type (rel_key related) \<noteq> Some BbsPlus"
    using assms(5) by (auto simp: key_algorithm_type_def key_algorithm_from_str_def)
  then have "bbs_format_status_list key_algorithm sign url issuer enc alg auth pur BitstringStatusList = Inl ''BR_0090''"
    if "bs_signature_provider m (rel_key related) kid = Inr auth" for url alg auth pur kid
    using assms(2) that by (simp add: bbs_format_status_list_def)
  then show ?thesis using Some assms(1,3,4)
    by (cases "bs_core_base_url m"; cases "idf_type issuer = IdDid";
        cases "bs_signature_provider m (rel_key related) (Some (verification_method_id did related))";
        cases "key_algorithm_type (rel_key related)")
      (simp_all add: bsl_format_status_list_credential_def bsl_get_revocation_list_url_def find_first_matching_key_def
        Let_def nested_code_def)
qed

text \<open>
  C26. Issuers without BBS+ keys cannot use JSON-LD lists. The method chooses the BBS+ formatter exactly for the
  issuers that have no BBS+ key, and this formatter signs with BBS+ keys only. So with JSON-LD lists
  configured, the first credential of an issuer without BBS+ keys can never be added: the call fails,
  leaves nothing behind, and names a missing list as the cause.
\<close>

theorem json_ld_list_never_started:
  assumes "M = sql_bitstring_status_list rep m" and "store_ok (bs_config_id m) s"
    and "cred_issuer_identifier c = Some issuer" and "cred_schema c = Some schema"
    and "\<forall>l. lv_owner (sql_view s l) \<noteq> Some (idf_id issuer, None, Revocation, bs_config_id m)"
    and "bs_format M = StatusListCredentialFormat.JsonLdClassic" and "codec_round_trip (bs_codec M)"
    and "idf_did issuer = Some did" and "did_keys did = Some keys"
    and "\<forall>k \<in> set keys. key_type (rel_key k) \<noteq> ''BBS_PLUS''"
    and "bs_formatter M ''JSON_LD_BBSPLUS'' = Some f"
    and "lf_format_status_list f = bbs_format_status_list key_algorithm sign"
    and "\<forall>key kid auth. bs_signature_provider M key kid = Inr auth \<longrightarrow> key_algorithm auth = key_algorithm_type key"
  shows "bsl_add_issued_credential M id others c s = (Inl (Failure (MappingError ''No revocation list found'')), s)"
proof -
  have formatter: "bsl_formatter_for_issuance M issuer = Inr f"
    using assms(6,8-11) by (auto simp: bsl_formatter_for_issuance_def Let_def list_ex_iff)
  have free: "\<forall>l. lv_owner (sql_view s l) \<noteq> Some (idf_id issuer, None, Revocation, bs_config_id M)"
    using assms(1,5) by simp
  have "create_credential_entry M id others (cred_id c) issuer Revocation s =
      (Inl (Failure (MappingError ''No revocation list found'')), s)"
    using sql_bsl.unsigned_list_not_started [where rep = rep and m = m, folded assms(1), OF assms(2) free assms(7) formatter
       bbs_list_refused [OF assms(12,13,8-10)]] .
  then show ?thesis using assms(3,4) by (simp add: bsl_add_issued_credential_def sbind_def)
qed

section \<open>Examples\<close>

text \<open>An issuer with a DID and one ECDSA key, and a revocation list with the entry of one credential.\<close>

definition did_issuer :: Identifier where
  "did_issuer = example_identifier\<lparr>idf_type := IdDid, idf_certificates := None, idf_did := Some
     \<lparr>did_id = 3, did_created_date = 0, did_last_modified = 0, did_name = ''did'', did_did = ''did:key:a'', did_type = Local,
      did_method = ''KEY'', did_deactivated = False, did_log = None,
      did_keys = Some [\<lparr>rel_role = AssertionMethod, rel_key = example_key 4, rel_reference = ''1''\<rparr>], did_organisation = None\<rparr>\<rparr>"

definition did_credential :: Credential where
  "did_credential = (issued_credential 1)\<lparr>cred_issuer_identifier := Some did_issuer, cred_issuer_certificate := None\<rparr>"

text \<open>The signed text is the encoded list, and its download is the list with nothing revoked but index 0.\<close>

definition example_list_formatter :: "unit list_formatter" where
  "example_list_formatter =
     \<lparr>lf_format_status_list = \<lambda>url issuer enc alg auth purpose ty. Inr enc,
      lf_extract_claims = \<lambda>s. Inr [(''encodedList'', JsonString s)]\<rparr>"

definition bbs_list_formatter :: "unit list_formatter" where
  "bbs_list_formatter =
     \<lparr>lf_format_status_list = bbs_format_status_list (\<lambda>_. Some Ecdsa) (\<lambda>url issuer enc alg auth purpose ty. Inr enc),
      lf_extract_claims = \<lambda>s. Inr [(''encodedList'', JsonString s)]\<rparr>"

definition example_bitstring_method :: "StatusListCredentialFormat \<Rightarrow> bytes \<Rightarrow> (revocation_db, unit) bitstring_status_list" where
  "example_bitstring_method format downloaded =
     \<lparr>bs_config_id = ''BITSTRINGSTATUSLIST'', bs_core_base_url = Some ''https://core'', bs_format = format,
      bs_repository = revocation_list_provider \<lparr>identifier_get = \<lambda>_ _. Inr None, certificate_get = \<lambda>_ _. Inr None\<rparr>,
      bs_codec = example_codec,
      bs_signature_provider = \<lambda>key _. if key_type key = ''ECDSA'' then Inr () else Inl ''BR_0000'',
      bs_formatter = \<lambda>name. if name = ''JWT'' then Some example_list_formatter
        else if name = ''JSON_LD_BBSPLUS'' then Some bbs_list_formatter else None,
      bs_cached_get = \<lambda>_ _. Inr (downloaded, Some ''application/jwt''),
      bs_cache_entry = \<lambda>content. Inr \<lparr>sce_content = content, sce_content_type = None\<rparr>,
      bs_from_utf8 = \<lambda>bs. Inr (map (\<lambda>b. char_of (unat b)) bs), bs_cryptosuite = \<lambda>_. None,
      bs_new_uuid = new_uuid, bs_now = db_now\<rparr>"

abbreviation example_bsl :: "StatusListCredentialFormat \<Rightarrow> bytes \<Rightarrow> (revocation_db, unit) bitstring_status_list" where
  "example_bsl format downloaded \<equiv> sql_bitstring_status_list
     \<lparr>identifier_get = \<lambda>_ _. Inr None, certificate_get = \<lambda>_ _. Inr None\<rparr> (example_bitstring_method format downloaded)"

definition bitstring_lists :: revocation_db where
  "bitstring_lists = example_store
     [(example_list [])\<lparr>lr_purpose := Revocation, lr_type := ''BITSTRINGSTATUSLIST'', lr_issuer_certificate_id := None\<rparr>]
     [example_entry 0 1]"

lemma example_bitstring_fields [simp]:
  "bs_config_id (example_bitstring_method format downloaded) = ''BITSTRINGSTATUSLIST''"
  "bs_format (example_bsl format downloaded) = format" "bs_codec (example_bsl format downloaded) = example_codec"
  "bs_formatter (example_bsl format downloaded) ''JWT'' = Some example_list_formatter"
  "bs_formatter (example_bsl format downloaded) ''JSON_LD_BBSPLUS'' = Some bbs_list_formatter"
  by (simp_all add: example_bitstring_method_def sql_bitstring_status_list_def)

lemma bitstring_lists_ok: "store_ok (bs_config_id (example_bitstring_method format downloaded)) bitstring_lists"
  by (simp add: store_ok_def bitstring_lists_def example_defs row_ok_def rows_of_def list_indexes_def entry_of_row_def
    entry_info_def)

lemma bitstring_lists_view:
  "lv_owner (sql_view bitstring_lists 100) = Some (1, None, Revocation, ''BITSTRINGSTATUSLIST'')"
  "length (lv_entries (sql_view bitstring_lists 100)) = 1"
  "rve_entity_info (lv_entries (sql_view bitstring_lists 100) ! 0) = InfoCredential 1"
  by code_simp+

lemma bitstring_readable: "signed_bitstring_readable (example_bsl format downloaded) example_list_formatter"
  by (simp add: signed_bitstring_readable_def example_list_formatter_def sql_bitstring_status_list_def
    example_bitstring_method_def example_string_bytes)

lemma bitstring_signs: "can_sign_bitstring (example_bsl format downloaded) 100 did_issuer purpose example_list_formatter"
  by (simp add: can_sign_bitstring_def bsl_format_status_list_credential_def bsl_get_revocation_list_url_def did_issuer_def
    find_first_matching_key_def matches_related_key_def role_filter_def key_filter_default_def matches_key_def Let_def
    sql_bitstring_status_list_def example_bitstring_method_def example_list_formatter_def)

definition example_bitstring_status :: CredentialStatus where
  "example_bitstring_status =
     \<lparr>cs_id = None, cs_type = BITSTRING_STATUS_TYPE, cs_status_purpose = Some ''revocation'',
      cs_additional_fields = [(''statusListCredential'', JsonString ''https://core/list''), (''statusListIndex'', JsonString (decimal 0))]\<rparr>"

lemma marking_downloads_nothing:
  "bsl_mark_credential_as (m\<lparr>bs_cached_get := g\<rparr>) = bsl_mark_credential_as m"
proof -
  have "bsl_formatter_for_issuance (m\<lparr>bs_cached_get := g\<rparr>) issuer = bsl_formatter_for_issuance m issuer" for issuer
    by (simp add: bsl_formatter_for_issuance_def cong: StatusListCredentialFormat.case_cong if_cong)
  moreover have "bsl_format_status_list_credential (m\<lparr>bs_cached_get := g\<rparr>) l issuer enc purpose f =
      bsl_format_status_list_credential m l issuer enc purpose f" for l issuer enc purpose f
    by (simp add: bsl_format_status_list_credential_def)
  ultimately show ?thesis
    by (simp add: fun_eq_iff bsl_mark_credential_as_def bsl_publish_list_def)
qed

lemma example_download:
  "bsl_mark_credential_as (example_bsl format d) = bsl_mark_credential_as (example_bsl format [])"
  using marking_downloads_nothing [where m = "example_bsl format []" and g = "\<lambda>_ _. Inr (d, Some ''application/jwt'')"]
  by (simp add: sql_bitstring_status_list_def example_bitstring_method_def)


definition bitstring_schema :: CredentialSchema where
  "bitstring_schema =
     \<lparr>schema_uuid = 5, schema_deleted_at = None, schema_created_date = 0, schema_last_modified = 0,
      schema_name = ''licence'', schema_format = ''JSON_LD_CLASSIC'', schema_revocation_method = Some ''BITSTRINGSTATUSLIST'',
      schema_key_storage_security = None, schema_layout_type = Card, schema_layout_properties = None,
      schema_schema_id = ''licence'', schema_imported_source_url = [], schema_allow_suspension = True,
      schema_requires_wallet_instance_attestation = False, schema_transaction_code = None,
      schema_claim_schemas = None, schema_organisation = None\<rparr>"

theorem json_ld_list_never_started_witness:
  "bsl_add_issued_credential (example_bsl StatusListCredentialFormat.JsonLdClassic []) id (\<lambda>_. id)
     (did_credential\<lparr>cred_schema := Some bitstring_schema\<rparr>) (example_store [] []) =
     (Inl (Failure (MappingError ''No revocation list found'')), example_store [] [])"
proof (rule json_ld_list_never_started [OF refl])
  let ?m = "example_bitstring_method StatusListCredentialFormat.JsonLdClassic []"
  show "store_ok (bs_config_id ?m) (example_store [] [])"
    by (simp add: store_ok_def example_store_def row_ok_def rows_of_def list_indexes_def)
  show "\<forall>l. lv_owner (sql_view (example_store [] []) l) \<noteq> Some (idf_id did_issuer, None, Revocation, bs_config_id ?m)"
    by (simp add: sql_view_def example_store_def)
  show "\<forall>key kid auth. bs_signature_provider (example_bsl StatusListCredentialFormat.JsonLdClassic []) key kid = Inr auth \<longrightarrow>
      Some Ecdsa = key_algorithm_type key"
    by (simp add: sql_bitstring_status_list_def example_bitstring_method_def key_algorithm_type_def key_algorithm_from_str_def)
  show "lf_format_status_list bbs_list_formatter =
      bbs_format_status_list (\<lambda>_. Some Ecdsa) (\<lambda>url issuer enc alg auth purpose ty. Inr enc)"
    by (simp add: bbs_list_formatter_def)
  show "idf_did did_issuer = Some (the (idf_did did_issuer))" by (simp add: did_issuer_def)
  show "did_keys (the (idf_did did_issuer)) =
      Some [\<lparr>rel_role = AssertionMethod, rel_key = example_key 4, rel_reference = ''1''\<rparr>]"
    by (simp add: did_issuer_def)
qed (simp_all add: did_credential_def did_issuer_def example_key_def example_codec_round_trip)

end
