(* ===== verification/List_Filter.thy ===== *)
theory List_Filter
  imports Errors "HOL-Library.Sublist"
begin

text \<open>
  The filter of a list query (\<open>one-core-portable/src/model/list_filter.rs\<close>) and its translation to
  a condition of the database (\<open>sql-data-provider/src/list_query_generic.rs\<close>). A condition is the
  predicate on rows it stands for: conditions are built with \<open>AND\<close> and \<open>OR\<close> only, so a comparison
  with \<open>NULL\<close>, which is not true, may count as false.
\<close>

section \<open>Filters\<close>

datatype StringMatchType = Equals | StartsWith | EndsWith | Contains

record StringMatch =
  sm_match :: StringMatchType
  sm_value :: string

datatype ComparisonType =
    Equal
  | NotEqual
  | LessThan
  | GreaterThan
  | LessThanOrEqual
  | GreaterThanOrEqual

record 'v ValueComparison =
  vcmp_comparison :: ComparisonType
  vcmp_value :: 'v

datatype 'v ListFilterCondition =
    And "'v ListFilterCondition list"
  | Or "'v ListFilterCondition list"
  | Value 'v

definition filter_default :: "'v ListFilterCondition" where
  "filter_default = And []"

fun filter_from_option :: "'v option \<Rightarrow> 'v ListFilterCondition" where
  "filter_from_option (Some v) = Value v"
| "filter_from_option None = filter_default"

fun filter_is_empty :: "'v ListFilterCondition \<Rightarrow> bool" where
  "filter_is_empty (And cs) \<longleftrightarrow> cs = []"
| "filter_is_empty (Or cs) \<longleftrightarrow> cs = []"
| "filter_is_empty (Value v) \<longleftrightarrow> False"

text \<open>The operators \<open>&\<close> and \<open>|\<close>.\<close>

fun bitand :: "'v ListFilterCondition \<Rightarrow> 'v ListFilterCondition \<Rightarrow> 'v ListFilterCondition" where
  "bitand (And cs) (And ds) = And (cs @ ds)"
| "bitand (And cs) d = And (cs @ [d])"
| "bitand c d = And [c, d]"

fun bitor :: "'v ListFilterCondition \<Rightarrow> 'v ListFilterCondition \<Rightarrow> 'v ListFilterCondition" where
  "bitor (Or cs) (Or ds) = Or (cs @ ds)"
| "bitor (Or cs) d = Or (cs @ [d])"
| "bitor c d = Or [c, d]"

fun bitand_option :: "'v ListFilterCondition \<Rightarrow> 'v ListFilterCondition option \<Rightarrow> 'v ListFilterCondition" where
  "bitand_option c (Some d) = bitand c d"
| "bitand_option c None = c"

fun bitor_option :: "'v ListFilterCondition \<Rightarrow> 'v ListFilterCondition option \<Rightarrow> 'v ListFilterCondition" where
  "bitor_option c (Some d) = bitor c d"
| "bitor_option c None = c"

fun filter_contains :: "('v \<Rightarrow> bool) \<Rightarrow> 'v ListFilterCondition \<Rightarrow> bool" where
  "filter_contains matcher (And cs) \<longleftrightarrow> list_ex (filter_contains matcher) cs"
| "filter_contains matcher (Or cs) \<longleftrightarrow> list_ex (filter_contains matcher) cs"
| "filter_contains matcher (Value v) \<longleftrightarrow> matcher v"

section \<open>Conditions\<close>

type_synonym 'row condition = "'row \<Rightarrow> bool"

fun get_filter_condition :: "('v \<Rightarrow> 'row condition) \<Rightarrow> 'v ListFilterCondition \<Rightarrow> 'row condition" where
  "get_filter_condition get_condition (And cs) row \<longleftrightarrow>
     list_all (\<lambda>c. filter_is_empty c \<or> get_filter_condition get_condition c row) cs"
| "get_filter_condition get_condition (Or cs) row \<longleftrightarrow>
     list_ex (\<lambda>c. \<not> filter_is_empty c \<and> get_filter_condition get_condition c row) cs"
| "get_filter_condition get_condition (Value v) row \<longleftrightarrow> get_condition v row"

text \<open>The part of \<open>with_list_query\<close> that filters: an empty filter selects every row.\<close>

definition with_list_filter :: "('v \<Rightarrow> 'row condition) \<Rightarrow> 'v ListFilterCondition option \<Rightarrow> 'row list \<Rightarrow> 'row list" where
  "with_list_filter get_condition filtering rows =
     (case filtering of
        None \<Rightarrow> rows
      | Some c \<Rightarrow> if filter_is_empty c then rows else filter (get_filter_condition get_condition c) rows)"

fun get_join_relations :: "('v \<Rightarrow> 'j list) \<Rightarrow> 'v ListFilterCondition \<Rightarrow> 'j list" where
  "get_join_relations get_join (Value v) = get_join v"
| "get_join_relations get_join (And cs) = concat (map (get_join_relations get_join) cs)"
| "get_join_relations get_join (Or cs) = concat (map (get_join_relations get_join) cs)"

text \<open>
  How the database compares text: \<open>=\<close> under the collation of the column, and \<open>LIKE\<close>, the
  pattern second.
\<close>

record sql_text =
  sql_eq :: "string \<Rightarrow> string \<Rightarrow> bool"
  sql_like :: "string \<Rightarrow> string \<Rightarrow> bool"

definition get_string_match_condition :: "sql_text \<Rightarrow> ('row \<Rightarrow> string option) \<Rightarrow> StringMatch \<Rightarrow> 'row condition" where
  "get_string_match_condition sql column sm row =
     (case column row of
        None \<Rightarrow> False
      | Some c \<Rightarrow>
          (case sm_match sm of
             Equals \<Rightarrow> sql_eq sql c (sm_value sm)
           | StartsWith \<Rightarrow> sql_like sql c (sm_value sm @ ''%'')
           | EndsWith \<Rightarrow> sql_like sql c (''%'' @ sm_value sm)
           | Contains \<Rightarrow> sql_like sql c (''%'' @ sm_value sm @ ''%'')))"

fun compare_by :: "ComparisonType \<Rightarrow> 'v :: linorder \<Rightarrow> 'v \<Rightarrow> bool" where
  "compare_by Equal a b \<longleftrightarrow> a = b"
| "compare_by NotEqual a b \<longleftrightarrow> a \<noteq> b"
| "compare_by LessThan a b \<longleftrightarrow> a < b"
| "compare_by GreaterThan a b \<longleftrightarrow> b < a"
| "compare_by LessThanOrEqual a b \<longleftrightarrow> a \<le> b"
| "compare_by GreaterThanOrEqual a b \<longleftrightarrow> b \<le> a"

definition get_comparison_condition ::
  "('row \<Rightarrow> 'v :: linorder option) \<Rightarrow> 'v ValueComparison \<Rightarrow> 'row condition" where
  "get_comparison_condition column v row =
     (case column row of None \<Rightarrow> False | Some c \<Rightarrow> compare_by (vcmp_comparison v) c (vcmp_value v))"

text \<open>
  \<open>hex(substr(column, 1, limit))\<close> of a blob, with the capital digits the databases print, and
  \<open>hex::encode\<close>, with small ones.
\<close>

definition hex_byte :: "char \<Rightarrow> string" where
  "hex_byte c = (let n = of_char c :: nat in [hex_digit (n div 16), hex_digit (n mod 16)])"

definition hex_encode :: "string \<Rightarrow> string" where
  "hex_encode s = concat (map hex_byte s)"

definition upper_hex_digit :: "char \<Rightarrow> char" where
  "upper_hex_digit c = (if 97 \<le> (of_char c :: nat) then char_of ((of_char c :: nat) - 32) else c)"

definition sql_hex :: "string \<Rightarrow> string" where
  "sql_hex s = map upper_hex_digit (hex_encode s)"

definition get_blob_match_condition ::
  "sql_text \<Rightarrow> ('row \<Rightarrow> string option) \<Rightarrow> StringMatch \<Rightarrow> nat \<Rightarrow> 'row condition" where
  "get_blob_match_condition sql column sm limit row =
     (case column row of
        None \<Rightarrow> False
      | Some c \<Rightarrow>
          (let slice = sql_hex (take limit c); v = hex_encode (sm_value sm) in
           case sm_match sm of
             Equals \<Rightarrow> sql_eq sql slice v
           | StartsWith \<Rightarrow> sql_like sql slice (v @ ''%'')
           | EndsWith \<Rightarrow> sql_like sql slice (''%'' @ v)
           | Contains \<Rightarrow> sql_like sql slice (''%'' @ v @ ''%'')))"

section \<open>The operators on filters\<close>

lemma bitand_And: "bitand (And cs) d = And (cs @ (case d of And ds \<Rightarrow> ds | _ \<Rightarrow> [d]))"
  by (cases d) simp_all

lemma bitor_Or: "bitor (Or cs) d = Or (cs @ (case d of Or ds \<Rightarrow> ds | _ \<Rightarrow> [d]))"
  by (cases d) simp_all

text \<open>\<open>&\<close> is conjunction and \<open>|\<close> is disjunction, an empty operand being ignored by both.\<close>

definition selects :: "('v \<Rightarrow> 'row condition) \<Rightarrow> 'v ListFilterCondition \<Rightarrow> 'row condition" where
  "selects get_condition c row \<longleftrightarrow> filter_is_empty c \<or> get_filter_condition get_condition c row"

lemma selects_bitand: "selects g (bitand c d) row \<longleftrightarrow> selects g c row \<and> selects g d row"
  by (cases c; cases d) (auto simp: selects_def list_all_iff)

lemma selects_bitor:
  assumes "\<not> filter_is_empty c" and "\<not> filter_is_empty d"
  shows "selects g (bitor c d) row \<longleftrightarrow> selects g c row \<or> selects g d row"
  using assms by (cases c; cases d) (auto simp: selects_def list_ex_iff)

lemma selects_bitor_empty:
  "filter_is_empty c \<Longrightarrow> \<not> filter_is_empty d \<Longrightarrow> selects g (bitor c d) row \<longleftrightarrow> selects g d row"
  by (cases c; cases d) (auto simp: selects_def list_ex_iff)

lemma with_list_filter_selects:
  "with_list_filter g (Some c) rows = filter (selects g c) rows"
  by (simp add: with_list_filter_def selects_def [abs_def])

end
