(* ===== verification/Credential_Tables.thy ===== *)
theory Credential_Tables
  imports List_Filter
begin

text \<open>
  The tables behind a credential: the rows of \<open>sql-data-provider/src/entity/\<close> for credentials,
  claims and interactions, the history entries and blobs, and the state of the core they make up.
  \<open>core_now\<close> is what the clock shows and \<open>core_uuids\<close> the next UUID a generator returns; neither
  moves on its own while an operation runs. \<open>core_revocation\<close> is the state of the revocation
  methods, whatever it is.
\<close>

section \<open>Relations\<close>

text \<open>\<open>ClaimSchemaRelations\<close> and \<open>OrganisationRelations\<close> have no fields: an \<open>Option\<close> is a \<open>bool\<close>.\<close>

record ClaimRelations =
  clrel_schema :: bool

record CredentialSchemaRelations =
  csrel_claim_schemas :: bool
  csrel_organisation :: bool

record InteractionRelations =
  inrel_organisation :: bool

record CredentialRelations =
  credrel_claims :: "ClaimRelations option"
  credrel_issuer_identifier :: "IdentifierRelations option"
  credrel_issuer_certificate :: "CertificateRelations option"
  credrel_holder_identifier :: "IdentifierRelations option"
  credrel_schema :: "CredentialSchemaRelations option"
  credrel_interaction :: "InteractionRelations option"
  credrel_key :: "KeyRelations option"

definition credential_relations_default :: CredentialRelations where
  "credential_relations_default =
     \<lparr>credrel_claims = None, credrel_issuer_identifier = None, credrel_issuer_certificate = None,
      credrel_holder_identifier = None, credrel_schema = None, credrel_interaction = None,
      credrel_key = None\<rparr>"

section \<open>History\<close>

datatype HistoryAction =
    ActAccepted
  | ActCreated
  | ActCsrGenerated
  | ActDeactivated
  | ActDeleted
  | ActErrored
  | ActIssued
  | ActOffered
  | ActRejected
  | ActRequested
  | ActRevoked
  | ActPending
  | ActSuspended
  | ActRestored
  | ActShared
  | ActImported
  | ActClaimsRemoved
  | ActActivated
  | ActWithdrawn
  | ActRemoved
  | ActRetracted
  | ActUpdated
  | ActReactivated
  | ActExpired
  | ActInteractionCreated
  | ActInteractionErrored
  | ActInteractionExpired
  | ActDelivered

datatype HistoryEntityType =
    KeyEntity
  | DidEntity
  | IdentifierEntity
  | CertificateEntity
  | CredentialEntity
  | CredentialSchemaEntity
  | ProofEntity
  | ProofSchemaEntity
  | OrganisationEntity
  | BackupEntity
  | TrustAnchorEntity
  | TrustEntityEntity
  | WalletUnitEntity
  | UserEntity
  | ProviderEntity
  | WalletRelyingPartyEntity
  | StsRoleEntity
  | StsOrganisationEntity
  | StsIamRoleEntity
  | StsSessionEntity
  | StsTokenEntity
  | SignatureEntity
  | NotificationEntity
  | SupervisoryAuthorityEntity
  | TrustListPublicationEntity
  | TrustCollectionEntity
  | TrustListSubscriptionEntity
  | VerifierInstanceEntity

datatype HistorySource = CoreSource | BridgeSource | StsSource | WrprSource | BffSource

text \<open>The metadata of an entry is the text it is stored as.\<close>

record History =
  hist_id :: uuid
  hist_created_date :: date_time
  hist_action :: HistoryAction
  hist_name :: string
  hist_target :: "string option"
  hist_source :: HistorySource
  hist_entity_id :: "uuid option"
  hist_entity_type :: HistoryEntityType
  hist_metadata :: "string option"
  hist_organisation_id :: "uuid option"
  hist_user :: "string option"

section \<open>Rows\<close>

record credential_row =
  crow_id :: uuid
  crow_credential_schema_id :: uuid
  crow_created_date :: date_time
  crow_last_modified :: date_time
  crow_issuance_date :: "date_time option"
  crow_deleted_at :: "date_time option"
  crow_protocol :: string
  crow_redirect_uri :: "string option"
  crow_role :: CredentialRole
  crow_issuer_identifier_id :: "uuid option"
  crow_issuer_certificate_id :: "uuid option"
  crow_key_id :: "uuid option"
  crow_holder_identifier_id :: "uuid option"
  crow_interaction_id :: "uuid option"
  crow_suspend_end_date :: "date_time option"
  crow_state :: CredentialStateEnum
  crow_profile :: "string option"
  crow_credential_blob_id :: "uuid option"
  crow_wallet_unit_attestation_blob_id :: "uuid option"
  crow_wallet_instance_attestation_blob_id :: "uuid option"
  crow_webhook_url :: "string option"

text \<open>The value of a claim is stored as the bytes of its text and read back as text.\<close>

record claim_row =
  clrow_id :: uuid
  clrow_claim_schema_id :: uuid
  clrow_credential_id :: uuid
  clrow_value :: "string option"
  clrow_created_date :: date_time
  clrow_last_modified :: date_time
  clrow_path :: string
  clrow_selectively_disclosable :: bool

record interaction_row =
  irow_id :: uuid
  irow_created_date :: date_time
  irow_last_modified :: date_time
  irow_data :: "bytes option"
  irow_organisation_id :: uuid
  irow_nonce_id :: "uuid option"
  irow_interaction_type :: InteractionType
  irow_expires_at :: "date_time option"

record credential_schema_row =
  csrow_id :: uuid
  csrow_deleted_at :: "date_time option"
  csrow_created_date :: date_time
  csrow_last_modified :: date_time
  csrow_name :: string
  csrow_format :: string
  csrow_revocation_method :: "string option"
  csrow_key_storage_security :: "KeyStorageSecurity option"
  csrow_organisation_id :: uuid
  csrow_layout_type :: LayoutType
  csrow_layout_properties :: "string option"
  csrow_schema_id :: string
  csrow_imported_source_url :: string
  csrow_allow_suspension :: bool
  csrow_requires_wallet_instance_attestation :: bool
  csrow_transaction_code_type :: "TransactionCodeType option"
  csrow_transaction_code_length :: "nat option"
  csrow_transaction_code_description :: "string option"

record Notification =
  ntf_id :: uuid
  ntf_created_date :: date_time
  ntf_url :: string
  ntf_payload :: bytes
  ntf_next_try_date :: date_time
  ntf_tries_count :: nat
  ntf_type :: string
  ntf_history_target :: "string option"
  ntf_organisation_id :: uuid

section \<open>Conversions\<close>

text \<open>\<open>From<credential::Model>\<close>.\<close>

definition credential_from_row :: "credential_row \<Rightarrow> Credential" where
  "credential_from_row r =
     \<lparr>cred_id = crow_id r, cred_created_date = crow_created_date r,
      cred_issuance_date = crow_issuance_date r, cred_last_modified = crow_last_modified r,
      cred_deleted_at = crow_deleted_at r, cred_protocol = crow_protocol r,
      cred_redirect_uri = crow_redirect_uri r, cred_role = crow_role r, cred_state = crow_state r,
      cred_suspend_end_date = crow_suspend_end_date r, cred_profile = crow_profile r,
      cred_blob_id = crow_credential_blob_id r,
      cred_wallet_unit_attestation_blob_id = crow_wallet_unit_attestation_blob_id r,
      cred_wallet_instance_attestation_blob_id = crow_wallet_instance_attestation_blob_id r,
      cred_webhook_url = crow_webhook_url r, cred_claims = None, cred_issuer_identifier = None,
      cred_issuer_certificate = None, cred_holder_identifier = None, cred_schema = None,
      cred_interaction = None, cred_key = None\<rparr>"

fun from_clearable :: "'a Clearable \<Rightarrow> 'a \<Rightarrow> 'a" where
  "from_clearable (ForceSet v) old = v"
| "from_clearable DontTouch old = old"

text \<open>The columns a request sets.\<close>

definition set_or :: "'a option \<Rightarrow> 'a option \<Rightarrow> 'a option" where
  "set_or new old = (case new of None \<Rightarrow> old | Some v \<Rightarrow> Some v)"

definition apply_update :: "UpdateCredentialRequest \<Rightarrow> date_time \<Rightarrow> credential_row \<Rightarrow> credential_row" where
  "apply_update request now c = c
     \<lparr>crow_last_modified := now,
      crow_issuance_date := set_or (upd_issuance_date request) (crow_issuance_date c),
      crow_holder_identifier_id := set_or (upd_holder_identifier_id request) (crow_holder_identifier_id c),
      crow_issuer_identifier_id := set_or (upd_issuer_identifier_id request) (crow_issuer_identifier_id c),
      crow_issuer_certificate_id := set_or (upd_issuer_certificate_id request) (crow_issuer_certificate_id c),
      crow_interaction_id := set_or (upd_interaction request) (crow_interaction_id c),
      crow_key_id := set_or (upd_key request) (crow_key_id c),
      crow_redirect_uri := (case upd_redirect_uri request of None \<Rightarrow> crow_redirect_uri c | Some uri \<Rightarrow> uri),
      crow_suspend_end_date := from_clearable (upd_suspend_end_date request) (crow_suspend_end_date c),
      crow_state := (case upd_state request of None \<Rightarrow> crow_state c | Some st \<Rightarrow> st),
      crow_credential_blob_id := set_or (upd_credential_blob_id request) (crow_credential_blob_id c),
      crow_wallet_unit_attestation_blob_id :=
        set_or (upd_wallet_unit_attestation_blob_id request) (crow_wallet_unit_attestation_blob_id c),
      crow_wallet_instance_attestation_blob_id :=
        set_or (upd_wallet_instance_attestation_blob_id request) (crow_wallet_instance_attestation_blob_id c)\<rparr>"

section \<open>The state of the core\<close>

text \<open>\<open>core_proof_interactions\<close> are the interactions that proofs refer to.\<close>

record 'r core_db =
  core_credentials :: "credential_row list"
  core_claims :: "claim_row list"
  core_interactions :: "interaction_row list"
  core_blobs :: "Blob list"
  core_history :: "History list"
  core_notifications :: "Notification list"
  core_proof_interactions :: "uuid list"
  core_now :: date_time
  core_uuids :: uuid
  core_revocation :: 'r

definition fresh_uuid :: "('r core_db, 'e, uuid) comp" where
  "fresh_uuid s = (Inr (core_uuids s), s\<lparr>core_uuids := core_uuids s + 1\<rparr>)"

definition now_utc :: "('r core_db, 'e, date_time) comp" where
  "now_utc = sread core_now"

section \<open>Repositories\<close>

text \<open>
  What the credential tables need of the other repositories and tables: loading a related entity
  with its relations, the rows that a list query joins, and the rows a foreign key may point to.
\<close>

record credential_related =
  rr_identifier :: "uuid \<Rightarrow> IdentifierRelations \<Rightarrow> (DataLayerError, Identifier option) result"
  rr_certificate :: "uuid \<Rightarrow> CertificateRelations \<Rightarrow> (DataLayerError, Certificate option) result"
  rr_schema :: "uuid \<Rightarrow> CredentialSchemaRelations \<Rightarrow> (DataLayerError, CredentialSchema option) result"
  rr_key :: "uuid \<Rightarrow> KeyRelations \<Rightarrow> (DataLayerError, Key option) result"
  rr_organisation :: "uuid \<Rightarrow> (DataLayerError, Organisation option) result"
  rr_claim_schema_list :: "uuid list \<Rightarrow> (DataLayerError, ClaimSchema list) result"
  rr_schema_row :: "uuid \<Rightarrow> credential_schema_row option"
  rr_identifier_row :: "uuid \<Rightarrow> Identifier option"
  rr_claim_schema_order :: "uuid \<Rightarrow> nat option"
  rr_claim_schema_key :: "uuid \<Rightarrow> string option"
  rr_key_exists :: "uuid \<Rightarrow> bool"
  rr_certificate_exists :: "uuid \<Rightarrow> bool"
  rr_organisation_exists :: "uuid \<Rightarrow> bool"

datatype CredentialFilterValue =
    FvClaimName StringMatch
  | FvClaimValue StringMatch
  | FvCredentialSchemaName StringMatch
  | FvOrganisationId uuid
  | FvRoles "CredentialRole list"
  | FvCredentialIds "uuid list"
  | FvCredentialSchemaIds "uuid list"
  | FvSchemaId string
  | FvIssuerIds "uuid list"
  | FvStates "CredentialStateEnum list"
  | FvSuspendEndDate "date_time ValueComparison"
  | FvProfiles "string list"
  | FvCreatedDate "date_time ValueComparison"
  | FvLastModified "date_time ValueComparison"
  | FvIssuanceDate "date_time ValueComparison"
  | FvRevocationDate "date_time ValueComparison"

record 'a GetListResponse =
  glr_values :: "'a list"
  glr_total_pages :: nat
  glr_total_items :: nat

text \<open>
  The trait \<open>CredentialRepository\<close>. A list query is its filter: no modelled component sorts or
  pages.
\<close>

record 's credential_repository =
  repo_create_credential :: "Credential \<Rightarrow> ('s, DataLayerError, uuid) comp"
  repo_delete_credential :: "Credential \<Rightarrow> ('s, DataLayerError, unit) comp"
  repo_delete_credential_blobs :: "uuid list \<Rightarrow> ('s, DataLayerError, unit) comp"
  repo_get_credential :: "uuid \<Rightarrow> CredentialRelations \<Rightarrow> ('s, DataLayerError, Credential option) comp"
  repo_get_credentials_by_interaction_id ::
    "uuid \<Rightarrow> CredentialRelations \<Rightarrow> ('s, DataLayerError, Credential list) comp"
  repo_get_credential_list ::
    "CredentialFilterValue ListFilterCondition option \<Rightarrow> ('s, DataLayerError, Credential GetListResponse) comp"
  repo_update_credential :: "uuid \<Rightarrow> UpdateCredentialRequest \<Rightarrow> ('s, DataLayerError, unit) comp"
  repo_get_credentials_by_claim_names ::
    "string list \<Rightarrow> CredentialRelations \<Rightarrow> ('s, DataLayerError, Credential list) comp"
  repo_get_credential_by_claim_id ::
    "uuid \<Rightarrow> CredentialRelations \<Rightarrow> ('s, DataLayerError, Credential option) comp"

record UpdateInteractionRequest =
  uir_data :: "bytes option option"

text \<open>\<open>From<Interaction>\<close>.\<close>

definition update_interaction_request :: "Interaction \<Rightarrow> UpdateInteractionRequest" where
  "update_interaction_request i = \<lparr>uir_data = Some (inter_data i)\<rparr>"

text \<open>The trait \<open>InteractionRepository\<close>, without the operation on proofs.\<close>

record 's interaction_repository =
  repo_create_interaction :: "Interaction \<Rightarrow> ('s, DataLayerError, uuid) comp"
  repo_update_interaction :: "uuid \<Rightarrow> UpdateInteractionRequest \<Rightarrow> ('s, DataLayerError, unit) comp"
  repo_get_interaction ::
    "uuid \<Rightarrow> InteractionRelations \<Rightarrow> ('s, DataLayerError, Interaction option) comp"
  repo_mark_nonce_as_used :: "uuid \<Rightarrow> uuid \<Rightarrow> ('s, DataLayerError, unit) comp"
  repo_delete_interaction :: "uuid \<Rightarrow> ('s, DataLayerError, unit) comp"
  repo_update_expired_credentials :: "('s, DataLayerError, uuid list) comp"

record UpdateBlobRequest =
  ubr_value :: "bytes option"

text \<open>The trait \<open>BlobRepository\<close>.\<close>

record 's blob_repository =
  repo_create_blob :: "Blob \<Rightarrow> ('s, DataLayerError, unit) comp"
  repo_get_blob :: "uuid \<Rightarrow> ('s, DataLayerError, Blob option) comp"
  repo_update_blob :: "uuid \<Rightarrow> UpdateBlobRequest \<Rightarrow> ('s, DataLayerError, unit) comp"
  repo_delete_blob :: "uuid \<Rightarrow> ('s, DataLayerError, unit) comp"
  repo_delete_many_blobs :: "uuid list \<Rightarrow> ('s, DataLayerError, unit) comp"

type_synonym 's create_history = "History \<Rightarrow> ('s, DataLayerError, uuid) comp"

section \<open>The contract of a credential repository\<close>

text \<open>The columns of a credential, without its relations.\<close>

definition own_columns :: "Credential \<Rightarrow> Credential" where
  "own_columns c = c\<lparr>cred_claims := None, cred_issuer_identifier := None, cred_issuer_certificate := None,
     cred_holder_identifier := None, cred_schema := None, cred_interaction := None, cred_key := None\<rparr>"

text \<open>
  What a client relies on: \<open>row\<close> is the stored row of a credential. Reading changes nothing and
  shows the row; an update sets the columns of its request on that one row, or leaves every row
  alone, and a success means that it has set them; an error may come after the update. Deleting
  only marks the row. \<open>rest\<close> is what the repository never touches.
\<close>

locale credential_contract =
  fixes repo :: "'s credential_repository"
    and inv :: "'s \<Rightarrow> bool"
    and row :: "'s \<Rightarrow> uuid \<Rightarrow> credential_row option"
    and clock :: "'s \<Rightarrow> date_time"
    and rest :: "'s \<Rightarrow> 'r"
  assumes get_keeps: "snd (repo_get_credential repo i rel s) = s"
    and get_found: "inv s \<Longrightarrow> repo_get_credential repo i rel s = (Inr (Some c), t) \<Longrightarrow>
      \<exists>r. row s i = Some r \<and> own_columns c = credential_from_row r"
    and get_missing: "inv s \<Longrightarrow> repo_get_credential repo i rel s = (Inr None, t) \<Longrightarrow> row s i = None"
    and row_id: "inv s \<Longrightarrow> row s i = Some r \<Longrightarrow> crow_id r = i"
    and update: "inv s \<Longrightarrow> repo_update_credential repo i req s = (res, t) \<Longrightarrow>
      inv t \<and> clock t = clock s \<and> rest t = rest s \<and>
      (row t = row s \<and> res \<noteq> Inr () \<or>
       (\<exists>r. row s i = Some r \<and> row t = (row s)(i \<mapsto> apply_update req (clock s) r)))"
    and list_keeps: "snd (repo_get_credential_list repo f s) = s"
    and listed: "inv s \<Longrightarrow> repo_get_credential_list repo f s = (Inr l, t) \<Longrightarrow> c \<in> set (glr_values l) \<Longrightarrow>
      \<exists>r. row s (cred_id c) = Some r \<and> own_columns c = credential_from_row r \<and> crow_deleted_at r = None"
    and delete: "inv s \<Longrightarrow> repo_delete_credential repo c s = (res, t) \<Longrightarrow>
      inv t \<and> clock t = clock s \<and> rest t = rest s \<and>
      (row t = row s \<and> res \<noteq> Inr () \<or>
       (\<exists>r. row s (cred_id c) = Some r \<and> row t = (row s)(cred_id c \<mapsto> r\<lparr>crow_deleted_at := Some (clock s)\<rparr>)))"
begin

lemma get_result: "repo_get_credential repo i rel s = (res, t) \<Longrightarrow> t = s"
  using get_keeps [of i rel s] by simp

lemma list_result: "repo_get_credential_list repo f s = (res, t) \<Longrightarrow> t = s"
  using list_keeps [of f s] by simp

lemma found_state:
  assumes "inv s" and "repo_get_credential repo i rel s = (Inr (Some c), t)"
  shows "\<exists>r. row s i = Some r \<and> cred_id c = i \<and> cred_state c = crow_state r \<and> cred_role c = crow_role r \<and>
    cred_deleted_at c = crow_deleted_at r \<and> cred_suspend_end_date c = crow_suspend_end_date r"
proof -
  obtain r where r: "row s i = Some r" "own_columns c = credential_from_row r"
    using get_found [OF assms] by blast
  have "cred_id c = crow_id r" "cred_state c = crow_state r" "cred_role c = crow_role r"
    "cred_deleted_at c = crow_deleted_at r" "cred_suspend_end_date c = crow_suspend_end_date r"
    using arg_cong [OF r(2), of cred_id] arg_cong [OF r(2), of cred_state] arg_cong [OF r(2), of cred_role]
      arg_cong [OF r(2), of cred_deleted_at] arg_cong [OF r(2), of cred_suspend_end_date]
    by (simp_all add: own_columns_def credential_from_row_def)
  with r(1) row_id [OF assms(1) r(1)] show ?thesis by simp
qed

end

end
