(* ===== verification/Credential_Store.thy ===== *)
theory Credential_Store
  imports Credential_Tables
begin

text \<open>
  The SQL providers of claims, interactions, blobs, history and credentials
  (\<open>sql-data-provider/src/\<close>): one definition per operation, over the tables of
  \<open>Credential_Tables\<close>. An insert checks the primary key and the foreign keys that the entities
  declare.
\<close>

section \<open>Claims\<close>

definition claim_to_row :: "Claim \<Rightarrow> (DataLayerError, claim_row) result" where
  "claim_to_row c =
     rbind (ok_or (claim_schema c) IncorrectParameters) (\<lambda>sch. Inr
       \<lparr>clrow_id = claim_id c, clrow_claim_schema_id = csch_id sch, clrow_credential_id = claim_credential_id c,
        clrow_value = claim_value c, clrow_created_date = claim_created_date c,
        clrow_last_modified = claim_last_modified c, clrow_path = claim_path c,
        clrow_selectively_disclosable = claim_selectively_disclosable c\<rparr>)"

definition claim_from_row :: "claim_row \<Rightarrow> Claim" where
  "claim_from_row r =
     \<lparr>claim_id = clrow_id r, claim_credential_id = clrow_credential_id r,
      claim_created_date = clrow_created_date r, claim_last_modified = clrow_last_modified r,
      claim_value = clrow_value r, claim_path = clrow_path r,
      claim_selectively_disclosable = clrow_selectively_disclosable r, claim_schema = None\<rparr>"

definition insert_claim_rows :: "credential_related \<Rightarrow> claim_row list \<Rightarrow> ('r core_db, db_err, unit) comp" where
  "insert_claim_rows rel rows s =
     (if \<not> distinct (map clrow_id (core_claims s @ rows)) then (Inl UniqueConstraintViolation, s)
      else if list_all (\<lambda>r. clrow_credential_id r \<in> crow_id ` set (core_credentials s) \<and>
          rr_claim_schema_order rel (clrow_claim_schema_id r) \<noteq> None) rows
      then (Inr (), s\<lparr>core_claims := core_claims s @ rows\<rparr>)
      else (Inl ForeignKeyConstraintViolation, s))"

definition create_claim_list :: "credential_related \<Rightarrow> Claim list \<Rightarrow> ('r core_db, DataLayerError, unit) comp" where
  "create_claim_list rel claims =
     sbind (slift (try_map claim_to_row claims)) (\<lambda>models.
     smap_err to_data_layer_error (insert_claim_rows rel models))"

definition delete_claims_for_credentials :: "uuid list \<Rightarrow> ('r core_db, DataLayerError, unit) comp" where
  "delete_claims_for_credentials request s =
     (Inr (), s\<lparr>core_claims := filter (\<lambda>r. clrow_credential_id r \<notin> set request) (core_claims s)\<rparr>)"

definition delete_claims_for_credential :: "uuid \<Rightarrow> ('r core_db, DataLayerError, unit) comp" where
  "delete_claims_for_credential request s =
     (Inr (), s\<lparr>core_claims := filter (\<lambda>r. clrow_credential_id r \<noteq> request) (core_claims s)\<rparr>)"

text \<open>\<open>claim_id_to_index\<close>: of a repeated id, the last position.\<close>

definition claim_id_to_index :: "uuid list \<Rightarrow> uuid \<Rightarrow> nat" where
  "claim_id_to_index ids i = (case map_of (rev (zip ids [0..<length ids])) i of Some n \<Rightarrow> n | None \<Rightarrow> 0)"

definition get_claim_list ::
  "credential_related \<Rightarrow> uuid list \<Rightarrow> ClaimRelations \<Rightarrow> ('r core_db, DataLayerError, Claim list) comp" where
  "get_claim_list rel ids relations =
     sbind (sread (\<lambda>s. filter (\<lambda>r. clrow_id r \<in> set ids) (core_claims s))) (\<lambda>models.
     sbind (slift (ensure (length ids = length models) (IncompleteClaimsList (length ids) (length models)))) (\<lambda>_.
     let models = sort_key (\<lambda>r. claim_id_to_index ids (clrow_id r)) models in
     if clrel_schema relations then
       sbind (slift (rr_claim_schema_list rel (map clrow_claim_schema_id models))) (\<lambda>claim_schemas.
       slift (try_map (\<lambda>model.
         rbind (ok_or (find (\<lambda>schema. csch_id schema = clrow_claim_schema_id model) claim_schemas)
             (MissingClaimsSchemaForClaim (clrow_claim_schema_id model) (clrow_id model)))
           (\<lambda>schema. Inr ((claim_from_row model)\<lparr>claim_schema := Some schema\<rparr>))) models))
     else sret (map claim_from_row models)))"

section \<open>Interactions\<close>

definition interaction_to_row :: "Interaction \<Rightarrow> (DataLayerError, interaction_row) result" where
  "interaction_to_row i =
     rbind (ok_or (inter_organisation i) DlMappingError) (\<lambda>organisation. Inr
       \<lparr>irow_id = inter_id i, irow_created_date = inter_created_date i,
        irow_last_modified = inter_last_modified i, irow_data = inter_data i,
        irow_organisation_id = org_id organisation, irow_nonce_id = inter_nonce_id i,
        irow_interaction_type = inter_type i, irow_expires_at = inter_expires_at i\<rparr>)"

definition interaction_from_models :: "interaction_row \<Rightarrow> Organisation option \<Rightarrow> Interaction" where
  "interaction_from_models r organisation =
     \<lparr>inter_id = irow_id r, inter_created_date = irow_created_date r,
      inter_last_modified = irow_last_modified r, inter_data = irow_data r,
      inter_organisation = organisation, inter_nonce_id = irow_nonce_id r,
      inter_type = irow_interaction_type r, inter_expires_at = irow_expires_at r\<rparr>"

definition create_interaction :: "credential_related \<Rightarrow> Interaction \<Rightarrow> ('r core_db, DataLayerError, uuid) comp" where
  "create_interaction rel request =
     sbind (slift (interaction_to_row request)) (\<lambda>row.
     smap_err to_data_layer_error (\<lambda>s.
       if irow_id row \<in> irow_id ` set (core_interactions s) then (Inl UniqueConstraintViolation, s)
       else if rr_organisation_exists rel (irow_organisation_id row)
       then (Inr (irow_id row), s\<lparr>core_interactions := core_interactions s @ [row]\<rparr>)
       else (Inl ForeignKeyConstraintViolation, s)))"

definition update_interaction :: "uuid \<Rightarrow> UpdateInteractionRequest \<Rightarrow> ('r core_db, DataLayerError, unit) comp" where
  "update_interaction i request =
     smap_err to_update_data_layer_error (\<lambda>s.
       if i \<in> irow_id ` set (core_interactions s)
       then (Inr (), s\<lparr>core_interactions := map (\<lambda>r. if irow_id r = i
               then (case uir_data request of None \<Rightarrow> r | Some d \<Rightarrow> r\<lparr>irow_data := d\<rparr>) else r)
             (core_interactions s)\<rparr>)
       else (Inl DbRecordNotUpdated, s))"

definition get_interaction ::
  "credential_related \<Rightarrow> uuid \<Rightarrow> InteractionRelations \<Rightarrow> ('r core_db, DataLayerError, Interaction option) comp" where
  "get_interaction rel i relations =
     sbind (sread (\<lambda>s. find (\<lambda>r. irow_id r = i) (core_interactions s))) (\<lambda>row.
     case row of
       None \<Rightarrow> sret None
     | Some row \<Rightarrow>
         if inrel_organisation relations then
           sbind (slift (rr_organisation rel (irow_organisation_id row))) (\<lambda>found.
           sbind (slift (ok_or found (MissingRequiredRelation ''interaction-organisation''
               (uuid_text (irow_organisation_id row))))) (\<lambda>organisation.
           sret (Some (interaction_from_models row (Some organisation)))))
         else sret (Some (interaction_from_models row None)))"

definition mark_nonce_as_used :: "uuid \<Rightarrow> uuid \<Rightarrow> ('r core_db, DataLayerError, unit) comp" where
  "mark_nonce_as_used i nonce s =
     (if list_ex (\<lambda>r. irow_id r = i \<and> irow_nonce_id r = None) (core_interactions s)
      then (Inr (), s\<lparr>core_interactions := map (\<lambda>r. if irow_id r = i \<and> irow_nonce_id r = None
              then r\<lparr>irow_nonce_id := Some nonce\<rparr> else r) (core_interactions s)\<rparr>)
      else (Inl RecordNotUpdated, s))"

definition delete_interaction :: "uuid \<Rightarrow> ('r core_db, DataLayerError, unit) comp" where
  "delete_interaction i s =
     (if list_ex (\<lambda>c. crow_interaction_id c = Some i) (core_credentials s) \<or> i \<in> set (core_proof_interactions s)
      then (Inl (DbError ''ForeignKeyConstraintViolation''), s)
      else (Inr (), s\<lparr>core_interactions := filter (\<lambda>r. irow_id r \<noteq> i) (core_interactions s)\<rparr>))"

text \<open>The rows the subquery of \<open>update_expired_credentials\<close> selects.\<close>

definition interaction_has_expired :: "'r core_db \<Rightarrow> credential_row \<Rightarrow> bool" where
  "interaction_has_expired s c \<longleftrightarrow>
     crow_state c = CredentialStateEnum.Pending \<and>
     list_ex (\<lambda>i. crow_interaction_id c = Some (irow_id i) \<and>
       (case irow_expires_at i of None \<Rightarrow> False | Some e \<Rightarrow> e < core_now s)) (core_interactions s)"

definition update_expired_credentials :: "('r core_db, DataLayerError, uuid list) comp" where
  "update_expired_credentials s =
     (let now = core_now s;
          t = s\<lparr>core_credentials := map (\<lambda>c. if interaction_has_expired s c
                then c\<lparr>crow_state := InteractionExpired, crow_last_modified := now\<rparr> else c)
              (core_credentials s)\<rparr>
      in (Inr (map crow_id (filter (\<lambda>c. crow_state c = InteractionExpired \<and> crow_last_modified c = now)
           (core_credentials t))), t))"

section \<open>Blobs\<close>

definition create_blob :: "Blob \<Rightarrow> ('r core_db, DataLayerError, unit) comp" where
  "create_blob blob =
     smap_err to_data_layer_error (\<lambda>s.
       if blob_id blob \<in> blob_id ` set (core_blobs s) then (Inl UniqueConstraintViolation, s)
       else (Inr (), s\<lparr>core_blobs := core_blobs s @ [blob]\<rparr>))"

definition get_blob :: "uuid \<Rightarrow> ('r core_db, DataLayerError, Blob option) comp" where
  "get_blob i = sread (\<lambda>s. find (\<lambda>b. blob_id b = i) (core_blobs s))"

definition update_blob :: "uuid \<Rightarrow> UpdateBlobRequest \<Rightarrow> ('r core_db, DataLayerError, unit) comp" where
  "update_blob i update =
     smap_err to_update_data_layer_error (\<lambda>s.
       if i \<in> blob_id ` set (core_blobs s)
       then (Inr (), s\<lparr>core_blobs := map (\<lambda>b. if blob_id b = i
               then (case ubr_value update of None \<Rightarrow> b | Some v \<Rightarrow> b\<lparr>blob_value := v\<rparr>)
                 \<lparr>blob_last_modified := core_now s\<rparr> else b) (core_blobs s)\<rparr>)
       else (Inl DbRecordNotUpdated, s))"

definition delete_blob :: "uuid \<Rightarrow> ('r core_db, DataLayerError, unit) comp" where
  "delete_blob i s = (Inr (), s\<lparr>core_blobs := filter (\<lambda>b. blob_id b \<noteq> i) (core_blobs s)\<rparr>)"

definition delete_many_blobs :: "uuid list \<Rightarrow> ('r core_db, DataLayerError, unit) comp" where
  "delete_many_blobs ids s = (Inr (), s\<lparr>core_blobs := filter (\<lambda>b. blob_id b \<notin> set ids) (core_blobs s)\<rparr>)"

section \<open>History\<close>

definition create_history_row :: "credential_related \<Rightarrow> History \<Rightarrow> ('r core_db, DataLayerError, uuid) comp" where
  "create_history_row rel request =
     smap_err to_data_layer_error (\<lambda>s.
       if hist_id request \<in> hist_id ` set (core_history s) then (Inl UniqueConstraintViolation, s)
       else if case hist_organisation_id request of None \<Rightarrow> True | Some org \<Rightarrow> rr_organisation_exists rel org
       then (Inr (hist_id request), s\<lparr>core_history := core_history s @ [request]\<rparr>)
       else (Inl ForeignKeyConstraintViolation, s))"

section \<open>Credentials: conversions\<close>

definition request_to_active_model :: "Credential \<Rightarrow> CredentialSchema \<Rightarrow> credential_row" where
  "request_to_active_model request schema =
     \<lparr>crow_id = cred_id request, crow_credential_schema_id = schema_uuid schema,
      crow_created_date = cred_created_date request, crow_last_modified = cred_last_modified request,
      crow_issuance_date = cred_issuance_date request, crow_deleted_at = cred_deleted_at request,
      crow_protocol = cred_protocol request, crow_redirect_uri = cred_redirect_uri request,
      crow_role = cred_role request,
      crow_issuer_identifier_id = map_option idf_id (cred_issuer_identifier request),
      crow_issuer_certificate_id = map_option cert_id (cred_issuer_certificate request),
      crow_key_id = map_option Entities.key_id (cred_key request),
      crow_holder_identifier_id = map_option idf_id (cred_holder_identifier request),
      crow_interaction_id = map_option inter_id (cred_interaction request),
      crow_suspend_end_date = cred_suspend_end_date request, crow_state = cred_state request,
      crow_profile = cred_profile request, crow_credential_blob_id = cred_blob_id request,
      crow_wallet_unit_attestation_blob_id = cred_wallet_unit_attestation_blob_id request,
      crow_wallet_instance_attestation_blob_id = cred_wallet_instance_attestation_blob_id request,
      crow_webhook_url = cred_webhook_url request\<rparr>"

section \<open>Credentials: loading\<close>

definition get_related_identifier ::
  "credential_related \<Rightarrow> uuid option \<Rightarrow> IdentifierRelations option \<Rightarrow> (DataLayerError, Identifier option) result" where
  "get_related_identifier rel i relations =
     (case (i, relations) of
        (Some i, Some relations) \<Rightarrow>
          rbind (rr_identifier rel i relations) (\<lambda>found.
          rbind (ok_or found (MissingRequiredRelation ''credential-identifier'' (uuid_text i)))
            (\<lambda>identifier. Inr (Some identifier)))
      | _ \<Rightarrow> Inr None)"

definition get_credential_schema ::
  "credential_related \<Rightarrow> uuid \<Rightarrow> CredentialSchemaRelations option \<Rightarrow> (DataLayerError, CredentialSchema option) result" where
  "get_credential_schema rel i relations =
     (case relations of
        None \<Rightarrow> Inr None
      | Some relations \<Rightarrow>
          rbind (rr_schema rel i relations) (\<lambda>found.
          rbind (ok_or found (MissingRequiredRelation ''credential-credential_schema'' (uuid_text i)))
            (\<lambda>schema. Inr (Some schema))))"

text \<open>Rows of equal order come in the order of the table.\<close>

definition get_claims ::
  "credential_related \<Rightarrow> credential_row \<Rightarrow> ClaimRelations \<Rightarrow> ('r core_db, DataLayerError, Claim list) comp" where
  "get_claims rel credential relations =
     sbind (sread (\<lambda>s. map clrow_id
       (sort_key (\<lambda>r. the (rr_claim_schema_order rel (clrow_claim_schema_id r)))
         (filter (\<lambda>r. clrow_credential_id r = crow_id credential \<and>
             rr_claim_schema_order rel (clrow_claim_schema_id r) \<noteq> None) (core_claims s))))) (\<lambda>ids.
     get_claim_list rel ids relations)"

definition credential_model_to_repository_model ::
  "credential_related \<Rightarrow> credential_row \<Rightarrow> CredentialRelations \<Rightarrow> ('r core_db, DataLayerError, Credential) comp" where
  "credential_model_to_repository_model rel credential relations =
     sbind (slift (get_related_identifier rel (crow_issuer_identifier_id credential)
       (credrel_issuer_identifier relations))) (\<lambda>issuer_identifier.
     sbind (slift (get_related_identifier rel (crow_holder_identifier_id credential)
       (credrel_holder_identifier relations))) (\<lambda>holder_identifier.
     sbind (slift (get_credential_schema rel (crow_credential_schema_id credential)
       (credrel_schema relations))) (\<lambda>schema.
     sbind (case credrel_claims relations of
         None \<Rightarrow> sret None
       | Some claim_relations \<Rightarrow>
           sbind (get_claims rel credential claim_relations) (\<lambda>claims. sret (Some claims))) (\<lambda>claims.
     sbind (case (credrel_interaction relations, crow_interaction_id credential) of
         (Some interaction_relations, Some interaction_id) \<Rightarrow>
           sbind (get_interaction rel interaction_id interaction_relations) (\<lambda>found.
           sbind (slift (ok_or found (MissingRequiredRelation ''credential-interaction''
               (uuid_text interaction_id)))) (\<lambda>interaction. sret (Some interaction)))
       | _ \<Rightarrow> sret None) (\<lambda>interaction.
     sbind (case (credrel_key relations, crow_key_id credential) of
         (Some key_relations, Some kid) \<Rightarrow>
           sbind (slift (rr_key rel kid key_relations)) (\<lambda>found.
           sbind (slift (ok_or found (MissingRequiredRelation ''credential-key'' (uuid_text kid))))
             (\<lambda>key. sret (Some key)))
       | _ \<Rightarrow> sret None) (\<lambda>key.
     sbind (case (credrel_issuer_certificate relations, crow_issuer_certificate_id credential) of
         (Some certificate_relations, Some certificate_id) \<Rightarrow>
           sbind (slift (rr_certificate rel certificate_id certificate_relations)) (\<lambda>found.
           sbind (slift (ok_or found (MissingRequiredRelation ''credential-certificate''
               (uuid_text certificate_id)))) (\<lambda>certificate. sret (Some certificate)))
       | _ \<Rightarrow> sret None) (\<lambda>issuer_certificate.
     sret ((credential_from_row credential)
       \<lparr>cred_issuer_identifier := issuer_identifier, cred_holder_identifier := holder_identifier,
        cred_claims := claims, cred_schema := schema, cred_interaction := interaction,
        cred_key := key, cred_issuer_certificate := issuer_certificate\<rparr>))))))))"

fun credentials_to_repository ::
  "credential_related \<Rightarrow> credential_row list \<Rightarrow> CredentialRelations \<Rightarrow> ('r core_db, DataLayerError, Credential list) comp" where
  "credentials_to_repository rel [] relations = sret []"
| "credentials_to_repository rel (c # cs) relations =
     sbind (credential_model_to_repository_model rel c relations) (\<lambda>x.
     sbind (credentials_to_repository rel cs relations) (\<lambda>xs. sret (x # xs)))"

section \<open>Credentials: lists\<close>

text \<open>
  A row of the list query: a credential joined with its schema, with its issuer if it has one,
  and, when the filter asks for it, with one of its claims.
\<close>

record list_join =
  lj_credential :: credential_row
  lj_schema :: credential_schema_row
  lj_issuer :: "Identifier option"
  lj_claim :: "claim_row option"

definition credential_filter_condition :: "sql_text \<Rightarrow> CredentialFilterValue \<Rightarrow> list_join condition" where
  "credential_filter_condition sql fv row =
     (case fv of
        FvCredentialSchemaName sm \<Rightarrow> get_string_match_condition sql (\<lambda>r. Some (csrow_name (lj_schema r))) sm row
      | FvClaimName sm \<Rightarrow> get_string_match_condition sql (\<lambda>r. map_option clrow_path (lj_claim r)) sm row
      | FvClaimValue sm \<Rightarrow>
          get_blob_match_condition sql (\<lambda>r. Option.bind (lj_claim r) clrow_value) sm 255 row
      | FvOrganisationId org \<Rightarrow> csrow_organisation_id (lj_schema row) = org
      | FvRoles roles \<Rightarrow> crow_role (lj_credential row) \<in> set roles
      | FvCredentialIds ids \<Rightarrow> crow_id (lj_credential row) \<in> set ids
      | FvCredentialSchemaIds ids \<Rightarrow> crow_credential_schema_id (lj_credential row) \<in> set ids
      | FvSchemaId sid \<Rightarrow> sql_eq sql (csrow_schema_id (lj_schema row)) sid
      | FvIssuerIds ids \<Rightarrow> crow_issuer_identifier_id (lj_credential row) \<in> Some ` set ids
      | FvStates states \<Rightarrow> crow_state (lj_credential row) \<in> set states
      | FvSuspendEndDate v \<Rightarrow> get_comparison_condition (crow_suspend_end_date \<circ> lj_credential) v row
      | FvProfiles profiles \<Rightarrow> (case crow_profile (lj_credential row) of
            None \<Rightarrow> False | Some p \<Rightarrow> list_ex (sql_eq sql p) profiles)
      | FvCreatedDate v \<Rightarrow> get_comparison_condition (Some \<circ> crow_created_date \<circ> lj_credential) v row
      | FvLastModified v \<Rightarrow> get_comparison_condition (Some \<circ> crow_last_modified \<circ> lj_credential) v row
      | FvIssuanceDate v \<Rightarrow> get_comparison_condition (crow_issuance_date \<circ> lj_credential) v row
      | FvRevocationDate v \<Rightarrow>
          get_comparison_condition (Some \<circ> crow_last_modified \<circ> lj_credential) v row \<and>
          crow_state (lj_credential row) = CredentialStateEnum.Revoked)"

datatype joined_table = ClaimTable

fun credential_filter_join :: "CredentialFilterValue \<Rightarrow> joined_table list" where
  "credential_filter_join (FvClaimName _) = [ClaimTable]"
| "credential_filter_join (FvClaimValue _) = [ClaimTable]"
| "credential_filter_join _ = []"

text \<open>A left join: a credential without claims is one row with no claim.\<close>

definition join_claims :: "claim_row list \<Rightarrow> list_join \<Rightarrow> list_join list" where
  "join_claims claims row =
     (case filter (\<lambda>c. clrow_credential_id c = crow_id (lj_credential row)) claims of
        [] \<Rightarrow> [row]
      | cs \<Rightarrow> map (\<lambda>c. row\<lparr>lj_claim := Some c\<rparr>) cs)"

definition list_join_row :: "credential_related \<Rightarrow> credential_row \<Rightarrow> list_join list" where
  "list_join_row rel c =
     (case rr_schema_row rel (crow_credential_schema_id c) of
        None \<Rightarrow> []
      | Some sch \<Rightarrow> [\<lparr>lj_credential = c, lj_schema = sch,
          lj_issuer = Option.bind (crow_issuer_identifier_id c) (rr_identifier_row rel), lj_claim = None\<rparr>])"

text \<open>
  The columns of the query do not include the claim, so \<open>DISTINCT\<close>, set when the filter joins the
  claims, leaves one row per credential.
\<close>

definition get_credential_list_query ::
  "sql_text \<Rightarrow> credential_related \<Rightarrow> CredentialFilterValue ListFilterCondition option \<Rightarrow> 'r core_db \<Rightarrow> list_join list" where
  "get_credential_list_query sql rel filtering s =
     (let rows = concat (map (list_join_row rel) (filter (\<lambda>c. crow_deleted_at c = None) (core_credentials s)));
          joins = (case filtering of None \<Rightarrow> [] | Some c \<Rightarrow> get_join_relations credential_filter_join c)
      in if joins = [] then with_list_filter (credential_filter_condition sql) filtering rows
         else remdups (map (\<lambda>r. r\<lparr>lj_claim := None\<rparr>)
           (with_list_filter (credential_filter_condition sql) filtering
             (concat (map (join_claims (core_claims s)) rows)))))"

text \<open>
  \<open>credential_list_model_to_repository_model\<close>. The columns of the issuer are those of one row, so
  they are all there or none is; the columns of the transaction code are checked. The layout
  properties are selected only when the query includes them, and no modelled query does.
\<close>

definition credential_list_model_to_repository_model :: "list_join \<Rightarrow> (DataLayerError, Credential) result" where
  "credential_list_model_to_repository_model row =
     (let sch = lj_schema row in
      rbind (case (csrow_transaction_code_type sch, csrow_transaction_code_length sch) of
          (Some ty, Some n) \<Rightarrow> Inr (Some \<lparr>tc_type = ty, tc_length = n,
            tc_description = csrow_transaction_code_description sch\<rparr>)
        | (None, None) \<Rightarrow> Inr None
        | _ \<Rightarrow> Inl DlMappingError) (\<lambda>transaction_code.
      let schema = \<lparr>schema_uuid = csrow_id sch, schema_deleted_at = csrow_deleted_at sch,
            schema_created_date = csrow_created_date sch, schema_last_modified = csrow_last_modified sch,
            schema_name = csrow_name sch, schema_format = csrow_format sch,
            schema_revocation_method = csrow_revocation_method sch,
            schema_key_storage_security = csrow_key_storage_security sch,
            schema_layout_type = Card, schema_layout_properties = None,
            schema_schema_id = csrow_schema_id sch,
            schema_imported_source_url = csrow_imported_source_url sch,
            schema_allow_suspension = csrow_allow_suspension sch,
            schema_requires_wallet_instance_attestation = csrow_requires_wallet_instance_attestation sch,
            schema_transaction_code = transaction_code,
            schema_claim_schemas = None, schema_organisation = None\<rparr>;
          issuer = map_option (\<lambda>i. i\<lparr>idf_did := None, idf_key := None, idf_certificates := None,
            idf_organisation := None, idf_deleted_at := None\<rparr>) (lj_issuer row)
      in Inr ((credential_from_row (lj_credential row))
           \<lparr>cred_issuer_identifier := issuer, cred_schema := Some schema\<rparr>)))"

definition calculate_pages_count :: "nat \<Rightarrow> nat \<Rightarrow> nat" where
  "calculate_pages_count total_items_count page_size =
     (if page_size = 0 then 0
      else total_items_count div page_size + min (total_items_count mod page_size) 1)"

definition get_credential_list ::
  "sql_text \<Rightarrow> credential_related \<Rightarrow> CredentialFilterValue ListFilterCondition option \<Rightarrow>
   ('r core_db, DataLayerError, Credential GetListResponse) comp" where
  "get_credential_list sql rel filtering =
     sbind (sread (get_credential_list_query sql rel filtering)) (\<lambda>rows.
     sbind (slift (try_map credential_list_model_to_repository_model rows)) (\<lambda>credentials.
     sret \<lparr>glr_values = credentials, glr_total_pages = calculate_pages_count (length rows) 0,
       glr_total_items = length rows\<rparr>))"

section \<open>Credentials: the provider\<close>

text \<open>The foreign keys of a credential row.\<close>

definition credential_row_keys :: "credential_related \<Rightarrow> 'r core_db \<Rightarrow> credential_row \<Rightarrow> bool" where
  "credential_row_keys rel s c \<longleftrightarrow>
     rr_schema_row rel (crow_credential_schema_id c) \<noteq> None \<and>
     pred_option (\<lambda>i. rr_identifier_row rel i \<noteq> None) (crow_issuer_identifier_id c) \<and>
     pred_option (\<lambda>i. rr_identifier_row rel i \<noteq> None) (crow_holder_identifier_id c) \<and>
     pred_option (rr_certificate_exists rel) (crow_issuer_certificate_id c) \<and>
     pred_option (rr_key_exists rel) (crow_key_id c) \<and>
     pred_option (\<lambda>i. i \<in> irow_id ` set (core_interactions s)) (crow_interaction_id c)"

definition insert_credential_row :: "credential_related \<Rightarrow> credential_row \<Rightarrow> ('r core_db, db_err, unit) comp" where
  "insert_credential_row rel c s =
     (if crow_id c \<in> crow_id ` set (core_credentials s) then (Inl UniqueConstraintViolation, s)
      else if credential_row_keys rel s c
      then (Inr (), s\<lparr>core_credentials := core_credentials s @ [c]\<rparr>)
      else (Inl ForeignKeyConstraintViolation, s))"

fun insert_error :: "db_err \<Rightarrow> DataLayerError" where
  "insert_error UniqueConstraintViolation = AlreadyExists"
| "insert_error ForeignKeyConstraintViolation = DbError ''ForeignKeyConstraintViolation''"
| "insert_error e = to_data_layer_error e"

definition create_credential_row :: "credential_related \<Rightarrow> Credential \<Rightarrow> ('r core_db, DataLayerError, uuid) comp" where
  "create_credential_row rel request =
     sbind (slift (ok_or (cred_schema request) DlMappingError)) (\<lambda>schema.
     sbind (slift (ok_or (cred_claims request) DlMappingError)) (\<lambda>claims.
     sbind (slift (ensure (list_all (\<lambda>c. claim_credential_id c = cred_id request) claims)
       (DbError ''Claim credential-id mismatch!''))) (\<lambda>_.
     sbind (smap_err insert_error (insert_credential_row rel (request_to_active_model request schema))) (\<lambda>_.
     sbind (if claims \<noteq> [] then create_claim_list rel claims else sret ()) (\<lambda>_.
     sret (cred_id request))))))"

definition update_credential_rows ::
  "credential_related \<Rightarrow> (credential_row \<Rightarrow> bool) \<Rightarrow> (credential_row \<Rightarrow> credential_row) \<Rightarrow> ('r core_db, db_err, unit) comp" where
  "update_credential_rows rel P f s =
     (if \<not> list_ex P (core_credentials s) then (Inl DbRecordNotUpdated, s)
      else if list_all (\<lambda>c. P c \<longrightarrow> credential_row_keys rel s (f c)) (core_credentials s)
      then (Inr (), s\<lparr>core_credentials := map (\<lambda>c. if P c then f c else c) (core_credentials s)\<rparr>)
      else (Inl ForeignKeyConstraintViolation, s))"

definition delete_credential_row :: "credential_related \<Rightarrow> Credential \<Rightarrow> ('r core_db, DataLayerError, unit) comp" where
  "delete_credential_row rel credential =
     sbind now_utc (\<lambda>now.
     smap_err to_update_data_layer_error
       (update_credential_rows rel (\<lambda>c. crow_id c = cred_id credential \<and> crow_deleted_at c = None)
         (\<lambda>c. c\<lparr>crow_deleted_at := Some now\<rparr>)))"

definition delete_credential_blob_ids :: "uuid list \<Rightarrow> ('r core_db, DataLayerError, unit) comp" where
  "delete_credential_blob_ids request s =
     (Inr (), s\<lparr>core_credentials := map (\<lambda>c. if crow_id c \<in> set request
        then c\<lparr>crow_credential_blob_id := None\<rparr> else c) (core_credentials s)\<rparr>)"

definition get_credential_by_id ::
  "credential_related \<Rightarrow> uuid \<Rightarrow> CredentialRelations \<Rightarrow> ('r core_db, DataLayerError, Credential option) comp" where
  "get_credential_by_id rel i relations =
     sbind (sread (\<lambda>s. find (\<lambda>c. crow_id c = i) (core_credentials s))) (\<lambda>row.
     case row of
       None \<Rightarrow> sret None
     | Some row \<Rightarrow> sbind (credential_model_to_repository_model rel row relations) (\<lambda>c. sret (Some c)))"

definition get_credentials_by_interaction ::
  "credential_related \<Rightarrow> uuid \<Rightarrow> CredentialRelations \<Rightarrow> ('r core_db, DataLayerError, Credential list) comp" where
  "get_credentials_by_interaction rel i relations =
     sbind (sread (\<lambda>s. filter (\<lambda>c. crow_interaction_id c = Some i) (core_credentials s))) (\<lambda>rows.
     credentials_to_repository rel rows relations)"

definition get_credentials_by_claim_names ::
  "credential_related \<Rightarrow> string list \<Rightarrow> CredentialRelations \<Rightarrow> ('r core_db, DataLayerError, Credential list) comp" where
  "get_credentials_by_claim_names rel claim_names relations =
     sbind (sread (\<lambda>s. filter (\<lambda>c. list_ex (\<lambda>cl. clrow_credential_id cl = crow_id c \<and>
         rr_claim_schema_key rel (clrow_claim_schema_id cl) \<in> Some ` set claim_names) (core_claims s))
       (core_credentials s))) (\<lambda>rows.
     credentials_to_repository rel rows relations)"

definition get_credential_by_claim ::
  "credential_related \<Rightarrow> uuid \<Rightarrow> CredentialRelations \<Rightarrow> ('r core_db, DataLayerError, Credential option) comp" where
  "get_credential_by_claim rel cid relations =
     sbind (sread (\<lambda>s. find (\<lambda>c. list_ex (\<lambda>cl. clrow_credential_id cl = crow_id c \<and> clrow_id cl = cid)
       (core_claims s)) (core_credentials s))) (\<lambda>row.
     case row of
       None \<Rightarrow> sret None
     | Some row \<Rightarrow> sbind (credential_model_to_repository_model rel row relations) (\<lambda>c. sret (Some c)))"

definition update_claims ::
  "credential_related \<Rightarrow> uuid \<Rightarrow> Claim list option \<Rightarrow> ('r core_db, DataLayerError, unit) comp" where
  "update_claims rel i claims =
     (case claims of
        None \<Rightarrow> sret ()
      | Some claims \<Rightarrow>
          sbind (slift (ensure (list_all (\<lambda>c. claim_credential_id c = i) claims)
            (DbError ''Claim credential-id mismatch!''))) (\<lambda>_.
          sbind (delete_claims_for_credential i) (\<lambda>_.
          if claims \<noteq> [] then create_claim_list rel claims else sret ())))"

definition update_credential_row ::
  "credential_related \<Rightarrow> uuid \<Rightarrow> UpdateCredentialRequest \<Rightarrow> ('r core_db, DataLayerError, unit) comp" where
  "update_credential_row rel i request =
     sbind now_utc (\<lambda>now.
     sbind (update_claims rel i (upd_claims request)) (\<lambda>_.
     smap_err to_update_data_layer_error
       (update_credential_rows rel (\<lambda>c. crow_id c = i) (apply_update request now))))"

definition sql_credential_repository ::
  "sql_text \<Rightarrow> credential_related \<Rightarrow> 'r core_db credential_repository" where
  "sql_credential_repository sql rel =
     \<lparr>repo_create_credential = create_credential_row rel,
      repo_delete_credential = delete_credential_row rel,
      repo_delete_credential_blobs = delete_credential_blob_ids,
      repo_get_credential = get_credential_by_id rel,
      repo_get_credentials_by_interaction_id = get_credentials_by_interaction rel,
      repo_get_credential_list = get_credential_list sql rel,
      repo_update_credential = update_credential_row rel,
      repo_get_credentials_by_claim_names = get_credentials_by_claim_names rel,
      repo_get_credential_by_claim_id = get_credential_by_claim rel\<rparr>"

definition sql_interaction_repository :: "credential_related \<Rightarrow> 'r core_db interaction_repository" where
  "sql_interaction_repository rel =
     \<lparr>repo_create_interaction = create_interaction rel, repo_update_interaction = update_interaction,
      repo_get_interaction = get_interaction rel, repo_mark_nonce_as_used = mark_nonce_as_used,
      repo_delete_interaction = delete_interaction,
      repo_update_expired_credentials = update_expired_credentials\<rparr>"

definition sql_blob_repository :: "'r core_db blob_repository" where
  "sql_blob_repository =
     \<lparr>repo_create_blob = create_blob, repo_get_blob = get_blob, repo_update_blob = update_blob,
      repo_delete_blob = delete_blob, repo_delete_many_blobs = delete_many_blobs\<rparr>"

section \<open>Well-formed tables\<close>

definition credential_of :: "'r core_db \<Rightarrow> uuid \<Rightarrow> credential_row option" where
  "credential_of s i = find (\<lambda>c. crow_id c = i) (core_credentials s)"

definition claim_row_keys :: "credential_related \<Rightarrow> 'r core_db \<Rightarrow> claim_row \<Rightarrow> bool" where
  "claim_row_keys rel s r \<longleftrightarrow>
     clrow_credential_id r \<in> crow_id ` set (core_credentials s) \<and>
     rr_claim_schema_order rel (clrow_claim_schema_id r) \<noteq> None"

text \<open>Primary keys are unique and foreign keys point to rows.\<close>

definition wf_core :: "credential_related \<Rightarrow> 'r core_db \<Rightarrow> bool" where
  "wf_core rel s \<longleftrightarrow>
     distinct (map crow_id (core_credentials s)) \<and> list_all (credential_row_keys rel s) (core_credentials s) \<and>
     distinct (map clrow_id (core_claims s)) \<and> list_all (claim_row_keys rel s) (core_claims s) \<and>
     distinct (map irow_id (core_interactions s)) \<and>
     list_all (\<lambda>i. rr_organisation_exists rel (irow_organisation_id i)) (core_interactions s) \<and>
     distinct (map blob_id (core_blobs s)) \<and> distinct (map hist_id (core_history s))"

lemma wf_core_congruence:
  assumes "wf_core rel s" and "core_credentials t = core_credentials s" and "core_claims t = core_claims s"
    and "core_interactions t = core_interactions s" and "core_blobs t = core_blobs s"
    and "core_history t = core_history s"
  shows "wf_core rel t"
proof -
  have "credential_row_keys rel t = credential_row_keys rel s" "claim_row_keys rel t = claim_row_keys rel s"
    using assms(2,4) by (auto simp: credential_row_keys_def claim_row_keys_def fun_eq_iff)
  then show ?thesis using assms by (simp add: wf_core_def)
qed

lemma credential_row_keys_interactions:
  "irow_id ` set (core_interactions t) = irow_id ` set (core_interactions s) \<Longrightarrow>
   credential_row_keys rel t = credential_row_keys rel s"
  by (auto simp: credential_row_keys_def fun_eq_iff)

lemma claim_row_keys_credentials:
  "crow_id ` set (core_credentials t) = crow_id ` set (core_credentials s) \<Longrightarrow>
   claim_row_keys rel t = claim_row_keys rel s"
  by (auto simp: claim_row_keys_def fun_eq_iff)

lemma row_keys_updates [simp]:
  "credential_row_keys rel (s\<lparr>core_claims := xs\<rparr>) = credential_row_keys rel s"
  "claim_row_keys rel (s\<lparr>core_claims := xs\<rparr>) = claim_row_keys rel s"
  "credential_row_keys rel (s\<lparr>core_credentials := ys\<rparr>) = credential_row_keys rel s"
  "claim_row_keys rel (s\<lparr>core_interactions := zs\<rparr>) = claim_row_keys rel s"
  "credential_row_keys rel (s\<lparr>core_blobs := bs\<rparr>) = credential_row_keys rel s"
  "claim_row_keys rel (s\<lparr>core_blobs := bs\<rparr>) = claim_row_keys rel s"
  "credential_row_keys rel (s\<lparr>core_history := hs\<rparr>) = credential_row_keys rel s"
  "claim_row_keys rel (s\<lparr>core_history := hs\<rparr>) = claim_row_keys rel s"
  by ((rule credential_row_keys_interactions claim_row_keys_credentials, simp)+)

lemma preserves_insert_claim_rows: "preserves (wf_core rel) (insert_claim_rows rel rows)"
  by (rule preservesI) (auto simp: insert_claim_rows_def wf_core_def list_all_iff claim_row_keys_def)

lemma preserves_delete_claims:
  "preserves (wf_core rel) (delete_claims_for_credentials ids)"
  "preserves (wf_core rel) (delete_claims_for_credential i)"
  by (auto intro!: preservesI simp: delete_claims_for_credentials_def delete_claims_for_credential_def
    wf_core_def list_all_iff distinct_map_filter)

lemma preserves_create_claim_list [preserves_intros]: "preserves (wf_core rel) (create_claim_list rel claims)"
  unfolding create_claim_list_def by (intro preserves_intros preserves_insert_claim_rows)

lemma preserves_update_claims [preserves_intros]: "preserves (wf_core rel) (update_claims rel i claims)"
  unfolding update_claims_def by (intro preserves_intros preserves_delete_claims)

lemma preserves_insert_credential_row: "preserves (wf_core rel) (insert_credential_row rel c)"
  by (rule preservesI) (auto simp: insert_credential_row_def wf_core_def list_all_iff claim_row_keys_def)

lemma wf_core_map:
  assumes "wf_core rel s" and "\<And>c. crow_id (f c) = crow_id c"
    and "\<And>c. c \<in> set (core_credentials s) \<Longrightarrow> credential_row_keys rel s (f c)"
  shows "wf_core rel (s\<lparr>core_credentials := map f (core_credentials s)\<rparr>)"
proof -
  have "claim_row_keys rel (s\<lparr>core_credentials := map f (core_credentials s)\<rparr>) = claim_row_keys rel s"
    by (rule claim_row_keys_credentials) (simp add: image_image assms(2))
  moreover have "map crow_id (map f (core_credentials s)) = map crow_id (core_credentials s)"
    by (simp add: assms(2))
  ultimately show ?thesis using assms(1,3) by (auto simp: wf_core_def list_all_iff simp del: map_map)
qed

lemma preserves_update_credential_rows:
  assumes "\<And>c. crow_id (f c) = crow_id c"
  shows "preserves (wf_core rel) (update_credential_rows rel P f)"
proof (rule preservesI)
  fix s :: "'r core_db" assume wf: "wf_core rel s"
  then have "list_all (\<lambda>c. P c \<longrightarrow> credential_row_keys rel s (f c)) (core_credentials s) \<Longrightarrow>
      wf_core rel (s\<lparr>core_credentials := map (\<lambda>c. if P c then f c else c) (core_credentials s)\<rparr>)"
    by (intro wf_core_map) (auto simp: assms wf_core_def list_all_iff)
  with wf show "wf_core rel (snd (update_credential_rows rel P f s))"
    by (simp add: update_credential_rows_def)
qed

lemma apply_update_id [simp]: "crow_id (apply_update request now c) = crow_id c"
  by (simp add: apply_update_def)

lemma preserves_credential_updates [preserves_intros]:
  "preserves (wf_core rel) (create_credential_row rel c)"
  "preserves (wf_core rel) (delete_credential_row rel c)"
  "preserves (wf_core rel) (update_credential_row rel i request)"
  unfolding create_credential_row_def delete_credential_row_def update_credential_row_def now_utc_def
  by (intro preserves_intros preserves_insert_credential_row preserves_update_credential_rows; simp)+

lemma wf_core_row: "wf_core rel s \<Longrightarrow> c \<in> set (core_credentials s) \<Longrightarrow> credential_row_keys rel s c"
  by (simp add: wf_core_def list_all_iff)

lemma credential_row_keys_columns [simp]:
  "credential_row_keys rel s (c\<lparr>crow_credential_blob_id := b\<rparr>) = credential_row_keys rel s c"
  "credential_row_keys rel s (c\<lparr>crow_state := st\<rparr>) = credential_row_keys rel s c"
  "credential_row_keys rel s (c\<lparr>crow_last_modified := d\<rparr>) = credential_row_keys rel s c"
  "credential_row_keys rel s (c\<lparr>crow_deleted_at := del\<rparr>) = credential_row_keys rel s c"
  by (simp_all add: credential_row_keys_def)

lemma preserves_delete_blob_ids [preserves_intros]: "preserves (wf_core rel) (delete_credential_blob_ids ids)"
  by (rule preservesI)
    (auto simp: delete_credential_blob_ids_def dest: wf_core_row intro!: wf_core_map)

lemma preserves_update_expired [preserves_intros]: "preserves (wf_core rel) update_expired_credentials"
  by (rule preservesI)
    (auto simp: update_expired_credentials_def Let_def dest: wf_core_row intro!: wf_core_map)

lemma preserves_create_interaction [preserves_intros]: "preserves (wf_core rel) (create_interaction rel i)"
  unfolding create_interaction_def
  by (intro preserves_intros preservesI)
    (auto simp: wf_core_def list_all_iff credential_row_keys_def pred_option_def)

lemma preserves_interaction_map:
  assumes "\<And>r. irow_id (f r) = irow_id r" and "\<And>r. irow_organisation_id (f r) = irow_organisation_id r"
    and "wf_core rel s"
  shows "wf_core rel (s\<lparr>core_interactions := map f (core_interactions s)\<rparr>)"
proof -
  have "credential_row_keys rel (s\<lparr>core_interactions := map f (core_interactions s)\<rparr>) = credential_row_keys rel s"
    by (rule credential_row_keys_interactions) (simp add: image_image assms(1))
  moreover have "map irow_id (map f (core_interactions s)) = map irow_id (core_interactions s)"
    by (simp add: assms(1))
  ultimately show ?thesis using assms(2,3) by (simp add: wf_core_def list_all_iff del: map_map)
qed

lemma preserves_interaction_updates [preserves_intros]:
  "preserves (wf_core rel) (update_interaction i request)"
  "preserves (wf_core rel) (mark_nonce_as_used i nonce)"
  unfolding update_interaction_def mark_nonce_as_used_def
  by (intro preserves_intros preservesI; force intro!: preserves_interaction_map split: option.splits)+

lemma preserves_delete_interaction [preserves_intros]: "preserves (wf_core rel) (delete_interaction i)"
proof (rule preservesI)
  fix s :: "'r core_db" assume wf: "wf_core rel s"
  let ?t = "s\<lparr>core_interactions := filter (\<lambda>r. irow_id r \<noteq> i) (core_interactions s)\<rparr>"
  have "credential_row_keys rel ?t c" if "c \<in> set (core_credentials s)" "crow_interaction_id c \<noteq> Some i" for c
    using wf_core_row [OF wf that(1)] that(2) unfolding credential_row_keys_def
    by (cases "crow_interaction_id c") auto
  then have "wf_core rel ?t" if "\<not> list_ex (\<lambda>c. crow_interaction_id c = Some i) (core_credentials s)"
    using wf that by (auto simp: wf_core_def list_all_iff list_ex_iff distinct_map_filter)
  then show "wf_core rel (snd (delete_interaction i s))"
    using wf by (simp add: delete_interaction_def)
qed

lemma preserves_blobs [preserves_intros]:
  "preserves (wf_core rel) (create_blob b)" "preserves (wf_core rel) (update_blob i request)"
  "preserves (wf_core rel) (delete_blob i)" "preserves (wf_core rel) (delete_many_blobs ids)"
proof -
  show "preserves (wf_core rel) (create_blob b)"
    unfolding create_blob_def by (intro preserves_intros preservesI) (auto simp: wf_core_def)
  show "preserves (wf_core rel) (update_blob i request)"
    unfolding update_blob_def
    by (intro preserves_intros preservesI, cases "ubr_value request")
      (auto simp: wf_core_def comp_def if_distrib [of blob_id] cong: if_cong)
  show "preserves (wf_core rel) (delete_blob i)" "preserves (wf_core rel) (delete_many_blobs ids)"
    by (auto intro!: preservesI simp: delete_blob_def delete_many_blobs_def wf_core_def distinct_map_filter)
qed

lemma preserves_create_history [preserves_intros]: "preserves (wf_core rel) (create_history_row rel h)"
  unfolding create_history_row_def by (intro preserves_intros preservesI) (auto simp: wf_core_def split: option.splits)

section \<open>The provider keeps its contract\<close>

lemma find_distinct_map:
  assumes "distinct (map key xs)" and "\<And>x. key (f x) = key x"
  shows "find (\<lambda>x. key x = i) (map (\<lambda>x. if key x = j \<and> P x then f x else x) xs) =
    (case find (\<lambda>x. key x = i) xs of None \<Rightarrow> None | Some x \<Rightarrow> Some (if i = j \<and> P x then f x else x))"
  using assms by (induction xs) auto

lemma find_key_Some: "find (\<lambda>x. key x = i) xs = Some x \<Longrightarrow> key x = i \<and> x \<in> set xs"
  by (induction xs) (auto split: if_splits)

lemma find_key_member: "distinct (map key xs) \<Longrightarrow> x \<in> set xs \<Longrightarrow> find (\<lambda>y. key y = key x) xs = Some x"
  by (induction xs) auto

lemma credential_of_Some: "credential_of s i = Some c \<Longrightarrow> crow_id c = i \<and> c \<in> set (core_credentials s)"
  unfolding credential_of_def by (rule find_key_Some)

lemma credential_of_None: "credential_of s i = None \<longleftrightarrow> i \<notin> crow_id ` set (core_credentials s)"
  by (auto simp: credential_of_def find_None_iff)

lemma credential_of_member:
  "distinct (map crow_id (core_credentials s)) \<Longrightarrow> c \<in> set (core_credentials s) \<Longrightarrow> credential_of s (crow_id c) = Some c"
  unfolding credential_of_def by (rule find_key_member)

text \<open>An operation leaves everything but the credential and claim tables alone.\<close>

definition same_rest :: "'r core_db \<Rightarrow> 'r core_db \<Rightarrow> bool" where
  "same_rest s t \<longleftrightarrow>
     core_now t = core_now s \<and> core_revocation t = core_revocation s \<and> core_history t = core_history s \<and>
     core_uuids t = core_uuids s \<and> core_interactions t = core_interactions s \<and> core_blobs t = core_blobs s \<and>
     core_notifications t = core_notifications s \<and> core_proof_interactions t = core_proof_interactions s"

lemma same_rest_refl [simp]: "same_rest s s"
  by (simp add: same_rest_def)

lemma same_rest_trans: "same_rest s t \<Longrightarrow> same_rest t u \<Longrightarrow> same_rest s u"
  by (simp add: same_rest_def)

lemma create_claim_list_frame:
  assumes "create_claim_list rel claims s = (res, t)"
  shows "same_rest s t \<and> core_credentials t = core_credentials s"
  using assms unfolding create_claim_list_def sbind_def smap_err_def insert_claim_rows_def
  by (auto simp: same_rest_def split: sum.splits prod.splits if_splits)

lemma update_claims_frame:
  assumes "update_claims rel i claims s = (res, t)"
  shows "same_rest s t \<and> core_credentials t = core_credentials s"
proof (cases claims)
  case None
  then show ?thesis using assms by (simp add: update_claims_def)
next
  case (Some cs)
  let ?u = "s\<lparr>core_claims := filter (\<lambda>r. clrow_credential_id r \<noteq> i) (core_claims s)\<rparr>"
  have "same_rest s ?u" "core_credentials ?u = core_credentials s"
    by (simp_all add: same_rest_def)
  with assms Some create_claim_list_frame [of rel cs ?u res t] show ?thesis
    unfolding update_claims_def sbind_def
    by (auto simp: ensure_def delete_claims_for_credential_def dest: same_rest_trans
      split: sum.splits prod.splits if_splits)
qed

text \<open>The rows after an update of one row.\<close>

lemma update_credential_rows_result:
  assumes "distinct (map crow_id (core_credentials s))" and "\<And>c. crow_id (f c) = crow_id c"
    and "update_credential_rows rel (\<lambda>c. crow_id c = i \<and> P c) f s = (res, t)"
  shows "same_rest s t \<and> (t = s \<and> res \<noteq> Inr () \<or>
    (\<exists>c. credential_of s i = Some c \<and> P c \<and> credential_of t = (credential_of s)(i \<mapsto> f c) \<and> res = Inr ()))"
proof (cases "res = Inr ()")
  case True
  let ?t = "s\<lparr>core_credentials := map (\<lambda>c. if crow_id c = i \<and> P c then f c else c) (core_credentials s)\<rparr>"
  from True assms(3) have t: "t = ?t" and ex: "list_ex (\<lambda>c. crow_id c = i \<and> P c) (core_credentials s)"
    by (auto simp: update_credential_rows_def split: if_splits)
  from ex obtain c where c: "credential_of s i = Some c" "P c"
    using credential_of_member [OF assms(1)] by (auto simp: list_ex_iff)
  have "credential_of t k = ((credential_of s)(i \<mapsto> f c)) k" for k
    using find_distinct_map [OF assms(1), of f k i P] assms(2) c t
    by (auto simp: credential_of_def split: option.splits)
  with c t True show ?thesis by (auto simp: same_rest_def fun_eq_iff)
next
  case False
  with assms(3) show ?thesis by (auto simp: update_credential_rows_def split: if_splits)
qed

lemma update_credential_row_result:
  assumes "distinct (map crow_id (core_credentials s))" and "update_credential_row rel i request s = (res, t)"
  shows "same_rest s t \<and> (credential_of t = credential_of s \<and> res \<noteq> Inr () \<or>
    (\<exists>c. credential_of s i = Some c \<and> res = Inr () \<and>
      credential_of t = (credential_of s)(i \<mapsto> apply_update request (core_now s) c)))"
proof -
  obtain r u where u: "update_claims rel i (upd_claims request) s = (r, u)"
    by fastforce
  note frame = update_claims_frame [OF u]
  show ?thesis
  proof (cases r)
    case (Inl e)
    then show ?thesis using assms(2) u frame
      by (auto simp: update_credential_row_def now_utc_def sbind_def credential_of_def)
  next
    case (Inr x)
    obtain r' where r': "update_credential_rows rel (\<lambda>c. crow_id c = i \<and> True) (apply_update request (core_now s)) u = (r', t)"
      "res = map_err to_update_data_layer_error r'"
      using assms(2) u Inr by (auto simp: update_credential_row_def now_utc_def sbind_def smap_err_def split: prod.splits)
    have "distinct (map crow_id (core_credentials u))" using assms(1) frame by simp
    from update_credential_rows_result [OF this _ r'(1)] frame r'(2) show ?thesis
      by (auto simp: credential_of_def [abs_def] dest: same_rest_trans)
  qed
qed

lemma delete_credential_row_result:
  assumes "distinct (map crow_id (core_credentials s))" and "delete_credential_row rel c s = (res, t)"
  shows "same_rest s t \<and> (t = s \<and> res \<noteq> Inr () \<or>
    (\<exists>r. credential_of s (cred_id c) = Some r \<and> crow_deleted_at r = None \<and> res = Inr () \<and>
      credential_of t = (credential_of s)(cred_id c \<mapsto> r\<lparr>crow_deleted_at := Some (core_now s)\<rparr>)))"
proof -
  obtain r' where r': "update_credential_rows rel (\<lambda>r. crow_id r = cred_id c \<and> crow_deleted_at r = None)
      (\<lambda>r. r\<lparr>crow_deleted_at := Some (core_now s)\<rparr>) s = (r', t)" "res = map_err to_update_data_layer_error r'"
    using assms(2) by (auto simp: delete_credential_row_def now_utc_def sbind_def smap_err_def split: prod.splits)
  from update_credential_rows_result [OF assms(1) _ r'(1)] r'(2) show ?thesis by auto
qed

text \<open>A computation that keeps the whole state only reads.\<close>

lemma only_reads: "(\<And>u. preserves (\<lambda>v. v = u) m) \<Longrightarrow> snd (m s) = s"
  by (simp add: preserves_def)

lemma get_claims_reads [preserves_intros]: "preserves (\<lambda>v. v = u) (get_claims rel c relations)"
  unfolding get_claims_def get_claim_list_def Let_def by (intro preserves_intros)

lemma get_interaction_reads [preserves_intros]: "preserves (\<lambda>v. v = u) (get_interaction rel i relations)"
  unfolding get_interaction_def by (intro preserves_intros)

lemma model_reads [preserves_intros]:
  "preserves (\<lambda>v. v = u) (credential_model_to_repository_model rel c relations)"
  unfolding credential_model_to_repository_model_def by (intro preserves_intros)

lemma get_credential_by_id_reads [preserves_intros]: "preserves (\<lambda>v. v = u) (get_credential_by_id rel i relations)"
  unfolding get_credential_by_id_def by (intro preserves_intros)

lemma get_credential_list_reads [preserves_intros]: "preserves (\<lambda>v. v = u) (get_credential_list sql rel f)"
  unfolding get_credential_list_def by (intro preserves_intros)

lemma model_own_columns:
  assumes "credential_model_to_repository_model rel r relations s = (Inr c, t)"
  shows "own_columns c = credential_from_row r"
  using assms unfolding credential_model_to_repository_model_def
  by (auto simp: sbind_eq_Inr own_columns_def credential_from_row_def)

lemma get_credential_by_id_result:
  assumes "get_credential_by_id rel i relations s = (Inr found, t)"
  shows "case found of None \<Rightarrow> credential_of s i = None
    | Some c \<Rightarrow> \<exists>r. credential_of s i = Some r \<and> own_columns c = credential_from_row r"
  using assms unfolding get_credential_by_id_def
  by (auto simp: sbind_eq_Inr credential_of_def dest: model_own_columns split: option.splits)

lemma join_claims_credential: "r \<in> set (join_claims claims q) \<Longrightarrow> lj_credential r = lj_credential q"
  by (cases "filter (\<lambda>c. clrow_credential_id c = crow_id (lj_credential q)) claims") (auto simp: join_claims_def)

lemma with_list_filter_subset: "set (with_list_filter g f rs) \<subseteq> set rs"
  by (auto simp: with_list_filter_def split: option.splits if_splits)

lemma list_query_row:
  assumes "row \<in> set (get_credential_list_query sql rel f s)"
  shows "lj_credential row \<in> set (core_credentials s) \<and> crow_deleted_at (lj_credential row) = None"
proof -
  define rows where "rows = concat (map (list_join_row rel) (filter (\<lambda>c. crow_deleted_at c = None) (core_credentials s)))"
  have base: "lj_credential r \<in> set (core_credentials s) \<and> crow_deleted_at (lj_credential r) = None"
    if "r \<in> set rows" for r
    using that by (auto simp: rows_def list_join_row_def split: option.splits)
  have joined: "\<exists>q. q \<in> set rows \<and> lj_credential r = lj_credential q"
    if "r \<in> set (concat (map (join_claims (core_claims s)) rows))" for r
    using that join_claims_credential by (simp only: set_concat set_map) blast
  from assms consider "row \<in> set rows"
    | r where "r \<in> set (concat (map (join_claims (core_claims s)) rows))" "row = r\<lparr>lj_claim := None\<rparr>"
    unfolding get_credential_list_query_def Let_def rows_def [symmetric]
    using with_list_filter_subset by (fastforce split: if_splits)
  then show ?thesis
    by cases (use base joined in force)+
qed

lemma list_model_own_columns:
  assumes "credential_list_model_to_repository_model row = Inr c"
  shows "own_columns c = credential_from_row (lj_credential row)"
  using assms unfolding credential_list_model_to_repository_model_def
  by (auto simp: Let_def own_columns_def credential_from_row_def)

lemma get_credential_list_result:
  assumes "get_credential_list sql rel f s = (Inr l, t)"
  shows "list_all2 (\<lambda>row c. own_columns c = credential_from_row (lj_credential row))
    (get_credential_list_query sql rel f s) (glr_values l) \<and>
    glr_total_items l = length (get_credential_list_query sql rel f s)"
  using assms unfolding get_credential_list_def
  by (auto simp: sbind_eq_Inr try_map_eq_Inr intro: list_all2_mono list_model_own_columns)

lemma own_columns_id: "own_columns c = credential_from_row r \<Longrightarrow> cred_id c = crow_id r"
  by (drule arg_cong [of _ _ cred_id]) (simp add: own_columns_def credential_from_row_def)

interpretation sql_credentials: credential_contract "sql_credential_repository sql rel" "wf_core rel"
  credential_of core_now core_revocation
proof
  fix s t :: "'r core_db" and i relations c req res f l r
  show "snd (repo_get_credential (sql_credential_repository sql rel) i relations s) = s"
    by (simp add: sql_credential_repository_def only_reads preserves_intros)
  show "\<exists>r. credential_of s i = Some r \<and> own_columns c = credential_from_row r"
    if "repo_get_credential (sql_credential_repository sql rel) i relations s = (Inr (Some c), t)"
    using get_credential_by_id_result [of rel i relations s "Some c" t] that
    by (simp add: sql_credential_repository_def)
  show "credential_of s i = None"
    if "repo_get_credential (sql_credential_repository sql rel) i relations s = (Inr None, t)"
    using get_credential_by_id_result [of rel i relations s None t] that
    by (simp add: sql_credential_repository_def)
  show "crow_id r = i" if "credential_of s i = Some r"
    using credential_of_Some [OF that] by simp
  show "snd (repo_get_credential_list (sql_credential_repository sql rel) f s) = s"
    by (simp add: sql_credential_repository_def only_reads preserves_intros)
  show "wf_core rel t \<and> core_now t = core_now s \<and> core_revocation t = core_revocation s \<and>
      (credential_of t = credential_of s \<and> res \<noteq> Inr () \<or>
       (\<exists>r. credential_of s i = Some r \<and> credential_of t = (credential_of s)(i \<mapsto> apply_update req (core_now s) r)))"
    if "wf_core rel s" "repo_update_credential (sql_credential_repository sql rel) i req s = (res, t)"
    using preservesD [OF preserves_credential_updates(3) that(1)] update_credential_row_result [of s rel i req res t] that
    by (auto simp: sql_credential_repository_def wf_core_def [of rel s] same_rest_def)
  show "wf_core rel t \<and> core_now t = core_now s \<and> core_revocation t = core_revocation s \<and>
      (credential_of t = credential_of s \<and> res \<noteq> Inr () \<or>
       (\<exists>r. credential_of s (cred_id c) = Some r \<and>
         credential_of t = (credential_of s)(cred_id c \<mapsto> r\<lparr>crow_deleted_at := Some (core_now s)\<rparr>)))"
    if "wf_core rel s" "repo_delete_credential (sql_credential_repository sql rel) c s = (res, t)"
    using preservesD [OF preserves_credential_updates(2) that(1)] delete_credential_row_result [of s rel c res t] that
    by (auto simp: sql_credential_repository_def wf_core_def [of rel s] same_rest_def)
  show "\<exists>r. credential_of s (cred_id c) = Some r \<and> own_columns c = credential_from_row r \<and> crow_deleted_at r = None"
    if wf: "wf_core rel s" and l: "repo_get_credential_list (sql_credential_repository sql rel) f s = (Inr l, t)"
      "c \<in> set (glr_values l)"
  proof -
    from get_credential_list_result [of sql rel f s l t] l obtain row where row:
      "row \<in> set (get_credential_list_query sql rel f s)" "own_columns c = credential_from_row (lj_credential row)"
      by (force simp: sql_credential_repository_def dest: list_all2_member2)
    with list_query_row [OF row(1)] credential_of_member [of s "lj_credential row"] wf own_columns_id [OF row(2)]
    show ?thesis by (auto simp: wf_core_def)
  qed
qed

end
