(* ===== verification/Credential_Decorators.thy ===== *)
theory Credential_Decorators
  imports Credential_Store
begin

text \<open>
  The decorators the core puts around the SQL repository of credentials: first
  \<open>CredentialHistoryDecorator\<close> (\<open>proto/history_decorator/credential.rs\<close>), which logs what happens to
  a credential, then \<open>CredentialNotificationDecorator\<close>
  (\<open>proto/notification_decorator/credential.rs\<close>), which schedules a webhook call when a credential
  reaches a final state, with the scheduler of \<open>proto/notification_scheduler/scheduler.rs\<close>. The
  decorated repository keeps the contract of a credential repository, and its history determines
  the stored states.
\<close>

section \<open>Sessions\<close>

record Session =
  session_organisation_id :: "uuid option"
  session_permissions :: "string list"
  session_user_id :: string
  session_actor :: "string option"

definition session_user :: "Session option \<Rightarrow> string option" where
  "session_user session = map_option session_user_id session"

section \<open>History\<close>

fun action_from_state :: "CredentialStateEnum \<Rightarrow> HistoryAction" where
  "action_from_state CredentialStateEnum.Created = ActCreated"
| "action_from_state CredentialStateEnum.Pending = ActPending"
| "action_from_state Offered = ActOffered"
| "action_from_state Accepted = ActAccepted"
| "action_from_state Rejected = ActRejected"
| "action_from_state CredentialStateEnum.Revoked = ActRevoked"
| "action_from_state CredentialStateEnum.Suspended = ActSuspended"
| "action_from_state Error = ActErrored"
| "action_from_state InteractionExpired = ActInteractionExpired"

definition target_from_credential :: "Credential \<Rightarrow> string option" where
  "target_from_credential credential =
     (case cred_role credential of
        Holder \<Rightarrow> map_option (\<lambda>i. uuid_text (idf_id i)) (cred_issuer_identifier credential)
      | Issuer \<Rightarrow> map_option (\<lambda>i. uuid_text (idf_id i)) (cred_holder_identifier credential)
      | Verifier \<Rightarrow> None)"

text \<open>The outcome of an insert that may fail is only logged.\<close>

definition ignore_outcome :: "('s, 'e, 'a) comp \<Rightarrow> ('s, 'f, unit) comp" where
  "ignore_outcome m s = (Inr (), snd (m s))"

definition create_history_entry_for_credential ::
  "'r core_db create_history \<Rightarrow> Session option \<Rightarrow> Credential \<Rightarrow> HistoryAction \<Rightarrow> ('r core_db, 'e, unit) comp" where
  "create_history_entry_for_credential create session credential action =
     (case cred_schema credential of
        None \<Rightarrow> sret ()
      | Some schema \<Rightarrow>
          (case schema_organisation schema of
             None \<Rightarrow> sret ()
           | Some organisation \<Rightarrow>
               sbind fresh_uuid (\<lambda>entry_id.
               sbind now_utc (\<lambda>now.
               ignore_outcome (create
                 \<lparr>hist_id = entry_id, hist_created_date = now, hist_action = action,
                  hist_name = schema_name schema, hist_target = target_from_credential credential,
                  hist_source = CoreSource, hist_entity_id = Some (cred_id credential),
                  hist_entity_type = CredentialEntity, hist_metadata = None,
                  hist_organisation_id = Some (org_id organisation),
                  hist_user = session_user session\<rparr>)))))"

definition history_relations :: CredentialRelations where
  "history_relations = credential_relations_default
     \<lparr>credrel_schema := Some \<lparr>csrel_claim_schemas = False, csrel_organisation = True\<rparr>,
      credrel_issuer_identifier := Some (identifier_relations_default\<lparr>irel_did := Some did_relations_default\<rparr>),
      credrel_holder_identifier := Some (identifier_relations_default\<lparr>irel_did := Some did_relations_default\<rparr>)\<rparr>"

definition create_history_entry ::
  "'r core_db create_history \<Rightarrow> Session option \<Rightarrow> 'r core_db credential_repository \<Rightarrow> uuid \<Rightarrow>
   HistoryAction list \<Rightarrow> ('r core_db, 'e, unit) comp" where
  "create_history_entry create session inner i actions s =
     (case repo_get_credential inner i history_relations s of
        (Inr (Some credential), s') \<Rightarrow>
          sfor_each (create_history_entry_for_credential create session credential) actions s'
      | (_, s') \<Rightarrow> (Inr (), s'))"

definition get_stored :: "'s credential_repository \<Rightarrow> uuid \<Rightarrow> ('s, DataLayerError, Credential) comp" where
  "get_stored inner i =
     sbind (repo_get_credential inner i
       (credential_relations_default\<lparr>credrel_interaction := Some \<lparr>inrel_organisation = False\<rparr>\<rparr>)) (\<lambda>found.
     slift (ok_or found (DbError (''Credential (id: '' @ uuid_text i @ '') not found''))))"

text \<open>The event logged next to the new state.\<close>

definition additional_event :: "CredentialStateEnum \<Rightarrow> CredentialStateEnum \<Rightarrow> CredentialRole \<Rightarrow> HistoryAction option" where
  "additional_event old new role =
     (if (old = CredentialStateEnum.Created \<or> old = InteractionExpired) \<and> new = CredentialStateEnum.Pending
      then (if role = Issuer then Some ActShared else None)
      else if (old = CredentialStateEnum.Pending \<or> old = Offered) \<and> new = Accepted then Some ActIssued
      else if old = CredentialStateEnum.Suspended \<and> new = Accepted then Some ActReactivated
      else None)"

definition repeated_sharing :: "Credential \<Rightarrow> UpdateCredentialRequest \<Rightarrow> bool" where
  "repeated_sharing stored update \<longleftrightarrow>
     upd_interaction update \<noteq> None \<and> cred_state stored = CredentialStateEnum.Pending \<and>
     cred_role stored = Issuer \<and> upd_state update = None \<and>
     upd_interaction update \<noteq> map_option inter_id (cred_interaction stored)"

definition history_update_credential ::
  "'r core_db create_history \<Rightarrow> Session option \<Rightarrow> 'r core_db credential_repository \<Rightarrow> uuid \<Rightarrow>
   UpdateCredentialRequest \<Rightarrow> ('r core_db, DataLayerError, unit) comp" where
  "history_update_credential create session inner i update =
     sbind (get_stored inner i) (\<lambda>stored.
     sbind (repo_update_credential inner i update) (\<lambda>_.
     sbind (if repeated_sharing stored update then create_history_entry create session inner i [ActShared]
       else sret ()) (\<lambda>_.
     case upd_state update of
       None \<Rightarrow> sret ()
     | Some new_state \<Rightarrow>
         sbind (if cred_state stored \<noteq> new_state
           then create_history_entry create session inner i [action_from_state new_state] else sret ()) (\<lambda>_.
         case additional_event (cred_state stored) new_state (cred_role stored) of
           None \<Rightarrow> sret ()
         | Some event \<Rightarrow> create_history_entry create session inner i [event]))))"

definition history_create_credential ::
  "'r core_db create_history \<Rightarrow> Session option \<Rightarrow> 'r core_db credential_repository \<Rightarrow> Credential \<Rightarrow>
   ('r core_db, DataLayerError, uuid) comp" where
  "history_create_credential create session inner request =
     sbind (repo_create_credential inner request) (\<lambda>i.
     sbind (if cred_role request = Holder \<and> cred_state request = Accepted
       then create_history_entry create session inner i [ActIssued, ActAccepted]
       else create_history_entry create session inner i [action_from_state (cred_state request)]) (\<lambda>_.
     sret i))"

definition history_delete_credential ::
  "'r core_db create_history \<Rightarrow> Session option \<Rightarrow> 'r core_db credential_repository \<Rightarrow> Credential \<Rightarrow>
   ('r core_db, DataLayerError, unit) comp" where
  "history_delete_credential create session inner credential =
     sbind (repo_delete_credential inner credential) (\<lambda>_.
     create_history_entry_for_credential create session credential ActDeleted)"

definition credential_history_decorator ::
  "'r core_db create_history \<Rightarrow> Session option \<Rightarrow> 'r core_db credential_repository \<Rightarrow>
   'r core_db credential_repository" where
  "credential_history_decorator create session inner = inner
     \<lparr>repo_create_credential := history_create_credential create session inner,
      repo_delete_credential := history_delete_credential create session inner,
      repo_update_credential := history_update_credential create session inner\<rparr>"

section \<open>Notifications\<close>

text \<open>
  What the scheduler takes from the configuration and from its libraries: the fields of a task
  provider, the check of a URL against the parameters of a task, and the JSON of a payload with
  its time stamp; and the webhook task of an issuance protocol.
\<close>

record task_fields =
  tf_webhook_notify :: bool
  tf_params :: "(error_code, string) result"

record webhook_config =
  wh_webhook_task :: "string \<Rightarrow> (error_code, string option) result"
  wh_task_fields :: "string \<Rightarrow> (error_code, task_fields) result"
  wh_validate_url :: "string \<Rightarrow> string \<Rightarrow> (error_code, unit) result"
  wh_payload_json :: "uuid \<Rightarrow> CredentialStateEnum \<Rightarrow> date_time \<Rightarrow> (error_code, bytes) result"

text \<open>The errors of the scheduler are their codes.\<close>

definition get_task_params :: "webhook_config \<Rightarrow> string \<Rightarrow> (error_code, string) result" where
  "get_task_params wh ty =
     rbind (wh_task_fields wh ty) (\<lambda>fields.
     rbind (ensure (tf_webhook_notify fields) ''BR_0328'') (\<lambda>_.
     tf_params fields))"

definition create_notification_row ::
  "credential_related \<Rightarrow> Notification \<Rightarrow> ('r core_db, DataLayerError, uuid) comp" where
  "create_notification_row rel request =
     smap_err to_data_layer_error (\<lambda>s.
       if ntf_id request \<in> ntf_id ` set (core_notifications s) then (Inl UniqueConstraintViolation, s)
       else if rr_organisation_exists rel (ntf_organisation_id request)
       then (Inr (ntf_id request), s\<lparr>core_notifications := core_notifications s @ [request]\<rparr>)
       else (Inl ForeignKeyConstraintViolation, s))"

definition schedule ::
  "credential_related \<Rightarrow> webhook_config \<Rightarrow> string \<Rightarrow> uuid \<Rightarrow> CredentialStateEnum \<Rightarrow> string \<Rightarrow> uuid \<Rightarrow>
   string option \<Rightarrow> ('r core_db, error_code, uuid) comp" where
  "schedule rel wh url credential_id status ty organisation_id history_target =
     sbind (slift (get_task_params wh ty)) (\<lambda>params.
     sbind (slift (wh_validate_url wh url params)) (\<lambda>_.
     sbind now_utc (\<lambda>now.
     sbind (slift (wh_payload_json wh credential_id status now)) (\<lambda>payload.
     sbind fresh_uuid (\<lambda>i.
     smap_err data_layer_error_code (create_notification_row rel
       \<lparr>ntf_id = i, ntf_created_date = now, ntf_url = url, ntf_payload = payload,
        ntf_next_try_date = now, ntf_tries_count = 0, ntf_type = ty,
        ntf_history_target = history_target, ntf_organisation_id = organisation_id\<rparr>))))))"

definition send_notification ::
  "credential_related \<Rightarrow> webhook_config \<Rightarrow> 'r core_db credential_repository \<Rightarrow> uuid \<Rightarrow> CredentialStateEnum \<Rightarrow>
   ('r core_db, DataLayerError, unit) comp" where
  "send_notification rel wh inner i status =
     sbind (repo_get_credential inner i (credential_relations_default
       \<lparr>credrel_schema := Some \<lparr>csrel_claim_schemas = False, csrel_organisation = True\<rparr>\<rparr>)) (\<lambda>found.
     sbind (slift (ok_or found (DlNested (NestedError ''sending notification'' ''BR_0047'')))) (\<lambda>stored.
     case cred_webhook_url stored of
       None \<Rightarrow> sret ()
     | Some url \<Rightarrow>
         sbind (slift (map_err (\<lambda>code. DlNested (NestedError ''parsing config'' code))
           (wh_webhook_task wh (cred_protocol stored)))) (\<lambda>webhook_task.
         sbind (slift (ok_or webhook_task (DlNested (NestedError ''getting webhook task'' ''BR_0372'')))) (\<lambda>task_id.
         sbind (slift (ok_or (cred_schema stored)
           (DlNested (NestedError ''getting organisation_id'' ''BR_0047'')))) (\<lambda>schema.
         sbind (slift (ok_or (schema_organisation schema)
           (DlNested (NestedError ''getting organisation_id'' ''BR_0047'')))) (\<lambda>organisation.
         sbind (smap_err (\<lambda>code. DlNested (NestedError ''scheduling notification'' code))
           (schedule rel wh url i status task_id (org_id organisation) (Some (uuid_text i)))) (\<lambda>_.
         sret ())))))))"

definition notified_state :: "CredentialStateEnum \<Rightarrow> bool" where
  "notified_state st \<longleftrightarrow>
     st \<in> {Accepted, CredentialStateEnum.Suspended, CredentialStateEnum.Revoked, Rejected, Error}"

definition notification_update_credential ::
  "credential_related \<Rightarrow> webhook_config \<Rightarrow> 'r core_db credential_repository \<Rightarrow> uuid \<Rightarrow>
   UpdateCredentialRequest \<Rightarrow> ('r core_db, DataLayerError, unit) comp" where
  "notification_update_credential rel wh inner i update =
     sbind (repo_update_credential inner i update) (\<lambda>_.
     case upd_state update of
       None \<Rightarrow> sret ()
     | Some st \<Rightarrow> if notified_state st then send_notification rel wh inner i st else sret ())"

definition credential_notification_decorator ::
  "credential_related \<Rightarrow> webhook_config \<Rightarrow> 'r core_db credential_repository \<Rightarrow> 'r core_db credential_repository" where
  "credential_notification_decorator rel wh inner = inner
     \<lparr>repo_update_credential := notification_update_credential rel wh inner\<rparr>"

text \<open>The repository of the core.\<close>

record core_env =
  env_sql :: sql_text
  env_related :: credential_related
  env_webhook :: webhook_config
  env_session :: "Session option"

definition history_repository :: "core_env \<Rightarrow> 'r core_db credential_repository" where
  "history_repository env =
     credential_history_decorator (create_history_row (env_related env)) (env_session env)
       (sql_credential_repository (env_sql env) (env_related env))"

definition core_credential_repository :: "core_env \<Rightarrow> 'r core_db credential_repository" where
  "core_credential_repository env =
     credential_notification_decorator (env_related env) (env_webhook env) (history_repository env)"

section \<open>What the log says\<close>

definition state_actions :: "HistoryAction list" where
  "state_actions = [ActCreated, ActPending, ActOffered, ActAccepted, ActRejected, ActRevoked, ActSuspended,
     ActErrored, ActInteractionExpired]"

text \<open>The last entry on the state of a credential.\<close>

definition logs_state :: "uuid \<Rightarrow> History \<Rightarrow> bool" where
  "logs_state i h \<longleftrightarrow> hist_entity_type h = CredentialEntity \<and> hist_entity_id h = Some i \<and>
     hist_action h \<in> set state_actions"

definition last_logged :: "History list \<Rightarrow> uuid \<Rightarrow> HistoryAction option" where
  "last_logged hs i = map_option hist_action (find (logs_state i) (rev hs))"

definition log_current :: "'r core_db \<Rightarrow> bool" where
  "log_current s \<longleftrightarrow>
     list_all (\<lambda>c. last_logged (core_history s) (crow_id c) = Some (action_from_state (crow_state c))) (core_credentials s)"

text \<open>
  Every row that a foreign key may point to can be loaded, and a schema comes with its
  organisation.
\<close>

definition related_complete :: "credential_related \<Rightarrow> bool" where
  "related_complete rel \<longleftrightarrow>
     (\<forall>i r. rr_identifier_row rel i \<noteq> None \<longrightarrow> (\<exists>x. rr_identifier rel i r = Inr (Some x))) \<and>
     (\<forall>i r. rr_schema_row rel i \<noteq> None \<longrightarrow>
       (\<exists>x. rr_schema rel i r = Inr (Some x) \<and>
         (csrel_organisation r \<longrightarrow> (\<exists>org. schema_organisation x = Some org \<and> rr_organisation_exists rel (org_id org)))))"

definition ids_used :: "'r core_db \<Rightarrow> bool" where
  "ids_used s \<longleftrightarrow> list_all (\<lambda>h. hist_id h < core_uuids s) (core_history s) \<and>
     list_all (\<lambda>n. ntf_id n < core_uuids s) (core_notifications s)"

definition core_inv :: "credential_related \<Rightarrow> 'r core_db \<Rightarrow> bool" where
  "core_inv rel s \<longleftrightarrow> wf_core rel s \<and> ids_used s \<and> (related_complete rel \<longrightarrow> log_current s)"

lemma action_from_state_in [simp]: "action_from_state st \<in> set state_actions"
  by (cases st) (simp_all add: state_actions_def)

lemma action_from_state_inject [simp]: "action_from_state a = action_from_state b \<longleftrightarrow> a = b"
  by (cases a; cases b) simp_all

lemma last_logged_append:
  "last_logged (hs @ [h]) i = (if logs_state i h then Some (hist_action h) else last_logged hs i)"
  by (simp add: last_logged_def)

lemma log_current_row:
  assumes "wf_core rel s"
  shows "log_current s \<longleftrightarrow>
    (\<forall>i c. credential_of s i = Some c \<longrightarrow> last_logged (core_history s) i = Some (action_from_state (crow_state c)))"
  using assms credential_of_member credential_of_Some
  by (fastforce simp: log_current_def list_all_iff wf_core_def)

section \<open>Writing the log\<close>

text \<open>A computation that only appends history entries.\<close>

definition only_logs :: "'r core_db \<Rightarrow> 'r core_db \<Rightarrow> bool" where
  "only_logs s t \<longleftrightarrow> (\<exists>hs u. t = s\<lparr>core_history := core_history s @ hs, core_uuids := u\<rparr>)"

lemma only_logs_refl [simp]: "only_logs s s"
  unfolding only_logs_def by (rule exI [of _ "[]"], rule exI [of _ "core_uuids s"]) simp

lemma only_logs_trans: "only_logs s t \<Longrightarrow> only_logs t u \<Longrightarrow> only_logs s u"
  unfolding only_logs_def by (elim exE) (auto intro!: exI)

lemma only_logs_fields:
  assumes "only_logs s t"
  shows "core_credentials t = core_credentials s" "credential_of t = credential_of s" "core_now t = core_now s"
    "core_revocation t = core_revocation s" "core_interactions t = core_interactions s"
    "core_claims t = core_claims s" "core_blobs t = core_blobs s" "core_notifications t = core_notifications s"
  using assms by (auto simp: only_logs_def credential_of_def fun_eq_iff)

text \<open>One entry, for a credential loaded with its schema.\<close>

lemma history_entry_effect:
  assumes "create_history_entry_for_credential (create_history_row rel) session c action s = (res, t)"
    and "ids_used s"
  shows "res = Inr () \<and> only_logs s t \<and> ids_used t \<and> (wf_core rel s \<longrightarrow> wf_core rel t) \<and>
    (\<exists>hs. core_history t = core_history s @ hs \<and>
      (\<forall>h \<in> set hs. hist_entity_id h = Some (cred_id c) \<and> hist_action h = action) \<and>
      (\<forall>sch org. cred_schema c = Some sch \<longrightarrow> schema_organisation sch = Some org \<longrightarrow>
        rr_organisation_exists rel (org_id org) \<longrightarrow> (\<exists>h. hs = [h] \<and> hist_entity_type h = CredentialEntity)))"
proof (cases "Option.bind (cred_schema c) schema_organisation")
  case None
  then show ?thesis using assms
    by (auto simp: create_history_entry_for_credential_def split: option.splits)
next
  case (Some org)
  then obtain sch where sch: "cred_schema c = Some sch" "schema_organisation sch = Some org"
    by (auto simp: bind_eq_Some_conv)
  have fresh: "core_uuids s \<notin> hist_id ` set (core_history s)"
    using assms(2) by (auto simp: ids_used_def list_all_iff)
  define u where "u = s\<lparr>core_uuids := core_uuids s + 1\<rparr>"
  define h where "h = \<lparr>hist_id = core_uuids s, hist_created_date = core_now s, hist_action = action,
    hist_name = schema_name sch, hist_target = target_from_credential c, hist_source = CoreSource,
    hist_entity_id = Some (cred_id c), hist_entity_type = CredentialEntity, hist_metadata = None,
    hist_organisation_id = Some (org_id org), hist_user = session_user session\<rparr>"
  have t: "res = Inr ()" "t = (if rr_organisation_exists rel (org_id org)
      then u\<lparr>core_history := core_history u @ [h]\<rparr> else u)"
    using assms(1) sch fresh
    by (auto simp: create_history_entry_for_credential_def sbind_def fresh_uuid_def now_utc_def
      ignore_outcome_def create_history_row_def smap_err_def h_def u_def)
  have "wf_core rel u" if "wf_core rel s"
    by (rule wf_core_congruence [OF that]) (simp_all add: u_def)
  moreover have "wf_core rel (u\<lparr>core_history := core_history u @ [h]\<rparr>)" if "wf_core rel u"
    using that fresh by (simp add: wf_core_def h_def u_def)
  moreover have "only_logs s t"
    unfolding only_logs_def t(2)
    by (rule exI [of _ "if rr_organisation_exists rel (org_id org) then [h] else []"],
        rule exI [of _ "core_uuids s + 1"]) (simp add: u_def)
  moreover have "ids_used t"
    using assms(2) by (auto simp: t(2) ids_used_def list_all_iff u_def h_def)
  ultimately show ?thesis
    using t sch by (auto simp: u_def h_def)
qed

lemma related_identifier_loads:
  assumes "related_complete rel" and "pred_option (\<lambda>i. rr_identifier_row rel i \<noteq> None) i"
  shows "\<exists>x. get_related_identifier rel i relations = Inr x"
proof (cases i)
  case (Some k)
  show ?thesis
  proof (cases relations)
    case None
    then show ?thesis by (simp add: get_related_identifier_def split: option.split)
  next
    case (Some r)
    obtain x where "rr_identifier rel k r = Inr (Some x)"
      using assms(2) assms(1) [unfolded related_complete_def, THEN conjunct1, rule_format, of k r] \<open>i = Some k\<close>
      by auto
    with Some \<open>i = Some k\<close> show ?thesis by (simp add: get_related_identifier_def)
  qed
qed (simp add: get_related_identifier_def)

lemma credential_loads:
  assumes "related_complete rel" and "wf_core rel s" and "credential_of s i = Some r"
  shows "\<exists>c sch org. get_credential_by_id rel i history_relations s = (Inr (Some c), s) \<and> cred_id c = i \<and>
    cred_schema c = Some sch \<and> schema_organisation sch = Some org \<and> rr_organisation_exists rel (org_id org)"
proof -
  have r: "crow_id r = i" "credential_row_keys rel s r"
    using credential_of_Some [OF assms(3)] wf_core_row [OF assms(2)] by auto
  let ?ids = "Some (identifier_relations_default\<lparr>irel_did := Some did_relations_default\<rparr>)"
  obtain x y where xy: "get_related_identifier rel (crow_issuer_identifier_id r) ?ids = Inr x"
    "get_related_identifier rel (crow_holder_identifier_id r) ?ids = Inr y"
    using related_identifier_loads [OF assms(1)] r(2) unfolding credential_row_keys_def by meson
  obtain sch org where sch: "rr_schema rel (crow_credential_schema_id r)
      \<lparr>csrel_claim_schemas = False, csrel_organisation = True\<rparr> = Inr (Some sch)"
    "schema_organisation sch = Some org" "rr_organisation_exists rel (org_id org)"
    using assms(1) r(2) by (fastforce simp: related_complete_def credential_row_keys_def)
  show ?thesis
    using assms(3) r(1) xy sch
    by (simp add: get_credential_by_id_def credential_of_def credential_model_to_repository_model_def
      history_relations_def credential_relations_default_def get_credential_schema_def sbind_def
      credential_from_row_def)
qed

lemma sfor_each_single: "sfor_each f [x] = f x"
  by (rule ext) (auto simp: sbind_def split: prod.split sum.split)

lemma create_history_entry_effect:
  assumes "create_history_entry (create_history_row rel) session (sql_credential_repository sql rel) i [action] s = (res, t)"
    and "ids_used s"
  shows "res = Inr () \<and> only_logs s t \<and> ids_used t \<and> (wf_core rel s \<longrightarrow> wf_core rel t) \<and>
    (\<exists>hs. core_history t = core_history s @ hs \<and> (wf_core rel s \<longrightarrow>
      (\<forall>h \<in> set hs. hist_entity_id h = Some i \<and> hist_action h = action) \<and>
      (related_complete rel \<longrightarrow> credential_of s i \<noteq> None \<longrightarrow> (\<exists>h. hs = [h] \<and> hist_entity_type h = CredentialEntity))))"
proof -
  obtain found where found: "get_credential_by_id rel i history_relations s = (found, s)"
    using only_reads [OF get_credential_by_id_reads] by (metis prod.collapse)
  show ?thesis
  proof (cases "\<exists>c. found = Inr (Some c)")
    case True
    then obtain c where c: "get_credential_by_id rel i history_relations s = (Inr (Some c), s)"
      using found by blast
    obtain r where "credential_of s i = Some r" "own_columns c = credential_from_row r"
      using get_credential_by_id_result [OF c] by auto
    then have id: "cred_id c = i"
      using own_columns_id credential_of_Some by metis
    have loaded: "\<exists>sch org. cred_schema c = Some sch \<and> schema_organisation sch = Some org \<and>
        rr_organisation_exists rel (org_id org)"
      if "related_complete rel" "wf_core rel s"
      using credential_loads [OF that \<open>credential_of s i = Some r\<close>] c by auto
    have "create_history_entry_for_credential (create_history_row rel) session c action s = (res, t)"
      using assms(1) c
      by (simp add: create_history_entry_def sql_credential_repository_def sfor_each_single del: sfor_each.simps)
    note E = history_entry_effect [OF this assms(2)]
    from E obtain hs where hs: "core_history t = core_history s @ hs"
      "\<forall>h \<in> set hs. hist_entity_id h = Some (cred_id c) \<and> hist_action h = action"
      "\<forall>sch org. cred_schema c = Some sch \<longrightarrow> schema_organisation sch = Some org \<longrightarrow>
        rr_organisation_exists rel (org_id org) \<longrightarrow> (\<exists>h. hs = [h] \<and> hist_entity_type h = CredentialEntity)"
      by (elim conjE exE)
    show ?thesis
      using E hs id loaded by (intro conjI exI [of _ hs] impI) (simp_all, metis)
  next
    case False
    then have "res = Inr ()" "t = s"
      using assms(1) found
      by (auto simp: create_history_entry_def sql_credential_repository_def split: sum.splits option.splits)
    moreover have "\<not> (related_complete rel \<and> wf_core rel s \<and> credential_of s i \<noteq> None)"
      using False found credential_loads [of rel s i] by fastforce
    ultimately show ?thesis using assms(2) by auto
  qed
qed

lemma last_logged_other:
  "(\<forall>h \<in> set hs. \<not> logs_state k h) \<Longrightarrow> last_logged (xs @ hs) k = last_logged xs k"
  by (induction hs rule: rev_induct) (simp_all add: last_logged_append flip: append_assoc)

lemma create_history_entry_log:
  assumes "create_history_entry (create_history_row rel) session (sql_credential_repository sql rel) i [action] s = (res, t)"
    and "ids_used s" and "wf_core rel s"
  shows "res = Inr () \<and> only_logs s t \<and> ids_used t \<and> wf_core rel t \<and>
    (\<forall>k. k \<noteq> i \<or> action \<notin> set state_actions \<longrightarrow> last_logged (core_history t) k = last_logged (core_history s) k) \<and>
    (related_complete rel \<longrightarrow> credential_of s i \<noteq> None \<longrightarrow> action \<in> set state_actions \<longrightarrow>
      last_logged (core_history t) i = Some action)"
proof -
  note E = create_history_entry_effect [OF assms(1,2)]
  then obtain hs where h: "core_history t = core_history s @ hs" and H: "wf_core rel s \<longrightarrow>
      (\<forall>h \<in> set hs. hist_entity_id h = Some i \<and> hist_action h = action) \<and>
      (related_complete rel \<longrightarrow> credential_of s i \<noteq> None \<longrightarrow> (\<exists>h. hs = [h] \<and> hist_entity_type h = CredentialEntity))"
    by (elim conjE exE)
  note hs = h H [THEN mp, OF assms(3), THEN conjunct1, rule_format] H [THEN mp, OF assms(3), THEN conjunct2, rule_format]
  have "last_logged (core_history t) k = last_logged (core_history s) k"
    if "k \<noteq> i \<or> action \<notin> set state_actions" for k
    unfolding hs(1) using that hs(2) by (intro last_logged_other ballI) (auto simp: logs_state_def)
  moreover have "last_logged (core_history t) i = Some action"
    if c: "related_complete rel" "credential_of s i \<noteq> None" "action \<in> set state_actions"
  proof -
    obtain h where "hs = [h]" "hist_entity_type h = CredentialEntity"
      using hs(3) c(1,2) by blast
    then show ?thesis using hs(2) c(3) by (simp add: hs(1) last_logged_append logs_state_def)
  qed
  ultimately show ?thesis using E assms(3) by simp
qed

lemma get_stored_result:
  assumes "get_stored (sql_credential_repository sql rel) i s = (Inr c, t)"
  shows "t = s \<and> (\<exists>r. credential_of s i = Some r \<and> own_columns c = credential_from_row r)"
proof -
  from assms have g: "repo_get_credential (sql_credential_repository sql rel) i
      (credential_relations_default\<lparr>credrel_interaction := Some \<lparr>inrel_organisation = False\<rparr>\<rparr>) s = (Inr (Some c), t)"
    by (auto simp: get_stored_def sbind_eq_Inr)
  show ?thesis
    using sql_credentials.get_result [OF g] get_credential_by_id_result [of rel i _ s "Some c" t] g
    by (simp add: sql_credential_repository_def)
qed

lemma get_stored_error: "get_stored (sql_credential_repository sql rel) i s = (Inl e, t) \<Longrightarrow> t = s"
  unfolding get_stored_def sbind_eq_Inl by (auto dest: sql_credentials.get_result)

text \<open>The effect of one history entry on a state, as the history decorator chains them.\<close>

definition log_step :: "credential_related \<Rightarrow> uuid \<Rightarrow> HistoryAction option \<Rightarrow> 'r core_db \<Rightarrow> 'r core_db \<Rightarrow> bool" where
  "log_step rel i action s t \<longleftrightarrow>
     only_logs s t \<and> ids_used t \<and> wf_core rel t \<and>
     (\<forall>k. k \<noteq> i \<or> action = None \<longrightarrow> last_logged (core_history t) k = last_logged (core_history s) k) \<and>
     (related_complete rel \<longrightarrow> credential_of s i \<noteq> None \<longrightarrow> action \<noteq> None \<longrightarrow> last_logged (core_history t) i = action)"

lemma log_step_refl: "ids_used s \<Longrightarrow> wf_core rel s \<Longrightarrow> log_step rel i None s s"
  by (simp add: log_step_def)

lemma log_step_trans:
  "log_step rel i a s t \<Longrightarrow> log_step rel i None t u \<Longrightarrow> log_step rel i a s u"
  "log_step rel i None s t \<Longrightarrow> log_step rel i a t u \<Longrightarrow> log_step rel i a s u"
  unfolding log_step_def using only_logs_trans only_logs_fields(2) by (metis (no_types, lifting))+

lemma log_stepI:
  assumes "create_history_entry (create_history_row rel) session (sql_credential_repository sql rel) i [action] s = (res, t)"
    and "ids_used s" and "wf_core rel s"
  shows "res = Inr () \<and> log_step rel i (if action \<in> set state_actions then Some action else None) s t"
  using create_history_entry_log [OF assms] by (auto simp: log_step_def)

lemma additional_event_no_state:
  "additional_event old new role = Some event \<Longrightarrow> event \<notin> set state_actions"
  by (auto simp: additional_event_def state_actions_def split: if_splits)

lemma log_step_if:
  assumes "(if b then create_history_entry (create_history_row rel) session (sql_credential_repository sql rel) i [action]
      else sret ()) s = (res, t)"
    and "ids_used s" and "wf_core rel s"
  shows "res = Inr () \<and> log_step rel i (if b \<and> action \<in> set state_actions then Some action else None) s t"
  using assms log_stepI [of rel session sql i action s res t] log_step_refl [of s rel i]
  by (auto split: if_splits)

lemma log_step_option:
  assumes "(case ev of None \<Rightarrow> sret ()
      | Some event \<Rightarrow> create_history_entry (create_history_row rel) session (sql_credential_repository sql rel) i [event]) s = (res, t)"
    and "\<And>event. ev = Some event \<Longrightarrow> event \<notin> set state_actions" and "ids_used s" and "wf_core rel s"
  shows "res = Inr () \<and> log_step rel i None s t"
  using assms log_stepI [of rel session sql i "the ev" s res t] log_step_refl [of s rel i]
  by (cases ev) auto

text \<open>The entries written after an update.\<close>

lemma history_update_log:
  assumes "sbind (if repeated_sharing stored update
        then create_history_entry (create_history_row rel) session (sql_credential_repository sql rel) i [ActShared]
        else sret ()) (\<lambda>_.
      case upd_state update of
        None \<Rightarrow> sret ()
      | Some new_state \<Rightarrow>
          sbind (if old \<noteq> new_state
            then create_history_entry (create_history_row rel) session (sql_credential_repository sql rel) i [action_from_state new_state]
            else sret ()) (\<lambda>_.
          case additional_event old new_state role of
            None \<Rightarrow> sret ()
          | Some event \<Rightarrow> create_history_entry (create_history_row rel) session (sql_credential_repository sql rel) i [event])) s
      = (res :: DataLayerError + unit, t)"
    and "ids_used s" and "wf_core rel s"
  shows "res = Inr () \<and> log_step rel i (case upd_state update of None \<Rightarrow> None
      | Some new \<Rightarrow> if old \<noteq> new then Some (action_from_state new) else None) s t"
proof -
  obtain r1 s1 where s1: "(if repeated_sharing stored update
      then create_history_entry (create_history_row rel) session (sql_credential_repository sql rel) i [ActShared]
      else sret ()) s = (r1 :: DataLayerError + unit, s1)"
    by fastforce
  have L1: "r1 = Inr () \<and> log_step rel i None s s1"
    using log_step_if [OF s1 assms(2,3)] by (simp add: state_actions_def)
  then have inv1: "ids_used s1" "wf_core rel s1" by (simp_all add: log_step_def)
  show ?thesis
  proof (cases "upd_state update")
    case None
    then show ?thesis using assms(1) s1 L1 by (auto simp: sbind_def)
  next
    case (Some new)
    obtain r2 s2 where s2: "(if old \<noteq> new
        then create_history_entry (create_history_row rel) session (sql_credential_repository sql rel) i [action_from_state new]
        else sret ()) s1 = (r2 :: DataLayerError + unit, s2)"
      by fastforce
    have L2: "r2 = Inr () \<and> log_step rel i (if old \<noteq> new then Some (action_from_state new) else None) s1 s2"
      using log_step_if [OF s2 inv1] by simp
    then have inv2: "ids_used s2" "wf_core rel s2" by (simp_all add: log_step_def)
    have "(case additional_event old new role of
        None \<Rightarrow> sret ()
      | Some event \<Rightarrow> create_history_entry (create_history_row rel) session (sql_credential_repository sql rel) i [event]) s2
      = (res, t)"
      using assms(1) s1 s2 L1 L2 Some by (simp add: sbind_def)
    from log_step_option [OF this additional_event_no_state inv2]
    have L3: "res = Inr () \<and> log_step rel i None s2 t" .
    show ?thesis using L1 L2 L3 Some log_step_trans by (metis (no_types, lifting) option.simps(5))
  qed
qed

section \<open>The decorated repositories keep the contract\<close>

lemma core_inv_congruence:
  assumes "core_inv rel s" and "same_rest s t" and "wf_core rel t" and "credential_of t = credential_of s"
  shows "core_inv rel t"
  using assms log_current_row [of rel s] log_current_row [of rel t]
  by (auto simp: core_inv_def ids_used_def same_rest_def)

text \<open>When the entry for the new state follows the update of a row, the log is up to date again.\<close>

lemma log_step_current:
  assumes "core_inv rel s" and "credential_of s i = Some r" and "same_rest s u"
    and "credential_of u = (credential_of s)(i \<mapsto> apply_update req now r)"
    and "log_step rel i (case upd_state req of None \<Rightarrow> None
      | Some new \<Rightarrow> if crow_state r \<noteq> new then Some (action_from_state new) else None) u t"
  shows "core_inv rel t"
proof -
  have T: "wf_core rel t" "ids_used t" "credential_of t = credential_of u"
    using assms(5) only_logs_fields(2) [of u t] by (simp_all add: log_step_def)
  have new: "crow_state (apply_update req now r) = (case upd_state req of None \<Rightarrow> crow_state r | Some st \<Rightarrow> st)"
    by (simp add: apply_update_def)
  have "last_logged (core_history t) k = Some (action_from_state (crow_state c))"
    if c: "related_complete rel" "credential_of t k = Some c" for k c
  proof -
    have old: "last_logged (core_history u) j = Some (action_from_state (crow_state d))"
      if "credential_of s j = Some d" for j d
      using assms(1,3) c(1) that log_current_row [of rel s] by (auto simp: core_inv_def same_rest_def)
    show ?thesis
      using assms(2,4,5) c T(3) new old [of k] old [OF assms(2)]
      by (cases "k = i"; cases "upd_state req") (auto simp: log_step_def split: if_splits)
  qed
  then show ?thesis using T log_current_row [OF T(1)] by (auto simp: core_inv_def)
qed

lemma history_update_effect:
  assumes "core_inv rel s"
    and "history_update_credential (create_history_row rel) session (sql_credential_repository sql rel) i req s = (res, t)"
  shows "core_inv rel t \<and> core_now t = core_now s \<and> core_revocation t = core_revocation s \<and>
    core_notifications t = core_notifications s \<and> core_interactions t = core_interactions s \<and>
    (credential_of t = credential_of s \<and> res \<noteq> Inr () \<or>
     (\<exists>r. credential_of s i = Some r \<and> res = Inr () \<and>
       credential_of t = (credential_of s)(i \<mapsto> apply_update req (core_now s) r)))"
proof (cases "get_stored (sql_credential_repository sql rel) i s")
  case (Pair stored_r s0)
  show ?thesis
  proof (cases stored_r)
    case (Inl e)
    then show ?thesis using assms Pair get_stored_error
      by (fastforce simp: history_update_credential_def sbind_def)
  next
    case (Inr stored)
    with Pair get_stored_result have "s0 = s" and "\<exists>r. credential_of s i = Some r \<and> own_columns stored = credential_from_row r"
      by blast+
    then obtain r where r: "credential_of s i = Some r" "own_columns stored = credential_from_row r" by blast
    have old: "cred_state stored = crow_state r"
      using arg_cong [OF r(2), of cred_state] by (simp add: own_columns_def credential_from_row_def)
    obtain r1 u where u: "update_credential_row rel i req s = (r1, u)" by fastforce
    have wf: "wf_core rel s" "ids_used s" using assms(1) by (simp_all add: core_inv_def)
    have wfu: "wf_core rel u" using preservesD [OF preserves_credential_updates(3) wf(1) u] .
    note U = update_credential_row_result [of s rel i req r1 u, OF _ u]
    show ?thesis
    proof (cases r1)
      case (Inl e)
      then have "res = Inl e" "t = u"
        using assms(2) Pair Inr u \<open>s0 = s\<close>
        by (simp_all add: history_update_credential_def sbind_def sql_credential_repository_def)
      with Inl U wf core_inv_congruence [OF assms(1) _ wfu] show ?thesis
        by (auto simp: wf_core_def [of rel s] same_rest_def)
    next
      case r1: (Inr x)
      from U wf r1 r have U': "same_rest s u" "credential_of u = (credential_of s)(i \<mapsto> apply_update req (core_now s) r)"
        by (auto simp: wf_core_def [of rel s])
      have idsu: "ids_used u" using wf(2) U'(1) by (simp add: ids_used_def same_rest_def)
      have gs: "get_stored (sql_credential_repository sql rel) i s = (Inr stored, s)"
        using Pair Inr \<open>s0 = s\<close> by simp
      have up: "repo_update_credential (sql_credential_repository sql rel) i req s = (Inr x, u)"
        using u r1 by (simp add: sql_credential_repository_def)
      note rest = assms(2) [unfolded history_update_credential_def
        sbind_Inr_step [where m = "get_stored (sql_credential_repository sql rel) i" and s = s, OF gs]
        sbind_Inr_step [where m = "repo_update_credential (sql_credential_repository sql rel) i req" and s = s, OF up]]
      from history_update_log [OF rest idsu wfu, unfolded old]
      have L: "res = Inr ()" "log_step rel i (case upd_state req of None \<Rightarrow> None
          | Some new \<Rightarrow> if crow_state r \<noteq> new then Some (action_from_state new) else None) u t"
        by simp_all
      have "core_inv rel t" by (rule log_step_current [OF assms(1) r(1) U' L(2)])
      with L U' r(1) show ?thesis
        using only_logs_fields [of u t] by (auto simp: log_step_def same_rest_def)
    qed
  qed
qed

lemma history_delete_effect:
  assumes "core_inv rel s"
    and "history_delete_credential (create_history_row rel) session (sql_credential_repository sql rel) c s = (res, t)"
  shows "core_inv rel t \<and> core_now t = core_now s \<and> core_revocation t = core_revocation s \<and>
    core_notifications t = core_notifications s \<and> core_interactions t = core_interactions s \<and>
    (credential_of t = credential_of s \<and> res \<noteq> Inr () \<or>
     (\<exists>r. credential_of s (cred_id c) = Some r \<and> res = Inr () \<and>
       credential_of t = (credential_of s)(cred_id c \<mapsto> r\<lparr>crow_deleted_at := Some (core_now s)\<rparr>)))"
proof -
  have wf: "wf_core rel s" "ids_used s" using assms(1) by (simp_all add: core_inv_def)
  obtain r1 u where u: "delete_credential_row rel c s = (r1, u)" by fastforce
  have wfu: "wf_core rel u" using preservesD [OF preserves_credential_updates(2) wf(1) u] .
  note D = delete_credential_row_result [of s rel c r1 u, OF _ u]
  show ?thesis
  proof (cases r1)
    case (Inl e)
    then show ?thesis
      using assms D u wf by (auto simp: history_delete_credential_def sbind_def sql_credential_repository_def wf_core_def [of rel s])
  next
    case (Inr x)
    with D wf obtain r where r: "same_rest s u" "credential_of s (cred_id c) = Some r"
      "credential_of u = (credential_of s)(cred_id c \<mapsto> r\<lparr>crow_deleted_at := Some (core_now s)\<rparr>)"
      by (auto simp: wf_core_def [of rel s])
    have idsu: "ids_used u" using wf(2) r(1) by (simp add: ids_used_def same_rest_def)
    have step: "create_history_entry_for_credential (create_history_row rel) session c ActDeleted u = (res, t)"
      using assms(2) u Inr by (simp add: history_delete_credential_def sql_credential_repository_def)
    note H = history_entry_effect [OF step idsu]
    then obtain hs where hs: "core_history t = core_history u @ hs" "\<forall>h \<in> set hs. hist_action h = ActDeleted"
      by (elim conjE exE) blast
    have log: "last_logged (core_history t) k = last_logged (core_history s) k" for k
      using r(1) hs by (auto simp: same_rest_def logs_state_def state_actions_def intro!: last_logged_other)
    have T: "credential_of t = credential_of u" "wf_core rel t" "ids_used t"
      using H wfu only_logs_fields(2) by auto
    have "log_current t" if "log_current s"
      using that log_current_row [OF wf(1)] log_current_row [OF T(2)] log r(2,3) T(1) by (auto split: if_splits)
    with assms(1) T have "core_inv rel t" by (simp add: core_inv_def)
    then show ?thesis using H r T(1) only_logs_fields [of u t] by (auto simp: same_rest_def)
  qed
qed

lemma schedule_effect:
  assumes "schedule rel wh url i st ty org target s = (res, t)"
  shows "t = s \<or> (\<exists>ns. t = s\<lparr>core_uuids := core_uuids s + 1, core_notifications := core_notifications s @ ns\<rparr> \<and>
    (\<forall>n \<in> set ns. ntf_id n = core_uuids s))"
proof -
  have row: "\<exists>ns. v = u\<lparr>core_notifications := core_notifications u @ ns\<rparr> \<and> (\<forall>n \<in> set ns. ntf_id n = ntf_id m)"
    if "create_notification_row rel m u = (q, v)" for m q and u v :: "'a core_db"
    using that by (auto simp: create_notification_row_def smap_err_def split: if_splits
      intro: exI [of _ "[]"] exI [of _ "[m]"])
  show ?thesis
    using assms unfolding schedule_def
    by (auto simp: sbind_def smap_err_def fresh_uuid_def now_utc_def dest!: row split: sum.splits prod.splits)
qed

lemma send_notification_effect:
  assumes "core_inv rel s" and "send_notification rel wh (history_repository env) i st s = (res, t)"
  shows "core_inv rel t \<and> credential_of t = credential_of s \<and> core_now t = core_now s \<and>
    core_revocation t = core_revocation s \<and> core_history t = core_history s \<and> core_interactions t = core_interactions s"
proof -
  have get: "repo_get_credential (history_repository env) i relations s = (q, v) \<Longrightarrow> v = s" for relations q v
    using only_reads [OF get_credential_by_id_reads, of "env_related env" i relations s]
    by (simp add: history_repository_def credential_history_decorator_def sql_credential_repository_def)
  have "t = s \<or> (\<exists>ns. t = s\<lparr>core_uuids := core_uuids s + 1, core_notifications := core_notifications s @ ns\<rparr> \<and>
      (\<forall>n \<in> set ns. ntf_id n = core_uuids s))"
    using assms(2) unfolding send_notification_def
    by (auto simp: sbind_def smap_err_def dest!: get schedule_effect split: sum.splits prod.splits option.splits)
  then show ?thesis
  proof
    assume "\<exists>ns. t = s\<lparr>core_uuids := core_uuids s + 1, core_notifications := core_notifications s @ ns\<rparr> \<and>
      (\<forall>n \<in> set ns. ntf_id n = core_uuids s)"
    then obtain ns where t: "t = s\<lparr>core_uuids := core_uuids s + 1, core_notifications := core_notifications s @ ns\<rparr>"
      and ns: "\<forall>n \<in> set ns. ntf_id n = core_uuids s" by blast
    have "wf_core rel t"
      by (rule wf_core_congruence [of rel s]) (use assms(1) t in \<open>simp_all add: core_inv_def\<close>)
    moreover have "ids_used t" "log_current t \<longleftrightarrow> log_current s"
      using assms(1) ns by (auto simp: t core_inv_def ids_used_def list_all_iff log_current_def)
    ultimately show ?thesis using assms(1) by (simp add: core_inv_def t credential_of_def fun_eq_iff)
  qed (use assms(1) in simp)
qed

lemma core_update_effect:
  assumes "core_inv (env_related env) s" and "repo_update_credential (core_credential_repository env) i req s = (res, t)"
  shows "core_inv (env_related env) t \<and> core_now t = core_now s \<and> core_revocation t = core_revocation s \<and>
    core_interactions t = core_interactions s \<and>
    (credential_of t = credential_of s \<and> res \<noteq> Inr () \<or>
     (\<exists>r. credential_of s i = Some r \<and> credential_of t = (credential_of s)(i \<mapsto> apply_update req (core_now s) r)))"
proof -
  let ?rel = "env_related env"
  obtain r1 u where u: "repo_update_credential (history_repository env) i req s = (r1, u)" by fastforce
  note U = history_update_effect [of ?rel s "env_session env" "env_sql env" i req r1 u, OF assms(1)]
  have U': "core_inv ?rel u \<and> core_now u = core_now s \<and> core_revocation u = core_revocation s \<and>
      core_interactions u = core_interactions s \<and>
      (credential_of u = credential_of s \<and> r1 \<noteq> Inr () \<or> (\<exists>r. credential_of s i = Some r \<and>
        credential_of u = (credential_of s)(i \<mapsto> apply_update req (core_now s) r)))"
    using U u by (auto simp: history_repository_def credential_history_decorator_def)
  consider (err) e where "r1 = Inl e" "res = Inl e" "t = u" | (plain) "r1 = Inr ()" "t = u" "res = Inr ()"
    | (sent) st where "r1 = Inr ()" "send_notification ?rel (env_webhook env) (history_repository env) i st u = (res, t)"
    using assms(2) u
    by (cases r1) (auto simp: core_credential_repository_def credential_notification_decorator_def
      notification_update_credential_def sbind_def split: option.splits if_splits)
  then show ?thesis
  proof cases
    case (sent st)
    with U' send_notification_effect [of ?rel u "env_webhook env" env i st res t] show ?thesis by auto
  qed (use U' in auto)
qed

interpretation core_credentials: credential_contract "core_credential_repository env" "core_inv (env_related env)"
  credential_of core_now core_revocation
proof
  let ?R = "core_credential_repository env" and ?Q = "sql_credential_repository (env_sql env) (env_related env)"
  have same: "repo_get_credential ?R = repo_get_credential ?Q"
    "repo_get_credential_list ?R = repo_get_credential_list ?Q"
    by (simp_all add: core_credential_repository_def credential_notification_decorator_def history_repository_def
      credential_history_decorator_def)
  fix s t :: "'r core_db" and i relations c req res f l r
  have wf: "wf_core (env_related env) s" if "core_inv (env_related env) s"
    using that by (simp add: core_inv_def)
  show "snd (repo_get_credential ?R i relations s) = s"
    unfolding same by (rule sql_credentials.get_keeps)
  show "\<exists>r. credential_of s i = Some r \<and> own_columns c = credential_from_row r"
    if "core_inv (env_related env) s" "repo_get_credential ?R i relations s = (Inr (Some c), t)"
    using sql_credentials.get_found [OF wf [OF that(1)] that(2) [unfolded same]] .
  show "credential_of s i = None"
    if "core_inv (env_related env) s" "repo_get_credential ?R i relations s = (Inr None, t)"
    using sql_credentials.get_missing [OF wf [OF that(1)] that(2) [unfolded same]] .
  show "crow_id r = i" if "credential_of s i = Some r"
    using credential_of_Some [OF that] by simp
  show "core_inv (env_related env) t \<and> core_now t = core_now s \<and> core_revocation t = core_revocation s \<and>
      (credential_of t = credential_of s \<and> res \<noteq> Inr () \<or>
       (\<exists>r. credential_of s i = Some r \<and> credential_of t = (credential_of s)(i \<mapsto> apply_update req (core_now s) r)))"
    if "core_inv (env_related env) s" "repo_update_credential ?R i req s = (res, t)"
    using core_update_effect [OF that] by simp
  show "snd (repo_get_credential_list ?R f s) = s"
    unfolding same by (rule sql_credentials.list_keeps)
  show "\<exists>r. credential_of s (cred_id c) = Some r \<and> own_columns c = credential_from_row r \<and> crow_deleted_at r = None"
    if "core_inv (env_related env) s" "repo_get_credential_list ?R f s = (Inr l, t)" "c \<in> set (glr_values l)"
    using sql_credentials.listed [OF wf [OF that(1)] that(2) [unfolded same] that(3)] .
  show "core_inv (env_related env) t \<and> core_now t = core_now s \<and> core_revocation t = core_revocation s \<and>
      (credential_of t = credential_of s \<and> res \<noteq> Inr () \<or>
       (\<exists>r. credential_of s (cred_id c) = Some r \<and>
         credential_of t = (credential_of s)(cred_id c \<mapsto> r\<lparr>crow_deleted_at := Some (core_now s)\<rparr>)))"
    if "core_inv (env_related env) s" "repo_delete_credential ?R c s = (res, t)"
    using history_delete_effect [of "env_related env" s "env_session env" "env_sql env" c res t] that
    by (auto simp: core_credential_repository_def credential_notification_decorator_def history_repository_def
      credential_history_decorator_def)
qed

end
