(* ===== verification/Credential_Validity.thy ===== *)
theory Credential_Validity
  imports Credential_Decorators Token_Status_List
begin

text \<open>
  The credential validity manager (\<open>one-core/src/proto/credential_validity_manager/\<close>): the issuer's
  suspension, reactivation and revocation of a credential, and the holder's check of a credential
  against its status lists or, for mdoc, against the validity of its MSO. It works over the
  repositories of \<open>Credential_Tables\<close> and the revocation methods of \<open>Revocation_Method\<close>, whose state is
  the part \<open>core_revocation\<close> of the core.
\<close>

section \<open>Errors\<close>

datatype ValidityError =
    VeMappingError string
  | VeJsonError string
  | VeNoRevocationMethod uuid
  | VeSuspensionNotSupported string
  | VeInvalidCredentialStateTransition CredentialStateEnum CredentialStateEnum
  | VeIncompatibleIssuerIdentifier
  | VeRevocationCheckNotAllowedForRole CredentialRole uuid
  | VeEncryptionError string
  | VeNested NestedError

fun validity_error_code :: "ValidityError \<Rightarrow> error_code" where
  "validity_error_code (VeMappingError _) = ''BR_0047''"
| "validity_error_code (VeJsonError _) = ''BR_0189''"
| "validity_error_code (VeNoRevocationMethod _) = ''BR_0098''"
| "validity_error_code (VeSuspensionNotSupported _) = ''BR_0162''"
| "validity_error_code (VeInvalidCredentialStateTransition _ _) = ''BR_0366''"
| "validity_error_code VeIncompatibleIssuerIdentifier = ''BR_0218''"
| "validity_error_code (VeRevocationCheckNotAllowedForRole _ _) = ''BR_0197''"
| "validity_error_code (VeEncryptionError _) = ''BR_0368''"
| "validity_error_code (VeNested nested) = nested_error_code nested"

type_synonym ('r, 'a) validity_comp = "('r core_db, ValidityError fault, 'a) comp"

definition ve_code :: "string \<Rightarrow> error_code \<Rightarrow> ValidityError fault" where
  "ve_code context code = Failure (VeNested (NestedError context code))"

definition ve_db :: "string \<Rightarrow> DataLayerError \<Rightarrow> ValidityError fault" where
  "ve_db context e = Failure (VeNested (error_while data_layer_error_code context e))"

definition ve_revocation :: "string \<Rightarrow> RevocationError fault \<Rightarrow> ValidityError fault" where
  "ve_revocation context = map_failure (\<lambda>e. VeNested (error_while revocation_error_code context e))"

text \<open>An error that the caller looks at; a panic goes on.\<close>

definition stry :: "('s, 'e fault, 'a) comp \<Rightarrow> ('s, 'f fault, ('e, 'a) result) comp" where
  "stry m s =
     (case m s of
        (Inl Panic, t) \<Rightarrow> (Inl Panic, t)
      | (Inl (Failure e), t) \<Rightarrow> (Inr (Inl e), t)
      | (Inr x, t) \<Rightarrow> (Inr (Inr x), t))"

text \<open>A computation of a revocation method, in the core.\<close>

definition on_revocation :: "('r, 'e, 'a) comp \<Rightarrow> ('r core_db, 'e, 'a) comp" where
  "on_revocation m s = (case m (core_revocation s) of (res, v) \<Rightarrow> (res, s\<lparr>core_revocation := v\<rparr>))"

section \<open>Organisation of the session\<close>

text \<open>\<open>one-core/src/validator/mod.rs\<close>; a service error is its code.\<close>

definition throw_if_org_not_matching_session :: "uuid \<Rightarrow> Session option \<Rightarrow> (error_code, unit) result" where
  "throw_if_org_not_matching_session organisation_id session =
     (case session of
        None \<Rightarrow> Inr ()
      | Some session \<Rightarrow>
          rbind (ok_or (session_organisation_id session) ''BR_0178'') (\<lambda>org.
          ensure (org = organisation_id) ''BR_0178''))"

definition throw_if_org_relation_not_matching_session ::
  "Organisation option \<Rightarrow> Session option \<Rightarrow> (error_code, unit) result" where
  "throw_if_org_relation_not_matching_session org_relation session =
     rbind (ok_or org_relation ''BR_0047'') (\<lambda>org.
     throw_if_org_not_matching_session (org_id org) session)"

definition throw_if_credential_schema_not_in_session_org ::
  "Credential \<Rightarrow> Session option \<Rightarrow> (error_code, unit) result" where
  "throw_if_credential_schema_not_in_session_org credential session =
     rbind (ok_or (cred_schema credential) ''BR_0047'') (\<lambda>schema.
     throw_if_org_relation_not_matching_session (schema_organisation schema) session)"

section \<open>The environment\<close>

text \<open>
  A decoded credential, without its claims and its schema, which the manager does not read; the
  interaction data of a holder, whose remaining fields are kept as text; and the messages of a
  token and of a credential endpoint, a credential definition kept as text.
\<close>

record DetailCredential =
  dc_id :: "string option"
  dc_issuance_date :: "date_time option"
  dc_valid_from :: "date_time option"
  dc_valid_until :: "date_time option"
  dc_update_at :: "date_time option"
  dc_invalid_before :: "date_time option"
  dc_issuer :: IdentifierDetails
  dc_subject :: "IdentifierDetails option"
  dc_status :: "CredentialStatus list"

record HolderInteractionData =
  hid_issuer_url :: string
  hid_credential_endpoint :: string
  hid_token_endpoint :: "string option"
  hid_access_token :: "bytes option"
  hid_access_token_expires_at :: "date_time option"
  hid_refresh_token :: "bytes option"
  hid_nonce :: "string option"
  hid_refresh_token_expires_at :: "date_time option"
  hid_other :: string

record OpenID4VCITokenResponse =
  otr_access_token :: string
  otr_token_type :: string
  otr_expires_in :: int
  otr_refresh_token :: "string option"
  otr_refresh_token_expires_in :: "int option"
  otr_c_nonce :: "string option"

record OpenID4VCICredentialRequest =
  ocr_format :: string
  ocr_credential_definition :: "string option"
  ocr_doctype :: "string option"
  ocr_vct :: "string option"
  ocr_proof_type :: string
  ocr_proof_jwt :: string

datatype IssuanceProtocolType = OpenId4VciDraft13 | OpenId4vciFinal1_0Swiyu | OpenId4VciFinal1_0

record formatter =
  fmt_extract_credentials_unverified :: "string \<Rightarrow> CredentialSchema \<Rightarrow> (error_code, DetailCredential) result"
  fmt_extract_credentials :: "string \<Rightarrow> CredentialSchema \<Rightarrow> (error_code, DetailCredential) result"

text \<open>
  The providers of the manager. The blob storage is the repository behind it. JSON, UTF-8,
  encryption, signing and the HTTP client are functions: \<open>ve_post_token\<close> posts a form and reads the
  JSON answer, \<open>ve_post_credential\<close> posts a request with a bearer token and returns the body;
  \<open>ve_error_text\<close> is the text of a revocation error.
\<close>

record 'r validity_env =
  ve_credentials :: "'r core_db credential_repository"
  ve_interactions :: "'r core_db interaction_repository"
  ve_blob_storage :: "'r core_db blob_repository option"
  ve_revocation_methods :: "'r revocation_methods"
  ve_session :: "Session option"
  ve_formatter :: "string \<Rightarrow> formatter option"
  ve_format_type :: "string \<Rightarrow> (error_code, FormatType) result"
  ve_from_utf8 :: "bytes \<Rightarrow> (string, string) result"
  ve_error_text :: "RevocationError \<Rightarrow> string"
  ve_interaction_from_json :: "bytes \<Rightarrow> (error_code, HolderInteractionData) result"
  ve_interaction_to_json :: "HolderInteractionData \<Rightarrow> (string, bytes) result"
  ve_protocol_fields :: "string \<Rightarrow> (error_code, IssuanceProtocolType \<times> string) result"
  ve_draft13_encryption :: "string \<Rightarrow> (string, bytes) result"
  ve_swiyu_encryption :: "string \<Rightarrow> (string, bytes) result"
  ve_final1_encryption :: "string \<Rightarrow> (string, bytes) result"
  ve_decrypt_string :: "bytes \<Rightarrow> bytes \<Rightarrow> (string, string) result"
  ve_encrypt_string :: "string \<Rightarrow> bytes \<Rightarrow> (string, bytes) result"
  ve_post_token :: "string \<Rightarrow> (string \<times> string) list \<Rightarrow> (NestedError, OpenID4VCITokenResponse) result"
  ve_post_credential :: "string \<Rightarrow> string \<Rightarrow> OpenID4VCICredentialRequest \<Rightarrow> (NestedError, bytes) result"
  ve_credential_from_json :: "bytes \<Rightarrow> (string, string) result"
  ve_signature_provider :: "Key \<Rightarrow> (error_code, unit) result"
  ve_format_proof :: "string \<Rightarrow> string \<Rightarrow> string option \<Rightarrow> Key \<Rightarrow> (error_code, string) result"

section \<open>Changing the validity of an issued credential\<close>

fun credential_state_of :: "RevocationState \<Rightarrow> CredentialStateEnum" where
  "credential_state_of Valid = Accepted"
| "credential_state_of RevocationState.Revoked = CredentialStateEnum.Revoked"
| "credential_state_of (RevocationState.Suspended _) = CredentialStateEnum.Suspended"

fun suspension_end :: "RevocationState \<Rightarrow> date_time option" where
  "suspension_end (RevocationState.Suspended end_date) = end_date"
| "suspension_end _ = None"

definition is_suspended :: "RevocationState \<Rightarrow> bool" where
  "is_suspended st = (case st of RevocationState.Suspended _ \<Rightarrow> True | _ \<Rightarrow> False)"

definition verify_suspension_support ::
  "CredentialSchema \<Rightarrow> string \<Rightarrow> RevocationState \<Rightarrow> (ValidityError, unit) result" where
  "verify_suspension_support schema revocation_method st =
     ensure (\<not> (\<not> schema_allow_suspension schema \<and> is_suspended st)) (VeSuspensionNotSupported revocation_method)"

fun valid_states :: "RevocationState \<Rightarrow> CredentialStateEnum list" where
  "valid_states RevocationState.Revoked = [Accepted, CredentialStateEnum.Suspended]"
| "valid_states Valid = [CredentialStateEnum.Suspended]"
| "valid_states (RevocationState.Suspended _) = [Accepted]"

definition validate_state_transition ::
  "CredentialStateEnum \<Rightarrow> RevocationState \<Rightarrow> (ValidityError, unit) result" where
  "validate_state_transition current target =
     ensure (current \<in> set (valid_states target))
       (VeInvalidCredentialStateTransition current (credential_state_of target))"

definition did_with_keys :: DidRelations where
  "did_with_keys = did_relations_default\<lparr>drel_keys := Some key_relations_default\<rparr>"

definition issuer_relations :: IdentifierRelations where
  "issuer_relations = identifier_relations_default
     \<lparr>irel_did := Some did_with_keys,
      irel_certificates := Some (certificate_relations_default\<lparr>crel_key := Some key_relations_default\<rparr>)\<rparr>"

definition holder_relations :: IdentifierRelations where
  "holder_relations = identifier_relations_default
     \<lparr>irel_did := Some did_with_keys, irel_key := Some key_relations_default\<rparr>"

definition change_relations :: CredentialRelations where
  "change_relations = credential_relations_default
     \<lparr>credrel_issuer_identifier := Some issuer_relations,
      credrel_issuer_certificate := Some certificate_relations_default,
      credrel_holder_identifier := Some holder_relations,
      credrel_schema := Some \<lparr>csrel_claim_schemas = False, csrel_organisation = True\<rparr>,
      credrel_key := Some key_relations_default\<rparr>"

definition validity_update :: "RevocationState \<Rightarrow> UpdateCredentialRequest" where
  "validity_update st = update_credential_default
     \<lparr>upd_state := Some (credential_state_of st), upd_suspend_end_date := ForceSet (suspension_end st)\<rparr>"

text \<open>
  The checks of \<open>change_credential_validity_state\<close> on the stored credential: it exists, is not
  deleted, belongs to the organisation of the session, and its schema and its state admit the
  change. The result is the credential and its revocation method.
\<close>

definition check_validity_change ::
  "'r validity_env \<Rightarrow> uuid \<Rightarrow> RevocationState \<Rightarrow> ('r, Credential \<times> 'r revocation_method) validity_comp" where
  "check_validity_change env i st =
     sbind (smap_err (ve_db ''getting credential'') (repo_get_credential (ve_credentials env) i change_relations)) (\<lambda>found.
     sbind (slift (ok_or found (ve_code ''getting credential'' ''BR_0001''))) (\<lambda>credential.
     sbind (slift (ensure (cred_deleted_at credential = None) (ve_code ''validating credential'' ''BR_0001''))) (\<lambda>_.
     sbind (slift (ok_or (cred_schema credential) (Failure (VeMappingError ''credential schema is None'')))) (\<lambda>schema.
     sbind (slift (map_err (ve_code ''verifying organisation'')
       (throw_if_org_relation_not_matching_session (schema_organisation schema) (ve_session env)))) (\<lambda>_.
     sbind (slift (ok_or (schema_revocation_method schema) (Failure (VeNoRevocationMethod (schema_uuid schema))))) (\<lambda>revocation_id.
     sbind (slift (map_err Failure (verify_suspension_support schema revocation_id st))) (\<lambda>_.
     sbind (slift (map_err Failure (validate_state_transition (cred_state credential) st))) (\<lambda>_.
     sbind (slift (ok_or (get_revocation_method (ve_revocation_methods env) revocation_id)
       (ve_code ''getting revocation method'' ''BR_0044''))) (\<lambda>rm.
     sret (credential, rm))))))))))"

text \<open>
  Nothing holds a lock between the checks and the update: \<open>others\<close> is what other tasks of the core
  commit in between.
\<close>

definition change_credential_validity_state ::
  "'r validity_env \<Rightarrow> ('r core_db \<Rightarrow> 'r core_db) \<Rightarrow> uuid \<Rightarrow> RevocationState \<Rightarrow> ('r, unit) validity_comp" where
  "change_credential_validity_state env others i st =
     sbind (check_validity_change env i st) (\<lambda>(credential, rm).
     sbind (scommitted others) (\<lambda>_.
     sbind (smap_err (ve_revocation ''marking credential status'')
       (on_revocation (rm_mark_credential_as rm credential st))) (\<lambda>_.
     smap_err (ve_db ''updating credential'')
       (repo_update_credential (ve_credentials env) i (validity_update st)))))"

section \<open>Refreshing an mdoc\<close>

datatype TokenCheckResult = RefreshNotPossible | RefreshPossible string

definition is_mso_expired :: "date_time \<Rightarrow> DetailCredential \<Rightarrow> bool" where
  "is_mso_expired now detail = (case dc_valid_until detail of Some valid_until \<Rightarrow> valid_until < now | None \<Rightarrow> False)"

definition mso_requires_update :: "date_time \<Rightarrow> DetailCredential \<Rightarrow> bool" where
  "mso_requires_update now detail =
     (case dc_update_at detail of Some update_at \<Rightarrow> update_at < now | None \<Rightarrow> is_mso_expired now detail)"

definition encryption_key_from_config :: "'r validity_env \<Rightarrow> Credential \<Rightarrow> (ValidityError fault, bytes) result" where
  "encryption_key_from_config env credential =
     rbind (map_err (ve_code ''getting issuance protocol fields from config'')
       (ve_protocol_fields env (cred_protocol credential))) (\<lambda>(ty, fields).
     map_err (\<lambda>_. ve_code ''loading encryption key from config'' ''BR_0051'')
       (case ty of
          OpenId4VciDraft13 \<Rightarrow> ve_draft13_encryption env fields
        | OpenId4vciFinal1_0Swiyu \<Rightarrow> ve_swiyu_encryption env fields
        | OpenId4VciFinal1_0 \<Rightarrow> ve_final1_encryption env fields))"

text \<open>The range of \<open>OffsetDateTime::from_unix_timestamp\<close>.\<close>

definition from_unix_timestamp :: "int \<Rightarrow> date_time option" where
  "from_unix_timestamp t = (if - 377705116800 \<le> t \<and> t \<le> 253402300799 then Some t else None)"

text \<open>
  The interaction data after a refresh: the new tokens, encrypted, and their expiry, read as
  times since the epoch.
\<close>

definition refreshed_interaction_data ::
  "'r validity_env \<Rightarrow> bytes \<Rightarrow> HolderInteractionData \<Rightarrow> OpenID4VCITokenResponse \<Rightarrow>
   (ValidityError fault, HolderInteractionData) result" where
  "refreshed_interaction_data env key data response =
     rbind (map_err (Failure \<circ> VeEncryptionError) (ve_encrypt_string env (otr_access_token response) key)) (\<lambda>access_token.
     rbind (case otr_refresh_token response of
         None \<Rightarrow> Inr None
       | Some token \<Rightarrow>
           rbind (map_err (Failure \<circ> VeEncryptionError) (ve_encrypt_string env token key)) (\<lambda>t. Inr (Some t)))
       (\<lambda>refresh_token. Inr (data
         \<lparr>hid_access_token := Some access_token,
          hid_access_token_expires_at := from_unix_timestamp (otr_expires_in response),
          hid_refresh_token := refresh_token,
          hid_refresh_token_expires_at := Option.bind (otr_refresh_token_expires_in response) from_unix_timestamp,
          hid_nonce := otr_c_nonce response\<rparr>)))"

text \<open>The result comes with the interaction data, which a refresh changes.\<close>

definition check_access_token ::
  "'r validity_env \<Rightarrow> Credential \<Rightarrow> HolderInteractionData \<Rightarrow> bytes \<Rightarrow>
   ('r, TokenCheckResult \<times> HolderInteractionData) validity_comp" where
  "check_access_token env credential data key =
     sbind now_utc (\<lambda>now.
     sbind (slift (ok_or (hid_access_token_expires_at data)
       (Failure (VeMappingError ''Missing expires_at in interaction data for mso'')))) (\<lambda>expires_at.
     if now < expires_at then
       sbind (slift (ok_or (hid_access_token data) (Failure (VeMappingError ''missing access_token'')))) (\<lambda>token.
       sbind (slift (map_err (Failure \<circ> VeEncryptionError) (ve_decrypt_string env token key))) (\<lambda>access_token.
       sret (RefreshPossible access_token, data)))
     else
       (case hid_refresh_token data of
          None \<Rightarrow> sret (RefreshNotPossible, data)
        | Some token \<Rightarrow>
            sbind (slift (map_err (Failure \<circ> VeEncryptionError) (ve_decrypt_string env token key))) (\<lambda>refresh_token.
            if (case hid_refresh_token_expires_at data of None \<Rightarrow> False | Some e \<Rightarrow> e \<le> now)
            then sret (RefreshNotPossible, data)
            else
              sbind (slift (ok_or (hid_token_endpoint data) (Failure (VeMappingError ''token endpoint is missing'')))) (\<lambda>endpoint.
              sbind (slift (map_err (Failure \<circ> VeNested) (ve_post_token env endpoint
                [(''refresh_token'', refresh_token), (''grant_type'', ''refresh_token'')]))) (\<lambda>response.
              sbind (slift (refreshed_interaction_data env key data response)) (\<lambda>data'.
              sbind (slift (ok_or (cred_interaction credential) (Failure (VeMappingError ''Missing interaction'')))) (\<lambda>interaction.
              sbind (slift (map_err (Failure \<circ> VeMappingError) (ve_interaction_to_json env data'))) (\<lambda>json.
              sbind (smap_err (ve_db ''updating interaction'')
                (repo_update_interaction (ve_interactions env) (inter_id interaction)
                  (update_interaction_request (interaction\<lparr>inter_data := Some json\<rparr>)))) (\<lambda>_.
              sret (RefreshPossible (otr_access_token response), data')))))))))))"

definition new_blob :: "bytes \<Rightarrow> BlobType \<Rightarrow> ('r core_db, 'e, Blob) comp" where
  "new_blob value ty =
     sbind now_utc (\<lambda>now. sbind fresh_uuid (\<lambda>i.
     sret \<lparr>blob_id = i, blob_created_date = now, blob_last_modified = now, blob_value = value, blob_type = ty\<rparr>))"

text \<open>The request for a new credential, and the checked answer.\<close>

definition obtain_new_mso ::
  "'r validity_env \<Rightarrow> Credential \<Rightarrow> HolderInteractionData \<Rightarrow> string \<Rightarrow> (ValidityError fault, string) result" where
  "obtain_new_mso env credential data access_token =
     rbind (ok_or (cred_key credential) (Failure (VeMappingError ''Missing key''))) (\<lambda>key.
     rbind (ok_or (cred_holder_identifier credential) (Failure (VeMappingError ''Missing holder identifier''))) (\<lambda>holder.
     rbind (ok_or (idf_did holder) (Failure (VeMappingError ''Missing holder did''))) (\<lambda>holder_did.
     rbind (map_err (ve_code ''getting key from holder did'' \<circ> key_selection_error_code)
       (find_key holder_did (key_id key) key_filter_default)) (\<lambda>related.
     rbind (map_err (ve_code ''getting signature provider'') (ve_signature_provider env (rel_key related))) (\<lambda>_.
     rbind (map_err (ve_code ''formatting proof'')
       (ve_format_proof env (hid_issuer_url data) (verification_method_id holder_did related) (hid_nonce data)
         (rel_key related))) (\<lambda>proof_jwt.
     rbind (ok_or (cred_schema credential) (Failure (VeMappingError ''schema is None''))) (\<lambda>schema.
     rbind (map_err (Failure \<circ> VeNested) (ve_post_credential env (hid_credential_endpoint data) access_token
       \<lparr>ocr_format = ''mso_mdoc'', ocr_credential_definition = None, ocr_doctype = Some (schema_schema_id schema),
        ocr_vct = None, ocr_proof_type = ''jwt'', ocr_proof_jwt = proof_jwt\<rparr>)) (\<lambda>body.
     rbind (map_err (Failure \<circ> VeJsonError) (ve_credential_from_json env body)) (\<lambda>result.
     rbind (ok_or (ve_formatter env (schema_format schema)) (ve_code ''getting credential formatter'' ''BR_0038'')) (\<lambda>fmt.
     rbind (map_err (ve_code ''extracting credential'') (fmt_extract_credentials fmt result schema)) (\<lambda>_.
     Inr result)))))))))))"

definition obtain_and_update_new_mso ::
  "'r validity_env \<Rightarrow> Credential \<Rightarrow> HolderInteractionData \<Rightarrow> string \<Rightarrow> ('r, unit) validity_comp" where
  "obtain_and_update_new_mso env credential data access_token =
     sbind (slift (obtain_new_mso env credential data access_token)) (\<lambda>result.
     sbind (slift (ok_or (ve_blob_storage env) (ve_code ''getting blob storage'' ''BR_0252''))) (\<lambda>storage.
     sbind (case cred_blob_id credential of
         None \<Rightarrow>
           sbind (new_blob (string_bytes result) CredentialBlob) (\<lambda>blob.
           sbind (smap_err (ve_db ''creating credential blob'') (repo_create_blob storage blob)) (\<lambda>_.
           sret (blob_id blob)))
       | Some bid \<Rightarrow>
           sbind (smap_err (ve_db ''updating credential blob'')
             (repo_update_blob storage bid \<lparr>ubr_value = Some (string_bytes result)\<rparr>)) (\<lambda>_.
           sret bid)) (\<lambda>bid.
     smap_err (ve_db ''updating credential'')
       (repo_update_credential (ve_credentials env) (cred_id credential)
         (update_credential_default\<lparr>upd_credential_blob_id := Some bid, upd_suspend_end_date := DontTouch\<rparr>)))))"

definition deserialize_interaction_data ::
  "'r validity_env \<Rightarrow> bytes option \<Rightarrow> (error_code, HolderInteractionData) result" where
  "deserialize_interaction_data env data =
     rbind (ok_or data ''BR_0173'') (ve_interaction_from_json env)"

text \<open>The state of an mdoc by its age, and the state after the check of its access token.\<close>

definition mso_state :: "date_time \<Rightarrow> DetailCredential \<Rightarrow> CredentialStateEnum" where
  "mso_state now detail = (if is_mso_expired now detail then CredentialStateEnum.Suspended else Accepted)"

definition refreshed_state ::
  "'r validity_env \<Rightarrow> Credential \<Rightarrow> DetailCredential \<Rightarrow> bool \<Rightarrow> date_time \<Rightarrow>
   (ValidityError, TokenCheckResult \<times> HolderInteractionData) result \<Rightarrow> ('r, CredentialStateEnum) validity_comp" where
  "refreshed_state env credential detail force_refresh now result =
     (case result of
        Inl _ \<Rightarrow> sret (mso_state now detail)
      | Inr (RefreshPossible access_token, data) \<Rightarrow>
          if force_refresh \<or> mso_requires_update now detail then
            sbind (stry (obtain_and_update_new_mso env credential data access_token)) (\<lambda>refreshed.
            sret (if is_ok refreshed then Accepted else mso_state now detail))
          else sret (mso_state now detail)
      | Inr (RefreshNotPossible, _) \<Rightarrow>
          sret (if is_mso_expired now detail then CredentialStateEnum.Revoked else mso_state now detail))"

definition check_mdoc_update ::
  "'r validity_env \<Rightarrow> Credential \<Rightarrow> DetailCredential \<Rightarrow> bool \<Rightarrow> ('r, CredentialStateEnum) validity_comp" where
  "check_mdoc_update env credential detail force_refresh =
     sbind (slift (map_err (ve_code ''deserializing interaction data'')
       (deserialize_interaction_data env (Option.bind (cred_interaction credential) inter_data)))) (\<lambda>data.
     sbind now_utc (\<lambda>now.
     sbind (slift (encryption_key_from_config env credential)) (\<lambda>key.
     sbind (stry (check_access_token env credential data key)) (\<lambda>result.
     refreshed_state env credential detail force_refresh now result))))"

record CredentialValidityCheckResult =
  cvr_credential_id :: uuid
  cvr_status :: CredentialStateEnum
  cvr_success :: bool
  cvr_reason :: "string option"

definition check_done :: "uuid \<Rightarrow> CredentialStateEnum \<Rightarrow> CredentialValidityCheckResult" where
  "check_done i st = \<lparr>cvr_credential_id = i, cvr_status = st, cvr_success = True, cvr_reason = None\<rparr>"

definition check_failed :: "uuid \<Rightarrow> CredentialStateEnum \<Rightarrow> string \<Rightarrow> CredentialValidityCheckResult" where
  "check_failed i st reason = \<lparr>cvr_credential_id = i, cvr_status = st, cvr_success = False, cvr_reason = Some reason\<rparr>"

definition update_mdoc ::
  "'r validity_env \<Rightarrow> Credential \<Rightarrow> DetailCredential \<Rightarrow> bool \<Rightarrow> ('r, CredentialValidityCheckResult) validity_comp" where
  "update_mdoc env credential detail force_refresh =
     sbind (check_mdoc_update env credential detail force_refresh) (\<lambda>new_state.
     sbind (if new_state \<noteq> cred_state credential
       then smap_err (ve_db ''updating credential'')
         (repo_update_credential (ve_credentials env) (cred_id credential)
           (update_credential_default\<lparr>upd_state := Some new_state, upd_suspend_end_date := DontTouch\<rparr>))
       else sret ()) (\<lambda>_.
     sret (check_done (cred_id credential) new_state)))"

section \<open>Checking a held credential\<close>

definition issuer_details :: "Identifier \<Rightarrow> (ValidityError, IdentifierDetails) result" where
  "issuer_details issuer =
     (case idf_type issuer of
        IdDid \<Rightarrow>
          rbind (ok_or (idf_did issuer) (VeMappingError ''issuer_did is None'')) (\<lambda>did.
          Inr (DetailsDid (did_did did)))
      | IdCertificate \<Rightarrow>
          rbind (ok_or (idf_certificates issuer) (VeMappingError ''issuer certificates is None'')) (\<lambda>certificates.
          case certificates of
            [] \<Rightarrow> Inl (VeMappingError ''issuer certificate is missing'')
          | certificate # _ \<Rightarrow> Inr (DetailsCertificate
              \<lparr>cdet_chain = cert_chain certificate, cdet_fingerprint = cert_fingerprint certificate,
               cdet_expiry = cert_expiry_date certificate, cdet_subject_common_name = None\<rparr>))
      | _ \<Rightarrow> Inl VeIncompatibleIssuerIdentifier)"

text \<open>The loop over the status entries: the worst state so far, or the first error.\<close>

fun check_statuses ::
  "'r revocation_method \<Rightarrow> Identifier \<Rightarrow> bool \<Rightarrow> CredentialStatus list \<Rightarrow> RevocationState \<Rightarrow>
   ('r, (RevocationError, RevocationState) result) validity_comp" where
  "check_statuses rm issuer force_refresh [] worst = sret (Inr worst)"
| "check_statuses rm issuer force_refresh (status # statuses) worst =
     sbind (slift (map_err Failure (issuer_details issuer))) (\<lambda>details.
     sbind (stry (on_revocation (rm_check_credential_revocation_status rm status details force_refresh))) (\<lambda>result.
     case result of
       Inl e \<Rightarrow> sret (Inl e)
     | Inr st \<Rightarrow>
         (case st of
            Valid \<Rightarrow> check_statuses rm issuer force_refresh statuses worst
          | RevocationState.Revoked \<Rightarrow> sret (Inr st)
          | RevocationState.Suspended _ \<Rightarrow> check_statuses rm issuer force_refresh statuses st)))"

text \<open>The names \<open>strum\<close> displays.\<close>

fun credential_state_name :: "CredentialStateEnum \<Rightarrow> string" where
  "credential_state_name CredentialStateEnum.Created = ''Created''"
| "credential_state_name CredentialStateEnum.Pending = ''Pending''"
| "credential_state_name Offered = ''Offered''"
| "credential_state_name Accepted = ''Accepted''"
| "credential_state_name Rejected = ''Rejected''"
| "credential_state_name CredentialStateEnum.Revoked = ''Revoked''"
| "credential_state_name CredentialStateEnum.Suspended = ''Suspended''"
| "credential_state_name Error = ''Error''"
| "credential_state_name InteractionExpired = ''InteractionExpired''"

definition holder_check_relations :: CredentialRelations where
  "holder_check_relations = credential_relations_default
     \<lparr>credrel_schema := Some \<lparr>csrel_claim_schemas = False, csrel_organisation = True\<rparr>,
      credrel_issuer_identifier := Some issuer_relations,
      credrel_holder_identifier := Some holder_relations,
      credrel_interaction := Some \<lparr>inrel_organisation = True\<rparr>,
      credrel_key := Some key_relations_default\<rparr>"

text \<open>The decoded credential: its blob, or the empty text when it has none.\<close>

definition held_credential ::
  "'r validity_env \<Rightarrow> Credential \<Rightarrow> CredentialSchema \<Rightarrow> ('r, DetailCredential) validity_comp" where
  "held_credential env credential schema =
     sbind (case cred_blob_id credential of
         None \<Rightarrow> sret []
       | Some bid \<Rightarrow>
           sbind (slift (ok_or (ve_blob_storage env) (ve_code ''getting blob storage'' ''BR_0252''))) (\<lambda>storage.
           sbind (smap_err (ve_db ''getting credential blob'') (repo_get_blob storage bid)) (\<lambda>found.
           sbind (slift (ok_or found (Failure (VeMappingError ''credential blob is None'')))) (\<lambda>blob.
           sret (blob_value blob))))) (\<lambda>credentials.
     sbind (slift (map_err (Failure \<circ> VeMappingError) (ve_from_utf8 env credentials))) (\<lambda>credential_str.
     sbind (slift (ok_or (ve_formatter env (schema_format schema))
       (ve_code ''getting credential formatter'' ''BR_0038''))) (\<lambda>fmt.
     slift (map_err (ve_code ''extracting credential'')
       (fmt_extract_credentials_unverified fmt credential_str schema)))))"

text \<open>The check of the status entries of a credential that has some.\<close>

definition check_credential_statuses ::
  "'r validity_env \<Rightarrow> Credential \<Rightarrow> CredentialSchema \<Rightarrow> CredentialStatus list \<Rightarrow> bool \<Rightarrow>
   ('r, CredentialValidityCheckResult) validity_comp" where
  "check_credential_statuses env credential schema statuses force_refresh =
     (let i = cred_id credential; current_state = cred_state credential in
      case schema_revocation_method schema of
        None \<Rightarrow> sret (check_failed i current_state ''No revocation method specified for credential'')
      | Some revocation_id \<Rightarrow>
          sbind (slift (ok_or (get_revocation_method (ve_revocation_methods env) revocation_id)
            (ve_code ''getting revocation method'' ''BR_0044''))) (\<lambda>rm.
          sbind (slift (ok_or (cred_issuer_identifier credential)
            (Failure (VeMappingError ''issuer_identifier is None'')))) (\<lambda>issuer.
          sbind (check_statuses rm issuer force_refresh statuses Valid) (\<lambda>result.
          case result of
            Inl e \<Rightarrow> sret (check_failed i current_state (ve_error_text env e))
          | Inr worst \<Rightarrow>
              sbind (if current_state \<noteq> credential_state_of worst
                then smap_err (ve_db ''updating credential'')
                  (repo_update_credential (ve_credentials env) i (validity_update worst))
                else sret ()) (\<lambda>_.
              sret (check_done i (credential_state_of worst)))))))"

definition check_holder_credential_validity ::
  "'r validity_env \<Rightarrow> uuid \<Rightarrow> bool \<Rightarrow> ('r, CredentialValidityCheckResult) validity_comp" where
  "check_holder_credential_validity env i force_refresh =
     sbind (smap_err (ve_db ''getting credential'') (repo_get_credential (ve_credentials env) i holder_check_relations)) (\<lambda>found.
     sbind (slift (ok_or found (ve_code ''getting credential'' ''BR_0001''))) (\<lambda>credential.
     sbind (slift (map_err (ve_code ''verifying credential schema organisation'')
       (throw_if_credential_schema_not_in_session_org credential (ve_session env)))) (\<lambda>_.
     sbind (slift (ensure (cred_deleted_at credential = None) (ve_code ''validating credential'' ''BR_0001''))) (\<lambda>_.
     sbind (slift (ensure (cred_role credential = Holder)
       (Failure (VeRevocationCheckNotAllowedForRole (cred_role credential) i)))) (\<lambda>_.
     let current_state = cred_state credential in
     if current_state = CredentialStateEnum.Revoked then sret (check_done i CredentialStateEnum.Revoked)
     else if current_state \<noteq> Accepted \<and> current_state \<noteq> CredentialStateEnum.Suspended
     then sret (check_failed i current_state (''Invalid credential state: '' @ credential_state_name current_state))
     else
       sbind (slift (ok_or (cred_schema credential) (Failure (VeMappingError ''schema is None'')))) (\<lambda>schema.
       sbind (held_credential env credential schema) (\<lambda>detail.
       sbind (slift (map_err (ve_code ''getting credential format type'') (ve_format_type env (schema_format schema)))) (\<lambda>format_type.
       if format_type = Mdoc then update_mdoc env credential detail force_refresh
       else if dc_status detail = [] then sret (check_done i Accepted)
       else check_credential_statuses env credential schema (dc_status detail) force_refresh))))))))"

end
