(* ===== verification/Credential_Service.thy ===== *)
theory Credential_Service
  imports Credential_Validity
begin

text \<open>
  The operations of the credential service that act on an existing credential
  (\<open>one-core/src/service/credential/service.rs\<close>) and the background tasks of
  \<open>one-core/src/provider/task/\<close> that end suspensions, check held credentials and expire interactions.
\<close>

section \<open>Errors\<close>

datatype CredentialServiceError =
    CseNotFound uuid
  | CseInvalidState CredentialStateEnum
  | CseNoIssuer
  | CseInvalidIdentifierType IdentifierType
  | CseIdentifierIsDeactivated uuid
  | CseInvalidDatatype string string string
  | CseIncompatibleIssuanceDidMethod
  | CseIncompatibleIssuanceIdentifier
  | CseIncompatibleIssuanceExchangeProtocol
  | CseInvalidRedirectUri
  | CseNotificationsNotAllowed string
  | CseEmptyObjectNotAllowed
  | CseEmptyArrayValueNotAllowed
  | CseEmptyValueNotAllowed
  | CseMissingClaimSchema uuid
  | CseMissingIdentifier uuid
  | CseMissingDid uuid
  | CseMissingCredentialSchema uuid
  | CseMissingParentClaimSchema uuid
  | CseMappingError string
  | CseNested NestedError

fun credential_service_error_code :: "CredentialServiceError \<Rightarrow> error_code" where
  "credential_service_error_code (CseNotFound _) = ''BR_0001''"
| "credential_service_error_code (CseInvalidState _) = ''BR_0002''"
| "credential_service_error_code (CseMissingClaimSchema _) = ''BR_0003''"
| "credential_service_error_code (CseMissingIdentifier _) = ''BR_0207''"
| "credential_service_error_code (CseMissingDid _) = ''BR_0024''"
| "credential_service_error_code (CseMissingCredentialSchema _) = ''BR_0006''"
| "credential_service_error_code (CseMissingParentClaimSchema _) = ''BR_0109''"
| "credential_service_error_code CseNoIssuer = ''BR_0323''"
| "credential_service_error_code (CseInvalidIdentifierType _) = ''BR_0323''"
| "credential_service_error_code CseIncompatibleIssuanceIdentifier = ''BR_0218''"
| "credential_service_error_code (CseIdentifierIsDeactivated _) = ''BR_0027''"
| "credential_service_error_code (CseInvalidDatatype _ _ _) = ''BR_0061''"
| "credential_service_error_code CseInvalidRedirectUri = ''BR_0192''"
| "credential_service_error_code (CseNotificationsNotAllowed _) = ''BR_0372''"
| "credential_service_error_code CseEmptyObjectNotAllowed = ''BR_0194''"
| "credential_service_error_code CseEmptyArrayValueNotAllowed = ''BR_0195''"
| "credential_service_error_code CseEmptyValueNotAllowed = ''BR_0204''"
| "credential_service_error_code CseIncompatibleIssuanceDidMethod = ''BR_0127''"
| "credential_service_error_code CseIncompatibleIssuanceExchangeProtocol = ''BR_0111''"
| "credential_service_error_code (CseMappingError _) = ''BR_0047''"
| "credential_service_error_code (CseNested nested) = nested_error_code nested"

type_synonym ('r, 'a) service_comp = "('r core_db, CredentialServiceError fault, 'a) comp"

definition cse_code :: "string \<Rightarrow> error_code \<Rightarrow> CredentialServiceError fault" where
  "cse_code context code = Failure (CseNested (NestedError context code))"

definition cse_db :: "string \<Rightarrow> DataLayerError \<Rightarrow> CredentialServiceError fault" where
  "cse_db context e = cse_code context (data_layer_error_code e)"

definition cse_validity :: "string \<Rightarrow> ValidityError fault \<Rightarrow> CredentialServiceError fault" where
  "cse_validity context = map_failure (\<lambda>e. CseNested (error_while validity_error_code context e))"

section \<open>The environment\<close>

record ShareResponse =
  shr_url :: string
  shr_interaction_id :: uuid
  shr_interaction_data :: "bytes option"
  shr_expires_at :: "date_time option"
  shr_transaction_code :: "string option"

text \<open>
  An issuance protocol is its operation \<open>issuer_share_credential\<close>; \<open>sv_revocation_fields\<close> looks up a
  revocation method in the configuration; \<open>sv_expire_proofs\<close> is what the expiration task does with
  proofs.
\<close>

record 'r service_env =
  sv_validity :: "'r validity_env"
  sv_protocols :: "string \<Rightarrow> (Credential \<Rightarrow> (error_code, ShareResponse) result) option"
  sv_revocation_fields :: "string \<Rightarrow> (error_code, unit) result"
  sv_create_history :: "'r core_db create_history"
  sv_expire_proofs :: "('r core_db, error_code fault, uuid list) comp"

abbreviation sv_credentials :: "'r service_env \<Rightarrow> 'r core_db credential_repository" where
  "sv_credentials env \<equiv> ve_credentials (sv_validity env)"

abbreviation sv_interactions :: "'r service_env \<Rightarrow> 'r core_db interaction_repository" where
  "sv_interactions env \<equiv> ve_interactions (sv_validity env)"

abbreviation sv_session :: "'r service_env \<Rightarrow> Session option" where
  "sv_session env \<equiv> ve_session (sv_validity env)"

section \<open>Validity\<close>

definition reactivate_credential ::
  "'r service_env \<Rightarrow> ('r core_db \<Rightarrow> 'r core_db) \<Rightarrow> uuid \<Rightarrow> ('r, unit) service_comp" where
  "reactivate_credential env others i =
     smap_err (cse_validity ''reactivating credential'')
       (change_credential_validity_state (sv_validity env) others i Valid)"

definition suspend_credential ::
  "'r service_env \<Rightarrow> ('r core_db \<Rightarrow> 'r core_db) \<Rightarrow> uuid \<Rightarrow> date_time option \<Rightarrow> ('r, unit) service_comp" where
  "suspend_credential env others i end_date =
     smap_err (cse_validity ''suspending credential'')
       (change_credential_validity_state (sv_validity env) others i (RevocationState.Suspended end_date))"

definition revoke_credential ::
  "'r service_env \<Rightarrow> ('r core_db \<Rightarrow> 'r core_db) \<Rightarrow> uuid \<Rightarrow> ('r, unit) service_comp" where
  "revoke_credential env others i =
     smap_err (cse_validity ''revoking credential'')
       (change_credential_validity_state (sv_validity env) others i RevocationState.Revoked)"

fun check_revocation ::
  "'r service_env \<Rightarrow> uuid list \<Rightarrow> bool \<Rightarrow> ('r, CredentialValidityCheckResult list) service_comp" where
  "check_revocation env [] force_refresh = sret []"
| "check_revocation env (i # is) force_refresh =
     sbind (smap_err (cse_validity ''checking credential validity'')
       (check_holder_credential_validity (sv_validity env) i force_refresh)) (\<lambda>result.
     sbind (check_revocation env is force_refresh) (\<lambda>results.
     sret (result # results)))"

section \<open>Deletion\<close>

definition throw_if_credential_state_eq ::
  "Credential \<Rightarrow> CredentialStateEnum \<Rightarrow> (CredentialServiceError, unit) result" where
  "throw_if_credential_state_eq credential st =
     ensure (cred_state credential \<noteq> st) (CseInvalidState (cred_state credential))"

definition delete_credential :: "'r service_env \<Rightarrow> uuid \<Rightarrow> ('r, unit) service_comp" where
  "delete_credential env i =
     sbind (smap_err (cse_db ''getting credential'') (repo_get_credential (sv_credentials env) i
       (credential_relations_default
         \<lparr>credrel_schema := Some \<lparr>csrel_claim_schemas = False, csrel_organisation = True\<rparr>\<rparr>))) (\<lambda>found.
     sbind (slift (ok_or found (Failure (CseNotFound i)))) (\<lambda>credential.
     sbind (slift (ok_or (cred_schema credential) (Failure (CseMappingError ''credential_schema is None'')))) (\<lambda>schema.
     sbind (slift (map_err (cse_code ''checking session'')
       (throw_if_org_relation_not_matching_session (schema_organisation schema) (sv_session env)))) (\<lambda>_.
     sbind (case (cred_role credential, schema_revocation_method schema) of
         (Issuer, Some revocation_id) \<Rightarrow>
           sbind (slift (map_err (cse_code ''getting revocation config'') (sv_revocation_fields env revocation_id))) (\<lambda>_.
           slift (map_err Failure (throw_if_credential_state_eq credential Accepted)))
       | _ \<Rightarrow> sret ()) (\<lambda>_.
     smap_err (\<lambda>e. if e = RecordNotUpdated then Failure (CseNotFound i) else cse_db ''deleting credential'' e)
       (repo_delete_credential (sv_credentials env) credential))))))"

section \<open>Sharing\<close>

text \<open>\<open>one-core/src/util/interactions.rs\<close>; the service errors are their codes.\<close>

definition add_new_interaction ::
  "'r core_db interaction_repository \<Rightarrow> uuid \<Rightarrow> bytes option \<Rightarrow> Organisation option \<Rightarrow> InteractionType \<Rightarrow>
   date_time option \<Rightarrow> ('r core_db, error_code, Interaction) comp" where
  "add_new_interaction interactions i data organisation ty expires_at =
     sbind now_utc (\<lambda>now.
     let new_interaction = \<lparr>inter_id = i, inter_created_date = now, inter_last_modified = now, inter_data = data,
           inter_organisation = organisation, inter_nonce_id = None, inter_type = ty, inter_expires_at = expires_at\<rparr> in
     sbind (smap_err data_layer_error_code (repo_create_interaction interactions new_interaction)) (\<lambda>_.
     sret new_interaction))"

definition clear_previous_interaction ::
  "'r core_db interaction_repository \<Rightarrow> Interaction option \<Rightarrow> ('r core_db, error_code, unit) comp" where
  "clear_previous_interaction interactions interaction =
     (case interaction of
        None \<Rightarrow> sret ()
      | Some interaction \<Rightarrow>
          smap_err data_layer_error_code (repo_delete_interaction interactions (inter_id interaction)))"

definition share_relations :: CredentialRelations where
  "share_relations = credential_relations_default
     \<lparr>credrel_claims := Some \<lparr>clrel_schema = True\<rparr>,
      credrel_schema := Some \<lparr>csrel_claim_schemas = True, csrel_organisation = True\<rparr>,
      credrel_issuer_identifier := Some (identifier_relations_default\<lparr>irel_did := Some did_relations_default\<rparr>),
      credrel_holder_identifier := Some (identifier_relations_default\<lparr>irel_did := Some did_relations_default\<rparr>),
      credrel_interaction := Some \<lparr>inrel_organisation = False\<rparr>,
      credrel_issuer_certificate := Some certificate_relations_default\<rparr>"

definition get_credential_with_state :: "'r service_env \<Rightarrow> uuid \<Rightarrow> ('r, Credential) service_comp" where
  "get_credential_with_state env i =
     sbind (smap_err (cse_db ''getting credential'') (repo_get_credential (sv_credentials env) i share_relations)) (\<lambda>found.
     slift (ok_or found (Failure (CseNotFound i))))"

record ShareCredentialResponse =
  scr_url :: string
  scr_transaction_code :: "string option"
  scr_expires_at :: "date_time option"

definition shareable_states :: "CredentialStateEnum list" where
  "shareable_states = [CredentialStateEnum.Created, CredentialStateEnum.Pending, InteractionExpired]"

text \<open>The checks, up to the answer of the protocol.\<close>

definition check_sharing :: "'r service_env \<Rightarrow> Credential \<Rightarrow> (CredentialServiceError fault, Organisation \<times> ShareResponse) result" where
  "check_sharing env credential =
     rbind (ensure (cred_deleted_at credential = None) (Failure (CseNotFound (cred_id credential)))) (\<lambda>_.
     rbind (ok_or (cred_schema credential) (Failure (CseMappingError ''Missing credential schema''))) (\<lambda>schema.
     rbind (map_err (cse_code ''checking session'')
       (throw_if_org_relation_not_matching_session (schema_organisation schema) (sv_session env))) (\<lambda>_.
     rbind (ensure (cred_state credential \<in> set shareable_states)
       (Failure (CseInvalidState (cred_state credential)))) (\<lambda>_.
     rbind (ok_or (cred_issuer_identifier credential) (Failure (CseMappingError ''Missing issuer identifier''))) (\<lambda>issuer.
     rbind (ensure (idf_state issuer = IdActive) (Failure (CseIdentifierIsDeactivated (idf_id issuer)))) (\<lambda>_.
     rbind (ok_or (schema_organisation schema) (Failure (CseMappingError ''Missing organisation''))) (\<lambda>organisation.
     rbind (ok_or (sv_protocols env (cred_protocol credential)) (cse_code ''getting protocol'' ''BR_0046'')) (\<lambda>exchange.
     rbind (map_err (cse_code ''sharing credential'') (exchange credential)) (\<lambda>response.
     Inr (organisation, response))))))))))"

definition share_credential :: "'r service_env \<Rightarrow> uuid \<Rightarrow> ('r, ShareCredentialResponse) service_comp" where
  "share_credential env i =
     sbind (get_credential_with_state env i) (\<lambda>credential.
     sbind (slift (check_sharing env credential)) (\<lambda>(organisation, response).
     sbind (smap_err (cse_code ''adding interaction'') (add_new_interaction (sv_interactions env)
       (shr_interaction_id response) (shr_interaction_data response) (Some organisation) Issuance
       (shr_expires_at response))) (\<lambda>_.
     sbind (smap_err (cse_db ''updating credential'') (repo_update_credential (sv_credentials env) i
       (update_credential_default
         \<lparr>upd_state := (if cred_state credential \<noteq> CredentialStateEnum.Pending then Some CredentialStateEnum.Pending else None),
          upd_interaction := Some (shr_interaction_id response)\<rparr>))) (\<lambda>_.
     sbind (smap_err (cse_code ''clearing interaction'')
       (clear_previous_interaction (sv_interactions env) (cred_interaction credential))) (\<lambda>_.
     sret \<lparr>scr_url = shr_url response, scr_transaction_code = shr_transaction_code response,
       scr_expires_at = shr_expires_at response\<rparr>)))))"

section \<open>Tasks\<close>

text \<open>The error of a task is the code of its service error.\<close>

definition task_db :: "DataLayerError \<Rightarrow> error_code fault" where
  "task_db e = Failure (data_layer_error_code e)"

record SuspendCheckResult =
  suc_updated_credential_ids :: "uuid list"
  suc_total_checks :: nat

definition suspend_check_filter :: "date_time \<Rightarrow> CredentialFilterValue ListFilterCondition" where
  "suspend_check_filter now =
     bitand (bitand (Value (FvStates [CredentialStateEnum.Suspended])) (Value (FvRoles [Issuer])))
       (Value (FvSuspendEndDate \<lparr>vcmp_comparison = LessThan, vcmp_value = now\<rparr>))"

definition suspend_check :: "'r service_env \<Rightarrow> ('r core_db, error_code fault, SuspendCheckResult) comp" where
  "suspend_check env =
     sbind now_utc (\<lambda>now.
     sbind (smap_err task_db (repo_get_credential_list (sv_credentials env) (Some (suspend_check_filter now)))) (\<lambda>credential_list.
     sbind (sfor_each (\<lambda>credential. smap_err (map_failure validity_error_code)
         (change_credential_validity_state (sv_validity env) id (cred_id credential) Valid))
       (glr_values credential_list)) (\<lambda>_.
     sret \<lparr>suc_updated_credential_ids = map cred_id (glr_values credential_list),
       suc_total_checks = glr_total_items credential_list\<rparr>)))"

record HolderCheckParams =
  hcp_organisation_id :: "uuid option"
  hcp_force_refresh :: "bool option"

definition holder_check_credential_status ::
  "'r service_env \<Rightarrow> HolderCheckParams option \<Rightarrow> ('r core_db, error_code fault, nat) comp" where
  "holder_check_credential_status env params =
     (let org_filter = map_option (\<lambda>org. Value (FvOrganisationId org)) (Option.bind params hcp_organisation_id);
          force_refresh = (case Option.bind params hcp_force_refresh of None \<Rightarrow> False | Some b \<Rightarrow> b) in
      sbind (smap_err task_db (repo_get_credential_list (sv_credentials env)
        (Some (bitand_option (Value (FvRoles [Holder])) org_filter)))) (\<lambda>credentials.
      sbind (sfor_each (\<lambda>credential.
          sbind (smap_err (map_failure validity_error_code)
            (check_holder_credential_validity (sv_validity env) (cred_id credential) force_refresh)) (\<lambda>_. sret ()))
        (glr_values credentials)) (\<lambda>_.
      sret (glr_total_items credentials))))"

text \<open>The entry the expiration task writes for a credential.\<close>

definition log_expired_credential ::
  "'r service_env \<Rightarrow> date_time \<Rightarrow> uuid \<Rightarrow> ('r core_db, error_code fault, unit) comp" where
  "log_expired_credential env now i =
     sbind (smap_err task_db (repo_get_credential (sv_credentials env) i history_relations)) (\<lambda>found.
     sbind (slift (ok_or found (Failure ''BR_0001''))) (\<lambda>credential.
     sbind (slift (ok_or (cred_schema credential) (Failure ''BR_0047''))) (\<lambda>schema.
     sbind fresh_uuid (\<lambda>entry_id.
     sbind (smap_err task_db (sv_create_history env
       \<lparr>hist_id = entry_id, hist_created_date = now, hist_action = ActInteractionExpired,
        hist_name = schema_name schema, hist_target = target_from_credential credential,
        hist_source = CoreSource, hist_entity_id = Some i, hist_entity_type = CredentialEntity,
        hist_metadata = None, hist_organisation_id = map_option org_id (schema_organisation schema),
        hist_user = session_user (sv_session env)\<rparr>)) (\<lambda>_.
     sret ())))))"

definition expire_credentials :: "'r service_env \<Rightarrow> ('r core_db, error_code fault, uuid list) comp" where
  "expire_credentials env =
     sbind now_utc (\<lambda>now.
     sbind (smap_err task_db (repo_update_expired_credentials (sv_interactions env))) (\<lambda>updated_credentials.
     sbind (sfor_each (log_expired_credential env now) updated_credentials) (\<lambda>_.
     sret updated_credentials)))"

definition interaction_expiration_check ::
  "'r service_env \<Rightarrow> ('r core_db, error_code fault, uuid list \<times> uuid list) comp" where
  "interaction_expiration_check env =
     sbind (expire_credentials env) (\<lambda>updated_credentials.
     sbind (sv_expire_proofs env) (\<lambda>updated_proofs.
     sret (updated_credentials, updated_proofs)))"

end
