(* ===== verification/Credential_Lifecycle.thy ===== *)
theory Credential_Lifecycle
  imports Credential_Service
begin

text \<open>
  How the states of stored credentials evolve. A locale collects what the validity manager and the
  service rely on; in it every operation is shown to move a credential only along the legal
  transitions and to keep the invariant of the repository, whatever its outcome. The locale is
  interpreted on the decorated SQL repository, and the operations become the steps of a
  transition system.
\<close>

section \<open>Legal transitions\<close>

text \<open>What one or more operations may make of a state.\<close>

definition may_become :: "CredentialStateEnum \<Rightarrow> CredentialStateEnum \<Rightarrow> bool" where
  "may_become old new \<longleftrightarrow> old = new \<or>
     old \<in> {Accepted, CredentialStateEnum.Suspended} \<and>
       new \<in> {Accepted, CredentialStateEnum.Suspended, CredentialStateEnum.Revoked} \<or>
     old \<in> {CredentialStateEnum.Created, CredentialStateEnum.Pending, InteractionExpired} \<and>
       new \<in> {CredentialStateEnum.Pending, InteractionExpired}"

lemma may_become_refl [simp]: "may_become st st"
  by (simp add: may_become_def)

lemma may_become_trans: "may_become a b \<Longrightarrow> may_become b c \<Longrightarrow> may_become a c"
  by (auto simp: may_become_def)

lemma may_become_revoked [simp]: "may_become CredentialStateEnum.Revoked st \<longleftrightarrow> st = CredentialStateEnum.Revoked"
  by (auto simp: may_become_def)

text \<open>
  Every stored credential is still there, with its role, in a state it may have come to; a deleted
  one is still deleted.
\<close>

definition evolves :: "(uuid \<Rightarrow> credential_row option) \<Rightarrow> (uuid \<Rightarrow> credential_row option) \<Rightarrow> bool" where
  "evolves R R' \<longleftrightarrow> (\<forall>i r. R i = Some r \<longrightarrow> (\<exists>r'. R' i = Some r' \<and> crow_role r' = crow_role r \<and>
     may_become (crow_state r) (crow_state r') \<and> (crow_deleted_at r \<noteq> None \<longrightarrow> crow_deleted_at r' \<noteq> None)))"

lemma evolves_refl [simp]: "evolves R R"
  by (simp add: evolves_def)

lemma evolvesD:
  assumes "evolves R R'" and "R i = Some r"
  obtains r' where "R' i = Some r'" "crow_role r' = crow_role r" "may_become (crow_state r) (crow_state r')"
    "crow_deleted_at r \<noteq> None \<longrightarrow> crow_deleted_at r' \<noteq> None"
  using assms unfolding evolves_def by blast

lemma evolves_trans:
  assumes "evolves R R'" and "evolves R' R''"
  shows "evolves R R''"
  unfolding evolves_def
proof (intro allI impI)
  fix i r assume "R i = Some r"
  with assms(1) obtain r' where r': "R' i = Some r'" "crow_role r' = crow_role r"
    "may_become (crow_state r) (crow_state r')" "crow_deleted_at r \<noteq> None \<longrightarrow> crow_deleted_at r' \<noteq> None"
    by (rule evolvesD)
  from assms(2) r'(1) obtain r'' where r'': "R'' i = Some r''" "crow_role r'' = crow_role r'"
    "may_become (crow_state r') (crow_state r'')" "crow_deleted_at r' \<noteq> None \<longrightarrow> crow_deleted_at r'' \<noteq> None"
    by (rule evolvesD)
  show "\<exists>r''. R'' i = Some r'' \<and> crow_role r'' = crow_role r \<and> may_become (crow_state r) (crow_state r'') \<and>
      (crow_deleted_at r \<noteq> None \<longrightarrow> crow_deleted_at r'' \<noteq> None)"
    using r' r'' may_become_trans [OF r'(3) r''(3)] by (intro exI [of _ r''] conjI) simp_all
qed

lemma evolves_update:
  assumes "R i = Some r" and "crow_role r' = crow_role r" and "may_become (crow_state r) (crow_state r')"
    and "crow_deleted_at r \<noteq> None \<Longrightarrow> crow_deleted_at r' \<noteq> None"
  shows "evolves R (R(i \<mapsto> r'))"
  using assms by (auto simp: evolves_def)

lemma apply_update_columns [simp]:
  "crow_role (apply_update req now r) = crow_role r" "crow_deleted_at (apply_update req now r) = crow_deleted_at r"
  "crow_state (apply_update req now r) = (case upd_state req of None \<Rightarrow> crow_state r | Some st \<Rightarrow> st)"
  by (simp_all add: apply_update_def)

section \<open>Computations from one condition to another\<close>

definition leads :: "('s \<Rightarrow> bool) \<Rightarrow> ('s, 'e, 'a) comp \<Rightarrow> ('s \<Rightarrow> bool) \<Rightarrow> bool" where
  "leads Q m P \<longleftrightarrow> (\<forall>s. Q s \<longrightarrow> P (snd (m s)))"

lemma leadsI: "(\<And>s. Q s \<Longrightarrow> P (snd (m s))) \<Longrightarrow> leads Q m P"
  by (simp add: leads_def)

lemma leadsD: "leads Q m P \<Longrightarrow> Q s \<Longrightarrow> m s = (res, t) \<Longrightarrow> P t"
  unfolding leads_def by (metis snd_conv)

lemma leads_preserves: "preserves Q m \<Longrightarrow> (\<And>s. Q s \<Longrightarrow> P s) \<Longrightarrow> leads Q m P"
  by (simp add: leads_def preserves_def)

lemma preserves_leads: "leads P m P \<Longrightarrow> preserves P m"
  by (simp add: leads_def preserves_def)

lemma leads_sbind:
  assumes "preserves Q m" and "\<And>s. Q s \<Longrightarrow> P s" and "\<And>x. leads Q (f x) P"
  shows "leads Q (sbind m f) P"
proof (rule leadsI)
  fix s assume "Q s"
  obtain r t where m: "m s = (r, t)" by fastforce
  with assms(1) \<open>Q s\<close> have "Q t" by (metis preserves_def snd_conv)
  then show "P (snd (sbind m f s))"
    using assms(2,3) m by (cases r) (auto simp: sbind_def leads_def)
qed

lemma leads_then:
  assumes "leads Q m P" and "\<And>x. preserves P (f x)"
  shows "leads Q (sbind m f) P"
proof (rule leadsI)
  fix s assume "Q s"
  obtain r t where m: "m s = (r, t)" by fastforce
  have "P t" using assms(1) \<open>Q s\<close> m by (rule leadsD)
  then show "P (snd (sbind m f s))"
    using assms(2) m by (cases r) (auto simp: sbind_def preserves_def)
qed

lemma snd_sbind_sret [simp]: "snd (sbind m (\<lambda>x. sret (f x)) s) = snd (m s)"
  by (simp add: sbind_def split: prod.splits sum.splits)

text \<open>A computation that reads learns something for the rest.\<close>

lemma preserves_read_sbind:
  assumes "\<And>s. snd (m s) = s" and "\<And>x s. P s \<Longrightarrow> m s = (Inr x, s) \<Longrightarrow> P (snd (f x s))"
  shows "preserves P (sbind m f)"
proof (rule preservesI)
  fix s assume "P s"
  obtain r where "m s = (r, s)" using assms(1) by (metis prod.collapse)
  with \<open>P s\<close> assms(2) show "P (snd (sbind m f s))" by (cases r) (auto simp: sbind_def)
qed

lemma leads_smap_err: "leads Q m P \<Longrightarrow> leads Q (smap_err f m) P"
  unfolding leads_def smap_err_def by (auto split: prod.splits)

lemma leads_if: "(b \<Longrightarrow> leads Q m P) \<Longrightarrow> (\<not> b \<Longrightarrow> leads Q n P) \<Longrightarrow> leads Q (if b then m else n) P"
  by simp

lemma preserves_stry [preserves_intros]: "preserves P m \<Longrightarrow> preserves P (stry m)"
  unfolding preserves_def stry_def by (auto split: prod.splits sum.splits fault.splits)

lemma preserves_now_utc [preserves_intros]: "preserves P now_utc"
  by (simp add: now_utc_def preserves_sread)

section \<open>The client of a repository\<close>

text \<open>
  The manager uses the repository, and what else it writes - the state of the revocation methods,
  interactions, blobs and the supply of identifiers - is neither a row of a credential nor part of
  what the invariant depends on.
\<close>

locale validity_manager = credential_contract repo inv row core_now core_revocation
  for repo :: "'r core_db credential_repository" and inv :: "'r core_db \<Rightarrow> bool"
    and row :: "'r core_db \<Rightarrow> uuid \<Rightarrow> credential_row option" +
  fixes env :: "'r validity_env"
  assumes env_repo: "ve_credentials env = repo"
    and revocation_frame: "inv s \<Longrightarrow> inv (s\<lparr>core_revocation := v\<rparr>) \<and> row (s\<lparr>core_revocation := v\<rparr>) = row s"
    and uuid_frame: "inv s \<Longrightarrow> inv (s\<lparr>core_uuids := core_uuids s + 1\<rparr>) \<and> row (s\<lparr>core_uuids := core_uuids s + 1\<rparr>) = row s"
    and interaction_frame: "inv s \<Longrightarrow> repo_update_interaction (ve_interactions env) j req s = (res, t) \<Longrightarrow>
      inv t \<and> row t = row s"
    and blob_frame: "ve_blob_storage env = Some storage \<Longrightarrow> inv s \<Longrightarrow>
      snd (repo_get_blob storage b s) = s \<and>
      inv (snd (repo_create_blob storage x s)) \<and> row (snd (repo_create_blob storage x s)) = row s \<and>
      inv (snd (repo_update_blob storage b u s)) \<and> row (snd (repo_update_blob storage b u s)) = row s"
begin

text \<open>The rows have evolved from \<open>R\<close>; and the one at \<open>i\<close> is in state \<open>st\<close>.\<close>

definition since :: "(uuid \<Rightarrow> credential_row option) \<Rightarrow> 'r core_db \<Rightarrow> bool" where
  "since R s \<longleftrightarrow> inv s \<and> evolves R (row s)"

definition since_at :: "(uuid \<Rightarrow> credential_row option) \<Rightarrow> uuid \<Rightarrow> CredentialStateEnum \<Rightarrow> 'r core_db \<Rightarrow> bool" where
  "since_at R i st s \<longleftrightarrow> since R s \<and> (\<exists>r. row s i = Some r \<and> crow_state r = st)"

lemma since_at_since: "since_at R i st s \<Longrightarrow> since R s"
  by (simp add: since_at_def)

lemma same_rows: "inv t \<Longrightarrow> row t = row s \<Longrightarrow> since_at R i st s \<Longrightarrow> since_at R i st t"
  by (simp add: since_at_def since_def)

lemma since_start: "inv s \<Longrightarrow> since (row s) s"
  by (simp add: since_def)

lemma on_revocation_rows: "preserves (since_at R i st) (on_revocation m)"
  using revocation_frame
  by (intro preservesI) (auto simp: on_revocation_def since_at_def since_def split: prod.splits)

lemma update_interaction_rows: "preserves (since_at R i st) (repo_update_interaction (ve_interactions env) j req)"
proof (rule preservesI)
  fix s assume s: "since_at R i st s"
  then have "inv s" by (simp add: since_at_def since_def)
  from interaction_frame [OF this prod.collapse [symmetric]] s
  show "since_at R i st (snd (repo_update_interaction (ve_interactions env) j req s))"
    by (auto intro: same_rows)
qed

lemma blob_rows:
  assumes "ve_blob_storage env = Some storage"
  shows "preserves (since_at R i st) (repo_create_blob storage x)"
    "preserves (since_at R i st) (repo_update_blob storage b u)"
    "preserves (since_at R i st) (repo_get_blob storage b)"
  using blob_frame [OF assms] by (auto intro!: preservesI intro: same_rows simp: since_at_def since_def)

lemma new_blob_rows: "preserves (since_at R i st) (new_blob value ty)"
  unfolding new_blob_def fresh_uuid_def
  by (intro preserves_intros preservesI) (auto simp: since_at_def since_def dest: uuid_frame)

lemma update_other_columns:
  assumes "upd_state req = None"
  shows "preserves (since_at R i st) (repo_update_credential repo i req)"
proof (rule preservesI)
  fix s assume s: "since_at R i st s"
  then obtain r where r: "inv s" "evolves R (row s)" "row s i = Some r" "crow_state r = st"
    by (auto simp: since_at_def since_def)
  obtain res t where t: "repo_update_credential repo i req s = (res, t)" by fastforce
  have "evolves (row s) ((row s)(i \<mapsto> apply_update req (core_now s) r))"
    using r(3) assms by (intro evolves_update) auto
  then show "since_at R i st (snd (repo_update_credential repo i req s))"
    using update [OF r(1) t] r assms t evolves_trans by (fastforce simp: since_at_def since_def)
qed

lemma update_state:
  assumes "case upd_state req of None \<Rightarrow> True | Some new \<Rightarrow> may_become st new"
  shows "leads (since_at R i st) (repo_update_credential repo i req) (since R)"
proof (rule leadsI)
  fix s assume s: "since_at R i st s"
  then obtain r where r: "inv s" "evolves R (row s)" "row s i = Some r" "crow_state r = st"
    by (auto simp: since_at_def since_def)
  obtain res t where t: "repo_update_credential repo i req s = (res, t)" by fastforce
  have "evolves (row s) ((row s)(i \<mapsto> apply_update req (core_now s) r))"
    using r(3,4) assms by (intro evolves_update) (auto split: option.splits)
  then show "since R (snd (repo_update_credential repo i req s))"
    using update [OF r(1) t] r t evolves_trans by (fastforce simp: since_def)
qed

lemma get_reads: "snd (smap_err f (repo_get_credential repo i rel) s) = s"
  by (cases "repo_get_credential repo i rel s") (simp add: smap_err_def get_result)

lemma found_since:
  assumes "since R s" and "smap_err f (repo_get_credential repo i rel) s = (Inr (Some c), t)"
  shows "cred_id c = i \<and> since_at R i (cred_state c) s"
  using assms found_state [of s i rel c t] by (auto simp: since_at_def since_def)

lemma check_validity_change_reads: "snd (check_validity_change env i st s) = s"
  unfolding check_validity_change_def env_repo
  by (rule only_reads) (intro preserves_intros preservesI, auto simp: get_reads)

lemma check_validity_change_found:
  assumes "inv s" and "check_validity_change env i st s = (Inr (credential, rm), t)"
  shows "t = s \<and> cred_id credential = i \<and> cred_state credential \<in> set (valid_states st) \<and>
    (\<exists>r. row s i = Some r \<and> crow_state r = cred_state credential \<and> crow_deleted_at r = None)"
proof -
  have "t = s" using check_validity_change_reads [of i st s] assms(2) by simp
  from assms(2) have g: "repo_get_credential repo i change_relations s = (Inr (Some credential), s)"
    and "cred_deleted_at credential = None" "cred_state credential \<in> set (valid_states st)"
    unfolding check_validity_change_def env_repo
    by (auto simp: sbind_eq_Inr validate_state_transition_def dest: get_result)
  with found_state [OF assms(1) g] \<open>t = s\<close> show ?thesis by auto
qed

lemma valid_states_may_become: "st \<in> set (valid_states target) \<Longrightarrow> may_become st (credential_state_of target)"
  by (cases target) (auto simp: may_become_def)

lemma validity_update_state [simp]: "upd_state (validity_update st) = Some (credential_state_of st)"
  by (simp add: validity_update_def)

text \<open>The issuer's change of validity, when nobody else interferes.\<close>

lemma change_validity_since: "preserves (since R) (change_credential_validity_state env id i st)"
proof (rule preservesI)
  fix s assume s: "since R s"
  then have "inv s" by (simp add: since_def)
  obtain q where q: "check_validity_change env i st s = (q, s)"
    using check_validity_change_reads by (metis prod.collapse)
  show "since R (snd (change_credential_validity_state env id i st s))"
  proof (cases q)
    case (Inl e)
    then show ?thesis using q s by (simp add: change_credential_validity_state_def sbind_def)
  next
    case (Inr p)
    obtain credential rm where p: "p = (credential, rm)" by fastforce
    note found = check_validity_change_found [OF \<open>inv s\<close> q [unfolded Inr p]]
    have at: "since_at R i (cred_state credential) s" using s found by (auto simp: since_at_def)
    have "leads (since_at R i (cred_state credential))
      (sbind (smap_err (ve_revocation ''marking credential status'')
          (on_revocation (rm_mark_credential_as rm credential st))) (\<lambda>_.
        smap_err (ve_db ''updating credential'') (repo_update_credential repo i (validity_update st)))) (since R)"
      using found
      by (intro leads_sbind leads_smap_err update_state preserves_smap_err on_revocation_rows)
        (auto simp: since_at_since valid_states_may_become)
    with at q Inr p show ?thesis
      by (simp add: change_credential_validity_state_def sbind_Inr_step env_repo leads_def)
  qed
qed

text \<open>Refreshing an mdoc.\<close>

lemma check_access_token_rows: "preserves (since_at R i st) (check_access_token env credential data key)"
  unfolding check_access_token_def by (intro preserves_intros update_interaction_rows)

lemma obtain_and_update_rows:
  assumes "cred_id credential = i"
  shows "preserves (since_at R i st) (obtain_and_update_new_mso env credential data token)"
  unfolding obtain_and_update_new_mso_def env_repo assms
proof (rule preserves_sbind [OF preserves_slift])
  fix result
  show "preserves (since_at R i st)
    (sbind (slift (ok_or (ve_blob_storage env) (ve_code ''getting blob storage'' ''BR_0252''))) (\<lambda>storage.
     sbind (case cred_blob_id credential of
         None \<Rightarrow>
           sbind (new_blob (string_bytes result) CredentialBlob) (\<lambda>blob.
           sbind (smap_err (ve_db ''creating credential blob'') (repo_create_blob storage blob)) (\<lambda>_.
           sret (blob_id blob)))
       | Some bid \<Rightarrow>
           sbind (smap_err (ve_db ''updating credential blob'')
             (repo_update_blob storage bid \<lparr>ubr_value = Some (string_bytes result)\<rparr>)) (\<lambda>_.
           sret bid)) (\<lambda>bid.
     smap_err (ve_db ''updating credential'') (repo_update_credential repo i
         (update_credential_default\<lparr>upd_credential_blob_id := Some bid, upd_suspend_end_date := DontTouch\<rparr>)))))"
    by (cases "ve_blob_storage env")
      (auto intro!: preserves_intros new_blob_rows blob_rows update_other_columns
        simp: update_credential_default_def sbind_def [of "slift _"] slift_def ok_or_def)
qed

lemma refreshed_state_rows:
  assumes "cred_id credential = i"
  shows "preserves (since_at R i st) (refreshed_state env credential detail force now result)"
  unfolding refreshed_state_def
  by (cases result) (auto intro!: preserves_intros obtain_and_update_rows assms split: TokenCheckResult.split)

lemma refreshed_state_result:
  assumes "refreshed_state env credential detail force now result s = (Inr st, t)"
  shows "st \<in> {Accepted, CredentialStateEnum.Suspended, CredentialStateEnum.Revoked}"
  using assms unfolding refreshed_state_def mso_state_def
  by (cases result)
    (auto simp: sbind_eq_Inr split: prod.splits TokenCheckResult.splits if_splits)

lemma check_mdoc_update_rows:
  assumes "cred_id credential = i"
  shows "preserves (since_at R i st) (check_mdoc_update env credential detail force)"
  unfolding check_mdoc_update_def
  by (intro preserves_intros check_access_token_rows refreshed_state_rows assms)

lemma check_mdoc_update_state:
  assumes "check_mdoc_update env credential detail force s = (Inr st, t)"
  shows "st \<in> {Accepted, CredentialStateEnum.Suspended, CredentialStateEnum.Revoked}"
  using assms unfolding check_mdoc_update_def by (auto simp: sbind_eq_Inr dest!: refreshed_state_result)

lemma update_mdoc_since:
  assumes "cred_id credential = i" and "cred_state credential = st"
    and "st \<in> {Accepted, CredentialStateEnum.Suspended}"
  shows "leads (since_at R i st) (update_mdoc env credential detail force) (since R)"
proof (rule leadsI)
  fix s assume s: "since_at R i st s"
  obtain q u where u: "check_mdoc_update env credential detail force s = (q, u)" by fastforce
  have atu: "since_at R i st u" using check_mdoc_update_rows [OF assms(1)] s u by (rule preservesD)
  show "since R (snd (update_mdoc env credential detail force s))"
  proof (cases q)
    case (Inl e)
    then show ?thesis using u atu since_at_since by (simp add: update_mdoc_def sbind_def)
  next
    case (Inr new)
    have "may_become st new"
      using check_mdoc_update_state [OF u [unfolded Inr]] assms(3) by (auto simp: may_become_def)
    then have "leads (since_at R i st) (smap_err (ve_db ''updating credential'') (repo_update_credential repo i
        (update_credential_default\<lparr>upd_state := Some new, upd_suspend_end_date := DontTouch\<rparr>))) (since R)"
      by (intro leads_smap_err update_state) simp
    with atu have "since R (snd (smap_err (ve_db ''updating credential'') (repo_update_credential repo i
        (update_credential_default\<lparr>upd_state := Some new, upd_suspend_end_date := DontTouch\<rparr>)) u))"
      by (simp add: leads_def)
    then show ?thesis using u Inr since_at_since [OF atu] assms(1,2)
      by (simp add: update_mdoc_def sbind_Inr_step env_repo)
  qed
qed

text \<open>The holder's check.\<close>

lemma check_statuses_rows: "preserves (since_at R i st) (check_statuses rm issuer force statuses worst)"
  by (induction statuses arbitrary: worst)
    (auto intro!: preserves_intros on_revocation_rows split: sum.split RevocationState.split)

lemma held_credential_rows: "preserves (since_at R i st) (held_credential env credential schema)"
proof -
  have blob: "preserves (since_at R i st) (sbind (slift (ok_or (ve_blob_storage env) e)) (\<lambda>storage.
      sbind (smap_err f (repo_get_blob storage bid)) (\<lambda>found. sbind (slift (g found)) (\<lambda>blob. sret (h blob)))))" for e f g h bid
    by (cases "ve_blob_storage env")
      (auto intro!: preserves_intros blob_rows simp: sbind_def [of "slift _"] slift_def ok_or_def)
  show ?thesis
    unfolding held_credential_def
    by (rule preserves_sbind, (rule preserves_case_option; rule blob preserves_sret), intro preserves_intros)
qed

lemma check_credential_statuses_since:
  assumes "cred_id credential = i" and "cred_state credential = st"
    and "st \<in> {Accepted, CredentialStateEnum.Suspended}"
  shows "leads (since_at R i st) (check_credential_statuses env credential schema statuses force) (since R)"
proof -
  have "may_become st (credential_state_of worst)" for worst
    using assms(3) by (cases worst) (auto simp: may_become_def)
  then have upd: "leads (since_at R i st)
      (smap_err (ve_db ''updating credential'') (repo_update_credential repo i (validity_update worst))) (since R)" for worst
    by (intro leads_smap_err update_state) simp
  have outcome: "leads (since_at R i st) (case result of
        Inl e \<Rightarrow> sret (check_failed i st (ve_error_text env e))
      | Inr worst \<Rightarrow> sbind (if st \<noteq> credential_state_of worst
          then smap_err (ve_db ''updating credential'') (repo_update_credential repo i (validity_update worst))
          else sret ()) (\<lambda>_. sret (check_done i (credential_state_of worst)))) (since R)" for result
    using upd since_at_since by (cases result) (auto simp: leads_def)
  show ?thesis
  proof (cases "schema_revocation_method schema")
    case None
    then show ?thesis
      by (auto simp: check_credential_statuses_def Let_def intro: leads_preserves preserves_sret since_at_since)
  next
    case (Some revocation_id)
    then show ?thesis
      unfolding check_credential_statuses_def Let_def assms env_repo
      by (simp only: option.case)
        (intro leads_sbind preserves_slift check_statuses_rows since_at_since outcome)
  qed
qed

lemma check_holder_since: "preserves (since R) (check_holder_credential_validity env i force)"
  unfolding check_holder_credential_validity_def env_repo
proof (rule preserves_read_sbind [OF get_reads])
  fix found s assume s: "since R s"
    and g: "smap_err (ve_db ''getting credential'') (repo_get_credential repo i holder_check_relations) s = (Inr found, s)"
  show "since R (snd (sbind (slift (ok_or found (ve_code ''getting credential'' ''BR_0001''))) (\<lambda>credential.
     sbind (slift (map_err (ve_code ''verifying credential schema organisation'')
       (throw_if_credential_schema_not_in_session_org credential (ve_session env)))) (\<lambda>_.
     sbind (slift (ensure (cred_deleted_at credential = None) (ve_code ''validating credential'' ''BR_0001''))) (\<lambda>_.
     sbind (slift (ensure (cred_role credential = Holder)
       (Failure (VeRevocationCheckNotAllowedForRole (cred_role credential) i)))) (\<lambda>_.
     let current_state = cred_state credential in
     if current_state = CredentialStateEnum.Revoked then sret (check_done i CredentialStateEnum.Revoked)
     else if current_state \<noteq> Accepted \<and> current_state \<noteq> CredentialStateEnum.Suspended
     then sret (check_failed i current_state (''Invalid credential state: '' @ credential_state_name current_state))
     else
       sbind (slift (ok_or (cred_schema credential) (Failure (VeMappingError ''schema is None'')))) (\<lambda>schema.
       sbind (held_credential env credential schema) (\<lambda>detail.
       sbind (slift (map_err (ve_code ''getting credential format type'') (ve_format_type env (schema_format schema)))) (\<lambda>format_type.
       if format_type = Mdoc then update_mdoc env credential detail force
       else if dc_status detail = [] then sret (check_done i Accepted)
       else check_credential_statuses env credential schema (dc_status detail) force))))))) s))"
  proof (cases found)
    case None
    then show ?thesis using s by (simp add: sbind_def)
  next
    case (Some c)
    from found_since [OF s g [unfolded Some]] have c: "cred_id c = i" "since_at R i (cred_state c) s" by auto
    show ?thesis
    proof (cases "cred_state c \<in> {Accepted, CredentialStateEnum.Suspended}")
      case False
      then show ?thesis using s Some by (auto simp: sbind_def Let_def split: sum.split)
    next
      case True
      have "leads (since_at R i (cred_state c)) (sbind (slift (ok_or (cred_schema c) (Failure (VeMappingError ''schema is None'')))) (\<lambda>schema.
          sbind (held_credential env c schema) (\<lambda>detail.
          sbind (slift (map_err (ve_code ''getting credential format type'') (ve_format_type env (schema_format schema)))) (\<lambda>format_type.
          if format_type = Mdoc then update_mdoc env c detail force
          else if dc_status detail = [] then sret (check_done i Accepted)
          else check_credential_statuses env c schema (dc_status detail) force)))) (since R)"
        by (intro leads_sbind preserves_intros held_credential_rows leads_if update_mdoc_since
            check_credential_statuses_since c True refl leads_preserves since_at_since)
      with c(2) True s Some show ?thesis by (auto simp: leads_def sbind_def [of "slift _"] Let_def split: sum.split)
    qed
  qed
qed

end

section \<open>The client of the service\<close>

locale credential_service = validity_manager repo inv row "sv_validity senv"
  for repo :: "'r core_db credential_repository" and inv :: "'r core_db \<Rightarrow> bool"
    and row :: "'r core_db \<Rightarrow> uuid \<Rightarrow> credential_row option" and senv :: "'r service_env" +
  assumes create_interaction_frame: "inv s \<Longrightarrow>
      inv (snd (repo_create_interaction (sv_interactions senv) x s)) \<and>
      row (snd (repo_create_interaction (sv_interactions senv) x s)) = row s"
    and delete_interaction_frame: "inv s \<Longrightarrow>
      inv (snd (repo_delete_interaction (sv_interactions senv) j s)) \<and>
      row (snd (repo_delete_interaction (sv_interactions senv) j s)) = row s"
begin

lemma validity_since:
  "preserves (since R) (reactivate_credential senv id i)"
  "preserves (since R) (suspend_credential senv id i end_date)"
  "preserves (since R) (revoke_credential senv id i)"
  unfolding reactivate_credential_def suspend_credential_def revoke_credential_def
  by (intro preserves_smap_err change_validity_since)+

lemma check_revocation_since: "preserves (since R) (check_revocation senv is force)"
proof (induction "is")
  case (Cons i "is")
  then show ?case by (simp only: check_revocation.simps) (intro preserves_intros check_holder_since)
qed (simp only: check_revocation.simps preserves_sret)

lemma list_reads: "preserves (since R) (smap_err f (repo_get_credential_list repo flt))"
  using list_keeps by (intro preserves_smap_err preservesI) simp

lemma suspend_check_since: "preserves (since R) (suspend_check senv)"
  unfolding suspend_check_def env_repo
  by (intro preserves_intros list_reads change_validity_since)

lemma holder_check_since: "preserves (since R) (holder_check_credential_status senv params)"
  unfolding holder_check_credential_status_def Let_def env_repo
  by (intro preserves_intros list_reads check_holder_since)

lemma delete_since: "preserves (since R) (repo_delete_credential repo c)"
proof (rule preservesI)
  fix s assume s: "since R s"
  obtain res t where t: "repo_delete_credential repo c s = (res, t)" by fastforce
  have "evolves (row s) ((row s)(j \<mapsto> r\<lparr>crow_deleted_at := Some now\<rparr>))" if "row s j = Some r" for j r now
    using that by (intro evolves_update) auto
  then show "since R (snd (repo_delete_credential repo c s))"
    using delete [OF _ t] s t evolves_trans by (fastforce simp: since_def)
qed

lemma get_since: "preserves (since R) (smap_err f (repo_get_credential repo i rel))"
  by (intro preservesI) (simp add: get_reads)

lemma delete_credential_since: "preserves (since R) (delete_credential senv i)"
proof -
  have guard: "preserves (since R) (case (role, m) of
      (Issuer, Some k) \<Rightarrow> sbind (slift (f k)) (\<lambda>_. slift g) | _ \<Rightarrow> sret ())" for role m f g
    by (cases role; cases m) (simp_all only: prod.case CredentialRole.case option.case, (intro preserves_intros)+)
  show ?thesis
    unfolding delete_credential_def env_repo
    by (rule preserves_sbind [OF get_since] preserves_sbind [OF preserves_slift] preserves_sbind [OF guard]
      preserves_smap_err [OF delete_since])+
qed

lemma add_new_interaction_rows:
  "preserves (since_at R i st) (add_new_interaction (sv_interactions senv) j data org ty expires)"
proof -
  have "preserves (since_at R i st) (repo_create_interaction (sv_interactions senv) x)" for x
    using create_interaction_frame by (intro preservesI) (auto simp: since_at_def since_def)
  then show ?thesis unfolding add_new_interaction_def Let_def by (intro preserves_intros)
qed

lemma clear_interaction_rows: "preserves (since R) (clear_previous_interaction (sv_interactions senv) interaction)"
proof -
  have "preserves (since R) (repo_delete_interaction (sv_interactions senv) x)" for x
    using delete_interaction_frame by (intro preservesI) (auto simp: since_def)
  then show ?thesis unfolding clear_previous_interaction_def by (intro preserves_intros)
qed

lemma get_with_state_reads: "snd (get_credential_with_state senv i s) = s"
  unfolding get_credential_with_state_def env_repo
  by (rule only_reads) (intro preserves_intros preservesI, auto simp: get_reads)

lemma get_with_state_found:
  assumes "since R s" and "get_credential_with_state senv i s = (Inr c, t)"
  shows "cred_id c = i \<and> since_at R i (cred_state c) s"
  using assms found_since [OF assms(1), where f = "cse_db ''getting credential''" and i = i and rel = share_relations]
  unfolding get_credential_with_state_def env_repo sbind_eq_Inr by auto

lemma check_sharing_state: "check_sharing senv c = Inr x \<Longrightarrow> cred_state c \<in> set shareable_states"
  unfolding check_sharing_def by auto

lemma share_credential_since: "preserves (since R) (share_credential senv i)"
  unfolding share_credential_def
proof (rule preserves_read_sbind [OF get_with_state_reads])
  fix c s assume s: "since R s" and g: "get_credential_with_state senv i s = (Inr c, s)"
  from get_with_state_found [OF s g] have c: "cred_id c = i" "since_at R i (cred_state c) s" by auto
  let ?req = "\<lambda>response. update_credential_default
    \<lparr>upd_state := (if cred_state c \<noteq> CredentialStateEnum.Pending then Some CredentialStateEnum.Pending else None),
     upd_interaction := Some (shr_interaction_id response)\<rparr>"
  show "since R (snd (sbind (slift (check_sharing senv c)) (\<lambda>(organisation, response).
     sbind (smap_err (cse_code ''adding interaction'') (add_new_interaction (sv_interactions senv)
       (shr_interaction_id response) (shr_interaction_data response) (Some organisation) Issuance
       (shr_expires_at response))) (\<lambda>_.
     sbind (smap_err (cse_db ''updating credential'') (repo_update_credential (sv_credentials senv) i (?req response))) (\<lambda>_.
     sbind (smap_err (cse_code ''clearing interaction'')
       (clear_previous_interaction (sv_interactions senv) (cred_interaction c))) (\<lambda>_.
     sret \<lparr>scr_url = shr_url response, scr_transaction_code = shr_transaction_code response,
       scr_expires_at = shr_expires_at response\<rparr>)))) s))"
  proof (cases "check_sharing senv c")
    case (Inl e)
    then show ?thesis using s by (simp add: sbind_def)
  next
    case (Inr x)
    obtain organisation response where x: "x = (organisation, response)" by fastforce
    have "leads (since_at R i (cred_state c)) (smap_err (cse_db ''updating credential'')
        (repo_update_credential repo i (?req response))) (since R)"
      using check_sharing_state [OF Inr]
      by (intro leads_smap_err update_state) (auto simp: shareable_states_def may_become_def update_credential_default_def)
    then have upd: "leads (since_at R i (cred_state c))
      (sbind (smap_err (cse_db ''updating credential'') (repo_update_credential repo i (?req response))) (\<lambda>_.
       sbind (smap_err (cse_code ''clearing interaction'')
         (clear_previous_interaction (sv_interactions senv) (cred_interaction c))) (\<lambda>_.
       sret y))) (since R)" for y :: ShareCredentialResponse
      by (intro leads_then preserves_intros clear_interaction_rows)
    have "leads (since_at R i (cred_state c))
      (sbind (smap_err (cse_code ''adding interaction'') (add_new_interaction (sv_interactions senv)
         (shr_interaction_id response) (shr_interaction_data response) (Some organisation) Issuance
         (shr_expires_at response))) (\<lambda>_.
       sbind (smap_err (cse_db ''updating credential'') (repo_update_credential repo i (?req response))) (\<lambda>_.
       sbind (smap_err (cse_code ''clearing interaction'')
         (clear_previous_interaction (sv_interactions senv) (cred_interaction c))) (\<lambda>_.
       sret y)))) (since R)" for y :: ShareCredentialResponse
      by (intro leads_sbind [OF preserves_smap_err [OF add_new_interaction_rows] since_at_since] upd)
    with c(2) Inr x show ?thesis by (simp add: leads_def sbind_def [of "slift _"] env_repo)
  qed
qed

end

section \<open>The service of the core\<close>

text \<open>The providers as the core wires them; everything else of an environment is as given.\<close>

definition core_validity_env :: "core_env \<Rightarrow> 'r validity_env \<Rightarrow> 'r validity_env" where
  "core_validity_env cenv env = env
     \<lparr>ve_credentials := core_credential_repository cenv,
      ve_interactions := sql_interaction_repository (env_related cenv),
      ve_blob_storage := Some sql_blob_repository, ve_session := env_session cenv\<rparr>"

definition core_service_env :: "core_env \<Rightarrow> 'r service_env \<Rightarrow> 'r service_env" where
  "core_service_env cenv env = env
     \<lparr>sv_validity := core_validity_env cenv (sv_validity env),
      sv_create_history := create_history_row (env_related cenv)\<rparr>"

lemma core_inv_frame:
  assumes "core_inv rel s" and "wf_core rel t" and "core_credentials t = core_credentials s"
    and "core_history t = core_history s" and "core_notifications t = core_notifications s"
    and "core_uuids s \<le> core_uuids t"
  shows "core_inv rel t"
  using assms by (auto simp: core_inv_def ids_used_def log_current_def list_all_iff intro: less_le_trans)

lemma core_inv_wf: "core_inv rel s \<Longrightarrow> wf_core rel s"
  by (simp add: core_inv_def)

lemma core_inv_fields:
  assumes "core_inv rel s"
  shows "core_inv rel (s\<lparr>core_revocation := v\<rparr>)" "core_inv rel (s\<lparr>core_now := now\<rparr>)"
    "core_inv rel (s\<lparr>core_uuids := core_uuids s + 1\<rparr>)"
  by (rule core_inv_frame [OF assms wf_core_congruence [OF core_inv_wf [OF assms]]]; simp)+

text \<open>What a computation keeps of the tables that the invariant reads.\<close>

definition keeps_tables :: "('r core_db, 'e, 'a) comp \<Rightarrow> bool" where
  "keeps_tables m \<longleftrightarrow> (\<forall>s. core_credentials (snd (m s)) = core_credentials s \<and>
     core_history (snd (m s)) = core_history s \<and> core_notifications (snd (m s)) = core_notifications s \<and>
     core_uuids (snd (m s)) = core_uuids s)"

lemma keeps_tables_inv:
  assumes "keeps_tables m" and "preserves (wf_core rel) m" and "core_inv rel s"
  shows "core_inv rel (snd (m s)) \<and> credential_of (snd (m s)) = credential_of s"
proof -
  have "wf_core rel (snd (m s))"
    using assms(2) core_inv_wf [OF assms(3)] by (simp add: preserves_def)
  moreover have "credential_of (snd (m s)) = credential_of s"
    using assms(1) by (simp add: keeps_tables_def credential_of_def fun_eq_iff)
  moreover have "core_inv rel (snd (m s))"
    using assms(1) by (intro core_inv_frame [OF assms(3) calculation(1)]) (simp_all add: keeps_tables_def)
  ultimately show ?thesis by simp
qed

lemma keeps_tables_sql:
  "keeps_tables (create_interaction rel x)" "keeps_tables (delete_interaction j)"
  "keeps_tables (update_interaction j req)" "keeps_tables (create_blob b)" "keeps_tables (update_blob j u)"
  by (auto simp: keeps_tables_def create_interaction_def delete_interaction_def update_interaction_def
    create_blob_def update_blob_def sbind_def smap_err_def split: sum.splits prod.splits if_splits)

interpretation core_service: credential_service "core_credential_repository cenv" "core_inv (env_related cenv)"
  credential_of "core_service_env cenv env"
proof
  let ?rel = "env_related cenv" and ?env = "core_service_env cenv env"
  fix s t :: "'a core_db" and v j req res storage b u
  show "ve_credentials (sv_validity ?env) = core_credential_repository cenv"
    by (simp add: core_service_env_def core_validity_env_def)
  have int: "sv_interactions ?env = sql_interaction_repository ?rel"
    by (simp add: core_service_env_def core_validity_env_def)
  assume inv: "core_inv ?rel s"
  show "core_inv ?rel (s\<lparr>core_revocation := v\<rparr>) \<and> credential_of (s\<lparr>core_revocation := v\<rparr>) = credential_of s"
    using core_inv_fields [OF inv] by (simp add: credential_of_def fun_eq_iff)
  show "core_inv ?rel (s\<lparr>core_uuids := core_uuids s + 1\<rparr>) \<and> credential_of (s\<lparr>core_uuids := core_uuids s + 1\<rparr>) = credential_of s"
    using core_inv_fields [OF inv] by (simp add: credential_of_def fun_eq_iff)
  show "core_inv ?rel t \<and> credential_of t = credential_of s"
    if "repo_update_interaction (sv_interactions ?env) j req s = (res, t)"
    using keeps_tables_inv [OF keeps_tables_sql(3) preserves_interaction_updates(1) inv] that
    by (simp add: int sql_interaction_repository_def) (metis snd_conv)
  show "core_inv ?rel (snd (repo_create_interaction (sv_interactions ?env) x s)) \<and>
      credential_of (snd (repo_create_interaction (sv_interactions ?env) x s)) = credential_of s" for x
    using keeps_tables_inv [OF keeps_tables_sql(1) preserves_create_interaction inv]
    by (simp add: int sql_interaction_repository_def)
  show "core_inv ?rel (snd (repo_delete_interaction (sv_interactions ?env) j s)) \<and>
      credential_of (snd (repo_delete_interaction (sv_interactions ?env) j s)) = credential_of s"
    using keeps_tables_inv [OF keeps_tables_sql(2) preserves_delete_interaction inv]
    by (simp add: int sql_interaction_repository_def)
  show "snd (repo_get_blob storage b s) = s \<and>
      core_inv ?rel (snd (repo_create_blob storage x s)) \<and>
      credential_of (snd (repo_create_blob storage x s)) = credential_of s \<and>
      core_inv ?rel (snd (repo_update_blob storage b u s)) \<and>
      credential_of (snd (repo_update_blob storage b u s)) = credential_of s"
    if "ve_blob_storage (sv_validity ?env) = Some storage" for x
    using keeps_tables_inv [OF keeps_tables_sql(4) preserves_blobs(1) inv, of x]
      keeps_tables_inv [OF keeps_tables_sql(5) preserves_blobs(2) inv, of b u] that
    by (auto simp: core_service_env_def core_validity_env_def sql_blob_repository_def get_blob_def)
qed

end
