(* ===== verification/Credential_System.thy ===== *)
theory Credential_System
  imports Credential_Lifecycle "HOL-Library.Multiset"
begin

text \<open>
  The core as a transition system: creating a credential through the decorated repository, the
  operations of the credential service, the tasks, and what changes around them. Along every run the
  tables stay well formed, the states of credentials move as \<open>may_become\<close> says, and the history says
  which state a credential is in.
\<close>

section \<open>Expiring interactions\<close>

lemma only_logs_intros:
  "only_logs s (s\<lparr>core_uuids := u\<rparr>)" "only_logs s (s\<lparr>core_uuids := u, core_history := core_history s @ hs\<rparr>)"
  unfolding only_logs_def
  by (rule exI [of _ "[]"], rule exI [of _ u], simp) (rule exI [of _ hs], rule exI [of _ u], simp)

text \<open>An entry with a new identifier, or only the identifier drawn.\<close>

lemma log_step_entry:
  assumes "t = s\<lparr>core_uuids := core_uuids s + 1\<rparr> \<and> \<not> (related_complete rel \<and> credential_of s i \<noteq> None) \<or>
      t = s\<lparr>core_uuids := core_uuids s + 1, core_history := core_history s @ [h]\<rparr>"
    and "hist_id h = core_uuids s" "hist_entity_id h = Some i" "hist_entity_type h = CredentialEntity"
    and "hist_action h \<in> set state_actions" and "wf_core rel s" and "ids_used s"
  shows "log_step rel i (Some (hist_action h)) s t"
proof -
  have fresh: "core_uuids s \<notin> hist_id ` set (core_history s)"
    using assms(7) by (auto simp: ids_used_def list_all_iff)
  have wf: "wf_core rel (s\<lparr>core_uuids := core_uuids s + 1\<rparr>)"
    by (rule wf_core_congruence [OF assms(6)]) simp_all
  then have "wf_core rel (s\<lparr>core_uuids := core_uuids s + 1, core_history := core_history s @ [h]\<rparr>)"
    using fresh assms(2) by (simp add: wf_core_def)
  moreover have "only_logs s t"
    using assms(1) only_logs_intros by blast
  moreover have "ids_used t"
    using assms(1,2,7) by (auto simp: ids_used_def list_all_iff less_Suc_eq)
  ultimately show ?thesis
    using assms(1,3,4,5) wf by (auto simp: log_step_def last_logged_append logs_state_def)
qed

lemma log_expired_effect:
  assumes "log_expired_credential (core_service_env cenv env) now i s = (res, t)"
    and "wf_core (env_related cenv) s" and "ids_used s"
  shows "log_step (env_related cenv) i (Some ActInteractionExpired) s t \<and>
    (related_complete (env_related cenv) \<longrightarrow> credential_of s i \<noteq> None \<longrightarrow> res = Inr ())"
proof -
  let ?rel = "env_related cenv"
  have get: "repo_get_credential (core_credential_repository cenv) i history_relations s =
      get_credential_by_id ?rel i history_relations s"
    by (simp add: core_credential_repository_def credential_notification_decorator_def history_repository_def
      credential_history_decorator_def sql_credential_repository_def)
  obtain found where found: "get_credential_by_id ?rel i history_relations s = (found, s)"
    using only_reads [OF get_credential_by_id_reads] by (metis prod.collapse)
  have fresh: "core_uuids s \<notin> hist_id ` set (core_history s)"
    using assms(3) by (auto simp: ids_used_def list_all_iff)
  have env: "sv_credentials (core_service_env cenv env) = core_credential_repository cenv"
    "sv_create_history (core_service_env cenv env) = create_history_row ?rel"
    by (simp_all add: core_service_env_def core_validity_env_def)
  show ?thesis
  proof (cases "\<exists>c sch. found = Inr (Some c) \<and> cred_schema c = Some sch")
    case False
    then have "t = s"
      using assms(1) get found
      by (auto simp: log_expired_credential_def env sbind_def smap_err_def split: sum.splits option.splits)
    moreover have "\<not> (related_complete ?rel \<and> credential_of s i \<noteq> None)"
      using False found credential_loads [of ?rel s i] assms(2) by fastforce
    ultimately show ?thesis using assms(2,3) by (auto simp: log_step_def)
  next
    case True
    then obtain c sch where c: "found = Inr (Some c)" "cred_schema c = Some sch" by blast
    define h where "h = \<lparr>hist_id = core_uuids s, hist_created_date = now, hist_action = ActInteractionExpired,
      hist_name = schema_name sch, hist_target = target_from_credential c,
      hist_source = CoreSource, hist_entity_id = Some i, hist_entity_type = CredentialEntity,
      hist_metadata = None, hist_organisation_id = map_option org_id (schema_organisation sch),
      hist_user = session_user (sv_session (core_service_env cenv env))\<rparr>"
    have org: "pred_option (rr_organisation_exists ?rel) (hist_organisation_id h)"
      if "related_complete ?rel \<and> credential_of s i \<noteq> None"
      using that credential_loads [of ?rel s i] assms(2) found c by (fastforce simp: h_def)
    have T: "t = (if pred_option (rr_organisation_exists ?rel) (hist_organisation_id h)
        then s\<lparr>core_uuids := core_uuids s + 1, core_history := core_history s @ [h]\<rparr>
        else s\<lparr>core_uuids := core_uuids s + 1\<rparr>)"
      "res = Inr () \<longleftrightarrow> pred_option (rr_organisation_exists ?rel) (hist_organisation_id h)"
      using assms(1) get found c fresh
      by (auto simp: log_expired_credential_def env sbind_def smap_err_def fresh_uuid_def create_history_row_def
        h_def split: option.splits if_splits)
    have "t = s\<lparr>core_uuids := core_uuids s + 1\<rparr> \<and> \<not> (related_complete ?rel \<and> credential_of s i \<noteq> None) \<or>
        t = s\<lparr>core_uuids := core_uuids s + 1, core_history := core_history s @ [h]\<rparr>"
      using T(1) org by presburger
    from log_step_entry [OF this] have "log_step ?rel i (Some (hist_action h)) s t"
      using assms(2,3) by (simp add: h_def state_actions_def)
    then show ?thesis using T(2) org by (simp add: h_def)
  qed
qed

lemma log_expired_loop:
  assumes "sfor_each (log_expired_credential (core_service_env cenv env) now) is s = (res, t)"
    and "wf_core (env_related cenv) s" and "ids_used s"
  shows "only_logs s t \<and> ids_used t \<and> wf_core (env_related cenv) t \<and>
    (\<forall>k. k \<notin> set is \<longrightarrow> last_logged (core_history t) k = last_logged (core_history s) k) \<and>
    (related_complete (env_related cenv) \<longrightarrow> (\<forall>i \<in> set is. credential_of s i \<noteq> None) \<longrightarrow>
      res = Inr () \<and> (\<forall>i \<in> set is. last_logged (core_history t) i = Some ActInteractionExpired))"
  using assms
proof (induction "is" arbitrary: s)
  case (Cons i "is")
  let ?rel = "env_related cenv"
  obtain r1 u where u: "log_expired_credential (core_service_env cenv env) now i s = (r1, u)" by fastforce
  note U = log_expired_effect [OF u Cons.prems(2,3)]
  then have L: "only_logs s u" "ids_used u" "wf_core ?rel u" "credential_of u = credential_of s"
    using only_logs_fields(2) by (auto simp: log_step_def)
  show ?case
  proof (cases r1)
    case (Inl e)
    then have "t = u" "res = Inl e" using Cons.prems(1) u by (simp_all add: sbind_def)
    with Inl U L show ?thesis by (auto simp: log_step_def)
  next
    case (Inr x)
    then have "sfor_each (log_expired_credential (core_service_env cenv env) now) is u = (res, t)"
      using Cons.prems(1) u by (simp add: sbind_def)
    note IH = Cons.IH [OF this L(3,2)]
    have "only_logs s t" using IH only_logs_trans [OF L(1)] by blast
    moreover have "last_logged (core_history t) k = last_logged (core_history s) k" if "k \<notin> set (i # is)" for k
      using IH U that by (simp add: log_step_def)
    moreover have "last_logged (core_history t) i = Some ActInteractionExpired"
      if "related_complete ?rel" "\<forall>i \<in> set (i # is). credential_of s i \<noteq> None"
      using IH U L(4) that by (cases "i \<in> set is") (auto simp: log_step_def)
    ultimately show ?thesis using IH L(4) by auto
  qed
qed simp

text \<open>The rows after the update, and the identifiers it returns.\<close>

definition expired_row :: "'r core_db \<Rightarrow> credential_row \<Rightarrow> credential_row" where
  "expired_row s c = (if interaction_has_expired s c
     then c\<lparr>crow_state := InteractionExpired, crow_last_modified := core_now s\<rparr> else c)"

lemma find_key_map:
  "(\<And>x. key (f x) = key x) \<Longrightarrow> find (\<lambda>x. key x = i) (map f xs) = map_option f (find (\<lambda>x. key x = i) xs)"
  by (induction xs) simp_all

lemma credential_ids_filter:
  assumes "distinct (map crow_id (core_credentials s))"
  shows "i \<in> crow_id ` {c \<in> set (core_credentials s). P c} \<longleftrightarrow> (\<exists>c. credential_of s i = Some c \<and> P c)"
  using credential_of_member [OF assms] credential_of_Some [of s i] by fastforce

lemma update_expired_result:
  assumes "update_expired_credentials s = (res, t)" and "distinct (map crow_id (core_credentials s))"
  shows "same_rest s t \<and> (\<forall>i. credential_of t i = map_option (expired_row s) (credential_of s i)) \<and>
    (\<exists>ids. res = Inr ids \<and> (\<forall>i. i \<in> set ids \<longleftrightarrow> (\<exists>c. credential_of t i = Some c \<and>
      crow_state c = InteractionExpired \<and> crow_last_modified c = core_now s)))"
proof -
  let ?P = "\<lambda>c. crow_state c = InteractionExpired \<and> crow_last_modified c = core_now s"
  have ids: "crow_id (expired_row s c) = crow_id c" for c by (simp add: expired_row_def)
  have rows: "core_credentials t = map (expired_row s) (core_credentials s)"
    using assms(1) by (auto simp: update_expired_credentials_def Let_def expired_row_def)
  have d: "distinct (map crow_id (core_credentials t))"
    using assms(2) ids by (simp add: rows o_def)
  have "res = Inr (map crow_id (filter ?P (core_credentials t)))" and "same_rest s t"
    using assms(1) by (auto simp: update_expired_credentials_def Let_def same_rest_def)
  moreover have "credential_of t i = map_option (expired_row s) (credential_of s i)" for i
    unfolding credential_of_def rows using ids by (intro find_key_map) simp
  ultimately show ?thesis
    using credential_ids_filter [OF d, of _ ?P] by simp
qed

lemma expired_row_evolves: "evolves R (\<lambda>i. map_option (expired_row s) (R i))"
  by (auto simp: evolves_def expired_row_def interaction_has_expired_def may_become_def)

lemma expire_credentials_effect:
  assumes "core_inv (env_related cenv) s" and "expire_credentials (core_service_env cenv env) s = (res, t)"
  shows "core_inv (env_related cenv) t"
    and "credential_of t i = map_option (expired_row s) (credential_of s i)"
    and "related_complete (env_related cenv) \<Longrightarrow> is_ok res"
proof -
  let ?rel = "env_related cenv"
  have wf: "wf_core ?rel s" "ids_used s" using assms(1) by (simp_all add: core_inv_def)
  have int: "repo_update_expired_credentials (sv_interactions (core_service_env cenv env)) = update_expired_credentials"
    by (simp add: core_service_env_def core_validity_env_def sql_interaction_repository_def)
  obtain r1 u where u: "update_expired_credentials s = (r1, u)" by fastforce
  from update_expired_result [OF u] wf(1) obtain ids where U: "r1 = Inr ids" "same_rest s u"
    "\<And>i. credential_of u i = map_option (expired_row s) (credential_of s i)"
    "\<And>i. i \<in> set ids \<longleftrightarrow> (\<exists>c. credential_of u i = Some c \<and> crow_state c = InteractionExpired \<and>
      crow_last_modified c = core_now s)"
    by (auto simp: wf_core_def)
  have wfu: "wf_core ?rel u" using preservesD [OF preserves_update_expired wf(1) u] .
  have idsu: "ids_used u" using wf(2) U(2) by (simp add: ids_used_def same_rest_def)
  obtain r2 where r2: "sfor_each (log_expired_credential (core_service_env cenv env) (core_now s)) ids u = (r2, t)"
    "res = (case r2 of Inl e \<Rightarrow> Inl e | Inr _ \<Rightarrow> Inr ids)"
    using assms(2) u U(1) unfolding expire_credentials_def int
    by (auto simp: now_utc_def sbind_def smap_err_def split: prod.splits sum.splits)
  note L = log_expired_loop [OF r2(1) wfu idsu]
  have T: "credential_of t = credential_of u" "wf_core ?rel t" "ids_used t" using L only_logs_fields(2) by auto
  show "credential_of t i = map_option (expired_row s) (credential_of s i)"
    using T(1) U(3) by simp
  have all: "\<forall>i \<in> set ids. credential_of u i \<noteq> None" using U(4) by auto
  show "is_ok res" if "related_complete ?rel"
    using L that all r2(2) by (auto simp: is_ok_def)
  have "last_logged (core_history t) k = Some (action_from_state (crow_state c))"
    if c: "related_complete ?rel" "credential_of t k = Some c" for k c
  proof (cases "k \<in> set ids")
    case True
    then show ?thesis using L c all U(4) T(1) by auto
  next
    case False
    obtain d where d: "credential_of s k = Some d" "c = expired_row s d" using c(2) T(1) U(3) by auto
    have "c = d"
      using False d U(3,4) [of k] by (auto simp: expired_row_def split: if_splits)
    moreover have "last_logged (core_history s) k = Some (action_from_state (crow_state d))"
      using assms(1) c(1) d(1) log_current_row [OF wf(1)] by (simp add: core_inv_def)
    ultimately show ?thesis using L False U(2) by (simp add: same_rest_def)
  qed
  then show "core_inv ?rel t" using T log_current_row [OF T(2)] by (auto simp: core_inv_def)
qed

section \<open>Creating a credential\<close>

lemma history_entries_effect:
  assumes "sfor_each (create_history_entry_for_credential (create_history_row rel) session c) actions s = (res, t)"
    and "ids_used s" and "wf_core rel s"
  shows "res = Inr () \<and> only_logs s t \<and> ids_used t \<and> wf_core rel t \<and>
    (\<exists>hs. core_history t = core_history s @ hs \<and> (\<forall>h \<in> set hs. hist_entity_id h = Some (cred_id c)) \<and>
      (\<forall>sch org. cred_schema c = Some sch \<longrightarrow> schema_organisation sch = Some org \<longrightarrow>
        rr_organisation_exists rel (org_id org) \<longrightarrow>
        map hist_action hs = actions \<and> (\<forall>h \<in> set hs. hist_entity_type h = CredentialEntity)))"
  using assms
proof (induction actions arbitrary: s)
  case (Cons a actions)
  obtain r1 u where u: "create_history_entry_for_credential (create_history_row rel) session c a s = (r1 :: 'a + unit, u)"
    by fastforce
  from history_entry_effect [OF u Cons.prems(2)] Cons.prems(3) obtain hs where U: "r1 = Inr ()" "only_logs s u"
    "ids_used u" "wf_core rel u" "core_history u = core_history s @ hs"
    "\<forall>h \<in> set hs. hist_entity_id h = Some (cred_id c) \<and> hist_action h = a"
    "\<forall>sch org. cred_schema c = Some sch \<longrightarrow> schema_organisation sch = Some org \<longrightarrow>
        rr_organisation_exists rel (org_id org) \<longrightarrow> (\<exists>h. hs = [h] \<and> hist_entity_type h = CredentialEntity)"
    by (elim conjE exE) simp
  have "sfor_each (create_history_entry_for_credential (create_history_row rel) session c) actions u = (res, t)"
    using Cons.prems(1) u U(1) by (simp add: sbind_def)
  from Cons.IH [OF this U(3,4)] obtain hs' where V: "res = Inr ()" "only_logs u t" "ids_used t" "wf_core rel t"
    "core_history t = core_history u @ hs'" "\<forall>h \<in> set hs'. hist_entity_id h = Some (cred_id c)"
    "\<forall>sch org. cred_schema c = Some sch \<longrightarrow> schema_organisation sch = Some org \<longrightarrow>
        rr_organisation_exists rel (org_id org) \<longrightarrow>
        map hist_action hs' = actions \<and> (\<forall>h \<in> set hs'. hist_entity_type h = CredentialEntity)"
    by (elim conjE exE)
  have "map hist_action (hs @ hs') = a # actions \<and> (\<forall>h \<in> set (hs @ hs'). hist_entity_type h = CredentialEntity)"
    if "cred_schema c = Some sch" "schema_organisation sch = Some org" "rr_organisation_exists rel (org_id org)" for sch org
    using U(6) U(7) [rule_format, OF that] V(7) [rule_format, OF that] by auto
  with U V only_logs_trans [OF U(2) V(2)] show ?case
    by (intro conjI exI [of _ "hs @ hs'"]) auto
qed simp

lemma last_logged_actions:
  assumes "map hist_action hs = actions @ [a]" and "a \<in> set state_actions"
    and "\<forall>h \<in> set hs. hist_entity_id h = Some i \<and> hist_entity_type h = CredentialEntity"
  shows "last_logged (xs @ hs) i = Some a"
proof (cases hs rule: rev_cases)
  case (snoc ys y)
  then show ?thesis using assms by (simp add: last_logged_append logs_state_def flip: append_assoc)
qed (use assms(1) in simp)

lemma create_credential_row_result:
  assumes "create_credential_row rel c s = (Inr i, t)"
  shows "i = cred_id c" and "credential_of s i = None" and "same_rest s t"
    and "\<exists>sch claims rows. cred_schema c = Some sch \<and> cred_claims c = Some claims \<and>
      list_all (\<lambda>x. claim_credential_id x = i) claims \<and> try_map claim_to_row claims = Inr rows \<and>
      core_claims t = core_claims s @ rows \<and> core_credentials t = core_credentials s @ [request_to_active_model c sch]"
proof -
  obtain sch claims u where C: "cred_schema c = Some sch" "cred_claims c = Some claims"
    "list_all (\<lambda>x. claim_credential_id x = cred_id c) claims"
    "insert_credential_row rel (request_to_active_model c sch) s = (Inr (), u)"
    "(if claims \<noteq> [] then create_claim_list rel claims else sret ()) u = (Inr (), t)" "i = cred_id c"
    using assms unfolding create_credential_row_def by (auto simp: sbind_eq_Inr)
  show "i = cred_id c" by fact
  have U: "cred_id c \<notin> crow_id ` set (core_credentials s)"
    "u = s\<lparr>core_credentials := core_credentials s @ [request_to_active_model c sch]\<rparr>"
    using C(4) by (auto simp: insert_credential_row_def request_to_active_model_def split: if_splits)
  then show "credential_of s i = None" using C(6) by (simp add: credential_of_None)
  obtain rows where rows: "try_map claim_to_row claims = Inr rows" "t = u\<lparr>core_claims := core_claims u @ rows\<rparr>"
    using C(5)
    by (cases "claims = []") (auto simp: create_claim_list_def sbind_eq_Inr insert_claim_rows_def split: if_splits)
  then show "same_rest s t" using U(2) by (simp add: same_rest_def)
  show "\<exists>sch claims rows. cred_schema c = Some sch \<and> cred_claims c = Some claims \<and>
      list_all (\<lambda>x. claim_credential_id x = i) claims \<and> try_map claim_to_row claims = Inr rows \<and>
      core_claims t = core_claims s @ rows \<and> core_credentials t = core_credentials s @ [request_to_active_model c sch]"
    using C rows U(2) by auto
qed

lemma find_append: "find P (xs @ ys) = (case find P xs of None \<Rightarrow> find P ys | Some x \<Rightarrow> Some x)"
  by (induction xs) simp_all

lemma credential_of_append:
  "core_credentials t = core_credentials s @ [r] \<Longrightarrow> credential_of s (crow_id r) = None \<Longrightarrow>
   credential_of t = (credential_of s)(crow_id r \<mapsto> r)"
  by (auto simp: credential_of_def fun_eq_iff find_append split: option.split)

text \<open>A success of the decorated repository: the row and the claims are there, and the log is current.\<close>

lemma core_create_effect:
  assumes "core_inv (env_related env) s" and "repo_create_credential (core_credential_repository env) c s = (Inr i, t)"
  shows "core_inv (env_related env) t \<and> i = cred_id c \<and> credential_of s i = None \<and>
    core_now t = core_now s \<and> core_revocation t = core_revocation s \<and> core_interactions t = core_interactions s \<and>
    (\<exists>sch claims rows. cred_schema c = Some sch \<and> cred_claims c = Some claims \<and>
      list_all (\<lambda>x. claim_credential_id x = i) claims \<and> try_map claim_to_row claims = Inr rows \<and>
      core_claims t = core_claims s @ rows \<and>
      credential_of t = (credential_of s)(i \<mapsto> request_to_active_model c sch))"
proof -
  let ?rel = "env_related env" and ?inner = "sql_credential_repository (env_sql env) (env_related env)"
  have wf: "wf_core ?rel s" "ids_used s" using assms(1) by (simp_all add: core_inv_def)
  define actions where "actions = (if cred_role c = Holder \<and> cred_state c = Accepted then [ActIssued, ActAccepted]
    else [action_from_state (cred_state c)])"
  obtain u where u: "create_credential_row ?rel c s = (Inr i, u)"
    and hist: "create_history_entry (create_history_row ?rel) (env_session env) ?inner i actions u
      = (Inr () :: DataLayerError + unit, t)"
    using assms(2) unfolding core_credential_repository_def credential_notification_decorator_def
      history_repository_def credential_history_decorator_def
    by (auto simp: history_create_credential_def actions_def sbind_eq_Inr sql_credential_repository_def split: if_splits)
  note R = create_credential_row_result [OF u]
  from R(4) obtain sch claims rows where C: "cred_schema c = Some sch" "cred_claims c = Some claims"
    "list_all (\<lambda>x. claim_credential_id x = i) claims" "try_map claim_to_row claims = Inr rows"
    "core_claims u = core_claims s @ rows" "core_credentials u = core_credentials s @ [request_to_active_model c sch]"
    by (elim exE conjE)
  have rid: "crow_id (request_to_active_model c sch) = i" using R(1) by (simp add: request_to_active_model_def)
  have row: "credential_of u = (credential_of s)(i \<mapsto> request_to_active_model c sch)"
    using credential_of_append [OF C(6)] R(2) by (simp add: rid)
  have wfu: "wf_core ?rel u" using preservesD [OF preserves_credential_updates(1) wf(1) u] .
  have idsu: "ids_used u" using wf(2) R(3) by (simp add: ids_used_def same_rest_def)
  have T: "only_logs u t \<and> ids_used t \<and> wf_core ?rel t \<and> (\<exists>hs. core_history t = core_history u @ hs \<and>
      (\<forall>h \<in> set hs. hist_entity_id h = Some i) \<and> (related_complete ?rel \<longrightarrow>
        map hist_action hs = actions \<and> (\<forall>h \<in> set hs. hist_entity_type h = CredentialEntity)))"
  proof (cases "get_credential_by_id ?rel i history_relations u")
    case (Pair found u')
    then have u': "u' = u" using only_reads [OF get_credential_by_id_reads, of ?rel i history_relations u] by simp
    show ?thesis
    proof (cases "\<exists>d. found = Inr (Some d)")
      case True
      then obtain d where d: "get_credential_by_id ?rel i history_relations u = (Inr (Some d), u)" using Pair u' by auto
      obtain r where "credential_of u i = Some r" "own_columns d = credential_from_row r"
        using get_credential_by_id_result [OF d] by auto
      then have id: "cred_id d = i" using own_columns_id row rid by (metis fun_upd_same option.inject)
      have sch: "\<exists>sch org. cred_schema d = Some sch \<and> schema_organisation sch = Some org \<and>
          rr_organisation_exists ?rel (org_id org)" if "related_complete ?rel"
        using credential_loads [OF that wfu, of i] row d by simp
      have "sfor_each (create_history_entry_for_credential (create_history_row ?rel) (env_session env) d) actions u
          = (Inr () :: DataLayerError + unit, t)"
        using hist d by (simp add: create_history_entry_def sql_credential_repository_def)
      from history_entries_effect [OF this idsu wfu] obtain hs where E: "only_logs u t" "ids_used t" "wf_core ?rel t"
        "core_history t = core_history u @ hs" "\<forall>h \<in> set hs. hist_entity_id h = Some (cred_id d)"
        "\<forall>sch org. cred_schema d = Some sch \<longrightarrow> schema_organisation sch = Some org \<longrightarrow>
          rr_organisation_exists ?rel (org_id org) \<longrightarrow>
          map hist_action hs = actions \<and> (\<forall>h \<in> set hs. hist_entity_type h = CredentialEntity)"
        by (elim conjE exE)
      have "map hist_action hs = actions \<and> (\<forall>h \<in> set hs. hist_entity_type h = CredentialEntity)"
        if "related_complete ?rel"
        using sch [OF that] E(6) by (elim exE conjE) (rule E(6) [rule_format])
      then show ?thesis using E(1-5) id by (intro conjI exI [of _ hs]) simp_all
    next
      case False
      then have "t = u" using hist Pair u'
        by (auto simp: create_history_entry_def sql_credential_repository_def split: sum.splits option.splits)
      moreover have "\<not> related_complete ?rel"
        using credential_loads [OF _ wfu, of i] row Pair False by fastforce
      ultimately show ?thesis using idsu wfu by simp
    qed
  qed
  then obtain hs where T': "only_logs u t" "ids_used t" "wf_core ?rel t" "core_history t = core_history u @ hs"
    "\<forall>h \<in> set hs. hist_entity_id h = Some i" "related_complete ?rel \<longrightarrow>
        map hist_action hs = actions \<and> (\<forall>h \<in> set hs. hist_entity_type h = CredentialEntity)"
    by (elim conjE exE)
  have fields: "credential_of t = credential_of u" "core_claims t = core_claims u" using T'(1) only_logs_fields by blast+
  have "last_logged (core_history t) k = Some (action_from_state (crow_state d))"
    if c: "related_complete ?rel" "credential_of t k = Some d" for k d
  proof (cases "k = i")
    case True
    then have "d = request_to_active_model c sch" using c(2) fields row by simp
    then have st: "crow_state d = cred_state c" by (simp add: request_to_active_model_def)
    obtain as where "actions = as @ [action_from_state (cred_state c)]"
      by (cases "cred_role c = Holder \<and> cred_state c = Accepted") (simp_all add: actions_def)
    then have "map hist_action hs = as @ [action_from_state (cred_state c)]" using T'(6) c(1) by simp
    from last_logged_actions [OF this] show ?thesis using T'(4-6) c(1) True st by simp
  next
    case False
    then have "last_logged (core_history t) k = last_logged (core_history s) k"
      using T'(4,5) R(3) by (auto simp: same_rest_def logs_state_def intro!: last_logged_other)
    then show ?thesis
      using assms(1) c False fields row log_current_row [OF wf(1)] by (simp add: core_inv_def)
  qed
  then have "core_inv ?rel t" using T'(2,3) log_current_row [OF T'(3)] by (auto simp: core_inv_def)
  moreover have "core_now t = core_now s" "core_revocation t = core_revocation s" "core_interactions t = core_interactions s"
    using R(3) only_logs_fields [OF T'(1)] by (simp_all add: same_rest_def)
  ultimately show ?thesis using C R(1,2) fields row by auto
qed

text \<open>Writing the log never fails.\<close>

lemma core_create_succeeds:
  assumes "core_inv (env_related env) s" and "create_credential_row (env_related env) c s = (Inr i, u)"
  shows "\<exists>t. repo_create_credential (core_credential_repository env) c s = (Inr i, t)"
proof -
  let ?rel = "env_related env" and ?inner = "sql_credential_repository (env_sql env) (env_related env)"
  have wf: "wf_core ?rel s" "ids_used s" using assms(1) by (simp_all add: core_inv_def)
  have u: "wf_core ?rel u" "ids_used u"
    using preservesD [OF preserves_credential_updates(1) wf(1) assms(2)] create_credential_row_result(3) [OF assms(2)] wf(2)
    by (simp_all add: ids_used_def same_rest_def)
  have entries: "\<exists>t. create_history_entry (create_history_row ?rel) (env_session env) ?inner i actions u
      = (Inr () :: DataLayerError + unit, t)" for actions
  proof (cases "repo_get_credential ?inner i history_relations u")
    case (Pair found u')
    then have "u' = u" by (rule sql_credentials.get_result)
    show ?thesis
    proof (cases "\<exists>d. found = Inr (Some d)")
      case True
      then obtain d where d: "repo_get_credential ?inner i history_relations u = (Inr (Some d), u)"
        using Pair \<open>u' = u\<close> by auto
      obtain res t where run: "sfor_each (create_history_entry_for_credential (create_history_row ?rel) (env_session env) d) actions u
        = (res :: DataLayerError + unit, t)" by fastforce
      have "res = Inr ()" using history_entries_effect [OF run u(2,1)] by blast
      then show ?thesis using d run by (simp add: create_history_entry_def)
    next
      case False
      then show ?thesis using Pair \<open>u' = u\<close> by (auto simp: create_history_entry_def split: sum.split option.split)
    qed
  qed
  have row: "repo_create_credential ?inner c s = (Inr i, u)"
    using assms(2) by (simp add: sql_credential_repository_def)
  show ?thesis
    using entries [of "if cred_role c = Holder \<and> cred_state c = Accepted then [ActIssued, ActAccepted]
      else [action_from_state (cred_state c)]"] row
    by (auto simp: core_credential_repository_def credential_notification_decorator_def history_repository_def
      credential_history_decorator_def history_create_credential_def split: if_splits)
qed

section \<open>Steps\<close>

text \<open>
  One step of the core over the related tables \<open>rel\<close>: a creation that succeeds, an operation of the
  service or a task, whatever its outcome and with any configuration and session; time that passes;
  and a change of the revocation lists by another part. The issuance protocols, which move a
  credential from an offer to its acceptance, are not steps.
\<close>

inductive core_step :: "credential_related \<Rightarrow> 'r core_db \<Rightarrow> 'r core_db \<Rightarrow> bool" for rel where
  create: "env_related cenv = rel \<Longrightarrow>
    repo_create_credential (core_credential_repository cenv) c s = (Inr i, t) \<Longrightarrow> core_step rel s t"
| reactivate: "env_related cenv = rel \<Longrightarrow>
    reactivate_credential (core_service_env cenv env) id i s = (res, t) \<Longrightarrow> core_step rel s t"
| suspend: "env_related cenv = rel \<Longrightarrow>
    suspend_credential (core_service_env cenv env) id i end_date s = (res, t) \<Longrightarrow> core_step rel s t"
| revoke: "env_related cenv = rel \<Longrightarrow>
    revoke_credential (core_service_env cenv env) id i s = (res, t) \<Longrightarrow> core_step rel s t"
| check: "env_related cenv = rel \<Longrightarrow>
    check_revocation (core_service_env cenv env) ids force s = (checked, t) \<Longrightarrow> core_step rel s t"
| delete: "env_related cenv = rel \<Longrightarrow>
    delete_credential (core_service_env cenv env) i s = (res, t) \<Longrightarrow> core_step rel s t"
| share: "env_related cenv = rel \<Longrightarrow>
    share_credential (core_service_env cenv env) i s = (shared, t) \<Longrightarrow> core_step rel s t"
| suspend_task: "env_related cenv = rel \<Longrightarrow>
    suspend_check (core_service_env cenv env) s = (ended, t) \<Longrightarrow> core_step rel s t"
| holder_task: "env_related cenv = rel \<Longrightarrow>
    holder_check_credential_status (core_service_env cenv env) params s = (number, t) \<Longrightarrow> core_step rel s t"
| expiration_task: "env_related cenv = rel \<Longrightarrow>
    expire_credentials (core_service_env cenv env) s = (expired, t) \<Longrightarrow> core_step rel s t"
| tick: "core_now s \<le> now \<Longrightarrow> core_step rel s (s\<lparr>core_now := now\<rparr>)"
| revocation: "core_step rel s (s\<lparr>core_revocation := v\<rparr>)"

lemma since_step:
  assumes "preserves (core_service.since cenv (credential_of s)) m" and "m s = (res, t)"
    and "core_inv (env_related cenv) s"
  shows "core_inv (env_related cenv) t \<and> evolves (credential_of s) (credential_of t)"
  using preservesD [OF assms(1) _ assms(2)] assms(3) by (simp add: core_service.since_def)

lemma core_step_effect:
  assumes "core_step rel s t" and "core_inv rel s"
  shows "core_inv rel t \<and> evolves (credential_of s) (credential_of t)"
  using assms
proof induction
  case (create cenv c s i t)
  then have E: "core_inv rel t" "credential_of s i = None"
    "\<exists>sch. credential_of t = (credential_of s)(i \<mapsto> request_to_active_model c sch)"
    using core_create_effect [of cenv s c i t] by auto
  then show ?case by (auto simp: evolves_def)
next
  case (reactivate cenv env i s res t)
  then show ?case using since_step [OF core_service.validity_since(1)] by blast
next
  case (suspend cenv env i end_date s res t)
  then show ?case using since_step [OF core_service.validity_since(2)] by blast
next
  case (revoke cenv env i s res t)
  then show ?case using since_step [OF core_service.validity_since(3)] by blast
next
  case (check cenv env ids force s checked t)
  then show ?case using since_step [OF core_service.check_revocation_since] by blast
next
  case (delete cenv env i s res t)
  then show ?case using since_step [OF core_service.delete_credential_since] by blast
next
  case (share cenv env i s shared t)
  then show ?case using since_step [OF core_service.share_credential_since] by blast
next
  case (suspend_task cenv env s ended t)
  then show ?case using since_step [OF core_service.suspend_check_since] by blast
next
  case (holder_task cenv env params s number t)
  then show ?case using since_step [OF core_service.holder_check_since] by blast
next
  case (expiration_task cenv env s expired t)
  then have "core_inv rel t" "credential_of t = (\<lambda>i. map_option (expired_row s) (credential_of s i))"
    using expire_credentials_effect [of cenv s env expired t] by auto
  then show ?case using expired_row_evolves by simp
next
  case (tick s now)
  then show ?case using core_inv_fields(2) by (simp add: credential_of_def)
next
  case (revocation s v)
  then show ?case using core_inv_fields(1) by (simp add: credential_of_def)
qed

abbreviation core_run :: "credential_related \<Rightarrow> 'r core_db \<Rightarrow> 'r core_db \<Rightarrow> bool" where
  "core_run rel \<equiv> (core_step rel)\<^sup>*\<^sup>*"

lemma core_run_effect:
  assumes "core_run rel s t" and "core_inv rel s"
  shows "core_inv rel t \<and> evolves (credential_of s) (credential_of t)"
  using assms
proof induction
  case (step t u)
  then have T: "core_inv rel t" "evolves (credential_of s) (credential_of t)" by simp_all
  with core_step_effect [OF step.hyps(2)] show ?case by (blast intro: evolves_trans)
qed simp

text \<open>The empty core is well formed.\<close>

definition empty_core :: "date_time \<Rightarrow> 'r \<Rightarrow> 'r core_db" where
  "empty_core now v = \<lparr>core_credentials = [], core_claims = [], core_interactions = [], core_blobs = [],
     core_history = [], core_notifications = [], core_proof_interactions = [], core_now = now, core_uuids = 0,
     core_revocation = v\<rparr>"

lemma core_inv_empty: "core_inv rel (empty_core now v)"
  by (simp add: core_inv_def wf_core_def ids_used_def log_current_def empty_core_def)

section \<open>Updates that succeed\<close>

text \<open>An update of state and suspension date touches no key.\<close>

lemma validity_update_fields [simp]:
  "upd_claims (validity_update st) = None" "upd_interaction (validity_update st) = None"
  "upd_state (validity_update st) = Some (credential_state_of st)"
  by (simp_all add: validity_update_def update_credential_default_def)

lemma validity_update_row:
  "apply_update (validity_update st) now r = r\<lparr>crow_last_modified := now, crow_state := credential_state_of st,
     crow_suspend_end_date := suspension_end st\<rparr>"
  by (simp add: apply_update_def validity_update_def update_credential_default_def set_or_def)

lemma update_credential_row_succeeds:
  assumes "wf_core rel s" and "credential_of s i = Some r"
  shows "\<exists>t. update_credential_row rel i (validity_update st) s = (Inr (), t)"
proof -
  have r: "crow_id r = i" "r \<in> set (core_credentials s)" using credential_of_Some [OF assms(2)] by simp_all
  have "list_all (\<lambda>c. crow_id c = i \<longrightarrow> credential_row_keys rel s (apply_update (validity_update st) now c)) (core_credentials s)" for now
    using assms(1) by (auto simp: wf_core_def list_all_iff validity_update_row credential_row_keys_def)
  then show ?thesis
    using r by (auto simp: update_credential_row_def update_claims_def now_utc_def sbind_def smap_err_def
      update_credential_rows_def list_ex_iff)
qed

lemma get_related_identifier_None [simp]: "get_related_identifier rel i None = Inr None"
  by (cases i) (simp_all add: get_related_identifier_def)

lemma get_stored_succeeds:
  assumes "wf_core rel s" and "credential_of s i = Some r"
  shows "\<exists>stored. get_stored (sql_credential_repository sql rel) i s = (Inr stored, s)"
proof -
  have k: "credential_row_keys rel s r" using wf_core_row [OF assms(1)] credential_of_Some [OF assms(2)] by simp
  have "\<exists>x. get_interaction rel j \<lparr>inrel_organisation = False\<rparr> s = (Inr (Some x), s)" if "crow_interaction_id r = Some j" for j
  proof -
    have "find (\<lambda>x. irow_id x = j) (core_interactions s) \<noteq> None"
      using k that by (auto simp: credential_row_keys_def find_None_iff)
    then show ?thesis by (auto simp: get_interaction_def sbind_def)
  qed
  then have "\<exists>c. credential_model_to_repository_model rel r
      (credential_relations_default\<lparr>credrel_interaction := Some \<lparr>inrel_organisation = False\<rparr>\<rparr>) s = (Inr c, s)"
    by (cases "crow_interaction_id r") (fastforce simp: credential_model_to_repository_model_def
      credential_relations_default_def get_credential_schema_def)+
  then show ?thesis
    using assms(2) by (auto simp: get_stored_def sql_credential_repository_def get_credential_by_id_def
      credential_of_def sbind_def)
qed

text \<open>The history layer stores the update and logs it.\<close>

lemma history_validity_update:
  assumes "core_inv (env_related cenv) s" and "credential_of s i = Some r"
  shows "\<exists>t. repo_update_credential (history_repository cenv) i (validity_update st) s = (Inr (), t) \<and>
    core_inv (env_related cenv) t \<and> core_now t = core_now s \<and> core_revocation t = core_revocation s \<and>
    credential_of t = (credential_of s)(i \<mapsto> apply_update (validity_update st) (core_now s) r)"
proof -
  let ?rel = "env_related cenv" and ?inner = "sql_credential_repository (env_sql cenv) (env_related cenv)"
  have wf: "wf_core ?rel s" "ids_used s" using assms(1) by (simp_all add: core_inv_def)
  obtain stored where stored: "get_stored ?inner i s = (Inr stored, s)"
    using get_stored_succeeds [OF wf(1) assms(2)] by blast
  obtain u where u: "update_credential_row ?rel i (validity_update st) s = (Inr (), u)"
    using update_credential_row_succeeds [OF wf(1) assms(2)] by blast
  have wfu: "wf_core ?rel u" using preservesD [OF preserves_credential_updates(3) wf(1) u] .
  have idsu: "ids_used u"
    using wf update_credential_row_result [OF _ u] by (simp add: ids_used_def same_rest_def wf_core_def)
  have up: "repo_update_credential ?inner i (validity_update st) s = (Inr (), u)"
    using u by (simp add: sql_credential_repository_def)
  obtain res v where h: "history_update_credential (create_history_row ?rel) (env_session cenv) ?inner i (validity_update st) s = (res, v)"
    by fastforce
  note rest = h [unfolded history_update_credential_def
    sbind_Inr_step [where m = "get_stored ?inner i" and s = s, OF stored]
    sbind_Inr_step [where m = "repo_update_credential ?inner i (validity_update st)" and s = s, OF up]]
  have "res = Inr ()" using history_update_log [OF rest idsu wfu] by simp
  with history_update_effect [OF assms(1) h] assms(2) h show ?thesis
    by (auto simp: history_repository_def credential_history_decorator_def)
qed

abbreviation notification_relations :: CredentialRelations where
  "notification_relations \<equiv> credential_relations_default
     \<lparr>credrel_schema := Some \<lparr>csrel_claim_schemas = False, csrel_organisation = True\<rparr>\<rparr>"

lemma notified_credential:
  assumes "wf_core (env_related cenv) s" and "related_complete (env_related cenv)" and "credential_of s i = Some r"
  shows "\<exists>c. repo_get_credential (history_repository cenv) i notification_relations s = (Inr (Some c), s) \<and>
    cred_webhook_url c = crow_webhook_url r \<and> cred_protocol c = crow_protocol r"
proof -
  let ?rel = "env_related cenv"
  have "rr_schema_row ?rel (crow_credential_schema_id r) \<noteq> None"
    using wf_core_row [OF assms(1)] credential_of_Some [OF assms(3)] by (auto simp: credential_row_keys_def)
  then obtain sch where "rr_schema ?rel (crow_credential_schema_id r) \<lparr>csrel_claim_schemas = False, csrel_organisation = True\<rparr> = Inr (Some sch)"
    using assms(2) by (fastforce simp: related_complete_def)
  then have "\<exists>c. credential_model_to_repository_model ?rel r notification_relations s = (Inr c, s) \<and>
      cred_webhook_url c = crow_webhook_url r \<and> cred_protocol c = crow_protocol r"
    by (simp add: credential_model_to_repository_model_def credential_relations_default_def
      get_credential_schema_def credential_from_row_def)
  then show ?thesis
    using assms(3) by (auto simp: history_repository_def credential_history_decorator_def sql_credential_repository_def
      get_credential_by_id_def credential_of_def sbind_def)
qed

lemma core_validity_update:
  assumes "core_inv (env_related cenv) s" and "related_complete (env_related cenv)" and "credential_of s i = Some r"
  shows "\<exists>t c. core_inv (env_related cenv) t \<and> core_now t = core_now s \<and> core_revocation t = core_revocation s \<and>
    credential_of t = (credential_of s)(i \<mapsto> apply_update (validity_update st) (core_now s) r) \<and>
    repo_get_credential (history_repository cenv) i notification_relations t = (Inr (Some c), t) \<and>
    cred_webhook_url c = crow_webhook_url r \<and> cred_protocol c = crow_protocol r \<and>
    repo_update_credential (core_credential_repository cenv) i (validity_update st) s =
      send_notification (env_related cenv) (env_webhook cenv) (history_repository cenv) i (credential_state_of st) t"
proof -
  obtain t where t: "repo_update_credential (history_repository cenv) i (validity_update st) s = (Inr (), t)"
    "core_inv (env_related cenv) t" "core_now t = core_now s" "core_revocation t = core_revocation s"
    "credential_of t = (credential_of s)(i \<mapsto> apply_update (validity_update st) (core_now s) r)"
    using history_validity_update [OF assms(1,3), of st] by (elim exE conjE)
  obtain c where c: "repo_get_credential (history_repository cenv) i notification_relations t = (Inr (Some c), t)"
    "cred_webhook_url c = crow_webhook_url r" "cred_protocol c = crow_protocol r"
    using notified_credential [OF core_inv_wf [OF t(2)] assms(2), of i
      "apply_update (validity_update st) (core_now s) r"] t(5) by (auto simp: validity_update_row)
  have "repo_update_credential (core_credential_repository cenv) i (validity_update st) s =
      send_notification (env_related cenv) (env_webhook cenv) (history_repository cenv) i (credential_state_of st) t"
    using t(1) by (cases st) (simp_all add: core_credential_repository_def credential_notification_decorator_def
      notification_update_credential_def notified_state_def)
  with t c show ?thesis by blast
qed

lemma core_validity_update_succeeds:
  assumes "core_inv (env_related cenv) s" and "related_complete (env_related cenv)"
    and "credential_of s i = Some r" and "crow_webhook_url r = None"
  shows "\<exists>t. repo_update_credential (core_credential_repository cenv) i (validity_update st) s = (Inr (), t) \<and>
    core_inv (env_related cenv) t \<and> core_now t = core_now s \<and> core_revocation t = core_revocation s \<and>
    credential_of t = (credential_of s)(i \<mapsto> apply_update (validity_update st) (core_now s) r)"
  using core_validity_update [OF assms(1-3), of st] assms(4)
  by (elim exE conjE) (auto simp: send_notification_def)

end
