(* ===== verification/Credential_Properties.thy ===== *)
theory Credential_Properties
  imports Credential_System Status_List_Properties Simple_Methods
begin

text \<open>
  What the credential components guarantee together: the life cycle of a credential and its log, the
  change of the validity of a credential with its status list, the check of a held credential, the
  tasks, and the cases in which stored state, published list and answer come apart.
\<close>

section \<open>The life cycle\<close>

text \<open>
  C2. The life cycle of a credential. Let the core run in any way, each step an operation of the credential
  service, a task, a creation, a passing of time or a change of the revocation lists. A stored
  credential is still stored, keeps its role, stays deleted when it was, and its state has
  moved only along the legal transitions: a revoked credential stays revoked, a rejected or failed one
  stays so, an accepted or suspended one is accepted, suspended or revoked, and only a credential that
  is not issued yet can expire.
\<close>

theorem credential_life_cycle:
  assumes "core_inv rel s" and "core_run rel s t" and "credential_of s i = Some r"
  shows "\<exists>r'. credential_of t i = Some r' \<and> crow_role r' = crow_role r \<and>
    (crow_deleted_at r \<noteq> None \<longrightarrow> crow_deleted_at r' \<noteq> None) \<and>
    (crow_state r' = crow_state r \<or>
     crow_state r \<in> {Accepted, CredentialStateEnum.Suspended} \<and>
       crow_state r' \<in> {Accepted, CredentialStateEnum.Suspended, CredentialStateEnum.Revoked} \<or>
     crow_state r \<in> {CredentialStateEnum.Created, CredentialStateEnum.Pending, InteractionExpired} \<and>
       crow_state r' \<in> {CredentialStateEnum.Pending, InteractionExpired})"
proof -
  have "evolves (credential_of s) (credential_of t)" using core_run_effect [OF assms(2,1)] by blast
  then obtain r' where "credential_of t i = Some r'" "crow_role r' = crow_role r"
    "may_become (crow_state r) (crow_state r')" "crow_deleted_at r \<noteq> None \<longrightarrow> crow_deleted_at r' \<noteq> None"
    using assms(3) by (rule evolvesD)
  then show ?thesis by (intro exI [of _ r']) (auto simp: may_become_def)
qed


section \<open>Changing the validity\<close>

text \<open>
  The conditions under which a validity change is admitted: the credential is stored and not
  deleted, in a state from which the change is allowed, loads as \<open>c\<close> with a schema of the
  organisation of the session, and \<open>rm\<close> is the revocation method of the schema.
\<close>

definition changeable ::
  "core_env \<Rightarrow> 'r validity_env \<Rightarrow> 'r core_db \<Rightarrow> uuid \<Rightarrow> RevocationState \<Rightarrow> Credential \<Rightarrow> 'r revocation_method \<Rightarrow> bool" where
  "changeable cenv env s i st c rm \<longleftrightarrow>
     (\<exists>r sch mid. credential_of s i = Some r \<and> crow_deleted_at r = None \<and>
        crow_state r \<in> set (valid_states st) \<and>
        get_credential_by_id (env_related cenv) i change_relations s = (Inr (Some c), s) \<and>
        cred_schema c = Some sch \<and>
        throw_if_org_relation_not_matching_session (schema_organisation sch) (env_session cenv) = Inr () \<and>
        schema_revocation_method sch = Some mid \<and> (is_suspended st \<longrightarrow> schema_allow_suspension sch) \<and>
        get_revocation_method (ve_revocation_methods env) mid = Some rm)"

lemma core_repository_get:
  "repo_get_credential (core_credential_repository cenv) = get_credential_by_id (env_related cenv)"
  by (simp add: core_credential_repository_def credential_notification_decorator_def history_repository_def
      credential_history_decorator_def sql_credential_repository_def)

lemma core_env_fields [simp]:
  "ve_credentials (core_validity_env cenv env) = core_credential_repository cenv"
  "ve_session (core_validity_env cenv env) = env_session cenv"
  "ve_revocation_methods (core_validity_env cenv env) = ve_revocation_methods env"
  by (simp_all add: core_validity_env_def)

lemma loaded_columns:
  assumes "get_credential_by_id rel i relations s = (Inr (Some c), t)" and "credential_of s i = Some r"
  shows "cred_id c = i" "cred_state c = crow_state r" "cred_deleted_at c = crow_deleted_at r" "cred_role c = crow_role r"
proof -
  have eq: "own_columns c = credential_from_row r" using get_credential_by_id_result [OF assms(1)] assms(2) by auto
  show "cred_id c = i" using own_columns_id [OF eq] credential_of_Some [OF assms(2)] by simp
  show "cred_state c = crow_state r" using arg_cong [OF eq, of cred_state] by (simp add: own_columns_def credential_from_row_def)
  show "cred_deleted_at c = crow_deleted_at r" using arg_cong [OF eq, of cred_deleted_at] by (simp add: own_columns_def credential_from_row_def)
  show "cred_role c = crow_role r" using arg_cong [OF eq, of cred_role] by (simp add: own_columns_def credential_from_row_def)
qed

lemma changeable_checked:
  assumes "changeable cenv env s i st c rm"
  shows "check_validity_change (core_validity_env cenv env) i st s = (Inr (c, rm), s)" and "cred_id c = i"
proof -
  from assms obtain r sch mid where *: "credential_of s i = Some r" "crow_deleted_at r = None"
    "crow_state r \<in> set (valid_states st)" "get_credential_by_id (env_related cenv) i change_relations s = (Inr (Some c), s)"
    "cred_schema c = Some sch"
    "throw_if_org_relation_not_matching_session (schema_organisation sch) (env_session cenv) = Inr ()"
    "schema_revocation_method sch = Some mid" "is_suspended st \<longrightarrow> schema_allow_suspension sch"
    "get_revocation_method (ve_revocation_methods env) mid = Some rm"
    by (auto simp: changeable_def)
  note cols = loaded_columns [OF *(4,1)]
  show "cred_id c = i" by (rule cols(1))
  have "verify_suspension_support sch mid st = Inr ()" using *(8) by (auto simp: verify_suspension_support_def)
  then show "check_validity_change (core_validity_env cenv env) i st s = (Inr (c, rm), s)"
    using * cols by (simp add: check_validity_change_def core_repository_get validate_state_transition_def)
qed

lemma change_validity_succeeds:
  assumes "core_inv (env_related cenv) s" and "related_complete (env_related cenv)"
    and "changeable cenv env s i st c rm" and "credential_of s i = Some r" and "crow_webhook_url r = None"
    and "rm_mark_credential_as rm c st (core_revocation s) = (Inr (), v)"
  shows "\<exists>t. change_credential_validity_state (core_validity_env cenv env) id i st s = (Inr (), t) \<and>
    core_inv (env_related cenv) t \<and> core_now t = core_now s \<and> core_revocation t = v \<and>
    credential_of t = (credential_of s)(i \<mapsto> r\<lparr>crow_last_modified := core_now s,
      crow_state := credential_state_of st, crow_suspend_end_date := suspension_end st\<rparr>)"
proof -
  define u where "u = s\<lparr>core_revocation := v\<rparr>"
  have u: "core_inv (env_related cenv) u" "credential_of u = credential_of s" "core_now u = core_now s" "core_revocation u = v"
    using core_inv_fields(1) [OF assms(1)] by (simp_all add: u_def credential_of_def fun_eq_iff)
  from core_validity_update_succeeds [OF u(1) assms(2) _ assms(5), of i st] assms(4) u
  obtain t where t: "repo_update_credential (core_credential_repository cenv) i (validity_update st) u = (Inr (), t)"
    "core_inv (env_related cenv) t" "core_now t = core_now s" "core_revocation t = v"
    "credential_of t = (credential_of s)(i \<mapsto> apply_update (validity_update st) (core_now s) r)"
    by auto
  moreover have "change_credential_validity_state (core_validity_env cenv env) id i st s = (Inr (), t)"
    using changeable_checked(1) [OF assms(3)] assms(6) t(1)
    by (simp add: change_credential_validity_state_def on_revocation_def u_def)
  ultimately show ?thesis by (auto simp: validity_update_row)
qed

lemma change_refused:
  assumes "core_inv (env_related cenv) s" and "credential_of s i = Some r" and "crow_state r \<notin> set (valid_states st)"
  shows "\<exists>e. change_credential_validity_state (core_validity_env cenv env) others i st s = (Inl e, s)"
proof -
  define senv where "senv = \<lparr>sv_validity = env, sv_protocols = (\<lambda>_. None), sv_revocation_fields = (\<lambda>_. Inr ()),
    sv_create_history = create_history_row (env_related cenv), sv_expire_proofs = sret []\<rparr>"
  have env: "sv_validity (core_service_env cenv senv) = core_validity_env cenv env"
    by (simp add: senv_def core_service_env_def)
  obtain res where res: "check_validity_change (core_validity_env cenv env) i st s = (res, s)"
    using core_service.check_validity_change_reads [of cenv senv i st s] env by (metis prod.collapse)
  have "res \<noteq> Inr (c, rm)" for c rm
    using core_service.check_validity_change_found [of cenv s senv i st c rm s] assms res env by auto
  with res show ?thesis by (cases res) (auto simp: change_credential_validity_state_def sbind_def)
qed


text \<open>
  C18. A revocation can be overwritten. \<open>change_credential_validity_state\<close> checks the state of the
  credential, and only later updates it, without a transaction. When a revocation runs to its
  successful end between the checks and the update of a suspension of the same credential, both calls
  succeed, and the revoked credential ends up as suspended, in the database and in the published
  list, a state from which it can be reactivated. Run one after the other, the suspension is refused.
\<close>

theorem revocation_overwritten:
  assumes "core_inv (env_related cenv) s" and "related_complete (env_related cenv)"
    and "changeable cenv env s i (RevocationState.Suspended d) c (token_status_list_method M)"
    and "credential_of s i = Some r" and "crow_webhook_url r = None"
    and "M = sql_token_status_list rep m" and "providers_ok M did" and "store_ok (tm_config_id m) (core_revocation s)"
    and "issuer_of_credential c = Inr (issuer, cert)"
    and "lv_owner (sql_view (core_revocation s) l) =
      Some (idf_id issuer, map_option cert_id cert, RevocationAndSuspension, tm_config_id m)"
    and "token_fits (length (lv_entries (sql_view (core_revocation s) l)))" and "can_sign M l issuer cert"
    and "revoke = change_credential_validity_state (core_validity_env cenv env) id i RevocationState.Revoked"
  shows "\<exists>u t row out. revoke s = (Inr (), u) \<and> map_option crow_state (credential_of u i) = Some CredentialStateEnum.Revoked \<and>
    fst (change_credential_validity_state (core_validity_env cenv env) id i (RevocationState.Suspended d) u) \<noteq> Inr () \<and>
    change_credential_validity_state (core_validity_env cenv env) (\<lambda>x. snd (revoke x)) i (RevocationState.Suspended d) s = (Inr (), t) \<and>
    credential_of t i = Some row \<and> crow_state row = CredentialStateEnum.Suspended \<and>
    lv_published (sql_view (core_revocation t) l) = Some out \<and>
    (\<forall>k < length (lv_entries (sql_view (core_revocation s) l)).
      rve_entity_info (lv_entries (sql_view (core_revocation s) l) ! k) = InfoCredential i \<longrightarrow>
      published_state M did out k = Some (RevocationState.Suspended None))"
proof -
  let ?rel = "env_related cenv" and ?E = "core_validity_env cenv env" and ?st = "RevocationState.Suspended d"
  have cid: "cred_id c = i" using changeable_checked(2) [OF assms(3)] .
  have revocable: "changeable cenv env s i RevocationState.Revoked c (token_status_list_method M)"
    using assms(3) by (auto simp: changeable_def is_suspended_def)
  from marking_publishes [OF assms(6-12), of RevocationState.Revoked] obtain v1 where
    v1: "mark_credential_as M id c RevocationState.Revoked (core_revocation s) = (Inr (), v1)" "store_ok (tm_config_id m) v1"
    "lv_owner (sql_view v1 l) = lv_owner (sql_view (core_revocation s) l)"
    "lv_entries (sql_view v1 l) = marked c RevocationState.Revoked (db_now (core_revocation s)) (lv_entries (sql_view (core_revocation s) l))"
    by (elim exE conjE)
  have fits: "token_fits (length (lv_entries (sql_view v1 l)))" using assms(11) v1(4) by simp
  from marking_publishes [OF assms(6,7) v1(2) assms(9) _ fits assms(12), of ?st] v1(3) assms(10) obtain v2 out where
    v2: "mark_credential_as M id c ?st v1 = (Inr (), v2)"
    "lv_entries (sql_view v2 l) = marked c ?st (db_now v1) (lv_entries (sql_view v1 l))"
    "lv_published (sql_view v2 l) = Some out"
    "\<forall>k < length (lv_entries (sql_view v2 l)).
      published_state M did out k = Some (state_of_status (rve_status (lv_entries (sql_view v2 l) ! k)))"
    by (auto elim!: exE conjE)
  from change_validity_succeeds [OF assms(1,2) revocable assms(4,5), of v1] v1(1) obtain u where
    u: "revoke s = (Inr (), u)" "core_inv ?rel u" "core_revocation u = v1"
    "credential_of u i = Some (r\<lparr>crow_last_modified := core_now s, crow_state := CredentialStateEnum.Revoked,
      crow_suspend_end_date := None\<rparr>)"
    by (auto simp: token_status_list_method_def assms(13))
  define w where "w = u\<lparr>core_revocation := v2\<rparr>"
  have w: "core_inv ?rel w" "credential_of w i = credential_of u i" "core_revocation w = v2"
    using core_inv_fields(1) [OF u(2)] by (simp_all add: w_def credential_of_def)
  from core_validity_update_succeeds [OF w(1) assms(2), of i _ ?st] u(4) w(2,3) assms(5) obtain t where
    t: "repo_update_credential (core_credential_repository cenv) i (validity_update ?st) w = (Inr (), t)"
    "core_revocation t = v2" "map_option crow_state (credential_of t i) = Some CredentialStateEnum.Suspended"
    by (auto simp: validity_update_row)
  have run: "change_credential_validity_state ?E (\<lambda>x. snd (revoke x)) i ?st s = (Inr (), t)"
    using changeable_checked(1) [OF assms(3)] u(1,3) v2(1) t(1)
    by (simp add: change_credential_validity_state_def on_revocation_def token_status_list_method_def w_def)
  have refused: "fst (change_credential_validity_state ?E id i ?st u) \<noteq> Inr ()"
    using change_refused [OF u(2,4), of ?st env id] by auto
  have "\<forall>k < length (lv_entries (sql_view (core_revocation s) l)).
      rve_entity_info (lv_entries (sql_view (core_revocation s) l) ! k) = InfoCredential i \<longrightarrow>
      published_state M did out k = Some (RevocationState.Suspended None)"
    using v2(2,4) v1(4) cid by simp
  then show ?thesis using u(1,4) refused run t(2,3) v2(3) by fastforce
qed


section \<open>Checking a held credential\<close>

text \<open>What several status entries mean together.\<close>

definition reported_state :: "RevocationState list \<Rightarrow> CredentialStateEnum" where
  "reported_state states =
     (if RevocationState.Revoked \<in> set states then CredentialStateEnum.Revoked
      else if \<exists>st \<in> set states. is_suspended st then CredentialStateEnum.Suspended else Accepted)"

lemma check_statuses_worst:
  assumes "issuer_details issuer = Inr details"
    and "\<forall>status \<in> set statuses. \<forall>v. rm_check_credential_revocation_status rm status details force v = (Inr (f status), v)"
    and "w \<noteq> RevocationState.Revoked"
  shows "\<exists>worst. check_statuses rm issuer force statuses w s = (Inr (Inr worst), s) \<and>
    credential_state_of worst = reported_state (w # map f statuses)"
  using assms(2,3)
proof (induction statuses arbitrary: w)
  case Nil
  then show ?case by (cases w) (simp_all add: reported_state_def is_suspended_def)
next
  case (Cons status statuses)
  have step: "check_statuses rm issuer force (status # statuses) w s = (case f status of
      Valid \<Rightarrow> check_statuses rm issuer force statuses w
    | RevocationState.Revoked \<Rightarrow> sret (Inr (f status))
    | RevocationState.Suspended _ \<Rightarrow> check_statuses rm issuer force statuses (f status)) s"
    using Cons.prems(1) assms(1) by (simp add: stry_def on_revocation_def sbind_def)
  show ?case
  proof (cases "f status")
    case Valid
    then show ?thesis using Cons.IH [of w] Cons.prems step by (auto simp: reported_state_def is_suspended_def)
  next
    case Revoked
    then show ?thesis using step by (simp add: reported_state_def)
  next
    case (Suspended d)
    then show ?thesis
      using Cons.IH [of "f status"] Cons.prems step by (auto simp: reported_state_def is_suspended_def)
  qed
qed


lemma stry_eq_Inr:
  "stry m s = (Inr a, t) \<longleftrightarrow> (\<exists>x. a = Inr x \<and> m s = (Inr x, t)) \<or> (\<exists>e. a = Inl e \<and> m s = (Inl (Failure e), t))"
  by (auto simp: stry_def split: prod.splits sum.splits fault.splits)

text \<open>
  C24. An mdoc is suspended and revoked by its age. When the check of a held mdoc succeeds, it reports
  accepted if the MSO has not expired; it reports suspended only if the MSO has expired; and it
  reports revoked only if, besides, the stored access token has expired and there is no refresh token, or
  none that is still valid.
\<close>

theorem mdoc_state_by_age:
  assumes "update_mdoc env c detail force s = (Inr result, t)"
    and "Option.bind (cred_interaction c) inter_data = Some json" and "ve_interaction_from_json env json = Inr data"
  shows "cvr_success result \<and> cvr_credential_id result = cred_id c \<and>
    (\<not> is_mso_expired (core_now s) detail \<longrightarrow> cvr_status result = Accepted) \<and>
    cvr_status result \<in> {Accepted, CredentialStateEnum.Suspended, CredentialStateEnum.Revoked} \<and>
    (cvr_status result = CredentialStateEnum.Revoked \<longrightarrow>
      (\<exists>expires_at. hid_access_token_expires_at data = Some expires_at \<and> expires_at \<le> core_now s) \<and>
      (hid_refresh_token data = None \<or>
       (\<exists>expires_at. hid_refresh_token_expires_at data = Some expires_at \<and> expires_at \<le> core_now s)))"
proof -
  obtain st u where st: "check_mdoc_update env c detail force s = (Inr st, u)" "result = check_done (cred_id c) st"
    using assms(1) by (auto simp: update_mdoc_def sbind_eq_Inr)
  obtain key answer v where key: "\<forall>x. answer = Inr x \<longrightarrow> check_access_token env c data key s = (Inr x, v)"
    "refreshed_state env c detail force (core_now s) answer v = (Inr st, u)"
  proof -
    from st(1) assms(2,3) obtain key v where
      "(\<exists>x. check_access_token env c data key s = (Inr x, v) \<and> refreshed_state env c detail force (core_now s) (Inr x) v = (Inr st, u)) \<or>
       (\<exists>e. refreshed_state env c detail force (core_now s) (Inl e) v = (Inr st, u))"
      by (fastforce simp: check_mdoc_update_def sbind_eq_Inr deserialize_interaction_data_def Credential_Tables.now_utc_def
        stry_eq_Inr)
    then show ?thesis
    proof (elim disjE exE conjE)
      fix x assume "check_access_token env c data key s = (Inr x, v)"
        "refreshed_state env c detail force (core_now s) (Inr x) v = (Inr st, u)"
      then show ?thesis by (intro that [of "Inr x" key v]) simp_all
    next
      fix e assume "refreshed_state env c detail force (core_now s) (Inl e) v = (Inr st, u)"
      then show ?thesis by (intro that [of "Inl e" key v]) simp_all
    qed
  qed
  have not_possible: "(\<exists>e. hid_access_token_expires_at data = Some e \<and> e \<le> core_now s) \<and>
      (hid_refresh_token data = None \<or> (\<exists>e. hid_refresh_token_expires_at data = Some e \<and> e \<le> core_now s))"
    if "check_access_token env c data key s = (Inr (RefreshNotPossible, d), w)" for d w
    using that unfolding check_access_token_def
    by (auto simp: sbind_eq_Inr Credential_Tables.now_utc_def split: if_splits option.splits)
  have "(\<not> is_mso_expired (core_now s) detail \<longrightarrow> st = Accepted) \<and>
      st \<in> {Accepted, CredentialStateEnum.Suspended, CredentialStateEnum.Revoked} \<and>
      (st = CredentialStateEnum.Revoked \<longrightarrow> (\<exists>d. answer = Inr (RefreshNotPossible, d)))"
    using key(2) unfolding refreshed_state_def mso_state_def
    by (cases answer) (auto simp: sbind_eq_Inr split: prod.splits TokenCheckResult.splits if_splits)
  then show ?thesis using st(2) not_possible key(1) by (auto simp: check_done_def)
qed

section \<open>Ending suspensions\<close>

text \<open>The credentials whose suspension is over: what the task has to reactivate.\<close>

definition suspension_elapsed :: "date_time \<Rightarrow> credential_row \<Rightarrow> bool" where
  "suspension_elapsed now r \<longleftrightarrow> crow_deleted_at r = None \<and> crow_state r = CredentialStateEnum.Suspended \<and>
     crow_role r = Issuer \<and> (case crow_suspend_end_date r of None \<Rightarrow> False | Some e \<Rightarrow> e < now)"

lemma filter_joined_rows:
  assumes "\<And>c j. j \<in> set (list_join_row rel c) \<Longrightarrow> P j \<longleftrightarrow> Q c"
  shows "filter P (concat (map (list_join_row rel) cs)) = concat (map (list_join_row rel) (filter Q cs))"
proof (induction cs)
  case (Cons c cs)
  have "filter P (list_join_row rel c) = (if Q c then list_join_row rel c else [])"
    using assms by (auto simp: filter_empty_conv filter_id_conv)
  with Cons show ?case by simp
qed simp

text \<open>The transaction code of a stored schema has a type and a length, or neither.\<close>

definition schema_rows_readable :: "credential_related \<Rightarrow> bool" where
  "schema_rows_readable rel \<longleftrightarrow> (\<forall>i row. rr_schema_row rel i = Some row \<longrightarrow>
     (csrow_transaction_code_type row = None \<longleftrightarrow> csrow_transaction_code_length row = None))"

lemma joined_rows_convert:
  assumes "schema_rows_readable rel" and "\<forall>c \<in> set cs. rr_schema_row rel (crow_credential_schema_id c) \<noteq> None"
  shows "length (concat (map (list_join_row rel) cs)) = length cs \<and>
    (\<exists>xs. try_map credential_list_model_to_repository_model (concat (map (list_join_row rel) cs)) = Inr xs \<and>
      map cred_id xs = map crow_id cs)"
  using assms(2)
proof (induction cs)
  case (Cons c cs)
  obtain sch where sch: "rr_schema_row rel (crow_credential_schema_id c) = Some sch" using Cons.prems by auto
  define j where "j = \<lparr>lj_credential = c, lj_schema = sch,
    lj_issuer = Option.bind (crow_issuer_identifier_id c) (rr_identifier_row rel), lj_claim = None\<rparr>"
  have "list_join_row rel c = [j]" using sch by (simp add: list_join_row_def j_def)
  moreover have "\<exists>x. credential_list_model_to_repository_model j = Inr x \<and> cred_id x = crow_id c"
    using assms(1) [unfolded schema_rows_readable_def, rule_format, OF sch]
    by (cases "csrow_transaction_code_type sch"; cases "csrow_transaction_code_length sch")
      (auto simp: credential_list_model_to_repository_model_def j_def credential_from_row_def Let_def)
  ultimately show ?case using Cons by auto
qed simp

lemma elapsed_list:
  assumes "wf_core rel s" and "schema_rows_readable rel"
  shows "\<exists>l. get_credential_list sql rel (Some (suspend_check_filter now)) s = (Inr l, s) \<and>
    map cred_id (glr_values l) = map crow_id (filter (suspension_elapsed now) (core_credentials s)) \<and>
    glr_total_items l = length (filter (suspension_elapsed now) (core_credentials s))"
proof -
  have cond: "selects (credential_filter_condition sql) (suspend_check_filter now) j \<longleftrightarrow>
      crow_state c = CredentialStateEnum.Suspended \<and> crow_role c = Issuer \<and>
      (case crow_suspend_end_date c of None \<Rightarrow> False | Some e \<Rightarrow> e < now)"
    if "j \<in> set (list_join_row rel c)" for j c
    using that by (auto simp: suspend_check_filter_def selects_bitand selects_def credential_filter_condition_def
      get_comparison_condition_def list_join_row_def split: option.splits)
  have no_joins: "get_join_relations credential_filter_join (suspend_check_filter now) = []"
    by (simp add: suspend_check_filter_def)
  let ?Q = "\<lambda>c. crow_state c = CredentialStateEnum.Suspended \<and> crow_role c = Issuer \<and>
      (case crow_suspend_end_date c of None \<Rightarrow> False | Some e \<Rightarrow> e < now)"
  have "filter (selects (credential_filter_condition sql) (suspend_check_filter now))
      (concat (map (list_join_row rel) cs)) = concat (map (list_join_row rel) (filter ?Q cs))" for cs
    by (rule filter_joined_rows) (rule cond)
  moreover have "filter ?Q (filter (\<lambda>c. crow_deleted_at c = None) cs) = filter (suspension_elapsed now) cs" for cs
    by (auto simp: suspension_elapsed_def intro!: filter_cong)
  ultimately have "get_credential_list_query sql rel (Some (suspend_check_filter now)) s =
      concat (map (list_join_row rel) (filter (suspension_elapsed now) (core_credentials s)))"
    by (simp only: get_credential_list_query_def no_joins with_list_filter_selects Let_def option.case simp_thms if_True)
  moreover have "\<forall>c \<in> set (filter (suspension_elapsed now) (core_credentials s)).
      rr_schema_row rel (crow_credential_schema_id c) \<noteq> None"
    using assms(1) by (auto simp: wf_core_def list_all_iff credential_row_keys_def)
  from joined_rows_convert [OF assms(2) this] obtain xs where
    "try_map credential_list_model_to_repository_model
      (concat (map (list_join_row rel) (filter (suspension_elapsed now) (core_credentials s)))) = Inr xs"
    "map cred_id xs = map crow_id (filter (suspension_elapsed now) (core_credentials s))"
    "length (concat (map (list_join_row rel) (filter (suspension_elapsed now) (core_credentials s)))) =
      length (filter (suspension_elapsed now) (core_credentials s))"
    by blast
  ultimately show ?thesis by (simp add: get_credential_list_def)
qed

text \<open>What is loaded for a change depends on the row only.\<close>

definition stateless :: "('s, 'e, 'a) comp \<Rightarrow> bool" where
  "stateless m \<longleftrightarrow> (\<forall>s t. fst (m s) = fst (m t) \<and> snd (m s) = s)"

lemma stateless_slift: "stateless (slift r)"
  by (simp add: stateless_def)

lemma stateless_sret: "stateless (sret x)"
  by (simp add: stateless_def)

lemma stateless_sbind:
  assumes "stateless m" and "\<And>x. stateless (f x)"
  shows "stateless (sbind m f)"
  unfolding stateless_def
proof (intro allI)
  fix s t
  have m: "m s = (fst (m s), s)" "m t = (fst (m s), t)"
    using assms(1) unfolding stateless_def by (metis prod.collapse)+
  show "fst (sbind m f s) = fst (sbind m f t) \<and> snd (sbind m f s) = s"
  proof (cases "fst (m s)")
    case (Inl e)
    then show ?thesis using m by (simp add: sbind_def)
  next
    case (Inr x)
    then have "sbind m f s = f x s" "sbind m f t = f x t" using m by (simp_all add: sbind_def)
    then show ?thesis using assms(2) [of x] by (simp add: stateless_def)
  qed
qed

lemmas stateless_intros = stateless_slift stateless_sret stateless_sbind

lemma stateless_change_load: "stateless (credential_model_to_repository_model rel r change_relations)"
  unfolding credential_model_to_repository_model_def change_relations_def credential_relations_default_def
  by (cases "crow_key_id r"; cases "crow_issuer_certificate_id r")
    (simp_all only: CredentialRelations.simps option.case prod.case, (intro stateless_intros)+)

lemma changeable_frame:
  assumes "changeable cenv env s i st c rm" and "credential_of t i = credential_of s i"
  shows "changeable cenv env t i st c rm"
proof -
  have "get_credential_by_id (env_related cenv) i change_relations t = (Inr (Some c), t)"
    if g: "get_credential_by_id (env_related cenv) i change_relations s = (Inr (Some c), s)"
      and r: "credential_of s i = Some r" for r
  proof -
    let ?load = "credential_model_to_repository_model (env_related cenv) r change_relations"
    have "?load s = (Inr c, s)"
      using g r by (auto simp: get_credential_by_id_def credential_of_def sbind_eq_Inr)
    moreover have "fst (?load t) = fst (?load s)" "snd (?load t) = t"
      using stateless_change_load unfolding stateless_def by blast+
    ultimately have "?load t = (Inr c, t)" by (metis fst_conv prod.collapse)
    then show ?thesis using r assms(2) by (simp add: get_credential_by_id_def credential_of_def)
  qed
  then show ?thesis using assms by (auto simp: changeable_def)
qed

abbreviation reactivated :: "date_time \<Rightarrow> credential_row \<Rightarrow> credential_row" where
  "reactivated now r \<equiv> r\<lparr>crow_last_modified := now, crow_state := Accepted, crow_suspend_end_date := None\<rparr>"

definition reactivatable :: "core_env \<Rightarrow> 'r validity_env \<Rightarrow> 'r core_db \<Rightarrow> uuid \<Rightarrow> bool" where
  "reactivatable cenv env s i \<longleftrightarrow> (\<exists>r c rm. credential_of s i = Some r \<and> crow_webhook_url r = None \<and>
     changeable cenv env s i Valid c rm \<and> (\<forall>v. fst (rm_mark_credential_as rm c Valid v) = Inr ()))"

lemma reactivate_loop:
  assumes "core_inv (env_related cenv) s" and "related_complete (env_related cenv)"
    and "\<forall>c \<in> set cs. reactivatable cenv env s (cred_id c)" and "distinct (map cred_id cs)"
  shows "\<exists>t. sfor_each (\<lambda>c. smap_err g
      (change_credential_validity_state (core_validity_env cenv env) id (cred_id c) Valid)) cs s = (Inr (), t) \<and>
    (\<forall>k. credential_of t k = (if k \<in> cred_id ` set cs then map_option (reactivated (core_now s)) (credential_of s k)
      else credential_of s k))"
  using assms(1,3,4)
proof (induction cs arbitrary: s)
  case (Cons c cs)
  let ?F = "\<lambda>c. smap_err g (change_credential_validity_state (core_validity_env cenv env) id (cred_id c) Valid)"
  from Cons.prems(2) obtain r d rm where c: "credential_of s (cred_id c) = Some r" "crow_webhook_url r = None"
    "changeable cenv env s (cred_id c) Valid d rm" "fst (rm_mark_credential_as rm d Valid (core_revocation s)) = Inr ()"
    by (auto simp: reactivatable_def)
  obtain v where "rm_mark_credential_as rm d Valid (core_revocation s) = (Inr (), v)"
    using c(4) by (metis prod.collapse)
  from change_validity_succeeds [OF Cons.prems(1) assms(2) c(3,1,2) this] obtain u where
    u: "change_credential_validity_state (core_validity_env cenv env) id (cred_id c) Valid s = (Inr (), u)"
    "core_inv (env_related cenv) u" "core_now u = core_now s"
    "credential_of u = (credential_of s)(cred_id c \<mapsto> reactivated (core_now s) r)"
    by auto
  have other: "credential_of u (cred_id x) = credential_of s (cred_id x)" if "x \<in> set cs" for x
    using that Cons.prems(3) u(4) by (force simp: image_iff)
  have d: "distinct (map cred_id cs)" using Cons.prems(3) by simp
  have "\<forall>x \<in> set cs. reactivatable cenv env u (cred_id x)"
    using Cons.prems(2) other changeable_frame [OF _ other] unfolding reactivatable_def by (metis list.set_intros(2))
  from Cons.IH [OF u(2) this d] obtain t where
    t: "sfor_each ?F cs u = (Inr (), t)"
    "\<forall>k. credential_of t k = (if k \<in> cred_id ` set cs then map_option (reactivated (core_now u)) (credential_of u k)
      else credential_of u k)"
    by (elim exE conjE)
  have "?F c s = (Inr (), u)" using u(1) by (simp only: smap_err_eq_Inr)
  then have "sfor_each ?F (c # cs) s = (Inr (), t)" using t(1) by (simp only: sfor_each.simps sbind_Inr_step)
  moreover have "cred_id c \<notin> cred_id ` set cs" using Cons.prems(3) by auto
  then have "credential_of t k = (if k \<in> cred_id ` set (c # cs) then map_option (reactivated (core_now s)) (credential_of s k)
      else credential_of s k)" for k
    using t(2) u(3,4) c(1) by simp
  ultimately show ?case by blast
qed simp


section \<open>Storing and loading\<close>

lemma insort_key_map: "insort_key f (g x) (map g xs) = map g (insort_key (\<lambda>x. f (g x)) x xs)"
  by (induction xs) simp_all

lemma sort_key_map: "sort_key f (map g xs) = map g (sort_key (\<lambda>x. f (g x)) xs)"
  by (induction xs) (simp_all add: insort_key_map)

lemma claim_id_to_index_nth:
  assumes "distinct ids" and "n < length ids"
  shows "claim_id_to_index ids (ids ! n) = n"
proof -
  have "map_of (rev (zip ids [0..<length ids])) (ids ! n) = Some n"
  proof (rule map_of_is_SomeI)
    show "distinct (map fst (rev (zip ids [0..<length ids])))"
      using assms(1) by (simp flip: rev_map)
    show "(ids ! n, n) \<in> set (rev (zip ids [0..<length ids]))"
      using assms(2) by (auto simp: in_set_zip)
  qed
  then show ?thesis by (simp add: claim_id_to_index_def)
qed

text \<open>Loading claims by their identifiers keeps the order of the identifiers.\<close>

lemma sort_by_index:
  assumes "distinct (map clrow_id R)" and "mset R = mset rows"
  shows "sort_key (\<lambda>r. claim_id_to_index (map clrow_id R) (clrow_id r)) rows = R"
proof (rule sort_key_inj_key_eq [OF assms(2) [symmetric]])
  let ?f = "\<lambda>r. claim_id_to_index (map clrow_id R) (clrow_id r)"
  have nth: "?f (R ! n) = n" if "n < length R" for n
    using claim_id_to_index_nth [OF assms(1), of n] that by simp
  have "set rows = set R" using assms(2) by (metis set_mset_mset)
  then show "inj_on ?f (set rows)"
    using nth by (auto simp: inj_on_def in_set_conv_nth)
  have "map ?f R = [0..<length R]" using nth by (auto intro: nth_equalityI)
  then show "sorted (map ?f R)" by simp
qed

definition row_of_claim :: "Claim \<Rightarrow> claim_row" where
  "row_of_claim c =
     \<lparr>clrow_id = claim_id c, clrow_claim_schema_id = csch_id (the (claim_schema c)),
      clrow_credential_id = claim_credential_id c, clrow_value = claim_value c,
      clrow_created_date = claim_created_date c, clrow_last_modified = claim_last_modified c,
      clrow_path = claim_path c, clrow_selectively_disclosable = claim_selectively_disclosable c\<rparr>"

lemma claim_rows: "try_map claim_to_row claims = Inr rows \<Longrightarrow> rows = map row_of_claim claims"
  by (induction claims arbitrary: rows) (auto simp: claim_to_row_def row_of_claim_def)

lemma loaded_row: "credential_from_row (request_to_active_model c sch) = own_columns c"
  by (simp add: credential_from_row_def request_to_active_model_def own_columns_def)

lemma get_claims_created:
  assumes "wf_core rel t" and "core_claims t = old @ rows" and "\<forall>r \<in> set old. clrow_credential_id r \<noteq> crow_id c"
    and "\<forall>r \<in> set rows. clrow_credential_id r = crow_id c"
  shows "get_claims rel c \<lparr>clrel_schema = False\<rparr> t =
    (Inr (map claim_from_row (sort_key (\<lambda>r. the (rr_claim_schema_order rel (clrow_claim_schema_id r))) rows)), t)"
proof -
  let ?ord = "\<lambda>r. the (rr_claim_schema_order rel (clrow_claim_schema_id r))"
  have d: "distinct (map clrow_id (old @ rows))" and k: "\<forall>r \<in> set rows. rr_claim_schema_order rel (clrow_claim_schema_id r) \<noteq> None"
    using assms(1,2) by (auto simp: wf_core_def list_all_iff claim_row_keys_def)
  define R where "R = sort_key ?ord rows"
  have R: "mset R = mset rows" "set R = set rows" "length R = length rows" by (simp_all add: R_def)
  have dR: "distinct (map clrow_id R)"
    using d R(1) by (metis distinct_append map_append mset_eq_imp_distinct_iff mset_map)
  have "filter (\<lambda>r. clrow_credential_id r = crow_id c \<and> rr_claim_schema_order rel (clrow_claim_schema_id r) \<noteq> None)
      (core_claims t) = rows"
    using assms(2-4) k by (auto simp: filter_empty_conv filter_id_conv)
  moreover have "filter (\<lambda>r. clrow_id r \<in> clrow_id ` set R) (core_claims t) = rows"
    using d R(2) unfolding assms(2) by (fastforce simp: filter_empty_conv filter_id_conv)
  ultimately show ?thesis
    using sort_by_index [OF dR R(1)] R(3) by (simp add: get_claims_def get_claim_list_def R_def [symmetric])
qed

text \<open>
  C15. What is created can be loaded. When the repository of the core has created a credential, loading it
  with its claims gives the columns of the request unchanged, and its claims, all of them and only
  them, in the order of their schemas, claims of equal order as in the request.
\<close>

theorem create_get_round_trip:
  assumes "core_inv (env_related cenv) s" and "repo_create_credential (core_credential_repository cenv) c s = (Inr i, t)"
  shows "\<exists>claims d. cred_claims c = Some claims \<and>
    repo_get_credential (core_credential_repository cenv) i
      (credential_relations_default\<lparr>credrel_claims := Some \<lparr>clrel_schema = False\<rparr>\<rparr>) t = (Inr (Some d), t) \<and>
    own_columns d = own_columns c \<and>
    cred_claims d = Some (map (\<lambda>x. x\<lparr>claim_schema := None\<rparr>) (sort_key (\<lambda>x.
      the (rr_claim_schema_order (env_related cenv) (csch_id (the (claim_schema x))))) claims))"
proof -
  let ?rel = "env_related cenv" and ?relations = "credential_relations_default\<lparr>credrel_claims := Some \<lparr>clrel_schema = False\<rparr>\<rparr>"
  from core_create_effect [OF assms] obtain sch claims rows where
    C: "core_inv ?rel t" "credential_of s i = None" "cred_claims c = Some claims"
    "list_all (\<lambda>x. claim_credential_id x = i) claims" "try_map claim_to_row claims = Inr rows"
    "core_claims t = core_claims s @ rows" "credential_of t i = Some (request_to_active_model c sch)" "i = cred_id c"
    by auto
  let ?row = "request_to_active_model c sch"
  have rid: "crow_id ?row = i" using C(8) by (simp add: request_to_active_model_def)
  have rows: "rows = map row_of_claim claims" using claim_rows [OF C(5)] .
  have "i \<notin> crow_id ` set (core_credentials s)" using C(2) by (simp add: credential_of_None)
  moreover have "\<forall>r \<in> set (core_claims s). clrow_credential_id r \<in> crow_id ` set (core_credentials s)"
    using core_inv_wf [OF assms(1)] by (simp add: wf_core_def list_all_iff claim_row_keys_def)
  ultimately have old: "\<forall>r \<in> set (core_claims s). clrow_credential_id r \<noteq> crow_id ?row"
    unfolding rid by blast
  have new: "\<forall>r \<in> set rows. clrow_credential_id r = crow_id ?row"
    using C(4) rid by (auto simp: rows list_all_iff row_of_claim_def)
  note loaded = get_claims_created [OF core_inv_wf [OF C(1)] C(6) old new]
  have sorted: "map claim_from_row (sort_key (\<lambda>r. the (rr_claim_schema_order ?rel (clrow_claim_schema_id r))) rows) =
      map (\<lambda>x. x\<lparr>claim_schema := None\<rparr>)
        (sort_key (\<lambda>x. the (rr_claim_schema_order ?rel (csch_id (the (claim_schema x))))) claims)"
    unfolding rows sort_key_map by (simp add: row_of_claim_def claim_from_row_def)
  have "\<exists>d. credential_model_to_repository_model ?rel ?row ?relations t = (Inr d, t) \<and> own_columns d = own_columns c \<and>
      cred_claims d = Some (map claim_from_row
        (sort_key (\<lambda>r. the (rr_claim_schema_order ?rel (clrow_claim_schema_id r))) rows))"
    using loaded by (simp add: credential_model_to_repository_model_def credential_relations_default_def
      get_credential_schema_def loaded_row) (simp add: own_columns_def)
  then show ?thesis
    using C(3,7) sorted by (auto simp: core_repository_get get_credential_by_id_def credential_of_def)
qed

lemma kept: "preserves P m \<Longrightarrow> P s \<Longrightarrow> P (snd (m s))"
  by (simp add: preserves_def)


section \<open>Examples\<close>

text \<open>
  One organisation with one schema, whose credentials are on a token status list, and one issuer.
  The core of the examples holds one credential, stored through the repository.
\<close>

definition example_organisation :: Organisation where
  "example_organisation = \<lparr>org_id = 7, org_name = ''org'', org_created_date = 0, org_last_modified = 0,
     org_deactivated_at = None, org_wallet_provider = None, org_wallet_provider_issuer = None\<rparr>"

definition example_schema :: CredentialSchema where
  "example_schema =
     \<lparr>schema_uuid = 5, schema_deleted_at = None, schema_created_date = 0, schema_last_modified = 0,
      schema_name = ''licence'', schema_format = ''SD_JWT_VC'', schema_revocation_method = Some ''TOKENSTATUSLIST'',
      schema_key_storage_security = None, schema_layout_type = Card, schema_layout_properties = None,
      schema_schema_id = ''licence'', schema_imported_source_url = '''', schema_allow_suspension = True,
      schema_requires_wallet_instance_attestation = False, schema_transaction_code = None,
      schema_claim_schemas = None, schema_organisation = Some example_organisation\<rparr>"

definition example_schema_row :: credential_schema_row where
  "example_schema_row =
     \<lparr>csrow_id = 5, csrow_deleted_at = None, csrow_created_date = 0, csrow_last_modified = 0,
      csrow_name = ''licence'', csrow_format = ''SD_JWT_VC'', csrow_revocation_method = Some ''TOKENSTATUSLIST'',
      csrow_key_storage_security = None, csrow_organisation_id = 7, csrow_layout_type = Card,
      csrow_layout_properties = None, csrow_schema_id = ''licence'', csrow_imported_source_url = '''',
      csrow_allow_suspension = True, csrow_requires_wallet_instance_attestation = False,
      csrow_transaction_code_type = None, csrow_transaction_code_length = None,
      csrow_transaction_code_description = None\<rparr>"

definition example_related :: credential_related where
  "example_related =
     \<lparr>rr_identifier = \<lambda>i _. Inr (if i = 1 then Some example_identifier else None),
      rr_certificate = \<lambda>i _. Inr (if i = 11 then Some (example_certificate 11 CertificateState.Active) else None),
      rr_schema = \<lambda>i _. Inr (if i = 5 then Some example_schema else None),
      rr_key = \<lambda>_ _. Inr None, rr_organisation = \<lambda>i. Inr (if i = 7 then Some example_organisation else None),
      rr_claim_schema_list = \<lambda>_. Inr [], rr_schema_row = \<lambda>i. if i = 5 then Some example_schema_row else None,
      rr_identifier_row = \<lambda>i. if i = 1 then Some example_identifier else None,
      rr_claim_schema_order = \<lambda>i. if i = 20 then Some 1 else if i = 21 then Some 0 else None,
      rr_claim_schema_key = \<lambda>_. None, rr_key_exists = \<lambda>_. False, rr_certificate_exists = \<lambda>i. i = 11,
      rr_organisation_exists = \<lambda>i. i = 7\<rparr>"

definition example_cenv :: core_env where
  "example_cenv =
     \<lparr>env_sql = \<lparr>sql_eq = (=), sql_like = \<lambda>_ _. False\<rparr>, env_related = example_related,
      env_webhook = \<lparr>wh_webhook_task = \<lambda>_. Inr None, wh_task_fields = \<lambda>_. Inl ''BR_0051'',
        wh_validate_url = \<lambda>_ _. Inr (), wh_payload_json = \<lambda>_ _ _. Inr []\<rparr>,
      env_session = None\<rparr>"

definition example_request :: "CredentialStateEnum \<Rightarrow> CredentialRole \<Rightarrow> string option \<Rightarrow> date_time option \<Rightarrow> Credential" where
  "example_request st role url until = (issued_credential 1)\<lparr>cred_state := st, cred_role := role, cred_webhook_url := url,
     cred_suspend_end_date := until, cred_schema := Some example_schema, cred_claims := Some []\<rparr>"

definition example_core :: "Credential \<Rightarrow> revocation_db core_db" where
  "example_core c = snd (repo_create_credential (core_credential_repository example_cenv) c (empty_core 5 example_lists))"

lemma example_related_complete: "related_complete example_related"
  by (simp add: related_complete_def example_related_def example_schema_def example_organisation_def)

lemma example_cenv_related [simp]: "env_related example_cenv = example_related"
  by (simp add: example_cenv_def)

lemma example_created:
  assumes "\<exists>u. create_credential_row example_related c (empty_core 5 example_lists) = (Inr 1, u)"
  shows "repo_create_credential (core_credential_repository example_cenv) c (empty_core 5 example_lists) = (Inr 1, example_core c)"
proof -
  have "\<exists>t. repo_create_credential (core_credential_repository example_cenv) c (empty_core 5 example_lists) = (Inr 1, t)"
    using assms core_create_succeeds [OF core_inv_empty, of example_cenv] by auto
  then show ?thesis by (auto simp: example_core_def)
qed

lemma example_request_row:
  "\<exists>u. create_credential_row example_related (example_request st role url until) (empty_core 5 example_lists) = (Inr 1, u)"
  by (simp add: create_credential_row_def example_request_def issued_credential_def insert_credential_row_def
    empty_core_def credential_row_keys_def request_to_active_model_def example_related_def example_schema_def)

lemma example_core_step: "core_step example_related (empty_core 5 example_lists) (example_core (example_request st role url until))"
  by (rule core_step.create [OF example_cenv_related example_created [OF example_request_row]])

lemma example_core_inv: "core_inv example_related (example_core (example_request st role url until))"
  using core_step_effect [OF example_core_step core_inv_empty] by blast

abbreviation example_row :: "CredentialStateEnum \<Rightarrow> CredentialRole \<Rightarrow> string option \<Rightarrow> date_time option \<Rightarrow> credential_row" where
  "example_row st role url until \<equiv> request_to_active_model (example_request st role url until) example_schema"

lemma example_row_fields [simp]:
  "crow_state (example_row st role url until) = st" "crow_role (example_row st role url until) = role"
  "crow_webhook_url (example_row st role url until) = url" "crow_suspend_end_date (example_row st role url until) = until"
  "crow_deleted_at (example_row st role url until) = None"
  by (simp_all add: request_to_active_model_def example_request_def issued_credential_def)

lemma example_core_fields:
  "credential_of (example_core (example_request st role url until)) = [1 \<mapsto> example_row st role url until]"
  "core_revocation (example_core (example_request st role url until)) = example_lists"
  "core_now (example_core (example_request st role url until)) = 5"
proof -
  have empty: "core_inv (env_related example_cenv) (empty_core 5 example_lists)" by (rule core_inv_empty)
  note created = core_create_effect [OF empty example_created [OF example_request_row [of st role url until]]]
  have "credential_of (empty_core 5 example_lists) = Map.empty"
    by (simp add: fun_eq_iff credential_of_def empty_core_def)
  moreover have "cred_schema (example_request st role url until) = Some example_schema" by (simp add: example_request_def)
  ultimately show "credential_of (example_core (example_request st role url until)) = [1 \<mapsto> example_row st role url until]"
    using created by auto
  show "core_revocation (example_core (example_request st role url until)) = example_lists"
    "core_now (example_core (example_request st role url until)) = 5"
    using created by (simp_all add: empty_core_def)
qed

theorem credential_life_cycle_witness:
  "\<exists>t r'. core_run example_related (example_core (example_request CredentialStateEnum.Revoked Issuer None None)) t \<and>
    core_now t = 9 \<and> credential_of t 1 = Some r' \<and> crow_state r' = CredentialStateEnum.Revoked"
proof -
  let ?s = "example_core (example_request CredentialStateEnum.Revoked Issuer None None)"
  have "core_now ?s \<le> 9" by (simp add: example_core_fields)
  then have run: "core_run example_related ?s (?s\<lparr>core_now := 9\<rparr>)"
    by (intro r_into_rtranclp core_step.tick)
  have "credential_of ?s 1 = Some (example_row CredentialStateEnum.Revoked Issuer None None)"
    by (simp add: example_core_fields)
  from credential_life_cycle [OF example_core_inv run this] show ?thesis
    using run by (intro exI [of _ "?s\<lparr>core_now := 9\<rparr>"]) auto
qed


text \<open>
  The environment of the examples has one revocation method and one format; the decoded credential has the
  given status entries, and everything that is sent out fails.
\<close>

definition example_detail :: "CredentialStatus list \<Rightarrow> DetailCredential" where
  "example_detail statuses =
     \<lparr>dc_id = None, dc_issuance_date = None, dc_valid_from = None, dc_valid_until = Some 4, dc_update_at = None,
      dc_invalid_before = None, dc_issuer = DetailsDid ''did:key:issuer'', dc_subject = None, dc_status = statuses\<rparr>"

definition example_env :: "revocation_db revocation_method \<Rightarrow> CredentialStatus list \<Rightarrow> revocation_db validity_env" where
  "example_env rm statuses =
     \<lparr>ve_credentials = core_credential_repository example_cenv,
      ve_interactions = sql_interaction_repository example_related, ve_blob_storage = None,
      ve_revocation_methods = [(''TOKENSTATUSLIST'', rm)], ve_session = None,
      ve_formatter = \<lambda>_. Some \<lparr>fmt_extract_credentials_unverified = \<lambda>_ _. Inr (example_detail statuses),
        fmt_extract_credentials = \<lambda>_ _. Inr (example_detail statuses)\<rparr>,
      ve_format_type = \<lambda>_. Inr SdJwtVc, ve_from_utf8 = \<lambda>_. Inr '''', ve_error_text = \<lambda>_. '''',
      ve_interaction_from_json = \<lambda>_. Inr \<lparr>hid_issuer_url = ''https://issuer'', hid_credential_endpoint = ''https://issuer/credential'',
        hid_token_endpoint = None, hid_access_token = Some [], hid_access_token_expires_at = Some 7,
        hid_refresh_token = None, hid_nonce = None, hid_refresh_token_expires_at = None, hid_other = ''''\<rparr>,
      ve_interaction_to_json = \<lambda>_. Inr [], ve_protocol_fields = \<lambda>_. Inr (OpenId4VciFinal1_0, ''''),
      ve_draft13_encryption = \<lambda>_. Inr [], ve_swiyu_encryption = \<lambda>_. Inr [], ve_final1_encryption = \<lambda>_. Inr [],
      ve_decrypt_string = \<lambda>_ _. Inr ''token'', ve_encrypt_string = \<lambda>_ _. Inr [],
      ve_post_token = \<lambda>_ _. Inl (NestedError ''unreachable'' ''BR_0000''),
      ve_post_credential = \<lambda>_ _ _. Inl (NestedError ''unreachable'' ''BR_0000''),
      ve_credential_from_json = \<lambda>_. Inl '''', ve_signature_provider = \<lambda>_. Inl ''BR_0000'',
      ve_format_proof = \<lambda>_ _ _ _. Inl ''BR_0000''\<rparr>"

definition example_loaded :: "CredentialStateEnum \<Rightarrow> CredentialRole \<Rightarrow> string option \<Rightarrow> date_time option \<Rightarrow> Credential" where
  "example_loaded st role url until = (example_request st role url until)\<lparr>cred_claims := None\<rparr>"

lemma example_get:
  "get_credential_by_id example_related 1 change_relations (example_core (example_request st role url until)) =
     (Inr (Some (example_loaded st role url until)), example_core (example_request st role url until))"
  "get_credential_by_id example_related 1 holder_check_relations (example_core (example_request st role url until)) =
     (Inr (Some ((example_loaded st role url until)\<lparr>cred_issuer_certificate := None\<rparr>)),
      example_core (example_request st role url until))"
proof -
  let ?s = "example_core (example_request st role url until)"
  have row: "find (\<lambda>c. crow_id c = 1) (core_credentials ?s) = Some (example_row st role url until)"
    using example_core_fields(1) [of st role url until] by (auto simp: credential_of_def fun_eq_iff dest: spec [of _ 1])
  show "get_credential_by_id example_related 1 change_relations ?s = (Inr (Some (example_loaded st role url until)), ?s)"
    "get_credential_by_id example_related 1 holder_check_relations ?s =
     (Inr (Some ((example_loaded st role url until)\<lparr>cred_issuer_certificate := None\<rparr>)), ?s)"
    using row by (simp_all add: get_credential_by_id_def credential_model_to_repository_model_def loaded_row
      change_relations_def holder_check_relations_def credential_relations_default_def get_related_identifier_def
      get_credential_schema_def, simp_all add: request_to_active_model_def example_request_def issued_credential_def
      example_related_def example_schema_def own_columns_def example_loaded_def)
qed

lemma example_changeable:
  assumes "st \<in> set (valid_states new_state)"
  shows "changeable example_cenv (example_env rm statuses) (example_core (example_request st role url until)) 1 new_state
    (example_loaded st role url until) rm"
proof -
  have "cred_schema (example_loaded st role url until) = Some example_schema"
    by (simp add: example_loaded_def example_request_def)
  moreover have "throw_if_org_relation_not_matching_session (schema_organisation example_schema) (env_session example_cenv) = Inr ()"
    "schema_revocation_method example_schema = Some ''TOKENSTATUSLIST''" "schema_allow_suspension example_schema"
    "get_revocation_method (ve_revocation_methods (example_env rm statuses)) ''TOKENSTATUSLIST'' = Some rm"
    by (simp_all add: example_schema_def example_env_def example_cenv_def get_revocation_method_def
      throw_if_org_relation_not_matching_session_def throw_if_org_not_matching_session_def)
  ultimately show ?thesis
    using assms example_get(1) [of st role url until] example_core_fields(1) [of st role url until]
    unfolding changeable_def by simp
qed

lemma example_loaded_issuer: "issuer_of_credential (example_loaded st role url until) =
    Inr (example_identifier, Some (example_certificate 11 CertificateState.Active))"
  by (simp add: issuer_of_credential_def example_loaded_def example_request_def issued_credential_def example_identifier_def)

lemma example_env_complete: "related_complete (env_related example_cenv)"
  "core_inv (env_related example_cenv) (example_core (example_request st role url until))"
  by (simp_all add: example_related_complete example_core_inv)

lemma example_stored: "credential_of (example_core (example_request st role url until)) 1 = Some (example_row st role url until)"
  by (simp add: example_core_fields)

lemma example_core_lists:
  "store_ok (tm_config_id example_method) (core_revocation (example_core (example_request st role url until)))"
  "lv_owner (sql_view (core_revocation (example_core (example_request st role url until))) 100) =
     Some (idf_id example_identifier, map_option cert_id (Some (example_certificate 11 CertificateState.Active)),
       RevocationAndSuspension, tm_config_id example_method)"
  "token_fits (length (lv_entries (sql_view (core_revocation (example_core (example_request st role url until))) 100)))"
  unfolding example_core_fields(2) using example_store_ok' example_owner example_fits by simp_all


theorem revocation_overwritten_witness:
  "\<exists>t row out. change_credential_validity_state
      (core_validity_env example_cenv (example_env (token_status_list_method example_tsl) []))
      (\<lambda>x. snd (change_credential_validity_state
        (core_validity_env example_cenv (example_env (token_status_list_method example_tsl) [])) id 1 RevocationState.Revoked x))
      1 (RevocationState.Suspended None) (example_core (example_request Accepted Issuer None None)) = (Inr (), t) \<and>
    credential_of t 1 = Some row \<and> crow_state row = CredentialStateEnum.Suspended \<and>
    lv_published (sql_view (core_revocation t) 100) = Some out \<and>
    published_state example_tsl None out 0 = Some (RevocationState.Suspended None)"
proof -
  let ?s = "example_core (example_request Accepted Issuer None None)"
  have ch: "changeable example_cenv (example_env (token_status_list_method example_tsl) []) ?s 1
      (RevocationState.Suspended None) (example_loaded Accepted Issuer None None) (token_status_list_method example_tsl)"
    by (rule example_changeable) simp
  obtain x y where xy: "lv_entries (sql_view example_lists 100) = [x, y]" "rve_entity_info x = InfoCredential 1"
    by (rule example_entry_pair) blast
  from revocation_overwritten [OF example_env_complete(2,1) ch example_stored _ refl example_providers example_core_lists(1)
    example_loaded_issuer example_core_lists(2,3) example_can_sign refl, of None]
  show ?thesis using xy by (simp add: example_core_fields(2)) (elim exE conjE, auto)
qed


text \<open>A method that reads the state of a status entry from its purpose.\<close>

definition purpose_method :: "revocation_db revocation_method" where
  "purpose_method = mdoc_mso_update_suspension\<lparr>rm_check_credential_revocation_status := \<lambda>status _ _.
     sret (if cs_status_purpose status = Some ''suspension'' then RevocationState.Suspended None else Valid)\<rparr>"

definition example_statuses :: "CredentialStatus list" where
  "example_statuses = map (\<lambda>purpose. \<lparr>cs_id = None, cs_type = ''Example'', cs_status_purpose = Some purpose,
     cs_additional_fields = []\<rparr>) [''suspension'', ''revocation'']"


theorem mdoc_state_by_age_witness:
  "\<exists>result. update_mdoc (example_env purpose_method [])
      ((example_loaded CredentialStateEnum.Suspended Holder None None)\<lparr>cred_interaction := Some
        \<lparr>inter_id = 3, inter_created_date = 0, inter_last_modified = 0, inter_data = Some [], inter_organisation = None,
         inter_nonce_id = None, inter_type = Issuance, inter_expires_at = None\<rparr>\<rparr>)
      (example_detail []) False (empty_core 5 example_lists) = (Inr result, empty_core 5 example_lists) \<and>
    is_mso_expired 5 (example_detail []) \<and> cvr_success result \<and> cvr_status result = CredentialStateEnum.Suspended"
proof -
  let ?c = "(example_loaded CredentialStateEnum.Suspended Holder None None)\<lparr>cred_interaction := Some
    \<lparr>inter_id = 3, inter_created_date = 0, inter_last_modified = 0, inter_data = Some [], inter_organisation = None,
     inter_nonce_id = None, inter_type = Issuance, inter_expires_at = None\<rparr>\<rparr>"
  have c: "cred_state ?c = CredentialStateEnum.Suspended" "cred_id ?c = 1" "Option.bind (cred_interaction ?c) inter_data = Some []"
    "cred_key ?c = None"
    by (simp_all add: example_loaded_def example_request_def issued_credential_def)
  have run: "update_mdoc (example_env purpose_method []) ?c (example_detail []) False (empty_core 5 example_lists) =
      (Inr (check_done 1 CredentialStateEnum.Suspended), empty_core 5 example_lists)"
    using c by (simp add: update_mdoc_def check_mdoc_update_def deserialize_interaction_data_def encryption_key_from_config_def
      check_access_token_def refreshed_state_def mso_state_def is_mso_expired_def mso_requires_update_def
      obtain_and_update_new_mso_def obtain_new_mso_def stry_def sbind_def Credential_Tables.now_utc_def example_env_def
      example_detail_def empty_core_def)
  show ?thesis
    using mdoc_state_by_age [OF run c(3)] run
    by (auto simp: is_mso_expired_def example_detail_def check_done_def)
qed

definition example_service_env :: "revocation_db service_env" where
  "example_service_env =
     \<lparr>sv_validity = example_env mdoc_mso_update_suspension [], sv_protocols = \<lambda>_. None, sv_revocation_fields = \<lambda>_. Inr (),
      sv_create_history = create_history_row example_related, sv_expire_proofs = sret []\<rparr>"


text \<open>Two claims, against the order of their schemas.\<close>

definition example_claim :: "uuid \<Rightarrow> uuid \<Rightarrow> Claim" where
  "example_claim n schema =
     \<lparr>claim_id = n, claim_credential_id = 1, claim_created_date = 0, claim_last_modified = 0, claim_value = Some ''x'',
      claim_path = ''a'', claim_selectively_disclosable = True, claim_schema = Some
        \<lparr>csch_id = schema, csch_key = ''a'', csch_data_type = ''STRING'', csch_created_date = 0, csch_last_modified = 0,
         csch_array = False, csch_metadata = False, csch_required = True\<rparr>\<rparr>"

theorem create_get_round_trip_witness:
  "\<exists>t d. repo_create_credential (core_credential_repository example_cenv)
      ((example_request Accepted Issuer None None)\<lparr>cred_claims := Some [example_claim 30 20, example_claim 31 21]\<rparr>)
      (empty_core 5 example_lists) = (Inr 1, t) \<and>
    repo_get_credential (core_credential_repository example_cenv) 1
      (credential_relations_default\<lparr>credrel_claims := Some \<lparr>clrel_schema = False\<rparr>\<rparr>) t = (Inr (Some d), t) \<and>
    map_option (map claim_id) (cred_claims d) = Some [31, 30]"
proof -
  let ?q = "(example_request Accepted Issuer None None)\<lparr>cred_claims := Some [example_claim 30 20, example_claim 31 21]\<rparr>"
  have "\<exists>u. create_credential_row example_related ?q (empty_core 5 example_lists) = (Inr 1, u)"
    by (simp add: create_credential_row_def example_request_def issued_credential_def insert_credential_row_def
      empty_core_def credential_row_keys_def request_to_active_model_def example_related_def example_schema_def
      create_claim_list_def claim_to_row_def example_claim_def insert_claim_rows_def)
  note created = example_created [OF this]
  have inv: "core_inv (env_related example_cenv) (empty_core 5 example_lists)" by (rule core_inv_empty)
  from create_get_round_trip [OF inv created] obtain claims d where
    "claims = [example_claim 30 20, example_claim 31 21]"
    "repo_get_credential (core_credential_repository example_cenv) 1
      (credential_relations_default\<lparr>credrel_claims := Some \<lparr>clrel_schema = False\<rparr>\<rparr>) (example_core ?q) =
      (Inr (Some d), example_core ?q)"
    "cred_claims d = Some (map (\<lambda>x. x\<lparr>claim_schema := None\<rparr>) (sort_key (\<lambda>x.
      the (rr_claim_schema_order example_related (csch_id (the (claim_schema x))))) claims))"
    by auto
  moreover from this(1,3) have "map_option (map claim_id) (cred_claims d) = Some [31, 30]"
    by (simp add: example_related_def example_claim_def)
  ultimately show ?thesis using created by (intro exI [of _ "example_core ?q"] exI [of _ d]) simp
qed


end
