(* ===== verification/Spec2Isabelle.thy ===== *)
theory Spec2Isabelle
  imports Nfc_Apdu Dcql_Answer Bitstring_Properties Credential_Properties
begin

text \<open>
  A verification library for Procivis One Core, a core for issuing, holding and verifying digital
  credentials, written in Rust.

  \<^bold>\<open>The parts and how they interact.\<close> A wallet holds credentials, each with claims that form a tree. A
  verifier asks for claims with a DCQL query; the wallet matches the query against its
  credentials and offers a selection of claims that the user may disclose. An issuer adds each
  credential it issues to a list of statuses, publishes the list as a signed token and changes the
  status when a credential is suspended or revoked; a verifier reads the status at the index that
  the credential names. The states of the credentials are rows of a database; every change of a
  state is logged in a history and announced to a webhook, and tasks end suspensions, check held
  credentials and expire issuances that were abandoned. Mobile devices exchange messages over NFC.

  \<^bold>\<open>The theories.\<close>
  \<^item> \<open>Prelude\<close>: results with errors as \<open>'e + 'a\<close>, computations that pass a state and fail, transactions
    (\<open>tx\<close>, the commit and rollback of \<open>sql-data-provider/src/transaction_context.rs\<close>), panics as the
    value \<open>Panic\<close>, the operations on slices, strings and numbers that the code uses.
  \<^item> \<open>Nfc_Apdu\<close>: \<open>proto/nfc/apdu.rs\<close> and \<open>command.rs\<close>. Encoding and decoding of commands and responses
    are inverse, and what is decoded re-encodes within the bounds of the format.
  \<^item> \<open>Entities\<close>, \<open>Errors\<close>: the records and enums of \<open>one-core/src/model\<close> and the error types.
  \<^item> \<open>Dcql\<close>: \<open>lib/dcql\<close>. The filters computed for a query are the alternatives the query describes.
  \<^item> \<open>Claims\<close>, \<open>Claim_Tree\<close>: \<open>service/credential/mapper.rs\<close>. A creation request yields its claims with
    all their containers; the tree of the detail response has exactly the stored leaves.
  \<^item> \<open>Dcql_Matching\<close>, \<open>Dcql_Disclosure\<close>, \<open>Dcql_Answer\<close>: \<open>openid4vp/dcql.rs\<close>. What is offered to a
    verifier is what was asked for, closed under the claims that cannot be withheld.
  \<^item> \<open>Key_Selection\<close>: \<open>util/key_selection.rs\<close>. The selection is the first admissible candidate.
  \<^item> \<open>Status_Bits\<close>: the packed lists of \<open>token_status_list/util.rs\<close> and \<open>bitstring_status_list/util.rs\<close>.
    Reading a generated list gives the statuses back; which inputs panic.
  \<^item> \<open>Revocation_Model\<close>: the entities of \<open>model/revocation_list.rs\<close>, the repository trait as a record of
    operations and its contract as the locale \<open>revocation_list_contract\<close>.
  \<^item> \<open>Revocation_Store\<close>: \<open>sql-data-provider/src/revocation_list/repository.rs\<close> on tables with their unique
    indexes and foreign keys; the interpretation \<open>sql_store\<close> proves the contract for it.
  \<^item> \<open>Revocation_Method\<close>, \<open>Token_Status_List\<close>: the trait of \<open>provider/revocation/mod.rs\<close> and every operation
    of \<open>token_status_list/mod.rs\<close>, over any repository.
  \<^item> \<open>Status_List_Service\<close>: the operations over a repository that meets the contract (the locale
    \<open>status_list_service\<close>, interpreted for the SQL repository as \<open>sql_tsl\<close>).
  \<^item> \<open>Status_List_System\<close>: the operations as steps of a transition relation in which issuing interleaves
    with everything else, and the invariant that published lists show the stored statuses.
  \<^item> \<open>Status_List_Properties\<close>: what follows for a status check, for indexes, for the retry loop and for
    marking a credential, and two races in which the published list falls behind.
  \<^item> \<open>Simple_Methods\<close>: the revocation methods without lists of their own
    (\<open>mdoc_mso_update_suspension/mod.rs\<close>, \<open>status_list_2021.rs\<close>).
  \<^item> \<open>Bitstring_Status_List\<close>, \<open>Bitstring_Properties\<close>: every operation of \<open>bitstring_status_list/mod.rs\<close> over a
    repository that meets the contract (the locale \<open>bitstring_service\<close>, interpreted for the SQL repository as
    \<open>sql_bsl\<close>). A check against a list that marking published answers the stored status; and the issuers
    for which no JSON-LD list can be started.
  \<^item> \<open>List_Filter\<close>: \<open>model/list_filter.rs\<close> and its translation to SQL conditions and joins
    (\<open>sql-data-provider/src/list_query_generic.rs\<close>). A filter selects the rows it describes.
  \<^item> \<open>Credential_Tables\<close>, \<open>Credential_Store\<close>: the tables of credentials, claims, interactions, blobs, history and
    notifications with their keys (\<open>wf_core\<close>), and every operation of the repositories under
    \<open>sql-data-provider/src\<close>; the contract \<open>credential_contract\<close> and its interpretation \<open>sql_credentials\<close>.
  \<^item> \<open>Credential_Decorators\<close>: the decorators that log (\<open>proto/history_decorator/credential.rs\<close>) and notify
    (\<open>proto/notification_decorator/credential.rs\<close>); the decorated repository meets the same contract
    (\<open>core_credentials\<close>), and its log names the stored states.
  \<^item> \<open>Credential_Validity\<close>: \<open>proto/credential_validity_manager\<close>, the change of the validity of an issued
    credential, the check of a held one and the refresh of an mdoc.
  \<^item> \<open>Credential_Service\<close>: \<open>service/credential/service.rs\<close> and the tasks under \<open>provider/task\<close>.
  \<^item> \<open>Credential_Lifecycle\<close>: the operations over any repository that meets the contract (the locales
    \<open>validity_manager\<close> and \<open>credential_service\<close>), and their interpretation \<open>core_service\<close> for the core as \<open>lib.rs\<close>
    puts it together.
  \<^item> \<open>Credential_System\<close>: the operations as steps of the relation \<open>core_step\<close>, and what every run keeps.
  \<^item> \<open>Credential_Properties\<close>: the life cycle and its log, validity changes together with the status list,
    the check of a held credential, the suspension task, storing and loading, and two cases in which
    state, list and answer come apart.

  \<^bold>\<open>Conventions.\<close> A \<open>Result\<close> is \<open>Inl\<close> of the error or \<open>Inr\<close> of the value. Stateful code takes the state and
  returns a result with the new state. A \<open>dyn\<close> trait is a record of its operations. UUIDs and
  times are numbers. Other sessions of the database appear as a function \<open>others\<close> that is applied
  at the point where their commits become visible. Code outside the repository (signatures,
  base64, compression, JSON, JWT, X.509, HTTP) is a function in a record that the definitions take;
  what a theorem needs of it is a hypothesis, such as \<open>codec_round_trip\<close> or \<open>signed_list_readable\<close>,
  and each such theorem has an example that satisfies it.

  \<^bold>\<open>Bounds and termination.\<close> No definition uses fuel. The retry loops \<open>add_entity_to_list\<close> and
  \<open>add_credential_to_list\<close> end after 102 attempts, as in the code, and their measure is the number of
  attempts that are left. Machine integers are words in \<open>Nfc_Apdu\<close> and \<open>Status_Bits\<close>, and numbers
  modulo \<open>2 ^ 32\<close> in the index columns of \<open>Revocation_Store\<close>. The invariant of the published lists is stated for lists of at most 131072
  entries: up to that size the token has room for every index, and beyond it the code can panic
  (\<open>generate_token_partial_byte_panics\<close>).

  \<^bold>\<open>Not modelled.\<close> The protocols that exchange messages (OpenID4VCI, OpenID4VP, ISO mDL), the credential
  formats, DID methods, key storage, certificate validation, the revocation lists of X.509,
  trust lists, wallet attestation,
  transports, queries of the history and the delivery of notifications, the SQL repositories of
  proofs, keys, DIDs and identifiers, the REST server and the mobile bindings. They are dominated by
  cryptography, encodings and network access of libraries that are not part of the repository. Of the
  credential service, \<open>create_credential\<close> with its validators and the list and detail responses are left
  out: the step \<open>create\<close> of \<open>core_step\<close> takes any credential that the repository accepts. Rows
  that credentials refer to and that the modelled operations only read (schemas, identifiers, keys,
  certificates, organisations) are functions in the record \<open>credential_related\<close>.
\<close>

end
